(* ===== verification/Prelude.thy ===== *)
theory Prelude
  imports Main
begin

text \<open>
  The vocabulary shared by every component of the development.

  \<^item> Go's strings are byte strings, here \<^typ>\<open>string\<close>; the functions of the packages
    \<open>strings\<close>, \<open>strconv\<close> and \<open>fmt\<close> that the driver calls are defined on them. Case folding and
    white space are those of ASCII: the driver only folds node names, device models, device
    types and LVM messages.
  \<^item> Go's \<open>int64\<close> is an \<^typ>\<open>int\<close> with the wrap-around written out (\<open>wrap64\<close>); division truncates
    towards zero (\<open>go_div\<close>, \<open>go_mod\<close>).
  \<^item> A Go \<open>error\<close> is the list of sentinel errors its chain wraps, which \<open>errors.Is\<close> inspects,
    together with its text, which \<open>getErrorType\<close> and \<open>CheckMountError\<close> inspect.
  \<^item> A method that can fail and changes the world outside the process is an operation
    \<open>('s, 'e, 'a) op\<close>: a state transformer that returns an error or a value. A Go pair
    \<open>(value, err)\<close>, one of which is nil, is a sum.
  \<^item> Kubernetes events are collected in the order in which they are recorded.
\<close>

section \<open>Named collections\<close>

named_theorems op_simps \<open>unfolding of the operation combinators\<close>
named_theorems frame_intros \<open>operations that leave a part of the state alone\<close>

section \<open>Strings\<close>

definition lower_char :: "char \<Rightarrow> char" where
  "lower_char c =
     (let n = (of_char c :: nat) in if 65 \<le> n \<and> n \<le> 90 then char_of (n + 32) else c)"

definition ToLower :: "string \<Rightarrow> string" where
  "ToLower s = map lower_char s"

definition EqualFold :: "string \<Rightarrow> string \<Rightarrow> bool" where
  "EqualFold s t \<longleftrightarrow> ToLower s = ToLower t"

fun HasPrefix :: "string \<Rightarrow> string \<Rightarrow> bool" where
  "HasPrefix s [] = True"
| "HasPrefix [] (p # ps) = False"
| "HasPrefix (c # cs) (p # ps) = (c = p \<and> HasPrefix cs ps)"

fun Contains :: "string \<Rightarrow> string \<Rightarrow> bool" where
  "Contains [] sub = HasPrefix [] sub"
| "Contains (c # cs) sub = (HasPrefix (c # cs) sub \<or> Contains cs sub)"

text \<open>\<open>strings.Split\<close> with a separator of one byte: the result is never empty.\<close>

fun Split :: "char \<Rightarrow> string \<Rightarrow> string list" where
  "Split c [] = [[]]"
| "Split c (x # xs) =
     (if x = c then [] # Split c xs
      else (case Split c xs of [] \<Rightarrow> [[x]] | y # ys \<Rightarrow> (x # y) # ys))"

definition is_space :: "char \<Rightarrow> bool" where
  "is_space c = ((of_char c :: nat) \<in> {9, 10, 11, 12, 13, 32})"

definition TrimSpace :: "string \<Rightarrow> string" where
  "TrimSpace s = rev (dropWhile is_space (rev (dropWhile is_space s)))"

definition TrimSuffix :: "string \<Rightarrow> string \<Rightarrow> string" where
  "TrimSuffix s suf =
     (if HasPrefix (rev s) (rev suf) then take (length s - length suf) s else s)"

fun Join :: "string \<Rightarrow> string list \<Rightarrow> string" where
  "Join sep [] = []"
| "Join sep [x] = x"
| "Join sep (x # y # ys) = x @ sep @ Join sep (y # ys)"

text \<open>\<open>strconv.Quote\<close> (the verb \<open>%q\<close>) on the printable part of ASCII.\<close>

definition quote_char :: "char \<Rightarrow> string" where
  "quote_char c =
     (let n = (of_char c :: nat) in if n = 34 \<or> n = 92 then [char_of (92 :: nat), c] else [c])"

definition Quote :: "string \<Rightarrow> string" where
  "Quote s = [char_of (34 :: nat)] @ concat (map quote_char s) @ [char_of (34 :: nat)]"

lemma hd_TrimSpace: "TrimSpace s \<noteq> [] \<Longrightarrow> \<not> is_space (hd (TrimSpace s))"
proof -
  assume ne: "TrimSpace s \<noteq> []"
  let ?t = "dropWhile is_space s"
  have t: "?t \<noteq> []" using ne unfolding TrimSpace_def by (metis dropWhile.simps(1) rev.simps(1))
  then have h: "\<not> is_space (hd ?t)" by (rule hd_dropWhile)
  obtain u where u: "?t = TrimSpace s @ u"
    by (metis TrimSpace_def rev_append rev_rev_ident takeWhile_dropWhile_id)
  with ne h show ?thesis by (metis hd_append2)
qed

lemma last_TrimSpace: "TrimSpace s \<noteq> [] \<Longrightarrow> \<not> is_space (last (TrimSpace s))"
  by (simp add: TrimSpace_def last_rev hd_dropWhile)

lemma TrimSpace_idem [simp]: "TrimSpace (TrimSpace s) = TrimSpace s"
proof (cases "TrimSpace s = []")
  case False
  let ?t = "TrimSpace s"
  have "dropWhile is_space ?t = ?t"
    using hd_TrimSpace [OF False] False by (cases ?t) auto
  moreover have "dropWhile is_space (rev ?t) = rev ?t"
    using last_TrimSpace [OF False] False by (cases "rev ?t") (auto simp: hd_rev [symmetric])
  ultimately show ?thesis by (simp add: TrimSpace_def)
next
  case True
  moreover have "TrimSpace [] = []" by (simp add: TrimSpace_def)
  ultimately show ?thesis by simp
qed

lemma EqualFold_refl [simp]: "EqualFold s s"
  by (simp add: EqualFold_def)

lemma EqualFold_sym: "EqualFold s t \<Longrightarrow> EqualFold t s"
  by (simp add: EqualFold_def)

lemma EqualFold_trans: "EqualFold s t \<Longrightarrow> EqualFold t u \<Longrightarrow> EqualFold s u"
  by (simp add: EqualFold_def)

lemma EqualFold_code [code]:
  "EqualFold [] [] = True"
  "EqualFold [] (d # ds) = False"
  "EqualFold (c # cs) [] = False"
  "EqualFold (c # cs) (d # ds) = ((c = d \<or> lower_char c = lower_char d) \<and> EqualFold cs ds)"
  by (auto simp: EqualFold_def ToLower_def)

lemma HasPrefix_append [simp]: "HasPrefix (p @ s) p"
  by (induction p) auto

lemma HasPrefix_iff: "HasPrefix s p \<longleftrightarrow> (\<exists>t. s = p @ t)"
  by (induction s p rule: HasPrefix.induct) auto

lemma Contains_iff: "Contains s sub \<longleftrightarrow> (\<exists>a b. s = a @ sub @ b)"
proof (induction s)
  case Nil
  show ?case by (auto simp: HasPrefix_iff)
next
  case (Cons c cs)
  have "(\<exists>a b. c # cs = a @ sub @ b) \<longleftrightarrow>
      (\<exists>b. c # cs = sub @ b) \<or> (\<exists>a b. cs = a @ sub @ b)"
    by (metis append_Cons append_Nil list.sel(3) neq_Nil_conv)
  with Cons show ?case by (simp add: HasPrefix_iff)
qed

lemma Split_not_Nil [simp]: "Split c s \<noteq> []"
  by (induction s) (auto split: list.splits)

lemma Split_single: "c \<notin> set s \<Longrightarrow> Split c s = [s]"
  by (induction s) auto

lemma Split_append_sep: "c \<notin> set s \<Longrightarrow> Split c (s @ c # t) = s # Split c t"
  by (induction s) auto

lemma Split_no_sep: "x \<in> set (Split c s) \<Longrightarrow> c \<notin> set x"
  by (induction s arbitrary: x) (auto split: if_splits list.splits)

lemma Join_Split: "Join [c] (Split c s) = s"
proof (induction s)
  case Nil
  show ?case by simp
next
  case (Cons x xs)
  obtain y ys where yys: "Split c xs = y # ys"
    by (cases "Split c xs") auto
  with Cons show ?case by (cases ys) auto
qed

lemma Split_two_iff:
  "Split c s = [a, b] \<longleftrightarrow> s = a @ c # b \<and> c \<notin> set a \<and> c \<notin> set b"
proof
  assume eq: "Split c s = [a, b]"
  then have "s = a @ c # b" using Join_Split [of c s] by simp
  moreover have "c \<notin> set a" "c \<notin> set b"
    using Split_no_sep [of _ c s] eq by simp_all
  ultimately show "s = a @ c # b \<and> c \<notin> set a \<and> c \<notin> set b" by simp
next
  assume "s = a @ c # b \<and> c \<notin> set a \<and> c \<notin> set b"
  then show "Split c s = [a, b]" by (simp add: Split_append_sep Split_single)
qed

lemma TrimSuffix_append [simp]: "TrimSuffix (s @ suf) suf = s"
  by (simp add: TrimSuffix_def)

section \<open>Decimal numbers\<close>

definition digit_char :: "nat \<Rightarrow> char" where
  "digit_char d = char_of (48 + d)"

definition char_digit :: "char \<Rightarrow> nat option" where
  "char_digit c =
     (let n = (of_char c :: nat) in if 48 \<le> n \<and> n \<le> 57 then Some (n - 48) else None)"

fun show_nat :: "nat \<Rightarrow> string" where
  "show_nat n =
     (if n < 10 then [digit_char n] else show_nat (n div 10) @ [digit_char (n mod 10)])"

declare show_nat.simps [simp del]

definition show_int :: "int \<Rightarrow> string" where
  "show_int i = (if i < 0 then ''-'' @ show_nat (nat (- i)) else show_nat (nat i))"

fun parse_digits :: "nat \<Rightarrow> string \<Rightarrow> nat option" where
  "parse_digits acc [] = Some acc"
| "parse_digits acc (c # cs) =
     (case char_digit c of None \<Rightarrow> None | Some d \<Rightarrow> parse_digits (10 * acc + d) cs)"

definition parse_nat :: "string \<Rightarrow> nat option" where
  "parse_nat s = (if s = [] then None else parse_digits 0 s)"

definition parse_decimal :: "string \<Rightarrow> int option" where
  "parse_decimal s =
     (case s of [] \<Rightarrow> None
      | c # cs \<Rightarrow>
          if c = CHR ''-'' then map_option (\<lambda>n. - int n) (parse_nat cs)
          else if c = CHR ''+'' then map_option int (parse_nat cs)
          else map_option int (parse_nat s))"

lemma char_digit_digit_char [simp]: "d < 10 \<Longrightarrow> char_digit (digit_char d) = Some d"
  by (simp add: char_digit_def digit_char_def)

lemma parse_digits_append:
  "parse_digits acc (s @ t) =
     (case parse_digits acc s of None \<Rightarrow> None | Some n \<Rightarrow> parse_digits n t)"
  by (induction acc s rule: parse_digits.induct) (auto split: option.splits)

lemma show_nat_not_Nil [simp]: "show_nat n \<noteq> []"
  by (subst show_nat.simps) simp

lemma parse_digits_show_nat: "parse_digits 0 (show_nat n) = Some n"
proof (induction n rule: show_nat.induct)
  case (1 n)
  show ?case
  proof (cases "n < 10")
    case True
    then show ?thesis by (subst show_nat.simps) simp
  next
    case False
    with 1 have "parse_digits 0 (show_nat (n div 10)) = Some (n div 10)" by simp
    with False show ?thesis
      by (subst show_nat.simps) (simp add: parse_digits_append)
  qed
qed

lemma parse_nat_show_nat [simp]: "parse_nat (show_nat n) = Some n"
  by (simp add: parse_nat_def parse_digits_show_nat)

lemma show_nat_digits: "c \<in> set (show_nat n) \<Longrightarrow> \<exists>d < 10. c = digit_char d"
proof (induction n rule: show_nat.induct)
  case (1 n)
  show ?case
  proof (cases "n < 10")
    case True
    with 1 show ?thesis by (auto simp: show_nat.simps [of n])
  next
    case False
    with "1.prems" have "c \<in> set (show_nat (n div 10)) \<or> c = digit_char (n mod 10)"
      by (auto simp: show_nat.simps [of n])
    moreover have "n mod 10 < 10" by simp
    ultimately show ?thesis using "1.IH" False by blast
  qed
qed

lemma digit_char_inj: "d < 10 \<Longrightarrow> e < 10 \<Longrightarrow> digit_char d = digit_char e \<Longrightarrow> d = e"
  by (metis char_digit_digit_char option.inject)

lemma char_digit_signs: "char_digit CHR ''-'' = None" "char_digit CHR ''+'' = None"
    "char_digit CHR ''B'' = None" "char_digit CHR ''#'' = None" "char_digit CHR ''/'' = None"
  by code_simp+

lemma show_nat_no: "char_digit c = None \<Longrightarrow> c \<notin> set (show_nat n)"
  using show_nat_digits [of c n] by auto

lemma parse_decimal_show_int [simp]: "parse_decimal (show_int i) = Some i"
proof (cases "i < 0")
  case True
  then show ?thesis by (simp add: show_int_def parse_decimal_def)
next
  case False
  obtain c cs where ccs: "show_nat (nat i) = c # cs"
    by (cases "show_nat (nat i)") auto
  then have "c \<noteq> CHR ''-''" "c \<noteq> CHR ''+''"
    using show_nat_no [of "CHR ''-''" "nat i"] show_nat_no [of "CHR ''+''" "nat i"]
    by (auto simp: char_digit_signs)
  moreover have "parse_nat (c # cs) = Some (nat i)"
    using parse_nat_show_nat [of "nat i"] ccs by simp
  ultimately show ?thesis
    using False ccs by (simp add: show_int_def parse_decimal_def)
qed

lemma show_int_inj: "show_int i = show_int j \<Longrightarrow> i = j"
  by (metis option.inject parse_decimal_show_int)

lemma show_int_not_Nil [simp]: "show_int i \<noteq> []"
  by (simp add: show_int_def)

section \<open>Integers of 64 bits\<close>

definition wrap64 :: "int \<Rightarrow> int" where
  "wrap64 x = (x + 2 ^ 63) mod 2 ^ 64 - 2 ^ 63"

definition int64_range :: "int \<Rightarrow> bool" where
  "int64_range x \<longleftrightarrow> - (2 ^ 63) \<le> x \<and> x < 2 ^ 63"

definition go_div :: "int \<Rightarrow> int \<Rightarrow> int" where
  "go_div a b = sgn a * sgn b * (\<bar>a\<bar> div \<bar>b\<bar>)"

definition go_mod :: "int \<Rightarrow> int \<Rightarrow> int" where
  "go_mod a b = a - b * go_div a b"

text \<open>\<open>strconv.ParseInt(s, 10, 64)\<close>, also \<open>strconv.Atoi\<close> on a 64-bit machine: \<open>None\<close> is a
  syntax or a range error.\<close>

definition ParseInt :: "string \<Rightarrow> int option" where
  "ParseInt s =
     (case parse_decimal s of None \<Rightarrow> None | Some i \<Rightarrow> if int64_range i then Some i else None)"

lemma wrap64_id [simp]: "int64_range x \<Longrightarrow> wrap64 x = x"
  by (simp add: wrap64_def int64_range_def)

lemma int64_range_wrap64 [simp]: "int64_range (wrap64 x)"
proof -
  have "0 \<le> (x + 2 ^ 63) mod 2 ^ 64" "(x + 2 ^ 63) mod 2 ^ 64 < 2 ^ 64" by simp_all
  then show ?thesis by (simp add: wrap64_def int64_range_def)
qed

lemma go_div_nonneg: "0 \<le> a \<Longrightarrow> 0 < b \<Longrightarrow> go_div a b = a div b"
  by (cases "a = 0") (auto simp: go_div_def)

lemma go_mod_nonneg: "0 \<le> a \<Longrightarrow> 0 < b \<Longrightarrow> go_mod a b = a mod b"
  by (simp add: go_mod_def go_div_nonneg minus_mult_div_eq_mod)

lemma ParseInt_show_int: "int64_range i \<Longrightarrow> ParseInt (show_int i) = Some i"
  by (simp add: ParseInt_def)

lemma ParseInt_range: "ParseInt s = Some i \<Longrightarrow> int64_range i"
  by (auto simp: ParseInt_def split: option.splits if_splits)

section \<open>Maps with string keys\<close>

text \<open>Reading a Go map at a missing key gives the zero value, and a nil map has no keys.\<close>

definition map_get :: "(string \<rightharpoonup> string) \<Rightarrow> string \<Rightarrow> string" where
  "map_get m k = (case m k of None \<Rightarrow> [] | Some v \<Rightarrow> v)"

lemma map_get_upd [simp]: "map_get (m(k \<mapsto> v)) k' = (if k' = k then v else map_get m k')"
  by (simp add: map_get_def)

lemma map_get_empty [simp]: "map_get Map.empty k = []"
  by (simp add: map_get_def)

end
