(* ===== verification/Effects.thy ===== *)
theory Effects
  imports Prelude
begin

text \<open>
  Errors, operations and Kubernetes events.

  \<^item> \<open>sentinel\<close> lists the error values that the sources compare with \<open>errors.Is\<close> or one of the
    predicates of \<open>os\<close> and \<open>apierrors\<close>: the variables of \<open>internal/pkg/lvm/lvm.go\<close>, of
    \<open>internal/csi/core/interfaces.go\<close>, of \<open>internal/pkg/probe/probe.go\<close> and of
    \<open>internal/csi/core/lvm/lvm.go\<close>, the conditions of package \<open>os\<close>, the deadline of a
    context and the reason of a Kubernetes API error.
  \<^item> \<open>errorf\<close> is \<open>fmt.Errorf\<close>: the text, and the errors it wraps with \<open>%w\<close>. An error formatted
    with \<open>%v\<close> or \<open>%s\<close> only contributes its text.
  \<^item> \<open>call\<close> runs an operation and continues with its error or with its value, as the
    \<open>if err != nil\<close> after every call does.
  \<^item> A \<open>world\<close> is the state of everything outside the process (the parameter \<open>'s\<close>) and the events
    recorded so far (\<open>internal/pkg/events\<close>).
\<close>

section \<open>Errors\<close>

datatype status_reason =
    StatusReasonUnknown
  | StatusReasonUnauthorized
  | StatusReasonForbidden
  | StatusReasonNotFound
  | StatusReasonAlreadyExists
  | StatusReasonConflict
  | StatusReasonGone
  | StatusReasonInvalid
  | StatusReasonServerTimeout
  | StatusReasonTimeout
  | StatusReasonTooManyRequests
  | StatusReasonBadRequest
  | StatusReasonMethodNotAllowed
  | StatusReasonNotAcceptable
  | StatusReasonRequestEntityTooLarge
  | StatusReasonUnsupportedMediaType
  | StatusReasonInternalError
  | StatusReasonExpired
  | StatusReasonServiceUnavailable

datatype sentinel =
    LvmErrUnsupportedFormat
  | LvmErrInvalidInput
  | LvmErrNotFound
  | LvmErrAlreadyExists
  | LvmErrStaleDeviceNode
  | LvmErrTooMany
  | LvmErrPVMissing
  | LvmErrInUse
  | LvmErrResourceExhausted
  | LvmErrPVAlreadyInVolumeGroup
  | CoreErrVolumeNotFound
  | CoreErrInvalidArgument
  | CoreErrOutOfRange
  | CoreErrResourceExhausted
  | CoreErrAlreadyExists
  | CoreErrVolumeSizeMismatch
  | ErrNoDevicesFound
  | ErrNoDisksFound
  | OsErrNotExist
  | OsErrExist
  | DeadlineExceeded
  | ApiReason status_reason

record goerr =
  err_is :: "sentinel list"
  err_msg :: string

definition errors_Is :: "goerr \<Rightarrow> sentinel \<Rightarrow> bool" where
  "errors_Is e x \<longleftrightarrow> x \<in> set (err_is e)"

definition errors_New :: "string \<Rightarrow> goerr" where
  "errors_New msg = \<lparr>err_is = [], err_msg = msg\<rparr>"

definition errorf :: "string \<Rightarrow> goerr list \<Rightarrow> goerr" where
  "errorf msg ws = \<lparr>err_is = concat (map err_is ws), err_msg = msg\<rparr>"

definition errors_Join :: "goerr list \<Rightarrow> goerr" where
  "errors_Join es = errorf (Join [char_of (10 :: nat)] (map err_msg es)) es"

fun sentinel_msg :: "sentinel \<Rightarrow> string" where
  "sentinel_msg LvmErrUnsupportedFormat = ''lvm2 not supported''"
| "sentinel_msg LvmErrInvalidInput = ''invalid input''"
| "sentinel_msg LvmErrNotFound = ''not found''"
| "sentinel_msg LvmErrAlreadyExists = ''already exists''"
| "sentinel_msg LvmErrStaleDeviceNode = ''stale device node''"
| "sentinel_msg LvmErrTooMany = ''multiple objects with the same name''"
| "sentinel_msg LvmErrPVMissing = ''physical volume is missing''"
| "sentinel_msg LvmErrInUse = ''in use''"
| "sentinel_msg LvmErrResourceExhausted = ''resource exhausted''"
| "sentinel_msg LvmErrPVAlreadyInVolumeGroup = ''physical volume already in volume group''"
| "sentinel_msg CoreErrVolumeNotFound = ''volume not found''"
| "sentinel_msg CoreErrInvalidArgument = ''invalid argument''"
| "sentinel_msg CoreErrOutOfRange = ''capacity range not allowed''"
| "sentinel_msg CoreErrResourceExhausted = ''resource exhausted''"
| "sentinel_msg CoreErrAlreadyExists = ''volume already exists''"
| "sentinel_msg CoreErrVolumeSizeMismatch = ''volume size mismatch''"
| "sentinel_msg ErrNoDevicesFound = ''no devices found''"
| "sentinel_msg ErrNoDisksFound = ''no disks found''"
| "sentinel_msg OsErrNotExist = ''file does not exist''"
| "sentinel_msg OsErrExist = ''file already exists''"
| "sentinel_msg DeadlineExceeded = ''context deadline exceeded''"
| "sentinel_msg (ApiReason r) = []"

definition sentinel_err :: "sentinel \<Rightarrow> goerr" where
  "sentinel_err x = \<lparr>err_is = [x], err_msg = sentinel_msg x\<rparr>"

text \<open>\<open>apierrors.ReasonForError\<close>: the reason of the API error in the chain, if there is one.\<close>

fun first_reason :: "sentinel list \<Rightarrow> status_reason" where
  "first_reason [] = StatusReasonUnknown"
| "first_reason (x # xs) = (case x of ApiReason r \<Rightarrow> r | _ \<Rightarrow> first_reason xs)"

definition ReasonForError :: "goerr \<Rightarrow> status_reason" where
  "ReasonForError e = first_reason (err_is e)"

definition apierrors_IsNotFound :: "goerr \<Rightarrow> bool" where
  "apierrors_IsNotFound e \<longleftrightarrow> ReasonForError e = StatusReasonNotFound"

lemma errors_Is_errorf [simp]:
  "errors_Is (errorf msg ws) x \<longleftrightarrow> (\<exists>w \<in> set ws. errors_Is w x)"
  by (simp add: errors_Is_def errorf_def)

lemma errors_Is_sentinel_err [simp]: "errors_Is (sentinel_err x) y \<longleftrightarrow> x = y"
  by (auto simp: errors_Is_def sentinel_err_def)

lemma errors_Is_New [simp]: "\<not> errors_Is (errors_New msg) x"
  by (simp add: errors_Is_def errors_New_def)

lemma errors_Is_Join [simp]: "errors_Is (errors_Join es) x \<longleftrightarrow> (\<exists>e \<in> set es. errors_Is e x)"
  by (simp add: errors_Join_def)

lemma err_msg_errorf [simp]: "err_msg (errorf msg ws) = msg"
  by (simp add: errorf_def)

section \<open>Operations\<close>

type_synonym ('s, 'e, 'a) op = "'s \<Rightarrow> ('e + 'a) \<times> 's"

definition ok :: "'a \<Rightarrow> ('s, 'e, 'a) op" where
  "ok a = (\<lambda>s. (Inr a, s))"

definition fail :: "'e \<Rightarrow> ('s, 'e, 'a) op" where
  "fail e = (\<lambda>s. (Inl e, s))"

definition call ::
  "('s, 'e, 'a) op \<Rightarrow> ('e \<Rightarrow> ('s, 'f, 'b) op) \<Rightarrow> ('a \<Rightarrow> ('s, 'f, 'b) op) \<Rightarrow> ('s, 'f, 'b) op" where
  "call m h k = (\<lambda>s. case m s of (Inl e, s') \<Rightarrow> h e s' | (Inr a, s') \<Rightarrow> k a s')"

lemma ok_run [simp, op_simps]: "ok a s = (Inr a, s)"
  by (simp add: ok_def)

lemma fail_run [simp, op_simps]: "fail e s = (Inl e, s)"
  by (simp add: fail_def)

lemma call_run [op_simps]:
  "call m h k s = (case m s of (Inl e, s') \<Rightarrow> h e s' | (Inr a, s') \<Rightarrow> k a s')"
  by (simp add: call_def)

lemma call_Inl [simp]: "m s = (Inl e, s') \<Longrightarrow> call m h k s = h e s'"
  by (simp add: call_def)

lemma call_Inr [simp]: "m s = (Inr a, s') \<Longrightarrow> call m h k s = k a s'"
  by (simp add: call_def)

text \<open>Every run of a \<open>call\<close> is a run of the operation followed by one of its continuations.\<close>

lemma callE:
  assumes "call m h k s = (r, t)"
  obtains (error) e u where "m s = (Inl e, u)" "h e u = (r, t)"
    | (result) a u where "m s = (Inr a, u)" "k a u = (r, t)"
  using assms by (auto simp: call_def split: prod.splits sum.splits)

text \<open>An operation keeps \<open>f\<close> if no run of it changes what \<open>f\<close> observes of the state.\<close>

definition keeps :: "('s \<Rightarrow> 'm) \<Rightarrow> ('s \<Rightarrow> 'r \<times> 's) \<Rightarrow> bool" where
  "keeps f m \<longleftrightarrow> (\<forall>s. f (snd (m s)) = f s)"

lemma keepsI: "(\<And>s r t. m s = (r, t) \<Longrightarrow> f t = f s) \<Longrightarrow> keeps f m"
  unfolding keeps_def by (metis prod.collapse)

lemma keepsD: "keeps f m \<Longrightarrow> m s = (r, t) \<Longrightarrow> f t = f s"
  by (metis keeps_def snd_conv)

lemma keeps_ok [frame_intros]: "keeps f (ok a)"
  by (simp add: keeps_def)

lemma keeps_fail [frame_intros]: "keeps f (fail e)"
  by (simp add: keeps_def)

lemma keeps_call [frame_intros]:
  "keeps f m \<Longrightarrow> (\<And>e. keeps f (h e)) \<Longrightarrow> (\<And>a. keeps f (k a)) \<Longrightarrow> keeps f (call m h k)"
  by (rule keepsI) (erule callE; metis keepsD)

lemma keeps_if [frame_intros]: "(P \<Longrightarrow> keeps f m) \<Longrightarrow> (\<not> P \<Longrightarrow> keeps f n) \<Longrightarrow> keeps f (if P then m else n)"
  by simp

lemma keeps_option [frame_intros]:
  "(x = None \<Longrightarrow> keeps f m) \<Longrightarrow> (\<And>a. x = Some a \<Longrightarrow> keeps f (n a)) \<Longrightarrow> keeps f (case x of None \<Rightarrow> m | Some a \<Rightarrow> n a)"
  by (cases x) auto

lemma keeps_sum [frame_intros]:
  "(\<And>a. x = Inl a \<Longrightarrow> keeps f (m a)) \<Longrightarrow> (\<And>b. x = Inr b \<Longrightarrow> keeps f (n b)) \<Longrightarrow>
    keeps f (case x of Inl a \<Rightarrow> m a | Inr b \<Rightarrow> n b)"
  by (cases x) auto

lemma keeps_Let [frame_intros]: "(\<And>x. x = a \<Longrightarrow> keeps f (m x)) \<Longrightarrow> keeps f (Let a m)"
  by simp

lemma keeps_prod [frame_intros]: "(\<And>a b. x = (a, b) \<Longrightarrow> keeps f (m a b)) \<Longrightarrow> keeps f (case x of (a, b) \<Rightarrow> m a b)"
  by (cases x) auto

section \<open>Events\<close>

datatype object_ref = PodObject string | PVObject string | ClaimObject string | NodeObject string

datatype object_recorder = NoopObjectRecorder | DefaultObjectRecorder object_ref

datatype event_recorder = NilRecorder | NoopRecorder | EventRecorder

record event =
  ev_regarding :: object_ref
  ev_type :: string
  ev_reason :: string
  ev_note :: string

record 's world =
  w_sys :: 's
  w_events :: "event list"

text \<open>\<open>WithObject\<close>: an object recorder bound to one object. A recorder that drops its events is
  \<open>NoopObjectRecorder\<close>, so the base \<open>NoopRecorder\<close> gives that too.\<close>

fun WithObject :: "event_recorder \<Rightarrow> object_ref option \<Rightarrow> object_recorder" where
  "WithObject EventRecorder (Some obj) = DefaultObjectRecorder obj"
| "WithObject _ _ = NoopObjectRecorder"

definition Eventf ::
  "object_recorder \<Rightarrow> string \<Rightarrow> string \<Rightarrow> string \<Rightarrow> 's world \<Rightarrow> 's world" where
  "Eventf rec ty reason note w =
     (case rec of NoopObjectRecorder \<Rightarrow> w
      | DefaultObjectRecorder obj \<Rightarrow>
          w\<lparr>w_events := w_events w @
              [\<lparr>ev_regarding = obj, ev_type = ty, ev_reason = reason, ev_note = note\<rparr>]\<rparr>)"

definition eventf ::
  "object_recorder \<Rightarrow> string \<Rightarrow> string \<Rightarrow> string \<Rightarrow> ('s world, 'e, 'a) op \<Rightarrow> ('s world, 'e, 'a) op" where
  "eventf rec ty reason note k = (\<lambda>w. k (Eventf rec ty reason note w))"

text \<open>An operation on the outside world, run in a \<open>world\<close>.\<close>

definition on_sys :: "('s, 'e, 'a) op \<Rightarrow> ('s world, 'e, 'a) op" where
  "on_sys m = (\<lambda>w. case m (w_sys w) of (r, s') \<Rightarrow> (r, w\<lparr>w_sys := s'\<rparr>))"

lemma w_sys_Eventf [simp]: "w_sys (Eventf rec ty reason note w) = w_sys w"
  by (simp add: Eventf_def split: object_recorder.split)

lemma Eventf_Noop [simp]: "Eventf NoopObjectRecorder ty reason note w = w"
  by (simp add: Eventf_def)

lemma eventf_run [simp, op_simps]: "eventf rec ty reason note k w = k (Eventf rec ty reason note w)"
  by (simp add: eventf_def)

lemma on_sys_run [op_simps]: "on_sys m w = (case m (w_sys w) of (r, s') \<Rightarrow> (r, w\<lparr>w_sys := s'\<rparr>))"
  by (simp add: on_sys_def)

lemma on_sys_eq [simp]:
  "on_sys m w = (r, w') \<longleftrightarrow> (\<exists>s'. m (w_sys w) = (r, s') \<and> w' = w\<lparr>w_sys := s'\<rparr>)"
  by (auto simp: on_sys_def split: prod.splits)

lemma keeps_eventf [frame_intros]:
  "keeps (\<lambda>w. f (w_sys w)) k \<Longrightarrow> keeps (\<lambda>w. f (w_sys w)) (eventf rec ty reason note k)"
  by (auto simp: keeps_def)

lemma keeps_on_sys [frame_intros]: "keeps f m \<Longrightarrow> keeps (\<lambda>w. f (w_sys w)) (on_sys m)"
  by (rule keepsI) (auto dest: keepsD)

text \<open>Events are only ever appended.\<close>

definition events_extend :: "'s world \<Rightarrow> 's world \<Rightarrow> bool" where
  "events_extend w w' \<longleftrightarrow> (\<exists>es. w_events w' = w_events w @ es)"

lemma events_extend_refl [simp]: "events_extend w w"
  by (simp add: events_extend_def)

lemma events_extend_trans: "events_extend u v \<Longrightarrow> events_extend v w \<Longrightarrow> events_extend u w"
  by (auto simp: events_extend_def)

end
