(* ===== verification/LvmTypes.thy ===== *)
theory LvmTypes
  imports Main
begin

text \<open>
  The rows of the LVM reports: the structs \<open>PhysicalVolume\<close>, \<open>VolumeGroup\<close> and \<open>LogicalVolume\<close> of
  \<open>internal/pkg/lvm/types.go\<close>, field by field. \<open>BoolString\<close> is \<^typ>\<open>bool\<close>; \<open>IntString\<close> and
  \<open>Int64String\<close> are \<^typ>\<open>int\<close>. \<open>zero_T\<close> is Go's zero value of the struct \<open>T\<close>.
\<close>

record PhysicalVolume =
  PV_Format :: string
  PV_UUID :: string
  PV_DeviceSize :: string
  PV_Name :: string
  PV_Major :: int
  PV_Minor :: int
  PV_MetadataFree :: string
  PV_MetadataSize :: string
  PV_HeaderExtensionVersion :: int
  PV_ExtentStart :: string
  PV_Size :: string
  PV_FreeSpace :: string
  PV_UsedSpace :: string
  PV_Attributes :: string
  PV_Allocatable :: bool
  PV_Exported :: bool
  PV_Missing :: bool
  PV_ExtentCount :: int
  PV_ExtentAllocCount :: int
  PV_Tags :: string
  PV_MetadataCount :: int
  PV_MetadataUsedCount :: int
  PV_BootloaderAreaStart :: string
  PV_BootloaderAreaSize :: string
  PV_InUse :: bool
  PV_Duplicate :: bool
  PV_DeviceID :: string
  PV_DeviceIDType :: string
  PV_VGName :: string

definition zero_PhysicalVolume :: PhysicalVolume where
  "zero_PhysicalVolume = \<lparr>PV_Format = [], PV_UUID = [], PV_DeviceSize = [], PV_Name = [], PV_Major = 0,
     PV_Minor = 0, PV_MetadataFree = [], PV_MetadataSize = [], PV_HeaderExtensionVersion = 0,
     PV_ExtentStart = [], PV_Size = [], PV_FreeSpace = [], PV_UsedSpace = [],
     PV_Attributes = [], PV_Allocatable = False, PV_Exported = False, PV_Missing = False,
     PV_ExtentCount = 0, PV_ExtentAllocCount = 0, PV_Tags = [], PV_MetadataCount = 0,
     PV_MetadataUsedCount = 0, PV_BootloaderAreaStart = [], PV_BootloaderAreaSize = [],
     PV_InUse = False, PV_Duplicate = False, PV_DeviceID = [], PV_DeviceIDType = [],
     PV_VGName = []\<rparr>"

record VolumeGroup =
  VG_Format :: string
  VG_UUID :: string
  VG_Name :: string
  VG_Attributes :: string
  VG_Permissions :: string
  VG_Extendable :: bool
  VG_Exported :: bool
  VG_AutoActivation :: bool
  VG_Partial :: bool
  VG_AllocationPolicy :: string
  VG_Clustered :: bool
  VG_Shared :: bool
  VG_Size :: int
  VG_Free :: int
  VG_SystemID :: string
  VG_LockType :: string
  VG_LockArgs :: string
  VG_ExtentSize :: int
  VG_ExtentCount :: int
  VG_ExtentFreeCount :: int
  VG_MaxLogicalVolumes :: int
  VG_MaxPhysicalVolumes :: int
  VG_PVCount :: int
  VG_MissingPVCount :: int
  VG_LVCount :: int
  VG_SnapshotCount :: int
  VG_SeqNo :: int
  VG_Tags :: string
  VG_Profile :: string
  VG_MetadataCount :: int
  VG_MetadataUsedCount :: int
  VG_MetadataFree :: string
  VG_MetadataSize :: string
  VG_MetadataCopies :: string

definition zero_VolumeGroup :: VolumeGroup where
  "zero_VolumeGroup = \<lparr>VG_Format = [], VG_UUID = [], VG_Name = [], VG_Attributes = [], VG_Permissions = [],
     VG_Extendable = False, VG_Exported = False, VG_AutoActivation = False,
     VG_Partial = False, VG_AllocationPolicy = [], VG_Clustered = False, VG_Shared = False,
     VG_Size = 0, VG_Free = 0, VG_SystemID = [], VG_LockType = [], VG_LockArgs = [],
     VG_ExtentSize = 0, VG_ExtentCount = 0, VG_ExtentFreeCount = 0, VG_MaxLogicalVolumes = 0,
     VG_MaxPhysicalVolumes = 0, VG_PVCount = 0, VG_MissingPVCount = 0, VG_LVCount = 0,
     VG_SnapshotCount = 0, VG_SeqNo = 0, VG_Tags = [], VG_Profile = [], VG_MetadataCount = 0,
     VG_MetadataUsedCount = 0, VG_MetadataFree = [], VG_MetadataSize = [],
     VG_MetadataCopies = []\<rparr>"

record LogicalVolume =
  LV_UUID :: string
  LV_Name :: string
  LV_FullName :: string
  LV_Path :: string
  LV_DMPath :: string
  LV_Parent :: string
  LV_VGName :: string
  LV_Layout :: string
  LV_Role :: string
  LV_InitialImageSync :: bool
  LV_ImageSynced :: bool
  LV_Merging :: bool
  LV_Converting :: bool
  LV_AllocationPolicy :: string
  LV_AllocationLocked :: bool
  LV_FixedMinor :: bool
  LV_SkipActivation :: bool
  LV_AutoActivation :: bool
  LV_WhenFull :: string
  LV_Active :: string
  LV_ActiveLocally :: bool
  LV_ActiveRemotely :: bool
  LV_ActiveExclusively :: bool
  LV_Major :: int
  LV_Minor :: int
  LV_ReadAhead :: string
  LV_Size :: int
  LV_MetadataSize :: string
  LV_SegmentCount :: int
  LV_Origin :: string
  LV_OriginUUID :: string
  LV_OriginSize :: string
  LV_Ancestors :: string
  LV_FullAncestors :: string
  LV_Descendants :: string
  LV_FullDescendants :: string
  LV_RAIDMismatchCount :: int
  LV_RAIDSyncAction :: string
  LV_RAIDWriteBehind :: string
  LV_RAIDMinRecoveryRate :: string
  LV_RAIDMaxRecoveryRate :: string
  LV_RAIDIntegrityMode :: string
  LV_RAIDIntegrityBlockSize :: string
  LV_RAIDIntegrityMismatches :: int
  LV_MovePV :: string
  LV_MovePVUUID :: string
  LV_ConvertLV :: string
  LV_ConvertLVUUID :: string
  LV_MirrorLog :: string
  LV_MirrorLogUUID :: string
  LV_DataLV :: string
  LV_DataLVUUID :: string
  LV_MetadataLV :: string
  LV_MetadataLVUUID :: string
  LV_PoolLV :: string
  LV_PoolLVUUID :: string
  LV_Tags :: string
  LV_Profile :: string
  LV_LockArgs :: string
  LV_CreationTime :: string
  LV_RemovalTime :: string
  LV_CreationHost :: string
  LV_RequiredModules :: string
  LV_Historical :: bool
  LV_WriteCacheBlockSize :: string
  LV_KernelMajor :: string
  LV_KernelMinor :: string
  LV_KernelReadAhead :: string
  LV_Attributes :: string
  LV_Permissions :: bool
  LV_Suspended :: bool
  LV_LiveTable :: bool
  LV_InactiveTable :: bool
  LV_DeviceOpen :: bool
  LV_DataPercent :: string
  LV_SnapshotPercent :: string
  LV_MetadataPercent :: string
  LV_CopyPercent :: string
  LV_SyncPercent :: string
  LV_CacheTotalBlocks :: int
  LV_CacheUsedBlocks :: int
  LV_CacheDirtyBlocks :: int
  LV_CacheReadHits :: int
  LV_CacheReadMisses :: int
  LV_CacheWriteHits :: int
  LV_CacheWriteMisses :: int
  LV_KernelCacheSettings :: string
  LV_KernelCachePolicy :: string
  LV_KernelMetadataFormat :: string
  LV_HealthStatus :: string
  LV_KernelDiscards :: string
  LV_CheckNeeded :: string
  LV_MergeFailed :: bool
  LV_SnapshotInvalid :: bool
  LV_VDOOperatingMode :: string
  LV_VDOCompressionState :: string
  LV_VDOIndexState :: string
  LV_VDOUsedSize :: string
  LV_VDOSavingPercent :: string
  LV_WriteCacheTotalBlocks :: int
  LV_WriteCacheFreeBlocks :: int
  LV_WriteCacheWritebackBlocks :: int
  LV_WriteCacheErrors :: int
  LV_Type :: string
  LV_Stripes :: int
  LV_DataStripes :: int
  LV_ReshapeLength :: string
  LV_ReshapeLengthExtents :: string
  LV_DataCopies :: int
  LV_DataOffset :: string
  LV_NewDataOffset :: string
  LV_ParityChunks :: int
  LV_StripeSize :: string
  LV_RegionSize :: string
  LV_ChunkSize :: string
  LV_ThinCount :: int
  LV_Discards :: string
  LV_CacheMetadataFormat :: string
  LV_CacheMode :: string
  LV_Zero :: bool
  LV_TransactionID :: string
  LV_ThinID :: string
  LV_SegmentStart :: string
  LV_SegmentStartExtents :: string
  LV_SegmentSize :: string
  LV_SegmentSizeExtents :: string
  LV_SegmentTags :: string
  LV_SegmentLogicalExtentRanges :: string
  LV_SegmentMetadataLogicalExtentRanges :: string
  LV_Devices :: string
  LV_MetadataDevices :: string
  LV_Monitor :: string
  LV_CachePolicy :: string
  LV_CacheSettings :: string
  LV_VDOCompression :: bool
  LV_VDODeduplication :: bool

definition zero_LogicalVolume :: LogicalVolume where
  "zero_LogicalVolume = \<lparr>LV_UUID = [], LV_Name = [], LV_FullName = [], LV_Path = [], LV_DMPath = [],
     LV_Parent = [], LV_VGName = [], LV_Layout = [], LV_Role = [],
     LV_InitialImageSync = False, LV_ImageSynced = False, LV_Merging = False,
     LV_Converting = False, LV_AllocationPolicy = [], LV_AllocationLocked = False,
     LV_FixedMinor = False, LV_SkipActivation = False, LV_AutoActivation = False,
     LV_WhenFull = [], LV_Active = [], LV_ActiveLocally = False, LV_ActiveRemotely = False,
     LV_ActiveExclusively = False, LV_Major = 0, LV_Minor = 0, LV_ReadAhead = [], LV_Size = 0,
     LV_MetadataSize = [], LV_SegmentCount = 0, LV_Origin = [], LV_OriginUUID = [],
     LV_OriginSize = [], LV_Ancestors = [], LV_FullAncestors = [], LV_Descendants = [],
     LV_FullDescendants = [], LV_RAIDMismatchCount = 0, LV_RAIDSyncAction = [],
     LV_RAIDWriteBehind = [], LV_RAIDMinRecoveryRate = [], LV_RAIDMaxRecoveryRate = [],
     LV_RAIDIntegrityMode = [], LV_RAIDIntegrityBlockSize = [],
     LV_RAIDIntegrityMismatches = 0, LV_MovePV = [], LV_MovePVUUID = [], LV_ConvertLV = [],
     LV_ConvertLVUUID = [], LV_MirrorLog = [], LV_MirrorLogUUID = [], LV_DataLV = [],
     LV_DataLVUUID = [], LV_MetadataLV = [], LV_MetadataLVUUID = [], LV_PoolLV = [],
     LV_PoolLVUUID = [], LV_Tags = [], LV_Profile = [], LV_LockArgs = [],
     LV_CreationTime = [], LV_RemovalTime = [], LV_CreationHost = [], LV_RequiredModules = [],
     LV_Historical = False, LV_WriteCacheBlockSize = [], LV_KernelMajor = [],
     LV_KernelMinor = [], LV_KernelReadAhead = [], LV_Attributes = [], LV_Permissions = False,
     LV_Suspended = False, LV_LiveTable = False, LV_InactiveTable = False,
     LV_DeviceOpen = False, LV_DataPercent = [], LV_SnapshotPercent = [],
     LV_MetadataPercent = [], LV_CopyPercent = [], LV_SyncPercent = [],
     LV_CacheTotalBlocks = 0, LV_CacheUsedBlocks = 0, LV_CacheDirtyBlocks = 0,
     LV_CacheReadHits = 0, LV_CacheReadMisses = 0, LV_CacheWriteHits = 0,
     LV_CacheWriteMisses = 0, LV_KernelCacheSettings = [], LV_KernelCachePolicy = [],
     LV_KernelMetadataFormat = [], LV_HealthStatus = [], LV_KernelDiscards = [],
     LV_CheckNeeded = [], LV_MergeFailed = False, LV_SnapshotInvalid = False,
     LV_VDOOperatingMode = [], LV_VDOCompressionState = [], LV_VDOIndexState = [],
     LV_VDOUsedSize = [], LV_VDOSavingPercent = [], LV_WriteCacheTotalBlocks = 0,
     LV_WriteCacheFreeBlocks = 0, LV_WriteCacheWritebackBlocks = 0, LV_WriteCacheErrors = 0,
     LV_Type = [], LV_Stripes = 0, LV_DataStripes = 0, LV_ReshapeLength = [],
     LV_ReshapeLengthExtents = [], LV_DataCopies = 0, LV_DataOffset = [],
     LV_NewDataOffset = [], LV_ParityChunks = 0, LV_StripeSize = [], LV_RegionSize = [],
     LV_ChunkSize = [], LV_ThinCount = 0, LV_Discards = [], LV_CacheMetadataFormat = [],
     LV_CacheMode = [], LV_Zero = False, LV_TransactionID = [], LV_ThinID = [],
     LV_SegmentStart = [], LV_SegmentStartExtents = [], LV_SegmentSize = [],
     LV_SegmentSizeExtents = [], LV_SegmentTags = [], LV_SegmentLogicalExtentRanges = [],
     LV_SegmentMetadataLogicalExtentRanges = [], LV_Devices = [], LV_MetadataDevices = [],
     LV_Monitor = [], LV_CachePolicy = [], LV_CacheSettings = [], LV_VDOCompression = False,
     LV_VDODeduplication = False\<rparr>"
end
