(* ===== verification/LvmOptions.thy ===== *)
theory LvmOptions
  imports Main
begin

text \<open>
  The option structs of the LVM commands that the driver runs (\<open>internal/pkg/lvm/types.go\<close>), field
  by field, with their zero values. A pointer is an \<open>option\<close>; the embedded \<open>CommonOptions\<close> is a
  field.
\<close>

record CommonOptions =
  Common_Config :: string
  Common_NoLocking :: bool
  Common_LockOpt :: string
  Common_Profile :: string
  Common_DevicesFile :: string
  Common_Devices :: "string list"
  Common_NoHints :: bool
  Common_Journal :: string

definition zero_CommonOptions :: CommonOptions where
  "zero_CommonOptions = \<lparr>Common_Config = [], Common_NoLocking = False, Common_LockOpt = [], Common_Profile = [],
     Common_DevicesFile = [], Common_Devices = [], Common_NoHints = False,
     Common_Journal = []\<rparr>"

record ListPVOptions =
  ListPV_CommonOptions :: CommonOptions
  ListPV_Names :: "string list"
  ListPV_All :: bool
  ListPV_Select :: string
  ListPV_Foreign :: bool
  ListPV_IgnoreLockingFailure :: bool
  ListPV_ReadOnly :: bool
  ListPV_Shared :: bool

definition zero_ListPVOptions :: ListPVOptions where
  "zero_ListPVOptions = \<lparr>ListPV_CommonOptions = zero_CommonOptions, ListPV_Names = [], ListPV_All = False,
     ListPV_Select = [], ListPV_Foreign = False, ListPV_IgnoreLockingFailure = False,
     ListPV_ReadOnly = False, ListPV_Shared = False\<rparr>"

record CreatePVOptions =
  CreatePV_CommonOptions :: CommonOptions
  CreatePV_Name :: string
  CreatePV_Force :: bool
  CreatePV_UUID :: string
  CreatePV_Zero :: "bool option"
  CreatePV_DataAlignment :: string
  CreatePV_DataAlignmentOffset :: string
  CreatePV_BootloaderAreaSize :: string
  CreatePV_LabelSector :: "int option"
  CreatePV_MetadataCopies :: "int option"
  CreatePV_MetadataSize :: string
  CreatePV_MetadataIgnore :: "bool option"
  CreatePV_NoRestoreFile :: bool
  CreatePV_SetPhysicalVolumeSize :: string
  CreatePV_RestoreFile :: string

definition zero_CreatePVOptions :: CreatePVOptions where
  "zero_CreatePVOptions = \<lparr>CreatePV_CommonOptions = zero_CommonOptions, CreatePV_Name = [], CreatePV_Force = False,
     CreatePV_UUID = [], CreatePV_Zero = None, CreatePV_DataAlignment = [],
     CreatePV_DataAlignmentOffset = [], CreatePV_BootloaderAreaSize = [],
     CreatePV_LabelSector = None, CreatePV_MetadataCopies = None, CreatePV_MetadataSize = [],
     CreatePV_MetadataIgnore = None, CreatePV_NoRestoreFile = False,
     CreatePV_SetPhysicalVolumeSize = [], CreatePV_RestoreFile = []\<rparr>"

record RemovePVOptions =
  RemovePV_CommonOptions :: CommonOptions
  RemovePV_Name :: string
  RemovePV_Force :: bool

definition zero_RemovePVOptions :: RemovePVOptions where
  "zero_RemovePVOptions = \<lparr>RemovePV_CommonOptions = zero_CommonOptions, RemovePV_Name = [], RemovePV_Force = False\<rparr>"

record ListVGOptions =
  ListVG_CommonOptions :: CommonOptions
  ListVG_Names :: "string list"
  ListVG_Select :: string
  ListVG_Foreign :: bool
  ListVG_IgnoreLockingFailure :: bool
  ListVG_ReadOnly :: bool
  ListVG_Shared :: bool

definition zero_ListVGOptions :: ListVGOptions where
  "zero_ListVGOptions = \<lparr>ListVG_CommonOptions = zero_CommonOptions, ListVG_Names = [], ListVG_Select = [],
     ListVG_Foreign = False, ListVG_IgnoreLockingFailure = False, ListVG_ReadOnly = False,
     ListVG_Shared = False\<rparr>"

record CreateVGOptions =
  CreateVG_CommonOptions :: CommonOptions
  CreateVG_Name :: string
  CreateVG_PVNames :: "string list"
  CreateVG_Force :: bool
  CreateVG_AutoBackup :: "bool option"
  CreateVG_MaxLogicalVolumes :: "int option"
  CreateVG_MaxPhysicalVolumes :: "int option"
  CreateVG_PhysicalExtentSize :: string
  CreateVG_Zero :: "bool option"
  CreateVG_Tags :: "string list"
  CreateVG_Alloc :: string
  CreateVG_LabelSector :: "int option"
  CreateVG_MetadataSize :: string
  CreateVG_PVMetadataCopies :: "int option"
  CreateVG_VGMetadataCopies :: string
  CreateVG_DataAlignment :: string
  CreateVG_DataAlignmentOffset :: string
  CreateVG_Shared :: bool
  CreateVG_SystemID :: string
  CreateVG_LockType :: string
  CreateVG_SetAutoActivation :: "bool option"

definition zero_CreateVGOptions :: CreateVGOptions where
  "zero_CreateVGOptions = \<lparr>CreateVG_CommonOptions = zero_CommonOptions, CreateVG_Name = [], CreateVG_PVNames = [],
     CreateVG_Force = False, CreateVG_AutoBackup = None, CreateVG_MaxLogicalVolumes = None,
     CreateVG_MaxPhysicalVolumes = None, CreateVG_PhysicalExtentSize = [],
     CreateVG_Zero = None, CreateVG_Tags = [], CreateVG_Alloc = [],
     CreateVG_LabelSector = None, CreateVG_MetadataSize = [],
     CreateVG_PVMetadataCopies = None, CreateVG_VGMetadataCopies = [],
     CreateVG_DataAlignment = [], CreateVG_DataAlignmentOffset = [], CreateVG_Shared = False,
     CreateVG_SystemID = [], CreateVG_LockType = [], CreateVG_SetAutoActivation = None\<rparr>"

record RemoveVGOptions =
  RemoveVG_CommonOptions :: CommonOptions
  RemoveVG_Name :: string
  RemoveVG_Force :: bool
  RemoveVG_Select :: string
  RemoveVG_NoUdevSync :: bool

definition zero_RemoveVGOptions :: RemoveVGOptions where
  "zero_RemoveVGOptions = \<lparr>RemoveVG_CommonOptions = zero_CommonOptions, RemoveVG_Name = [], RemoveVG_Force = False,
     RemoveVG_Select = [], RemoveVG_NoUdevSync = False\<rparr>"

record MakeVGDeviceNodesOptions =
  MakeVGDeviceNodes_CommonOptions :: CommonOptions
  MakeVGDeviceNodes_Name :: string
  MakeVGDeviceNodes_IgnoreLockingFailure :: bool
  MakeVGDeviceNodes_Refresh :: bool

definition zero_MakeVGDeviceNodesOptions :: MakeVGDeviceNodesOptions where
  "zero_MakeVGDeviceNodesOptions = \<lparr>MakeVGDeviceNodes_CommonOptions = zero_CommonOptions, MakeVGDeviceNodes_Name = [],
     MakeVGDeviceNodes_IgnoreLockingFailure = False, MakeVGDeviceNodes_Refresh = False\<rparr>"

record ListLVOptions =
  ListLV_CommonOptions :: CommonOptions
  ListLV_Names :: "string list"
  ListLV_History :: bool
  ListLV_All :: bool
  ListLV_Select :: string
  ListLV_Foreign :: bool
  ListLV_IgnoreLockingFailure :: bool
  ListLV_ReadOnly :: bool
  ListLV_Shared :: bool

definition zero_ListLVOptions :: ListLVOptions where
  "zero_ListLVOptions = \<lparr>ListLV_CommonOptions = zero_CommonOptions, ListLV_Names = [], ListLV_History = False,
     ListLV_All = False, ListLV_Select = [], ListLV_Foreign = False,
     ListLV_IgnoreLockingFailure = False, ListLV_ReadOnly = False, ListLV_Shared = False\<rparr>"

record CreateLVOptions =
  CreateLV_CommonOptions :: CommonOptions
  CreateLV_Name :: string
  CreateLV_VGName :: string
  CreateLV_Activate :: "bool option"
  CreateLV_AutoBackup :: "bool option"
  CreateLV_Contiguous :: "bool option"
  CreateLV_Persistent :: "bool option"
  CreateLV_Major :: "int option"
  CreateLV_Minor :: "int option"
  CreateLV_SetActivationSkip :: "bool option"
  CreateLV_IgnoreActivationSkip :: bool
  CreateLV_Permission :: string
  CreateLV_ReadAhead :: string
  CreateLV_WipeSignatures :: "bool option"
  CreateLV_Zero :: "bool option"
  CreateLV_Tags :: "string list"
  CreateLV_Alloc :: string
  CreateLV_SetAutoActivation :: "bool option"
  CreateLV_IgnoreMonitoring :: bool
  CreateLV_NoUdevSync :: bool
  CreateLV_Monitor :: "bool option"
  CreateLV_NoSync :: bool
  CreateLV_Type :: string
  CreateLV_Size :: string
  CreateLV_Extents :: string
  CreateLV_Stripes :: "int option"
  CreateLV_StripeSize :: string
  CreateLV_MirrorLog :: string
  CreateLV_Mirrors :: "int option"
  CreateLV_RegionSize :: string
  CreateLV_MinRecoveryRate :: string
  CreateLV_MaxRecoveryRate :: string
  CreateLV_RAIDIntegrity :: "bool option"
  CreateLV_RAIDIntegrityMode :: string
  CreateLV_RAIDIntegrityBlockSize :: "int option"
  CreateLV_Snapshot :: bool
  CreateLV_ChunkSize :: string
  CreateLV_VirtualSize :: string
  CreateLV_Thin :: bool
  CreateLV_ThinPool :: string
  CreateLV_Discards :: string
  CreateLV_ErrorWhenFull :: "bool option"
  CreateLV_PoolMetadataSize :: string
  CreateLV_PoolMetadataSpare :: "bool option"
  CreateLV_Cache :: bool
  CreateLV_CacheDevice :: string
  CreateLV_CacheVol :: string
  CreateLV_CacheMode :: string
  CreateLV_CachePolicy :: string
  CreateLV_CachePool :: string
  CreateLV_CacheSettings :: "string list"
  CreateLV_CacheSize :: string
  CreateLV_VDO :: bool
  CreateLV_VDOPool :: string
  CreateLV_VDOSettings :: "string list"
  CreateLV_Compression :: "bool option"
  CreateLV_Deduplication :: "bool option"

definition zero_CreateLVOptions :: CreateLVOptions where
  "zero_CreateLVOptions = \<lparr>CreateLV_CommonOptions = zero_CommonOptions, CreateLV_Name = [], CreateLV_VGName = [],
     CreateLV_Activate = None, CreateLV_AutoBackup = None, CreateLV_Contiguous = None,
     CreateLV_Persistent = None, CreateLV_Major = None, CreateLV_Minor = None,
     CreateLV_SetActivationSkip = None, CreateLV_IgnoreActivationSkip = False,
     CreateLV_Permission = [], CreateLV_ReadAhead = [], CreateLV_WipeSignatures = None,
     CreateLV_Zero = None, CreateLV_Tags = [], CreateLV_Alloc = [],
     CreateLV_SetAutoActivation = None, CreateLV_IgnoreMonitoring = False,
     CreateLV_NoUdevSync = False, CreateLV_Monitor = None, CreateLV_NoSync = False,
     CreateLV_Type = [], CreateLV_Size = [], CreateLV_Extents = [], CreateLV_Stripes = None,
     CreateLV_StripeSize = [], CreateLV_MirrorLog = [], CreateLV_Mirrors = None,
     CreateLV_RegionSize = [], CreateLV_MinRecoveryRate = [], CreateLV_MaxRecoveryRate = [],
     CreateLV_RAIDIntegrity = None, CreateLV_RAIDIntegrityMode = [],
     CreateLV_RAIDIntegrityBlockSize = None, CreateLV_Snapshot = False,
     CreateLV_ChunkSize = [], CreateLV_VirtualSize = [], CreateLV_Thin = False,
     CreateLV_ThinPool = [], CreateLV_Discards = [], CreateLV_ErrorWhenFull = None,
     CreateLV_PoolMetadataSize = [], CreateLV_PoolMetadataSpare = None,
     CreateLV_Cache = False, CreateLV_CacheDevice = [], CreateLV_CacheVol = [],
     CreateLV_CacheMode = [], CreateLV_CachePolicy = [], CreateLV_CachePool = [],
     CreateLV_CacheSettings = [], CreateLV_CacheSize = [], CreateLV_VDO = False,
     CreateLV_VDOPool = [], CreateLV_VDOSettings = [], CreateLV_Compression = None,
     CreateLV_Deduplication = None\<rparr>"

record RemoveLVOptions =
  RemoveLV_CommonOptions :: CommonOptions
  RemoveLV_Name :: string
  RemoveLV_AutoBackup :: "bool option"
  RemoveLV_Force :: bool
  RemoveLV_Select :: string
  RemoveLV_NoHistory :: bool
  RemoveLV_NoUdevSync :: bool

definition zero_RemoveLVOptions :: RemoveLVOptions where
  "zero_RemoveLVOptions = \<lparr>RemoveLV_CommonOptions = zero_CommonOptions, RemoveLV_Name = [],
     RemoveLV_AutoBackup = None, RemoveLV_Force = False, RemoveLV_Select = [],
     RemoveLV_NoHistory = False, RemoveLV_NoUdevSync = False\<rparr>"

record ExtendLVOptions =
  ExtendLV_CommonOptions :: CommonOptions
  ExtendLV_Name :: string
  ExtendLV_PVNames :: "string list"
  ExtendLV_AutoBackup :: "bool option"
  ExtendLV_Force :: bool
  ExtendLV_Alloc :: string
  ExtendLV_UsePolicies :: bool
  ExtendLV_Type :: string
  ExtendLV_Size :: string
  ExtendLV_Extents :: string
  ExtendLV_Stripes :: "int option"
  ExtendLV_StripeSize :: string
  ExtendLV_PoolMetadataSize :: string
  ExtendLV_NoSync :: bool
  ExtendLV_NoUdevSync :: bool
  ExtendLV_ResizeFS :: bool
  ExtendLV_NoFsck :: bool

definition zero_ExtendLVOptions :: ExtendLVOptions where
  "zero_ExtendLVOptions = \<lparr>ExtendLV_CommonOptions = zero_CommonOptions, ExtendLV_Name = [], ExtendLV_PVNames = [],
     ExtendLV_AutoBackup = None, ExtendLV_Force = False, ExtendLV_Alloc = [],
     ExtendLV_UsePolicies = False, ExtendLV_Type = [], ExtendLV_Size = [],
     ExtendLV_Extents = [], ExtendLV_Stripes = None, ExtendLV_StripeSize = [],
     ExtendLV_PoolMetadataSize = [], ExtendLV_NoSync = False, ExtendLV_NoUdevSync = False,
     ExtendLV_ResizeFS = False, ExtendLV_NoFsck = False\<rparr>"
end
