(* ===== verification/LvmManager.thy ===== *)
theory LvmManager
  imports Effects LvmTypes LvmOptions
begin

text \<open>
  The interface \<open>Manager\<close> of \<open>internal/pkg/lvm/manager.go\<close> and the classification of LVM errors of
  \<open>internal/pkg/lvm/lvm.go\<close>.

  A value of the interface is a record of its methods, each an operation on the state \<open>'s\<close> of the
  node. The locale \<open>lvm_manager\<close> is the contract that the volume manager relies on: an
  abstraction of the node to the physical volumes, volume groups and logical volumes in the LVM
  metadata, and what each method reads or changes of it.
\<close>

section \<open>The interface\<close>

record 's manager =
  mgr_IsSupported :: "'s \<Rightarrow> bool \<times> 's"
  mgr_CreatePhysicalVolume :: "CreatePVOptions \<Rightarrow> ('s, goerr, unit) op"
  mgr_RemovePhysicalVolume :: "RemovePVOptions \<Rightarrow> ('s, goerr, unit) op"
  mgr_ListPhysicalVolumes :: "ListPVOptions option \<Rightarrow> ('s, goerr, PhysicalVolume list) op"
  mgr_GetPhysicalVolume :: "string \<Rightarrow> ('s, goerr, PhysicalVolume) op"
  mgr_CreateVolumeGroup :: "CreateVGOptions \<Rightarrow> ('s, goerr, unit) op"
  mgr_ListVolumeGroups :: "ListVGOptions option \<Rightarrow> ('s, goerr, VolumeGroup list) op"
  mgr_GetVolumeGroup :: "string \<Rightarrow> ('s, goerr, VolumeGroup) op"
  mgr_RemoveVolumeGroup :: "RemoveVGOptions \<Rightarrow> ('s, goerr, unit) op"
  mgr_CreateLogicalVolume :: "CreateLVOptions \<Rightarrow> ('s, goerr, int) op"
  mgr_RemoveLogicalVolume :: "RemoveLVOptions \<Rightarrow> ('s, goerr, unit) op"
  mgr_ListLogicalVolumes :: "ListLVOptions option \<Rightarrow> ('s, goerr, LogicalVolume list) op"
  mgr_GetLogicalVolume :: "string \<Rightarrow> string \<Rightarrow> ('s, goerr, LogicalVolume) op"
  mgr_ExtendLogicalVolume :: "ExtendLVOptions \<Rightarrow> ('s, goerr, unit) op"
  mgr_IsLogicalVolumeCorrupted :: "string \<Rightarrow> string \<Rightarrow> ('s, goerr, bool) op"
  mgr_RemoveStaleDeviceMapperNodes :: "string \<Rightarrow> ('s, goerr, unit) op"

section \<open>Errors\<close>

text \<open>\<open>IgnoreNotFound\<close> and \<open>IgnoreAlreadyExists\<close> of a non-nil error; \<open>None\<close> is nil.\<close>

definition IgnoreNotFound :: "goerr \<Rightarrow> goerr option" where
  "IgnoreNotFound err = (if errors_Is err LvmErrNotFound then None else Some err)"

definition IgnoreAlreadyExists :: "goerr \<Rightarrow> goerr option" where
  "IgnoreAlreadyExists err = (if errors_Is err LvmErrAlreadyExists then None else Some err)"

definition containsIgnoreCase :: "string \<Rightarrow> string \<Rightarrow> bool" where
  "containsIgnoreCase s substr = Contains (ToLower s) (ToLower substr)"

definition wrap_sentinel :: "sentinel \<Rightarrow> goerr \<Rightarrow> goerr" where
  "wrap_sentinel x err = errorf (sentinel_msg x @ '': '' @ err_msg err) [sentinel_err x]"

definition getErrorType :: "goerr \<Rightarrow> goerr" where
  "getErrorType err =
     (let has = containsIgnoreCase (err_msg err) in
      if has ''failed to find'' \<or> has ''not found'' then wrap_sentinel LvmErrNotFound err
      else if has ''contains a filesystem in use'' then wrap_sentinel LvmErrInUse err
      else if has ''already exists in filesystem'' then wrap_sentinel LvmErrStaleDeviceNode err
      else if has ''already exists'' \<or>
          (has ''of volume group'' \<and> has ''Can't initialize physical volume'')
        then wrap_sentinel LvmErrAlreadyExists err
      else if has ''insufficient free space'' then wrap_sentinel LvmErrResourceExhausted err
      else if has ''is already in volume group'' then wrap_sentinel LvmErrPVAlreadyInVolumeGroup err
      else if has ''device has a signature'' then wrap_sentinel LvmErrInUse err
      else err)"

lemma IgnoreNotFound_simps [simp]:
  "IgnoreNotFound e = None \<longleftrightarrow> errors_Is e LvmErrNotFound"
  "IgnoreNotFound e = Some e' \<longleftrightarrow> \<not> errors_Is e LvmErrNotFound \<and> e' = e"
  by (auto simp: IgnoreNotFound_def)

lemma IgnoreAlreadyExists_simps [simp]:
  "IgnoreAlreadyExists e = None \<longleftrightarrow> errors_Is e LvmErrAlreadyExists"
  "IgnoreAlreadyExists e = Some e' \<longleftrightarrow> \<not> errors_Is e LvmErrAlreadyExists \<and> e' = e"
  by (auto simp: IgnoreAlreadyExists_def)

lemma errors_Is_wrap_sentinel [simp]: "errors_Is (wrap_sentinel x e) y \<longleftrightarrow> x = y"
  by (simp add: wrap_sentinel_def)

section \<open>The contract\<close>

text \<open>What the LVM metadata of a node holds: the physical volumes with the volume group each
  belongs to (empty if none), the names of the volume groups, and the logical volumes with their
  sizes in bytes, by volume group and name.\<close>

record lvm_meta =
  m_pvs :: "string \<rightharpoonup> string"
  m_vgs :: "string set"
  m_lvs :: "string \<times> string \<rightharpoonup> int"

definition lv_names :: "lvm_meta \<Rightarrow> string \<Rightarrow> string set" where
  "lv_names m vg = {lv. m_lvs m (vg, lv) \<noteq> None}"

definition drop_vg :: "string \<Rightarrow> (string \<times> string \<rightharpoonup> int) \<Rightarrow> (string \<times> string \<rightharpoonup> int)" where
  "drop_vg vg f = (\<lambda>k. if fst k = vg then None else f k)"

lemma drop_vg_id: "lv_names m vg = {} \<Longrightarrow> drop_vg vg (m_lvs m) = m_lvs m"
  by (auto simp: drop_vg_def lv_names_def fun_eq_iff)

locale lvm_manager =
  fixes mgr :: "'s manager"
    and meta :: "'s \<Rightarrow> lvm_meta"
  assumes list_pvs: "mgr_ListPhysicalVolumes mgr o1 s = (ra, t) \<Longrightarrow> meta t = meta s"
    and list_pvs_all: "mgr_ListPhysicalVolumes mgr None s = (Inr pvs, t) \<Longrightarrow>
      m_pvs (meta s) = map_of (map (\<lambda>p. (PV_Name p, PV_VGName p)) pvs)"
    and get_pv: "mgr_GetPhysicalVolume mgr n s = (rb, t) \<Longrightarrow> meta t = meta s"
    and create_pv: "mgr_CreatePhysicalVolume mgr o2 s = (r, t) \<Longrightarrow>
      m_vgs (meta t) = m_vgs (meta s) \<and> m_lvs (meta t) = m_lvs (meta s)"
    and remove_pv: "mgr_RemovePhysicalVolume mgr o3 s = (r, t) \<Longrightarrow>
      m_vgs (meta t) = m_vgs (meta s) \<and> m_lvs (meta t) = m_lvs (meta s) \<and>
      (case r of Inl e \<Rightarrow> m_pvs (meta t) = m_pvs (meta s)
       | Inr _ \<Rightarrow> m_pvs (meta t) = (m_pvs (meta s))(RemovePV_Name o3 := None))"
    and list_vgs: "mgr_ListVolumeGroups mgr o4 s = (rc, t) \<Longrightarrow> meta t = meta s"
    and list_vgs_rows: "mgr_ListVolumeGroups mgr o4 s = (Inr vgs, t) \<Longrightarrow> vg \<in> set vgs \<Longrightarrow>
      finite (lv_names (meta s) (VG_Name vg)) \<and>
      VG_LVCount vg = int (card (lv_names (meta s) (VG_Name vg)))"
    and get_vg: "mgr_GetVolumeGroup mgr n s = (rd, t) \<Longrightarrow> meta t = meta s"
    and get_vg_name: "mgr_GetVolumeGroup mgr n s = (Inr vg, t) \<Longrightarrow> VG_Name vg = n"
    and create_vg: "mgr_CreateVolumeGroup mgr o5 s = (r, t) \<Longrightarrow> m_lvs (meta t) = m_lvs (meta s)"
    and remove_vg: "mgr_RemoveVolumeGroup mgr o6 s = (r, t) \<Longrightarrow>
      (case r of Inl e \<Rightarrow> m_lvs (meta t) = m_lvs (meta s)
       | Inr _ \<Rightarrow> m_lvs (meta t) = drop_vg (RemoveVG_Name o6) (m_lvs (meta s)))"
    and get_lv: "mgr_GetLogicalVolume mgr vn ln s = (re, t) \<Longrightarrow> meta t = meta s"
    and get_lv_found: "mgr_GetLogicalVolume mgr vn ln s = (Inr lv, t) \<Longrightarrow>
      m_lvs (meta s) (vn, ln) = Some (LV_Size lv)"
    and get_lv_missing: "mgr_GetLogicalVolume mgr vn ln s = (Inl e, t) \<Longrightarrow>
      errors_Is e LvmErrNotFound \<Longrightarrow> m_lvs (meta s) (vn, ln) = None"
    and list_lvs: "mgr_ListLogicalVolumes mgr o7 s = (rf, t) \<Longrightarrow> meta t = meta s"
    and list_lvs_rows: "mgr_ListLogicalVolumes mgr
        (Some (zero_ListLVOptions\<lparr>ListLV_Select := ''vg_name='' @ n\<rparr>)) s = (Inr lvs, t) \<Longrightarrow>
      set (map (\<lambda>lv. (LV_Name lv, LV_Size lv)) lvs) = {(x, sz). m_lvs (meta s) (n, x) = Some sz}"
    and create_lv: "mgr_CreateLogicalVolume mgr o8 s = (rg, t) \<Longrightarrow>
      (\<forall>k. k \<noteq> (CreateLV_VGName o8, CreateLV_Name o8) \<longrightarrow> m_lvs (meta t) k = m_lvs (meta s) k)"
    and create_lv_ok: "mgr_CreateLogicalVolume mgr o8 s = (Inr sz, t) \<Longrightarrow>
      m_lvs (meta t) (CreateLV_VGName o8, CreateLV_Name o8) = Some sz"
    and create_lv_size: "mgr_CreateLogicalVolume mgr o8 s = (Inr sz, t) \<Longrightarrow>
      CreateLV_Size o8 = show_int c @ ''B'' \<Longrightarrow> c \<le> sz"
    and remove_lv: "mgr_RemoveLogicalVolume mgr o9 s = (r, t) \<Longrightarrow>
      RemoveLV_Name o9 = vn @ ''/'' @ ln \<Longrightarrow>
      (case r of Inl e \<Rightarrow> meta t = meta s \<and>
           (errors_Is e LvmErrNotFound \<longrightarrow> m_lvs (meta s) (vn, ln) = None)
       | Inr _ \<Rightarrow> m_lvs (meta t) = (m_lvs (meta s))((vn, ln) := None))"
    and extend_lv: "mgr_ExtendLogicalVolume mgr o10 s = (r, t) \<Longrightarrow>
      ExtendLV_Name o10 = vn @ ''/'' @ ln \<Longrightarrow>
      (\<forall>k. k \<noteq> (vn, ln) \<longrightarrow> m_lvs (meta t) k = m_lvs (meta s) k)"
    and extend_lv_grows: "mgr_ExtendLogicalVolume mgr o10 s = (r, t) \<Longrightarrow>
      ExtendLV_Name o10 = vn @ ''/'' @ ln \<Longrightarrow> m_lvs (meta s) (vn, ln) = Some sz \<Longrightarrow>
      (\<exists>sz' \<ge> sz. m_lvs (meta t) (vn, ln) = Some sz')"
    and corrupted: "mgr_IsLogicalVolumeCorrupted mgr vn ln s = (rh, t) \<Longrightarrow> meta t = meta s"
    and remove_stale: "mgr_RemoveStaleDeviceMapperNodes mgr n s = (r, t) \<Longrightarrow> meta t = meta s"

section \<open>Properties\<close>

text \<open>C31. The classification of LVM errors is sound and keeps conditions apart: an error keeps its
  text, and a classified error is of exactly one kind. In particular a leftover device node
  (\<open>already exists in filesystem\<close>) is never taken for an object that exists in the LVM metadata
  (\<open>ErrAlreadyExists\<close>), whatever the case of the text, unless the text also says that something
  was not found or is in use.\<close>

theorem getErrorType_stale_node:
  assumes "containsIgnoreCase (err_msg e) ''already exists in filesystem''"
    and "\<not> containsIgnoreCase (err_msg e) ''not found''"
    and "\<not> containsIgnoreCase (err_msg e) ''failed to find''"
    and "\<not> containsIgnoreCase (err_msg e) ''contains a filesystem in use''"
  shows "(errors_Is (getErrorType e) x \<longleftrightarrow> x = LvmErrStaleDeviceNode) \<and>
    Contains (err_msg (getErrorType e)) (err_msg e)"
proof
  have eq: "getErrorType e = wrap_sentinel LvmErrStaleDeviceNode e"
    using assms by (simp add: getErrorType_def)
  then show "errors_Is (getErrorType e) x \<longleftrightarrow> x = LvmErrStaleDeviceNode" by auto
  have "err_msg (getErrorType e) =
      (sentinel_msg LvmErrStaleDeviceNode @ '': '') @ err_msg e @ []"
    by (simp add: eq wrap_sentinel_def)
  then show "Contains (err_msg (getErrorType e)) (err_msg e)"
    unfolding Contains_iff by blast
qed

theorem getErrorType_stale_node_witness:
  "errors_Is (getErrorType (errors_New ''/dev/vg0: Already exists in filesystem'')) LvmErrStaleDeviceNode"
proof -
  let ?e = "errors_New ''/dev/vg0: Already exists in filesystem''"
  have "containsIgnoreCase (err_msg ?e) ''already exists in filesystem''"
    "\<not> containsIgnoreCase (err_msg ?e) ''not found''"
    "\<not> containsIgnoreCase (err_msg ?e) ''failed to find''"
    "\<not> containsIgnoreCase (err_msg ?e) ''contains a filesystem in use''"
    by code_simp+
  then show ?thesis by (simp add: getErrorType_stale_node)
qed

end
