(* ===== verification/Json.thy ===== *)
theory Json
  imports Effects
begin

text \<open>
  The part of the standard library package \<open>encoding/json\<close> that the driver uses to read the output
  of \<open>lvm\<close> and \<open>lsblk\<close>: the grammar of JSON, and how the decoder fills the fields of a struct.

  The parser descends recursively with fuel; \<open>json_parse\<close> gives it twice the length of the input,
  which is always enough (\<open>parse_value_enough\<close>). A literal number is kept as text, as the decoder
  does until it knows the type of the field. Bytes from 128 on are copied. The limit of 10000 on
  the nesting depth is not modelled.
\<close>

section \<open>Values and the printer\<close>

datatype json =
    JNull
  | JBool bool
  | JNum string
  | JStr string
  | JArr "json list"
  | JObj "(string \<times> json) list"

abbreviation dquote :: char where "dquote \<equiv> CHR 0x22"
abbreviation bslash :: char where "bslash \<equiv> CHR 0x5C"

definition hex_digit :: "nat \<Rightarrow> char" where
  "hex_digit n = (if n < 10 then char_of (48 + n) else char_of (87 + n))"

definition escape_char :: "char \<Rightarrow> string" where
  "escape_char c =
     (let n = (of_char c :: nat) in
      if c = dquote \<or> c = bslash then [bslash, c]
      else if n < 32 then [bslash, CHR ''u'', CHR ''0'', CHR ''0'', hex_digit (n div 16), hex_digit (n mod 16)]
      else [c])"

definition json_string :: "string \<Rightarrow> string" where
  "json_string s = [dquote] @ concat (map escape_char s) @ [dquote]"

fun json_print :: "json \<Rightarrow> string"
  and print_elems :: "json list \<Rightarrow> string"
  and print_members :: "(string \<times> json) list \<Rightarrow> string" where
  "json_print JNull = ''null''"
| "json_print (JBool b) = (if b then ''true'' else ''false'')"
| "json_print (JNum n) = n"
| "json_print (JStr s) = json_string s"
| "json_print (JArr vs) = ''['' @ (if vs = [] then '']'' else print_elems vs)"
| "json_print (JObj ms) = ''{'' @ (if ms = [] then ''}'' else print_members ms)"
| "print_elems [] = []"
| "print_elems (v # vs) = json_print v @ (if vs = [] then '']'' else '','' @ print_elems vs)"
| "print_members [] = []"
| "print_members (m # ms) = json_string (fst m) @ '':'' @ json_print (snd m) @
     (if ms = [] then ''}'' else '','' @ print_members ms)"

section \<open>The parser\<close>

definition json_space :: "char \<Rightarrow> bool" where
  "json_space c = ((of_char c :: nat) \<in> {9, 10, 13, 32})"

definition skip_ws :: "string \<Rightarrow> string" where
  "skip_ws s = dropWhile json_space s"

definition hex_value :: "char \<Rightarrow> nat option" where
  "hex_value c =
     (let n = (of_char c :: nat) in
      if 48 \<le> n \<and> n \<le> 57 then Some (n - 48)
      else if 97 \<le> n \<and> n \<le> 102 then Some (n - 87)
      else if 65 \<le> n \<and> n \<le> 70 then Some (n - 55)
      else None)"

definition hex4 :: "char \<Rightarrow> char \<Rightarrow> char \<Rightarrow> char \<Rightarrow> nat option" where
  "hex4 a b c d =
     (case (hex_value a, hex_value b, hex_value c, hex_value d) of
        (Some w, Some x, Some y, Some z) \<Rightarrow> Some (((w * 16 + x) * 16 + y) * 16 + z)
      | _ \<Rightarrow> None)"

definition utf8 :: "nat \<Rightarrow> string" where
  "utf8 n =
     (if n < 128 then [char_of n]
      else if n < 2048 then [char_of (192 + n div 64), char_of (128 + n mod 64)]
      else if n < 65536
        then [char_of (224 + n div 4096), char_of (128 + n div 64 mod 64), char_of (128 + n mod 64)]
      else [char_of (240 + n div 262144), char_of (128 + n div 4096 mod 64),
            char_of (128 + n div 64 mod 64), char_of (128 + n mod 64)])"

definition replacement :: string where
  "replacement = utf8 65533"

definition simple_escape :: "char \<Rightarrow> char option" where
  "simple_escape e =
     (if e = dquote \<or> e = bslash \<or> e = CHR ''/'' then Some e
      else if e = CHR ''b'' then Some (CHR 0x08)
      else if e = CHR ''f'' then Some (CHR 0x0C)
      else if e = CHR ''n'' then Some (CHR 0x0A)
      else if e = CHR ''r'' then Some (CHR 0x0D)
      else if e = CHR ''t'' then Some (CHR 0x09)
      else None)"

text \<open>What follows a backslash in a string literal: the decoded bytes and the rest. A pair of
  surrogate escapes is one code point, a lone one is replaced.\<close>

fun hex4_at :: "string \<Rightarrow> (nat \<times> string) option" where
  "hex4_at (a # b # c # d # r) = map_option (\<lambda>n. (n, r)) (hex4 a b c d)"
| "hex4_at _ = None"

fun low_surrogate :: "string \<Rightarrow> (nat \<times> string) option" where
  "low_surrogate (b # u # s) =
     (if b = bslash \<and> u = CHR ''u'' then
        (case hex4_at s of
           Some (m, r) \<Rightarrow> if 56320 \<le> m \<and> m < 57344 then Some (m, r) else None
         | None \<Rightarrow> None)
      else None)"
| "low_surrogate _ = None"

definition unescape_u :: "nat \<Rightarrow> string \<Rightarrow> string \<times> string" where
  "unescape_u n r =
     (if 55296 \<le> n \<and> n < 56320 then
        (case low_surrogate r of
           Some (m, r') \<Rightarrow> (utf8 (65536 + (n - 55296) * 1024 + (m - 56320)), r')
         | None \<Rightarrow> (replacement, r))
      else if 56320 \<le> n \<and> n < 57344 then (replacement, r)
      else (utf8 n, r))"

fun unescape :: "string \<Rightarrow> (string \<times> string) option" where
  "unescape [] = None"
| "unescape (e # es) =
     (if e = CHR ''u'' then
        (case hex4_at es of Some (n, r) \<Rightarrow> Some (unescape_u n r) | None \<Rightarrow> None)
      else map_option (\<lambda>x. ([x], es)) (simple_escape e))"

lemma hex4_at_length: "hex4_at s = Some (n, r) \<Longrightarrow> length r < length s"
  by (induction s rule: hex4_at.induct) auto

lemma low_surrogate_length: "low_surrogate s = Some (n, r) \<Longrightarrow> length r < length s"
  by (induction s rule: low_surrogate.induct)
    (auto dest: hex4_at_length split: if_splits option.splits)

lemma unescape_u_length: "unescape_u n s = (x, r) \<Longrightarrow> length r \<le> length s"
  by (auto simp: unescape_u_def dest: low_surrogate_length split: if_splits option.splits)

lemma unescape_length: "unescape s = Some (x, r) \<Longrightarrow> length r < length s"
proof (induction s rule: unescape.induct)
  case (2 e es)
  show ?case
  proof (cases "e = CHR ''u''")
    case True
    with 2 obtain n t where "hex4_at es = Some (n, t)" "unescape_u n t = (x, r)"
      by (auto split: option.splits)
    then show ?thesis using hex4_at_length unescape_u_length by fastforce
  qed (use 2 in auto)
qed simp

text \<open>The rest of a string literal after its opening quote: the decoded bytes and what follows the
  closing quote.\<close>

function parse_chars :: "string \<Rightarrow> (string \<times> string) option" where
  "parse_chars [] = None"
| "parse_chars (c # cs) =
     (if c = dquote then Some ([], cs)
      else if c = bslash then
        (case unescape cs of
           None \<Rightarrow> None
         | Some (x, r) \<Rightarrow> map_option (apfst ((@) x)) (parse_chars r))
      else if (of_char c :: nat) < 32 then None
      else map_option (apfst ((#) c)) (parse_chars cs))"
  by pat_completeness auto
termination
  by (relation "measure length") (auto dest: unescape_length)

definition is_digit :: "char \<Rightarrow> bool" where
  "is_digit c = (48 \<le> (of_char c :: nat) \<and> (of_char c :: nat) \<le> 57)"

definition number_char :: "char \<Rightarrow> bool" where
  "number_char c = (is_digit c \<or> c \<in> {CHR ''-'', CHR ''+'', CHR ''.'', CHR ''e'', CHR ''E''})"

definition valid_exponent :: "string \<Rightarrow> bool" where
  "valid_exponent s =
     (case s of
        [] \<Rightarrow> True
      | c # cs \<Rightarrow>
          (c = CHR ''e'' \<or> c = CHR ''E'') \<and>
          (let ds = (case cs of d # ds \<Rightarrow> if d = CHR ''+'' \<or> d = CHR ''-'' then ds else cs | [] \<Rightarrow> []) in
           ds \<noteq> [] \<and> list_all is_digit ds))"

definition valid_fraction :: "string \<Rightarrow> bool" where
  "valid_fraction s =
     (case s of
        [] \<Rightarrow> True
      | c # cs \<Rightarrow>
          if c = CHR ''.'' then takeWhile is_digit cs \<noteq> [] \<and> valid_exponent (dropWhile is_digit cs)
          else valid_exponent s)"

definition valid_number :: "string \<Rightarrow> bool" where
  "valid_number s =
     (let t = (case s of c # cs \<Rightarrow> if c = CHR ''-'' then cs else s | [] \<Rightarrow> []) in
      (case t of
         [] \<Rightarrow> False
       | d # ds \<Rightarrow>
           if d = CHR ''0'' then valid_fraction ds
           else is_digit d \<and> valid_fraction (dropWhile is_digit ds)))"

definition parse_number :: "string \<Rightarrow> (json \<times> string) option" where
  "parse_number s =
     (let n = takeWhile number_char s in
      if valid_number n then Some (JNum n, dropWhile number_char s) else None)"

fun parse_value :: "nat \<Rightarrow> string \<Rightarrow> (json \<times> string) option"
  and parse_elems :: "nat \<Rightarrow> string \<Rightarrow> (json list \<times> string) option"
  and parse_members :: "nat \<Rightarrow> string \<Rightarrow> ((string \<times> json) list \<times> string) option" where
  "parse_value 0 s = None"
| "parse_value (Suc n) s =
     (case skip_ws s of
        [] \<Rightarrow> None
      | c # cs \<Rightarrow>
          if c = CHR ''{'' then
            (case skip_ws cs of
               [] \<Rightarrow> None
             | d # ds \<Rightarrow> if d = CHR ''}'' then Some (JObj [], ds)
                         else map_option (apfst JObj) (parse_members n (d # ds)))
          else if c = CHR ''['' then
            (case skip_ws cs of
               [] \<Rightarrow> None
             | d # ds \<Rightarrow> if d = CHR '']'' then Some (JArr [], ds)
                         else map_option (apfst JArr) (parse_elems n (d # ds)))
          else if c = dquote then map_option (apfst JStr) (parse_chars cs)
          else if HasPrefix (c # cs) ''null'' then Some (JNull, drop 4 (c # cs))
          else if HasPrefix (c # cs) ''true'' then Some (JBool True, drop 4 (c # cs))
          else if HasPrefix (c # cs) ''false'' then Some (JBool False, drop 5 (c # cs))
          else parse_number (c # cs))"
| "parse_elems 0 s = None"
| "parse_elems (Suc n) s =
     (case parse_value n s of
        None \<Rightarrow> None
      | Some (v, r) \<Rightarrow>
          (case skip_ws r of
             [] \<Rightarrow> None
           | c # cs \<Rightarrow>
               if c = CHR '','' then map_option (apfst ((#) v)) (parse_elems n cs)
               else if c = CHR '']'' then Some ([v], cs)
               else None))"
| "parse_members 0 s = None"
| "parse_members (Suc n) s =
     (case skip_ws s of
        [] \<Rightarrow> None
      | q # qs \<Rightarrow>
          if q \<noteq> dquote then None
          else
            (case parse_chars qs of
               None \<Rightarrow> None
             | Some (k, r) \<Rightarrow>
                 (case skip_ws r of
                    [] \<Rightarrow> None
                  | c # cs \<Rightarrow>
                      if c \<noteq> CHR '':'' then None
                      else
                        (case parse_value n cs of
                           None \<Rightarrow> None
                         | Some (v, r') \<Rightarrow>
                             (case skip_ws r' of
                                [] \<Rightarrow> None
                              | d # ds \<Rightarrow>
                                  if d = CHR '','' then map_option (apfst ((#) (k, v))) (parse_members n ds)
                                  else if d = CHR ''}'' then Some ([(k, v)], ds)
                                  else None)))))"

text \<open>The whole input: one value with nothing but white space around it.\<close>

definition json_parse :: "string \<Rightarrow> json option" where
  "json_parse s =
     (case parse_value (2 * length s + 2) s of
        Some (v, r) \<Rightarrow> if skip_ws r = [] then Some v else None
      | None \<Rightarrow> None)"

section \<open>Decoding into structs\<close>

text \<open>The values that an object has for a field of a struct: keys are compared without regard to
  case. A decoder of one value takes the value that the field already has, which \<open>null\<close> keeps.\<close>

definition field_vals :: "string \<Rightarrow> (string \<times> json) list \<Rightarrow> json list" where
  "field_vals k ms = map snd (filter (\<lambda>m. EqualFold (fst m) k) ms)"

fun decode_all :: "('a \<Rightarrow> json \<Rightarrow> 'a option) \<Rightarrow> 'a \<Rightarrow> json list \<Rightarrow> 'a option" where
  "decode_all f z [] = Some z"
| "decode_all f z (v # vs) = (case f z v of None \<Rightarrow> None | Some y \<Rightarrow> decode_all f y vs)"

fun decode_string :: "string \<Rightarrow> json \<Rightarrow> string option" where
  "decode_string z (JStr s) = Some s"
| "decode_string z JNull = Some z"
| "decode_string z _ = None"

fun decode_bool :: "bool \<Rightarrow> json \<Rightarrow> bool option" where
  "decode_bool z (JBool b) = Some b"
| "decode_bool z JNull = Some z"
| "decode_bool z _ = None"

fun decode_int64 :: "int \<Rightarrow> json \<Rightarrow> int option" where
  "decode_int64 z (JNum n) = ParseInt n"
| "decode_int64 z JNull = Some z"
| "decode_int64 z _ = None"

text \<open>A slice: \<open>null\<close> gives nil; an element that is \<open>null\<close> gives the zero value \<open>z0\<close>.\<close>

fun decode_slice :: "(json \<Rightarrow> 'a option) \<Rightarrow> 'a list \<Rightarrow> json \<Rightarrow> 'a list option" where
  "decode_slice f z (JArr vs) = those (map f vs)"
| "decode_slice f z JNull = Some []"
| "decode_slice f z _ = None"

fun decode_struct :: "((string \<times> json) list \<Rightarrow> 'a option) \<Rightarrow> json \<Rightarrow> 'a option" where
  "decode_struct f (JObj ms) = f ms"
| "decode_struct f JNull = f []"
| "decode_struct f _ = None"

definition string_field :: "string \<Rightarrow> (string \<times> json) list \<Rightarrow> string option" where
  "string_field k ms = decode_all decode_string [] (field_vals k ms)"

definition bool_field :: "string \<Rightarrow> (string \<times> json) list \<Rightarrow> bool option" where
  "bool_field k ms = decode_all decode_bool False (field_vals k ms)"

definition int64_field :: "string \<Rightarrow> (string \<times> json) list \<Rightarrow> int option" where
  "int64_field k ms = decode_all decode_int64 0 (field_vals k ms)"

definition slice_field :: "(json \<Rightarrow> 'a option) \<Rightarrow> string \<Rightarrow> (string \<times> json) list \<Rightarrow> 'a list option" where
  "slice_field f k ms = decode_all (decode_slice f) [] (field_vals k ms)"

section \<open>Fuel and lengths\<close>


lemma length_skip_ws: "length (skip_ws s) \<le> length s"
  by (simp add: skip_ws_def length_dropWhile_le)

lemma skip_ws_ConsD: "skip_ws s = c # cs \<Longrightarrow> length cs < length s"
  using length_skip_ws [of s] by simp

lemma skip_ws_Cons [simp]: "\<not> json_space c \<Longrightarrow> skip_ws (c # cs) = c # cs"
  by (simp add: skip_ws_def)

lemma skip_ws_Nil [simp]: "skip_ws [] = []"
  by (simp add: skip_ws_def)

lemma parse_chars_length: "parse_chars s = Some (x, r) \<Longrightarrow> length r < length s"
  by (induction s arbitrary: x r rule: parse_chars.induct)
    (fastforce dest: unescape_length split: if_splits option.splits prod.splits)+

lemma parse_number_length: "parse_number s = Some (v, r) \<Longrightarrow> length r < length s"
proof -
  assume a: "parse_number s = Some (v, r)"
  then have "valid_number (takeWhile number_char s)" and r: "r = dropWhile number_char s"
    by (auto simp: parse_number_def Let_def split: if_splits)
  then have "takeWhile number_char s \<noteq> []"
    by (auto simp: valid_number_def)
  moreover have "length s = length (takeWhile number_char s) + length r"
    unfolding r by (metis length_append takeWhile_dropWhile_id)
  ultimately show ?thesis by simp
qed

lemma parse_length:
  "parse_value n s = Some (v, r) \<Longrightarrow> length r < length s"
  "parse_elems n s = Some (vs, r) \<Longrightarrow> length r < length s"
  "parse_members n s = Some (ms, r) \<Longrightarrow> length r < length s"
proof (induction n s and n s and n s arbitrary: v r and vs r and ms r
    rule: parse_value_parse_elems_parse_members.induct)
  case (2 n s)
  then show ?case
    by (fastforce dest!: skip_ws_ConsD parse_chars_length parse_number_length
        split: list.splits if_splits)
next
  case (4 n s)
  then show ?case
    by (fastforce dest!: skip_ws_ConsD split: list.splits if_splits option.splits)
next
  case (6 n s)
  then show ?case
    by (fastforce dest!: skip_ws_ConsD parse_chars_length split: list.splits if_splits option.splits)
qed auto


text \<open>More fuel than twice the length of the input changes nothing.\<close>

lemma parse_enough:
  "2 * length s < n \<Longrightarrow> 2 * length s < m \<Longrightarrow> parse_value n s = parse_value m s"
  "2 * length s + 1 < n \<Longrightarrow> 2 * length s + 1 < m \<Longrightarrow> parse_elems n s = parse_elems m s"
  "2 * length s + 1 < n \<Longrightarrow> 2 * length s + 1 < m \<Longrightarrow> parse_members n s = parse_members m s"
proof (induction n s and n s and n s arbitrary: m and m and m
    rule: parse_value_parse_elems_parse_members.induct)
  case (2 n s)
  obtain m' where m: "m = Suc m'" using "2.prems" by (cases m) auto
  have len: "2 * length (d # ds) + 1 < n \<and> 2 * length (d # ds) + 1 < m'"
    if "skip_ws s = c # cs" "skip_ws cs = d # ds" for c cs d ds
    using "2.prems" m skip_ws_ConsD [OF that(1)] skip_ws_ConsD [OF that(2)] by simp
  have "parse_members n (d # ds) = parse_members m' (d # ds)"
    if "skip_ws s = CHR ''{'' # cs" "skip_ws cs = d # ds" "d \<noteq> CHR ''}''" for cs d ds
    using "2.IH"(1) [OF that(1) _ that(2,3)] len [OF that(1,2)] by simp
  moreover have "parse_elems n (d # ds) = parse_elems m' (d # ds)"
    if "skip_ws s = CHR ''['' # cs" "skip_ws cs = d # ds" "d \<noteq> CHR '']''" for cs d ds
    using "2.IH"(2) [OF that(1) _ _ that(2,3)] len [OF that(1,2)] by simp
  ultimately show ?case
    unfolding m by (auto split: list.splits)
next
  case (4 n s)
  obtain m' where m: "m = Suc m'" using "4.prems" by (cases m) auto
  have v: "parse_value n s = parse_value m' s" by (rule "4.IH"(1)) (use "4.prems" m in simp_all)
  have "parse_elems n cs = parse_elems m' cs"
    if "parse_value n s = Some (w, r)" "skip_ws r = CHR '','' # cs" for w r cs
    using parse_length(1) [OF that(1)] skip_ws_ConsD [OF that(2)] "4.prems" m
    by (intro "4.IH"(2) [OF that(1) refl that(2) refl]) simp_all
  then show ?case
    unfolding m by (auto simp: v split: list.splits option.splits)
next
  case (6 n s)
  obtain m' where m: "m = Suc m'" using "6.prems" by (cases m) auto
  have v: "parse_value n cs = parse_value m' cs"
    if "skip_ws s = dquote # qs" "parse_chars qs = Some (k, r)" "skip_ws r = CHR '':'' # cs"
    for qs k r cs
    using skip_ws_ConsD [OF that(1)] parse_chars_length [OF that(2)] skip_ws_ConsD [OF that(3)]
      "6.prems" m by (intro "6.IH"(1) [OF that(1) _ that(2) refl that(3)]) simp_all
  have "parse_members n ds = parse_members m' ds"
    if "skip_ws s = dquote # qs" "parse_chars qs = Some (k, r)" "skip_ws r = CHR '':'' # cs"
      "parse_value n cs = Some (w, r')" "skip_ws r' = CHR '','' # ds" for qs k r cs w r' ds
    using skip_ws_ConsD [OF that(1)] parse_chars_length [OF that(2)] skip_ws_ConsD [OF that(3)]
      parse_length(1) [OF that(4)] skip_ws_ConsD [OF that(5)] "6.prems" m
    by (intro "6.IH"(2) [OF that(1) _ that(2) refl that(3) _ that(4) refl that(5)]) simp_all
  with v show ?case
    unfolding m by (auto split: list.splits option.splits)
qed auto


section \<open>Round trip\<close>


text \<open>Values that are printed faithfully: every literal number is a number of the grammar.\<close>

fun json_wf :: "json \<Rightarrow> bool" where
  "json_wf (JNum n) = (valid_number n \<and> list_all number_char n)"
| "json_wf (JArr vs) = (\<forall>v \<in> set vs. json_wf v)"
| "json_wf (JObj ms) = (\<forall>m \<in> set ms. json_wf (snd m))"
| "json_wf _ = True"

text \<open>Fuel that suffices to parse a printed value.\<close>

fun fuel_of :: "json \<Rightarrow> nat"
  and fuel_elems :: "json list \<Rightarrow> nat"
  and fuel_members :: "(string \<times> json) list \<Rightarrow> nat" where
  "fuel_of (JArr vs) = Suc (fuel_elems vs)"
| "fuel_of (JObj ms) = Suc (fuel_members ms)"
| "fuel_of _ = 1"
| "fuel_elems [] = 0"
| "fuel_elems (v # vs) = Suc (fuel_of v + fuel_elems vs)"
| "fuel_members [] = 0"
| "fuel_members (m # ms) = Suc (fuel_of (snd m) + fuel_members ms)"

lemma not_number_char [simp]:
  "\<not> number_char (CHR '']'')" "\<not> number_char (CHR ''}'')" "\<not> number_char (CHR '','')"
  by code_simp+

lemma not_json_space [simp]:
  "\<not> json_space (CHR '']'')" "\<not> json_space (CHR ''}'')" "\<not> json_space (CHR '','')"
  "\<not> json_space (CHR '':'')" "\<not> json_space dquote" "\<not> json_space (CHR ''['')"
  "\<not> json_space (CHR ''{'')" "\<not> json_space (CHR ''n'')" "\<not> json_space (CHR ''t'')"
  "\<not> json_space (CHR ''f'')"
  by code_simp+

lemma hex_value_digit: "n < 16 \<Longrightarrow> hex_value (hex_digit n) = Some n"
  by (auto simp: hex_value_def hex_digit_def Let_def)

lemma unescape_control:
  assumes "(of_char c :: nat) < 32"
  shows "unescape (CHR ''u'' # CHR ''0'' # CHR ''0'' #
    hex_digit (of_char c div 16) # hex_digit (of_char c mod 16) # s) = Some ([c], s)"
proof -
  have "hex_value (CHR ''0'') = Some 0" by code_simp
  then have "hex4 (CHR ''0'') (CHR ''0'') (hex_digit (of_char c div 16)) (hex_digit (of_char c mod 16))
      = Some (of_char c)"
    using assms by (simp add: hex4_def hex_value_digit)
  then show ?thesis using assms by (simp add: unescape_u_def utf8_def)
qed

lemma parse_chars_unescape:
  "unescape cs = Some (x, r) \<Longrightarrow>
    parse_chars (bslash # cs) = map_option (apfst ((@) x)) (parse_chars r)"
  by (simp del: unescape.simps)

lemma append_single: "(@) [c] = (#) c"
  by (rule ext) simp

lemma parse_chars_escape:
  "parse_chars (escape_char c @ s) = map_option (apfst ((#) c)) (parse_chars s)"
proof -
  consider (quoted) "c = dquote \<or> c = bslash"
    | (control) "c \<noteq> dquote" "c \<noteq> bslash" "(of_char c :: nat) < 32"
    | (plain) "c \<noteq> dquote" "c \<noteq> bslash" "\<not> (of_char c :: nat) < 32"
    by blast
  then show ?thesis
  proof cases
    case quoted
    then have "escape_char c @ s = bslash # c # s" "unescape (c # s) = Some ([c], s)"
      by (auto simp: escape_char_def simple_escape_def)
    then show ?thesis
      using parse_chars_unescape [of "c # s" "[c]" s] by (simp only: append_single)
  next
    case control
    let ?cs = "CHR ''u'' # CHR ''0'' # CHR ''0'' #
        hex_digit (of_char c div 16) # hex_digit (of_char c mod 16) # s"
    have "escape_char c @ s = bslash # ?cs"
      using control by (simp add: escape_char_def Let_def)
    then show ?thesis
      using parse_chars_unescape [OF unescape_control [OF control(3)]] by (simp only: append_single)
  next
    case plain
    then have "escape_char c @ s = c # s" by (simp add: escape_char_def)
    then show ?thesis using plain by simp
  qed
qed

lemma parse_chars_json_string:
  "parse_chars (concat (map escape_char s) @ dquote # r) = Some (s, r)"
  by (induction s) (simp_all add: parse_chars_escape)

lemma valid_number_head:
  assumes "valid_number n"
  obtains c cs where "n = c # cs" "c = CHR ''-'' \<or> is_digit c"
  using assms by (cases n) (auto simp: valid_number_def is_digit_def Let_def split: if_splits list.splits)

lemma parse_number_print:
  assumes "valid_number n" "list_all number_char n" "r = [] \<or> \<not> number_char (hd r)"
  shows "parse_number (n @ r) = Some (JNum n, r)"
proof -
  have "takeWhile number_char (n @ r) = n" "dropWhile number_char (n @ r) = r"
    using assms by (cases r; simp add: list_all_iff)+
  with assms show ?thesis by (simp add: parse_number_def)
qed

lemma parse_value_number:
  assumes "valid_number n" "list_all number_char n" "r = [] \<or> \<not> number_char (hd r)"
  shows "parse_value (Suc k) (n @ r) = Some (JNum n, r)"
proof -
  obtain c cs where n: "n = c # cs" "c = CHR ''-'' \<or> is_digit c"
    using assms(1) by (rule valid_number_head)
  then have "\<not> json_space c" "c \<noteq> CHR ''{''" "c \<noteq> CHR ''[''" "c \<noteq> dquote" "c \<noteq> CHR ''n''"
    "c \<noteq> CHR ''t''" "c \<noteq> CHR ''f''"
    by (auto simp: json_space_def is_digit_def)
  then show ?thesis using parse_number_print [OF assms] n by simp
qed

lemma parse_value_string: "parse_value (Suc k) (json_string s @ r) = Some (JStr s, r)"
proof -
  have "skip_ws (json_string s @ r) = dquote # concat (map escape_char s) @ dquote # r"
    by (simp add: json_string_def)
  then show ?thesis by (simp add: parse_chars_json_string)
qed

lemma parse_value_arr:
  "t = d # ds \<Longrightarrow> \<not> json_space d \<Longrightarrow> d \<noteq> CHR '']'' \<Longrightarrow> parse_elems k t = Some (vs, r) \<Longrightarrow>
    parse_value (Suc k) (CHR ''['' # t) = Some (JArr vs, r)"
  by simp

lemma parse_value_obj:
  "t = d # ds \<Longrightarrow> \<not> json_space d \<Longrightarrow> d \<noteq> CHR ''}'' \<Longrightarrow> parse_members k t = Some (ms, r) \<Longrightarrow>
    parse_value (Suc k) (CHR ''{'' # t) = Some (JObj ms, r)"
  by simp

lemma print_head:
  assumes "json_wf v"
  shows "\<exists>c cs. json_print v = c # cs \<and> \<not> json_space c \<and> c \<noteq> CHR '']''"
proof (cases v)
  case (JNum n)
  with assms have "valid_number n" by simp
  then obtain c cs where "n = c # cs" "c = CHR ''-'' \<or> is_digit c" by (rule valid_number_head)
  moreover from this have "c \<noteq> CHR '']''" "\<not> json_space c"
    by (auto simp: json_space_def is_digit_def)
  ultimately show ?thesis using JNum by simp
qed (simp_all add: json_string_def)

lemma parse_print_arr:
  assumes wf: "\<forall>v \<in> set vs. json_wf v"
    and elems: "vs \<noteq> [] \<Longrightarrow> parse_elems k (print_elems vs @ r) = Some (vs, r)"
  shows "parse_value (Suc k) (json_print (JArr vs) @ r) = Some (JArr vs, r)"
proof (cases vs)
  case (Cons w ws)
  with wf have "json_wf w" by simp
  then obtain c cs where c: "json_print w = c # cs" "\<not> json_space c" "c \<noteq> CHR '']''"
    using print_head by blast
  then obtain ds where ds: "print_elems vs @ r = c # ds" using Cons by auto
  from parse_value_arr [OF ds c(2,3)] elems show ?thesis using Cons by simp
qed simp

lemma parse_print_obj:
  assumes "ms \<noteq> [] \<Longrightarrow> parse_members k (print_members ms @ r) = Some (ms, r)"
  shows "parse_value (Suc k) (json_print (JObj ms) @ r) = Some (JObj ms, r)"
proof (cases ms)
  case (Cons w ws)
  then obtain ds where ds: "print_members ms @ r = dquote # ds"
    by (auto simp: json_string_def)
  from parse_value_obj [OF ds] assms show ?thesis using Cons by simp
qed simp

lemma parse_print_elems:
  assumes "\<And>c t. \<not> number_char c \<Longrightarrow> parse_value k (json_print v @ c # t) = Some (v, c # t)"
    and "vs \<noteq> [] \<Longrightarrow> parse_elems k (print_elems vs @ r) = Some (vs, r)"
  shows "parse_elems (Suc k) (print_elems (v # vs) @ r) = Some (v # vs, r)"
  using assms by (cases "vs = []") simp_all

lemma parse_print_members:
  assumes "\<And>c t. \<not> number_char c \<Longrightarrow>
      parse_value k (json_print (snd m) @ c # t) = Some (snd m, c # t)"
    and "ms \<noteq> [] \<Longrightarrow> parse_members k (print_members ms @ r) = Some (ms, r)"
  shows "parse_members (Suc k) (print_members (m # ms) @ r) = Some (m # ms, r)"
  using assms by (cases "ms = []") (simp_all add: json_string_def parse_chars_json_string)

lemma parse_print:
  "json_wf v \<Longrightarrow> fuel_of v \<le> n \<Longrightarrow> r = [] \<or> \<not> number_char (hd r) \<Longrightarrow>
    parse_value n (json_print v @ r) = Some (v, r)"
  "(\<forall>v \<in> set vs. json_wf v) \<Longrightarrow> vs \<noteq> [] \<Longrightarrow> fuel_elems vs \<le> n \<Longrightarrow>
    parse_elems n (print_elems vs @ r) = Some (vs, r)"
  "(\<forall>m \<in> set ms. json_wf (snd m)) \<Longrightarrow> ms \<noteq> [] \<Longrightarrow> fuel_members ms \<le> n \<Longrightarrow>
    parse_members n (print_members ms @ r) = Some (ms, r)"
proof (induction v and vs and ms arbitrary: n r and n r and n r
    rule: json_print_print_elems_print_members.induct)
  case (3 s)
  then show ?case by (cases n) (simp_all add: parse_value_number del: parse_value.simps(2))
next
  case (4 s)
  then show ?case by (cases n) (simp_all add: parse_value_string del: parse_value.simps(2))
next
  case (5 vs)
  obtain k where n: "n = Suc k" "fuel_elems vs \<le> k" using "5.prems" by (cases n) auto
  show ?case
    unfolding n(1) by (rule parse_print_arr) (use "5.IH" "5.prems" n(2) in auto)
next
  case (6 ms)
  obtain k where n: "n = Suc k" "fuel_members ms \<le> k" using "6.prems" by (cases n) auto
  show ?case
    unfolding n(1) by (rule parse_print_obj) (use "6.IH" "6.prems" n(2) in auto)
next
  case (8 v vs)
  obtain k where n: "n = Suc k" "fuel_of v \<le> k" "fuel_elems vs \<le> k"
    using "8.prems" by (cases n) auto
  show ?case
    unfolding n(1) by (rule parse_print_elems) (use "8.IH" "8.prems" n(2,3) in auto)
next
  case (10 m ms)
  obtain k where n: "n = Suc k" "fuel_of (snd m) \<le> k" "fuel_members ms \<le> k"
    using "10.prems" by (cases n) auto
  show ?case
    unfolding n(1) by (rule parse_print_members) (use "10.IH" "10.prems" n(2,3) in auto)
next
  case (1 n)
  then show ?case by (cases n) simp_all
next
  case (2 b n)
  then show ?case by (cases n; cases b) simp_all
qed simp_all

lemma fuel_le_length:
  "json_wf v \<Longrightarrow> fuel_of v \<le> length (json_print v)"
  "(\<forall>v \<in> set vs. json_wf v) \<Longrightarrow> fuel_elems vs \<le> length (print_elems vs)"
  "(\<forall>m \<in> set ms. json_wf (snd m)) \<Longrightarrow> fuel_members ms \<le> length (print_members ms)"
proof (induction v and vs and ms rule: json_print_print_elems_print_members.induct)
  case (3 n)
  then show ?case by (cases n) (auto simp: valid_number_def)
next
  case (5 vs)
  then show ?case by (cases vs) simp_all
next
  case (6 ms)
  then show ?case by (cases ms) simp_all
next
  case (8 v vs)
  then show ?case by (cases vs) simp_all
next
  case (10 m ms)
  then show ?case by (cases ms) simp_all
qed (simp_all add: json_string_def)

text \<open>Printing a value and parsing the text gives the value back.\<close>

lemma json_parse_print: "json_wf v \<Longrightarrow> json_parse (json_print v) = Some v"
proof -
  assume wf: "json_wf v"
  then have "fuel_of v \<le> 2 * length (json_print v) + 2" using fuel_le_length(1) [of v] by simp
  then have "parse_value (2 * length (json_print v) + 2) (json_print v @ []) = Some (v, [])"
    using wf by (intro parse_print(1)) auto
  then show ?thesis by (simp add: json_parse_def)
qed

lemma parse_value_enough:
  "2 * length s < n \<Longrightarrow> parse_value n s = parse_value (2 * length s + 2) s"
  by (rule parse_enough(1)) auto

lemma field_vals_Nil [simp]: "field_vals k [] = []"
  by (simp add: field_vals_def)

lemma field_vals_Cons [simp]:
  "field_vals k ((k', v) # ms) = (if EqualFold k' k then v # field_vals k ms else field_vals k ms)"
  by (simp add: field_vals_def)

end
