(* ===== verification/LvmDecode.thy ===== *)
theory LvmDecode
  imports Json LvmTypes
begin

text \<open>
  Decoding of the reports of \<open>lvm\<close>: the \<open>UnmarshalJSON\<close> methods of \<open>internal/pkg/lvm/types.go\<close> and
  the structs \<open>PhysicalVolume\<close>, \<open>VolumeGroup\<close> and \<open>LogicalVolume\<close> with the JSON names of their
  fields. A row is decoded if the value of every field it has is; a field it does not have keeps its
  zero value.
\<close>

section \<open>Field types\<close>

text \<open>The value that \<open>json.Unmarshal\<close> gives a string variable that is empty before.\<close>

definition BoolString_Unmarshal :: "json \<Rightarrow> bool option" where
  "BoolString_Unmarshal v = map_option (\<lambda>s. s = ''1'') (decode_string [] v)"

definition IntString_Unmarshal :: "json \<Rightarrow> int option" where
  "IntString_Unmarshal v =
     (case decode_string [] v of
        None \<Rightarrow> None
      | Some s \<Rightarrow> if s = [] then Some 0 else ParseInt s)"

definition Int64String_Unmarshal :: "json \<Rightarrow> int option" where
  "Int64String_Unmarshal v =
     (case decode_string [] v of
        None \<Rightarrow> None
      | Some s \<Rightarrow> ParseInt (TrimSuffix s ''B''))"

definition boolstring_field :: "string \<Rightarrow> (string \<times> json) list \<Rightarrow> bool option" where
  "boolstring_field k ms = decode_all (\<lambda>_. BoolString_Unmarshal) False (field_vals k ms)"

definition intstring_field :: "string \<Rightarrow> (string \<times> json) list \<Rightarrow> int option" where
  "intstring_field k ms = decode_all (\<lambda>_. IntString_Unmarshal) 0 (field_vals k ms)"

definition int64string_field :: "string \<Rightarrow> (string \<times> json) list \<Rightarrow> int option" where
  "int64string_field k ms = decode_all (\<lambda>_. Int64String_Unmarshal) 0 (field_vals k ms)"

datatype field_kind = KString | KBoolString | KIntString | KInt64String

fun field_ok :: "(string \<times> json) list \<Rightarrow> string \<times> field_kind \<Rightarrow> bool" where
  "field_ok ms (k, KString) = (string_field k ms \<noteq> None)"
| "field_ok ms (k, KBoolString) = (boolstring_field k ms \<noteq> None)"
| "field_ok ms (k, KIntString) = (intstring_field k ms \<noteq> None)"
| "field_ok ms (k, KInt64String) = (int64string_field k ms \<noteq> None)"

text \<open>The value of a field of a row that is decoded.\<close>

definition row_string :: "(string \<times> json) list \<Rightarrow> string \<Rightarrow> string" where
  "row_string ms k = (case string_field k ms of Some v \<Rightarrow> v | None \<Rightarrow> [])"

definition row_bool :: "(string \<times> json) list \<Rightarrow> string \<Rightarrow> bool" where
  "row_bool ms k = (case boolstring_field k ms of Some v \<Rightarrow> v | None \<Rightarrow> False)"

definition row_int :: "(string \<times> json) list \<Rightarrow> string \<Rightarrow> int" where
  "row_int ms k = (case intstring_field k ms of Some v \<Rightarrow> v | None \<Rightarrow> 0)"

definition row_int64 :: "(string \<times> json) list \<Rightarrow> string \<Rightarrow> int" where
  "row_int64 ms k = (case int64string_field k ms of Some v \<Rightarrow> v | None \<Rightarrow> 0)"

section \<open>Structs\<close>

definition PV_fields :: "(string \<times> field_kind) list" where
  "PV_fields =
     [(''pv_fmt'', KString), (''pv_uuid'', KString), (''dev_size'', KString),
      (''pv_name'', KString), (''pv_major'', KIntString), (''pv_minor'', KIntString),
      (''pv_mda_free'', KString), (''pv_mda_size'', KString), (''pv_ext_vsn'', KIntString),
      (''pe_start'', KString), (''pv_size'', KString), (''pv_free'', KString),
      (''pv_used'', KString), (''pv_attr'', KString), (''pv_allocatable'', KBoolString),
      (''pv_exported'', KBoolString), (''pv_missing'', KBoolString),
      (''pv_pe_count'', KIntString), (''pv_pe_alloc_count'', KIntString), (''pv_tags'', KString),
      (''pv_mda_count'', KIntString), (''pv_mda_used_count'', KIntString),
      (''pv_ba_start'', KString), (''pv_ba_size'', KString), (''pv_in_use'', KBoolString),
      (''pv_duplicate'', KBoolString), (''pv_device_id'', KString),
      (''pv_device_id_type'', KString), (''vg_name'', KString)]"

definition decode_PhysicalVolume :: "(string \<times> json) list \<Rightarrow> PhysicalVolume option" where
  "decode_PhysicalVolume ms =
     (if list_all (field_ok ms) PV_fields
      then Some \<lparr>PV_Format = row_string ms ''pv_fmt'', PV_UUID = row_string ms ''pv_uuid'',
        PV_DeviceSize = row_string ms ''dev_size'', PV_Name = row_string ms ''pv_name'',
        PV_Major = row_int ms ''pv_major'', PV_Minor = row_int ms ''pv_minor'',
        PV_MetadataFree = row_string ms ''pv_mda_free'',
        PV_MetadataSize = row_string ms ''pv_mda_size'',
        PV_HeaderExtensionVersion = row_int ms ''pv_ext_vsn'',
        PV_ExtentStart = row_string ms ''pe_start'', PV_Size = row_string ms ''pv_size'',
        PV_FreeSpace = row_string ms ''pv_free'', PV_UsedSpace = row_string ms ''pv_used'',
        PV_Attributes = row_string ms ''pv_attr'', PV_Allocatable = row_bool ms ''pv_allocatable'',
        PV_Exported = row_bool ms ''pv_exported'', PV_Missing = row_bool ms ''pv_missing'',
        PV_ExtentCount = row_int ms ''pv_pe_count'',
        PV_ExtentAllocCount = row_int ms ''pv_pe_alloc_count'',
        PV_Tags = row_string ms ''pv_tags'', PV_MetadataCount = row_int ms ''pv_mda_count'',
        PV_MetadataUsedCount = row_int ms ''pv_mda_used_count'',
        PV_BootloaderAreaStart = row_string ms ''pv_ba_start'',
        PV_BootloaderAreaSize = row_string ms ''pv_ba_size'', PV_InUse = row_bool ms ''pv_in_use'',
        PV_Duplicate = row_bool ms ''pv_duplicate'', PV_DeviceID = row_string ms ''pv_device_id'',
        PV_DeviceIDType = row_string ms ''pv_device_id_type'',
        PV_VGName = row_string ms ''vg_name''\<rparr>
      else None)"

definition VG_fields :: "(string \<times> field_kind) list" where
  "VG_fields =
     [(''vg_fmt'', KString), (''vg_uuid'', KString), (''vg_name'', KString),
      (''vg_attr'', KString), (''vg_permissions'', KString), (''vg_extendable'', KBoolString),
      (''vg_exported'', KBoolString), (''vg_autoactivation'', KBoolString),
      (''vg_partial'', KBoolString), (''vg_allocation_policy'', KString),
      (''vg_clustered'', KBoolString), (''vg_shared'', KBoolString), (''vg_size'', KInt64String),
      (''vg_free'', KInt64String), (''vg_systemid'', KString), (''vg_lock_type'', KString),
      (''vg_lock_args'', KString), (''vg_extent_size'', KInt64String),
      (''vg_extent_count'', KIntString), (''vg_free_count'', KIntString),
      (''max_lv'', KIntString), (''max_pv'', KIntString), (''pv_count'', KIntString),
      (''vg_missing_pv_count'', KIntString), (''lv_count'', KIntString),
      (''snap_count'', KIntString), (''vg_seqno'', KIntString), (''vg_tags'', KString),
      (''vg_profile'', KString), (''vg_mda_count'', KIntString),
      (''vg_mda_used_count'', KIntString), (''vg_mda_free'', KString),
      (''vg_mda_size'', KString), (''vg_mda_copies'', KString)]"

definition decode_VolumeGroup :: "(string \<times> json) list \<Rightarrow> VolumeGroup option" where
  "decode_VolumeGroup ms =
     (if list_all (field_ok ms) VG_fields
      then Some \<lparr>VG_Format = row_string ms ''vg_fmt'', VG_UUID = row_string ms ''vg_uuid'',
        VG_Name = row_string ms ''vg_name'', VG_Attributes = row_string ms ''vg_attr'',
        VG_Permissions = row_string ms ''vg_permissions'',
        VG_Extendable = row_bool ms ''vg_extendable'', VG_Exported = row_bool ms ''vg_exported'',
        VG_AutoActivation = row_bool ms ''vg_autoactivation'',
        VG_Partial = row_bool ms ''vg_partial'',
        VG_AllocationPolicy = row_string ms ''vg_allocation_policy'',
        VG_Clustered = row_bool ms ''vg_clustered'', VG_Shared = row_bool ms ''vg_shared'',
        VG_Size = row_int64 ms ''vg_size'', VG_Free = row_int64 ms ''vg_free'',
        VG_SystemID = row_string ms ''vg_systemid'', VG_LockType = row_string ms ''vg_lock_type'',
        VG_LockArgs = row_string ms ''vg_lock_args'',
        VG_ExtentSize = row_int64 ms ''vg_extent_size'',
        VG_ExtentCount = row_int ms ''vg_extent_count'',
        VG_ExtentFreeCount = row_int ms ''vg_free_count'',
        VG_MaxLogicalVolumes = row_int ms ''max_lv'',
        VG_MaxPhysicalVolumes = row_int ms ''max_pv'', VG_PVCount = row_int ms ''pv_count'',
        VG_MissingPVCount = row_int ms ''vg_missing_pv_count'',
        VG_LVCount = row_int ms ''lv_count'', VG_SnapshotCount = row_int ms ''snap_count'',
        VG_SeqNo = row_int ms ''vg_seqno'', VG_Tags = row_string ms ''vg_tags'',
        VG_Profile = row_string ms ''vg_profile'', VG_MetadataCount = row_int ms ''vg_mda_count'',
        VG_MetadataUsedCount = row_int ms ''vg_mda_used_count'',
        VG_MetadataFree = row_string ms ''vg_mda_free'',
        VG_MetadataSize = row_string ms ''vg_mda_size'',
        VG_MetadataCopies = row_string ms ''vg_mda_copies''\<rparr>
      else None)"

definition LV_fields :: "(string \<times> field_kind) list" where
  "LV_fields =
     [(''lv_uuid'', KString), (''lv_name'', KString), (''lv_full_name'', KString),
      (''lv_path'', KString), (''lv_dm_path'', KString), (''lv_parent'', KString),
      (''vg_name'', KString), (''lv_layout'', KString), (''lv_role'', KString),
      (''lv_initial_image_sync'', KBoolString), (''lv_image_synced'', KBoolString),
      (''lv_merging'', KBoolString), (''lv_converting'', KBoolString),
      (''lv_allocation_policy'', KString), (''lv_allocation_locked'', KBoolString),
      (''lv_fixed_minor'', KBoolString), (''lv_skip_activation'', KBoolString),
      (''lv_autoactivation'', KBoolString), (''lv_when_full'', KString),
      (''lv_active'', KString), (''lv_active_locally'', KBoolString),
      (''lv_active_remotely'', KBoolString), (''lv_active_exclusively'', KBoolString),
      (''lv_major'', KIntString), (''lv_minor'', KIntString), (''lv_read_ahead'', KString),
      (''lv_size'', KInt64String), (''lv_metadata_size'', KString), (''seg_count'', KIntString),
      (''origin'', KString), (''origin_uuid'', KString), (''origin_size'', KString),
      (''lv_ancestors'', KString), (''lv_full_ancestors'', KString),
      (''lv_descendants'', KString), (''lv_full_descendants'', KString),
      (''raid_mismatch_count'', KIntString), (''raid_sync_action'', KString),
      (''raid_write_behind'', KString), (''raid_min_recovery_rate'', KString),
      (''raid_max_recovery_rate'', KString), (''raidintegritymode'', KString),
      (''raidintegrityblocksize'', KString), (''integritymismatches'', KIntString),
      (''move_pv'', KString), (''move_pv_uuid'', KString), (''convert_lv'', KString),
      (''convert_lv_uuid'', KString), (''mirror_log'', KString), (''mirror_log_uuid'', KString),
      (''data_lv'', KString), (''data_lv_uuid'', KString), (''metadata_lv'', KString),
      (''metadata_lv_uuid'', KString), (''pool_lv'', KString), (''pool_lv_uuid'', KString),
      (''lv_tags'', KString), (''lv_profile'', KString), (''lv_lockargs'', KString),
      (''lv_time'', KString), (''lv_time_removed'', KString), (''lv_host'', KString),
      (''lv_modules'', KString), (''lv_historical'', KBoolString),
      (''writecache_block_size'', KString), (''lv_kernel_major'', KString),
      (''lv_kernel_minor'', KString), (''lv_kernel_read_ahead'', KString),
      (''lv_attr'', KString), (''lv_permissions'', KBoolString), (''lv_suspended'', KBoolString),
      (''lv_live_table'', KBoolString), (''lv_inactive_table'', KBoolString),
      (''lv_device_open'', KBoolString), (''data_percent'', KString),
      (''snap_percent'', KString), (''metadata_percent'', KString), (''copy_percent'', KString),
      (''sync_percent'', KString), (''cache_total_blocks'', KIntString),
      (''cache_used_blocks'', KIntString), (''cache_dirty_blocks'', KIntString),
      (''cache_read_hits'', KIntString), (''cache_read_misses'', KIntString),
      (''cache_write_hits'', KIntString), (''cache_write_misses'', KIntString),
      (''kernel_cache_settings'', KString), (''kernel_cache_policy'', KString),
      (''kernel_metadata_format'', KString), (''lv_health_status'', KString),
      (''kernel_discards'', KString), (''lv_check_needed'', KString),
      (''lv_merge_failed'', KBoolString), (''lv_snapshot_invalid'', KBoolString),
      (''vdo_operating_mode'', KString), (''vdo_compression_state'', KString),
      (''vdo_index_state'', KString), (''vdo_used_size'', KString),
      (''vdo_saving_percent'', KString), (''writecache_total_blocks'', KIntString),
      (''writecache_free_blocks'', KIntString), (''writecache_writeback_blocks'', KIntString),
      (''writecache_error'', KIntString), (''segtype'', KString), (''stripes'', KIntString),
      (''data_stripes'', KIntString), (''reshape_len'', KString), (''reshape_len_le'', KString),
      (''data_copies'', KIntString), (''data_offset'', KString), (''new_data_offset'', KString),
      (''parity_chunks'', KIntString), (''stripe_size'', KString), (''region_size'', KString),
      (''chunk_size'', KString), (''thin_count'', KIntString), (''discards'', KString),
      (''cache_metadata_format'', KString), (''cache_mode'', KString), (''zero'', KBoolString),
      (''transaction_id'', KString), (''thin_id'', KString), (''seg_start'', KString),
      (''seg_start_pe'', KString), (''seg_size'', KString), (''seg_size_pe'', KString),
      (''seg_tags'', KString), (''seg_le_ranges'', KString),
      (''seg_metadata_le_ranges'', KString), (''devices'', KString),
      (''metadata_devices'', KString), (''seg_monitor'', KString), (''cache_policy'', KString),
      (''cache_settings'', KString), (''vdo_compression'', KBoolString),
      (''vdo_deduplication'', KBoolString)]"

definition decode_LogicalVolume :: "(string \<times> json) list \<Rightarrow> LogicalVolume option" where
  "decode_LogicalVolume ms =
     (if list_all (field_ok ms) LV_fields
      then Some \<lparr>LV_UUID = row_string ms ''lv_uuid'', LV_Name = row_string ms ''lv_name'',
        LV_FullName = row_string ms ''lv_full_name'', LV_Path = row_string ms ''lv_path'',
        LV_DMPath = row_string ms ''lv_dm_path'', LV_Parent = row_string ms ''lv_parent'',
        LV_VGName = row_string ms ''vg_name'', LV_Layout = row_string ms ''lv_layout'',
        LV_Role = row_string ms ''lv_role'',
        LV_InitialImageSync = row_bool ms ''lv_initial_image_sync'',
        LV_ImageSynced = row_bool ms ''lv_image_synced'', LV_Merging = row_bool ms ''lv_merging'',
        LV_Converting = row_bool ms ''lv_converting'',
        LV_AllocationPolicy = row_string ms ''lv_allocation_policy'',
        LV_AllocationLocked = row_bool ms ''lv_allocation_locked'',
        LV_FixedMinor = row_bool ms ''lv_fixed_minor'',
        LV_SkipActivation = row_bool ms ''lv_skip_activation'',
        LV_AutoActivation = row_bool ms ''lv_autoactivation'',
        LV_WhenFull = row_string ms ''lv_when_full'', LV_Active = row_string ms ''lv_active'',
        LV_ActiveLocally = row_bool ms ''lv_active_locally'',
        LV_ActiveRemotely = row_bool ms ''lv_active_remotely'',
        LV_ActiveExclusively = row_bool ms ''lv_active_exclusively'',
        LV_Major = row_int ms ''lv_major'', LV_Minor = row_int ms ''lv_minor'',
        LV_ReadAhead = row_string ms ''lv_read_ahead'', LV_Size = row_int64 ms ''lv_size'',
        LV_MetadataSize = row_string ms ''lv_metadata_size'',
        LV_SegmentCount = row_int ms ''seg_count'', LV_Origin = row_string ms ''origin'',
        LV_OriginUUID = row_string ms ''origin_uuid'',
        LV_OriginSize = row_string ms ''origin_size'',
        LV_Ancestors = row_string ms ''lv_ancestors'',
        LV_FullAncestors = row_string ms ''lv_full_ancestors'',
        LV_Descendants = row_string ms ''lv_descendants'',
        LV_FullDescendants = row_string ms ''lv_full_descendants'',
        LV_RAIDMismatchCount = row_int ms ''raid_mismatch_count'',
        LV_RAIDSyncAction = row_string ms ''raid_sync_action'',
        LV_RAIDWriteBehind = row_string ms ''raid_write_behind'',
        LV_RAIDMinRecoveryRate = row_string ms ''raid_min_recovery_rate'',
        LV_RAIDMaxRecoveryRate = row_string ms ''raid_max_recovery_rate'',
        LV_RAIDIntegrityMode = row_string ms ''raidintegritymode'',
        LV_RAIDIntegrityBlockSize = row_string ms ''raidintegrityblocksize'',
        LV_RAIDIntegrityMismatches = row_int ms ''integritymismatches'',
        LV_MovePV = row_string ms ''move_pv'', LV_MovePVUUID = row_string ms ''move_pv_uuid'',
        LV_ConvertLV = row_string ms ''convert_lv'',
        LV_ConvertLVUUID = row_string ms ''convert_lv_uuid'',
        LV_MirrorLog = row_string ms ''mirror_log'',
        LV_MirrorLogUUID = row_string ms ''mirror_log_uuid'',
        LV_DataLV = row_string ms ''data_lv'', LV_DataLVUUID = row_string ms ''data_lv_uuid'',
        LV_MetadataLV = row_string ms ''metadata_lv'',
        LV_MetadataLVUUID = row_string ms ''metadata_lv_uuid'',
        LV_PoolLV = row_string ms ''pool_lv'', LV_PoolLVUUID = row_string ms ''pool_lv_uuid'',
        LV_Tags = row_string ms ''lv_tags'', LV_Profile = row_string ms ''lv_profile'',
        LV_LockArgs = row_string ms ''lv_lockargs'', LV_CreationTime = row_string ms ''lv_time'',
        LV_RemovalTime = row_string ms ''lv_time_removed'',
        LV_CreationHost = row_string ms ''lv_host'',
        LV_RequiredModules = row_string ms ''lv_modules'',
        LV_Historical = row_bool ms ''lv_historical'',
        LV_WriteCacheBlockSize = row_string ms ''writecache_block_size'',
        LV_KernelMajor = row_string ms ''lv_kernel_major'',
        LV_KernelMinor = row_string ms ''lv_kernel_minor'',
        LV_KernelReadAhead = row_string ms ''lv_kernel_read_ahead'',
        LV_Attributes = row_string ms ''lv_attr'', LV_Permissions = row_bool ms ''lv_permissions'',
        LV_Suspended = row_bool ms ''lv_suspended'', LV_LiveTable = row_bool ms ''lv_live_table'',
        LV_InactiveTable = row_bool ms ''lv_inactive_table'',
        LV_DeviceOpen = row_bool ms ''lv_device_open'',
        LV_DataPercent = row_string ms ''data_percent'',
        LV_SnapshotPercent = row_string ms ''snap_percent'',
        LV_MetadataPercent = row_string ms ''metadata_percent'',
        LV_CopyPercent = row_string ms ''copy_percent'',
        LV_SyncPercent = row_string ms ''sync_percent'',
        LV_CacheTotalBlocks = row_int ms ''cache_total_blocks'',
        LV_CacheUsedBlocks = row_int ms ''cache_used_blocks'',
        LV_CacheDirtyBlocks = row_int ms ''cache_dirty_blocks'',
        LV_CacheReadHits = row_int ms ''cache_read_hits'',
        LV_CacheReadMisses = row_int ms ''cache_read_misses'',
        LV_CacheWriteHits = row_int ms ''cache_write_hits'',
        LV_CacheWriteMisses = row_int ms ''cache_write_misses'',
        LV_KernelCacheSettings = row_string ms ''kernel_cache_settings'',
        LV_KernelCachePolicy = row_string ms ''kernel_cache_policy'',
        LV_KernelMetadataFormat = row_string ms ''kernel_metadata_format'',
        LV_HealthStatus = row_string ms ''lv_health_status'',
        LV_KernelDiscards = row_string ms ''kernel_discards'',
        LV_CheckNeeded = row_string ms ''lv_check_needed'',
        LV_MergeFailed = row_bool ms ''lv_merge_failed'',
        LV_SnapshotInvalid = row_bool ms ''lv_snapshot_invalid'',
        LV_VDOOperatingMode = row_string ms ''vdo_operating_mode'',
        LV_VDOCompressionState = row_string ms ''vdo_compression_state'',
        LV_VDOIndexState = row_string ms ''vdo_index_state'',
        LV_VDOUsedSize = row_string ms ''vdo_used_size'',
        LV_VDOSavingPercent = row_string ms ''vdo_saving_percent'',
        LV_WriteCacheTotalBlocks = row_int ms ''writecache_total_blocks'',
        LV_WriteCacheFreeBlocks = row_int ms ''writecache_free_blocks'',
        LV_WriteCacheWritebackBlocks = row_int ms ''writecache_writeback_blocks'',
        LV_WriteCacheErrors = row_int ms ''writecache_error'', LV_Type = row_string ms ''segtype'',
        LV_Stripes = row_int ms ''stripes'', LV_DataStripes = row_int ms ''data_stripes'',
        LV_ReshapeLength = row_string ms ''reshape_len'',
        LV_ReshapeLengthExtents = row_string ms ''reshape_len_le'',
        LV_DataCopies = row_int ms ''data_copies'', LV_DataOffset = row_string ms ''data_offset'',
        LV_NewDataOffset = row_string ms ''new_data_offset'',
        LV_ParityChunks = row_int ms ''parity_chunks'',
        LV_StripeSize = row_string ms ''stripe_size'',
        LV_RegionSize = row_string ms ''region_size'', LV_ChunkSize = row_string ms ''chunk_size'',
        LV_ThinCount = row_int ms ''thin_count'', LV_Discards = row_string ms ''discards'',
        LV_CacheMetadataFormat = row_string ms ''cache_metadata_format'',
        LV_CacheMode = row_string ms ''cache_mode'', LV_Zero = row_bool ms ''zero'',
        LV_TransactionID = row_string ms ''transaction_id'', LV_ThinID = row_string ms ''thin_id'',
        LV_SegmentStart = row_string ms ''seg_start'',
        LV_SegmentStartExtents = row_string ms ''seg_start_pe'',
        LV_SegmentSize = row_string ms ''seg_size'',
        LV_SegmentSizeExtents = row_string ms ''seg_size_pe'',
        LV_SegmentTags = row_string ms ''seg_tags'',
        LV_SegmentLogicalExtentRanges = row_string ms ''seg_le_ranges'',
        LV_SegmentMetadataLogicalExtentRanges = row_string ms ''seg_metadata_le_ranges'',
        LV_Devices = row_string ms ''devices'',
        LV_MetadataDevices = row_string ms ''metadata_devices'',
        LV_Monitor = row_string ms ''seg_monitor'',
        LV_CachePolicy = row_string ms ''cache_policy'',
        LV_CacheSettings = row_string ms ''cache_settings'',
        LV_VDOCompression = row_bool ms ''vdo_compression'',
        LV_VDODeduplication = row_bool ms ''vdo_deduplication''\<rparr>
      else None)"

section \<open>Reports\<close>

text \<open>The report of a command has the rows of one kind under a key; the driver uses the first
  report only.\<close>

definition decode_report :: "string \<Rightarrow> ((string \<times> json) list \<Rightarrow> 'a option) \<Rightarrow> json \<Rightarrow> 'a list option" where
  "decode_report k f v =
     map_option (\<lambda>reports. case reports of [] \<Rightarrow> [] | rows # _ \<Rightarrow> rows)
       (decode_struct
         (slice_field (decode_struct (slice_field (decode_struct f) k)) ''report'') v)"

definition parse_report :: "string \<Rightarrow> ((string \<times> json) list \<Rightarrow> 'a option) \<Rightarrow> string \<Rightarrow> 'a list option" where
  "parse_report k f out = Option.bind (json_parse out) (decode_report k f)"

section \<open>The text of a report\<close>

definition report_json :: "string \<Rightarrow> (string \<times> string) list list \<Rightarrow> json" where
  "report_json k rows =
     JObj [(''report'', JArr [JObj [(k, JArr (map (\<lambda>r. JObj (map (\<lambda>(f, v). (f, JStr v)) r)) rows))]])]"

lemma json_wf_report: "json_wf (report_json k rows)"
  by (auto simp: report_json_def)

text \<open>A report that is printed row by row is decoded row by row.\<close>

lemma parse_report_print:
  "parse_report k f (json_print (report_json k rows)) =
     those (map (\<lambda>r. f (map (\<lambda>(k, v). (k, JStr v)) r)) rows)"
proof -
  have *: "json_parse (json_print (report_json k rows)) = Some (report_json k rows)"
    by (rule json_parse_print [OF json_wf_report])
  show ?thesis
    unfolding parse_report_def * bind_simps
    by (simp add: decode_report_def report_json_def slice_field_def comp_def option.map_comp
        split: option.splits)
qed

end
