(* ===== verification/Block.thy ===== *)
theory Block
  imports Json "HOL-Library.Word"
begin

unbundle bit_operations_syntax

text \<open>
  Block devices: packages \<open>internal/pkg/block\<close> and \<open>internal/pkg/probe\<close>.

  The commands and system calls of the node are the parameter \<open>'s host\<close>: what \<open>k8s.io/utils/exec\<close>
  and \<open>os\<close> return when they are called in a state \<open>'s\<close> of the node. The text of a decoding error of
  \<open>encoding/json\<close> is a parameter too (\<open>h_JsonErr\<close>).
\<close>

section \<open>The node\<close>

text \<open>The error of a finished command: its exit status, if it ran at all, and the error value.\<close>

record exec_error =
  ex_ExitStatus :: "int option"
  ex_Err :: goerr

record 's host =
  h_LookPath :: "string \<Rightarrow> ('s, goerr, string) op"
  h_CombinedOutput :: "string \<Rightarrow> string list \<Rightarrow> 's \<Rightarrow> (string \<times> exec_error option) \<times> 's"
  h_Run :: "string \<Rightarrow> string list \<Rightarrow> 's \<Rightarrow> (string \<times> string \<times> exec_error option) \<times> 's"
  h_Stat :: "string \<Rightarrow> ('s, goerr, 32 word option) op"
  h_ReadDir :: "string \<Rightarrow> ('s, goerr, string list) op"
  h_Remove :: "string \<Rightarrow> ('s, goerr, unit) op"
  h_JsonErr :: "string \<Rightarrow> string"

section \<open>Block devices\<close>

record Device =
  dev_Name :: string
  dev_Path :: string
  dev_MajMin :: string
  dev_Removable :: bool
  dev_Type :: string
  dev_Mountpoint :: string
  dev_Mountpoints :: "string list"
  dev_Model :: string
  dev_Serial :: string
  dev_Size :: int

record DeviceList =
  dl_Devices :: "Device list"

record 's block_ops =
  blk_GetDevices :: "('s, goerr, DeviceList) op"
  blk_IsBlockDevice :: "string \<Rightarrow> ('s, goerr, bool) op"
  blk_IsFormatted :: "string \<Rightarrow> ('s, goerr, bool) op"
  blk_IsLVM2 :: "string \<Rightarrow> ('s, goerr, bool) op"

definition lsblkCommand :: string where "lsblkCommand = ''lsblk''"
definition blkidCmd :: string where "blkidCmd = ''blkid''"
definition Lvm2Type :: string where "Lvm2Type = ''LVM2_member''"

definition decode_Device :: "(string \<times> json) list \<Rightarrow> Device option" where
  "decode_Device ms =
     (case (string_field ''name'' ms, string_field ''path'' ms, string_field ''maj:min'' ms,
            bool_field ''rm'' ms, string_field ''type'' ms, string_field ''mountpoint'' ms,
            slice_field (decode_string []) ''mountpoints'' ms, string_field ''model'' ms,
            string_field ''serial'' ms, int64_field ''size'' ms) of
        (Some n, Some p, Some mm, Some rm, Some ty, Some mp, Some mps, Some mo, Some se, Some sz) \<Rightarrow>
          Some \<lparr>dev_Name = n, dev_Path = p, dev_MajMin = mm, dev_Removable = rm, dev_Type = ty,
                dev_Mountpoint = mp, dev_Mountpoints = mps, dev_Model = mo, dev_Serial = se,
                dev_Size = sz\<rparr>
      | _ \<Rightarrow> None)"

definition decode_DeviceList :: "json \<Rightarrow> DeviceList option" where
  "decode_DeviceList =
     decode_struct (\<lambda>ms. map_option (\<lambda>ds. \<lparr>dl_Devices = ds\<rparr>)
       (slice_field (decode_struct decode_Device) ''blockdevices'' ms))"

definition parseLsblkOutput :: "'s host \<Rightarrow> string \<Rightarrow> goerr + DeviceList" where
  "parseLsblkOutput h output =
     (case Option.bind (json_parse output) decode_DeviceList of
        None \<Rightarrow> Inl (errors_New (''failed to parse lsblk output: '' @ h_JsonErr h output))
      | Some dl \<Rightarrow> Inr dl)"

definition GetDevices :: "'s host \<Rightarrow> ('s, goerr, DeviceList) op" where
  "GetDevices h =
     call (h_LookPath h lsblkCommand)
       (\<lambda>err. fail (errorf (''unable to find '' @ lsblkCommand @ '' in PATH: '' @ err_msg err) [err]))
       (\<lambda>_ s. case h_CombinedOutput h lsblkCommand [''--bytes'', ''--json'', ''--output-all''] s of
          ((output, Some err), s') \<Rightarrow>
            fail (errorf (''command failed: '' @ err_msg (ex_Err err) @ '', output: '' @ output)
              [ex_Err err]) s'
        | ((output, None), s') \<Rightarrow> (parseLsblkOutput h output, s'))"

text \<open>\<open>(stat.Mode & syscall.S_IFMT) == syscall.S_IFBLK\<close>\<close>

definition mode_is_block :: "32 word \<Rightarrow> bool" where
  "mode_is_block mode \<longleftrightarrow> mode AND 0xF000 = 0x6000"

definition IsBlockDevice :: "'s host \<Rightarrow> string \<Rightarrow> ('s, goerr, bool) op" where
  "IsBlockDevice h path =
     call (h_Stat h path)
       (\<lambda>err. fail (errorf (''failed to stat path '' @ path @ '': '' @ err_msg err) [err]))
       (\<lambda>st. case st of
          None \<Rightarrow> fail (errors_New (''failed to get raw syscall.Stat_t data for '' @ path))
        | Some mode \<Rightarrow> ok (mode_is_block mode))"

text \<open>The leftmost match of the expression \<open>\bTYPE="([^"]+)"\<close>. The flag says whether the text
  before is at a word boundary for the letter \<open>T\<close>.\<close>

definition word_char :: "char \<Rightarrow> bool" where
  "word_char c =
     (let n = (of_char c :: nat) in
      48 \<le> n \<and> n \<le> 57 \<or> 65 \<le> n \<and> n \<le> 90 \<or> 97 \<le> n \<and> n \<le> 122 \<or> n = 95)"

definition type_key :: string where
  "type_key = ''TYPE='' @ [dquote]"

fun find_type :: "bool \<Rightarrow> string \<Rightarrow> string option" where
  "find_type b [] = None"
| "find_type b (c # cs) =
     (let v = takeWhile (\<lambda>x. x \<noteq> dquote) (drop 6 (c # cs));
          r = dropWhile (\<lambda>x. x \<noteq> dquote) (drop 6 (c # cs)) in
      if b \<and> HasPrefix (c # cs) type_key \<and> v \<noteq> [] \<and> r \<noteq> [] then Some v
      else find_type (\<not> word_char c) cs)"

definition parseFsTypeFromBlkid :: "string \<Rightarrow> string" where
  "parseFsTypeFromBlkid out = (case find_type True out of Some v \<Rightarrow> v | None \<Rightarrow> [])"

definition blkid :: "'s host \<Rightarrow> string \<Rightarrow> ('s, goerr, string \<times> bool) op" where
  "blkid h blockDev =
     call (IsBlockDevice h blockDev) fail
       (\<lambda>devPresent.
          if \<not> devPresent then fail (errors_New (''device '' @ blockDev @ '' not present''))
          else (\<lambda>s. case h_CombinedOutput h blkidCmd [''-p'', blockDev] s of
            ((out, None), s') \<Rightarrow> ok (parseFsTypeFromBlkid out, True) s'
          | ((out, Some err), s') \<Rightarrow>
              if ex_ExitStatus err = Some 2 then ok ([], False) s'
              else fail (errorf (''could not determine if device '' @ blockDev @
                '' is formatted: '' @ err_msg (ex_Err err)) [ex_Err err]) s'))"

definition IsFormatted :: "'s host \<Rightarrow> string \<Rightarrow> ('s, goerr, bool) op" where
  "IsFormatted h blockDev = call (blkid h blockDev) fail (\<lambda>(_, isFormatted). ok isFormatted)"

definition IsLVM2 :: "'s host \<Rightarrow> string \<Rightarrow> ('s, goerr, bool) op" where
  "IsLVM2 h blockDev =
     call (blkid h blockDev) fail
       (\<lambda>(fsType, isFormatted). if \<not> isFormatted then ok False else ok (fsType = Lvm2Type))"

definition block_New :: "'s host \<Rightarrow> 's block_ops" where
  "block_New h =
     \<lparr>blk_GetDevices = GetDevices h, blk_IsBlockDevice = IsBlockDevice h,
      blk_IsFormatted = IsFormatted h, blk_IsLVM2 = IsLVM2 h\<rparr>"

section \<open>Disk filters\<close>

datatype filter_predicate =
    PathFilter string
  | TypeFilter string
  | ModelFilter "string list"
  | AnyFilter "filter_predicate list"
  | FilterAll "filter_predicate list"

fun Match :: "filter_predicate \<Rightarrow> Device \<Rightarrow> bool" where
  "Match (PathFilter p) d = HasPrefix (dev_Path d) p"
| "Match (TypeFilter t) d = EqualFold (dev_Type d) t"
| "Match (ModelFilter ms) d = (ToLower (TrimSpace (dev_Model d)) \<in> set ms)"
| "Match (AnyFilter fs) d = list_ex (\<lambda>f. Match f d) fs"
| "Match (FilterAll fs) d = list_all (\<lambda>f. Match f d) fs"

definition NewModelFilter :: "string list \<Rightarrow> filter_predicate" where
  "NewModelFilter models = ModelFilter (map (\<lambda>m. ToLower (TrimSpace m)) models)"

definition DefaultDiskPathPrefixes :: "string list" where
  "DefaultDiskPathPrefixes = [''/dev/nvme'']"

definition DefaultDiskModels :: "string list" where
  "DefaultDiskModels =
     [''Microsoft NVMe Direct Disk'', ''Microsoft NVMe Direct Disk v2'',
      ''Amazon EC2 NVMe Instance Storage'']"

definition DefaultDiskTypes :: "string list" where
  "DefaultDiskTypes = [''disk'']"

text \<open>The two nested loops of \<open>appendUnique\<close>; the map \<open>seen\<close> holds the entries of \<open>out\<close>.\<close>

fun add_unique :: "string list \<Rightarrow> string list \<Rightarrow> string list" where
  "add_unique out [] = out"
| "add_unique out (s # ss) =
     (let s' = TrimSpace s in
      if s' = [] \<or> s' \<in> set out then add_unique out ss else add_unique (out @ [s']) ss)"

definition appendUnique :: "string list \<Rightarrow> string list \<Rightarrow> string list" where
  "appendUnique base addon = foldl add_unique [] [base, addon]"

definition NewEphemeralDiskFilter ::
  "string list \<Rightarrow> string list \<Rightarrow> string list \<Rightarrow> filter_predicate" where
  "NewEphemeralDiskFilter addonPathPrefixes addonModels addonTypes =
     (let pathPrefixes = appendUnique DefaultDiskPathPrefixes addonPathPrefixes;
          models = appendUnique DefaultDiskModels addonModels;
          types = appendUnique DefaultDiskTypes addonTypes in
      FilterAll [AnyFilter (map PathFilter pathPrefixes), NewModelFilter models,
        AnyFilter (map TypeFilter types)])"

section \<open>Scanning for available devices\<close>

fun scan_devices ::
  "'s block_ops \<Rightarrow> filter_predicate \<Rightarrow> Device list \<Rightarrow> Device list \<Rightarrow> ('s, goerr, Device list) op" where
  "scan_devices b f [] acc = ok acc"
| "scan_devices b f (d # ds) acc =
     (if \<not> Match f d then scan_devices b f ds acc
      else
        call (blk_IsFormatted b (dev_Path d))
          (\<lambda>err. fail (errorf (''failed to check if device is unformatted: '' @ err_msg err) [err]))
          (\<lambda>isFormatted.
             if \<not> isFormatted then scan_devices b f ds (acc @ [d])
             else
               call (blk_IsLVM2 b (dev_Path d))
                 (\<lambda>err. fail (errorf (''failed to check if device is LVM2: '' @ err_msg err) [err]))
                 (\<lambda>isLVM2. if isLVM2 then scan_devices b f ds (acc @ [d])
                           else scan_devices b f ds acc)))"

definition ScanAvailableDevices ::
  "'s block_ops \<Rightarrow> filter_predicate \<Rightarrow> ('s, goerr, DeviceList) op" where
  "ScanAvailableDevices b f =
     call (blk_GetDevices b)
       (\<lambda>err. fail (errorf (''failed to get devices: '' @ err_msg err) [err]))
       (\<lambda>devices.
          call (scan_devices b f (dl_Devices devices) []) fail
            (\<lambda>availableDevices.
               if availableDevices = [] then fail (sentinel_err ErrNoDevicesFound)
               else ok \<lparr>dl_Devices = availableDevices\<rparr>))"

section \<open>Filters\<close>

lemma set_add_unique:
  "set (add_unique out ss) = set out \<union> {TrimSpace s |s. s \<in> set ss \<and> TrimSpace s \<noteq> []}"
  by (induction out ss rule: add_unique.induct) (auto simp: Let_def)

lemma distinct_add_unique: "distinct out \<Longrightarrow> distinct (add_unique out ss)"
  by (induction out ss rule: add_unique.induct) (auto simp: Let_def)

lemma set_appendUnique:
  "set (appendUnique base addon) = {TrimSpace s |s. s \<in> set (base @ addon) \<and> TrimSpace s \<noteq> []}"
  by (auto simp: appendUnique_def set_add_unique)

lemma Match_path_any:
  "list_ex (\<lambda>f. Match f d) (map PathFilter ps) \<longleftrightarrow> (\<exists>p \<in> set ps. HasPrefix (dev_Path d) p)"
  by (auto simp: list_ex_iff)

lemma Match_type_any:
  "list_ex (\<lambda>f. Match f d) (map TypeFilter ts) \<longleftrightarrow> (\<exists>t \<in> set ts. EqualFold (dev_Type d) t)"
  by (auto simp: list_ex_iff)

text \<open>C37. The disk filter selects a device exactly if its path starts with one of the configured
  prefixes, its model is one of the configured models up to case and surrounding white space, and
  its type is one of the configured types up to case. Configured are the defaults and the additional
  entries, trimmed; entries that are blank select nothing, so an empty additional prefix never
  makes the filter accept every path.\<close>

theorem disk_filter_accepts:
  "Match (NewEphemeralDiskFilter ps ms ts) d \<longleftrightarrow>
     (\<exists>p \<in> set (DefaultDiskPathPrefixes @ ps). TrimSpace p \<noteq> [] \<and> HasPrefix (dev_Path d) (TrimSpace p)) \<and>
     (\<exists>m \<in> set (DefaultDiskModels @ ms). TrimSpace m \<noteq> [] \<and>
        EqualFold (TrimSpace (dev_Model d)) (TrimSpace m)) \<and>
     (\<exists>t \<in> set (DefaultDiskTypes @ ts). TrimSpace t \<noteq> [] \<and> EqualFold (dev_Type d) (TrimSpace t))"
proof -
  have m: "ToLower (TrimSpace (dev_Model d)) \<in> (\<lambda>m. ToLower (TrimSpace m)) ` set (appendUnique DefaultDiskModels ms)
    \<longleftrightarrow> (\<exists>m \<in> set (DefaultDiskModels @ ms). TrimSpace m \<noteq> [] \<and>
        EqualFold (TrimSpace (dev_Model d)) (TrimSpace m))"
    unfolding set_appendUnique EqualFold_def by (auto simp: image_iff)
  have p: "(\<exists>p \<in> set (appendUnique DefaultDiskPathPrefixes ps). HasPrefix (dev_Path d) p) \<longleftrightarrow>
      (\<exists>p \<in> set (DefaultDiskPathPrefixes @ ps). TrimSpace p \<noteq> [] \<and> HasPrefix (dev_Path d) (TrimSpace p))"
    unfolding set_appendUnique by blast
  have t: "(\<exists>t \<in> set (appendUnique DefaultDiskTypes ts). EqualFold (dev_Type d) t) \<longleftrightarrow>
      (\<exists>t \<in> set (DefaultDiskTypes @ ts). TrimSpace t \<noteq> [] \<and> EqualFold (dev_Type d) (TrimSpace t))"
    unfolding set_appendUnique by blast
  show ?thesis
    unfolding NewEphemeralDiskFilter_def Let_def NewModelFilter_def
    by (simp only: Match.simps list.pred_inject Match_path_any Match_type_any set_map m p t simp_thms)
qed

section \<open>Scanning\<close>

lemma scan_devices_exact:
  assumes "\<And>d. d \<in> set ds \<Longrightarrow> Match f d \<Longrightarrow> blk_IsFormatted b (dev_Path d) s = (Inr (fmt d), s)"
    and "\<And>d. d \<in> set ds \<Longrightarrow> Match f d \<Longrightarrow> fmt d \<Longrightarrow> blk_IsLVM2 b (dev_Path d) s = (Inr (pv d), s)"
  shows "scan_devices b f ds acc s =
    (Inr (acc @ filter (\<lambda>d. Match f d \<and> (fmt d \<longrightarrow> pv d)) ds), s)"
  using assms by (induction ds arbitrary: acc) auto

text \<open>C30. On a node where asking about a device changes nothing, the scan returns exactly the
  devices that pass the filter and are either unformatted or LVM physical volumes, in the order of
  \<open>lsblk\<close>; a device that holds a filesystem is never offered to the volume manager. If there is none
  the result is \<open>ErrNoDevicesFound\<close>, never an empty list.\<close>

theorem scan_exact:
  assumes "blk_GetDevices b s = (Inr devs, s)"
    and "\<And>d. d \<in> set (dl_Devices devs) \<Longrightarrow> Match f d \<Longrightarrow>
      blk_IsFormatted b (dev_Path d) s = (Inr (fmt d), s)"
    and "\<And>d. d \<in> set (dl_Devices devs) \<Longrightarrow> Match f d \<Longrightarrow> fmt d \<Longrightarrow>
      blk_IsLVM2 b (dev_Path d) s = (Inr (pv d), s)"
  shows "ScanAvailableDevices b f s =
    (let found = filter (\<lambda>d. Match f d \<and> (fmt d \<longrightarrow> pv d)) (dl_Devices devs) in
     (if found = [] then Inl (sentinel_err ErrNoDevicesFound) else Inr \<lparr>dl_Devices = found\<rparr>, s))"
  using scan_devices_exact [OF assms(2,3)] assms(1) by (simp add: ScanAvailableDevices_def Let_def)

definition nvme_disk :: Device where
  "nvme_disk = \<lparr>dev_Name = ''nvme0n1'', dev_Path = ''/dev/nvme0n1'', dev_MajMin = ''259:0'',
     dev_Removable = False, dev_Type = ''disk'', dev_Mountpoint = [], dev_Mountpoints = [],
     dev_Model = ''Microsoft NVMe Direct Disk v2 '', dev_Serial = [], dev_Size = 1920383410176\<rparr>"

definition two_disks :: "unit block_ops" where
  "two_disks = \<lparr>blk_GetDevices = ok \<lparr>dl_Devices = [nvme_disk\<lparr>dev_Path := ''/dev/nvme1n1''\<rparr>, nvme_disk]\<rparr>,
     blk_IsBlockDevice = (\<lambda>_. ok True), blk_IsFormatted = (\<lambda>p. ok (p = ''/dev/nvme1n1'')),
     blk_IsLVM2 = (\<lambda>_. ok False)\<rparr>"

theorem scan_exact_witness:
  "ScanAvailableDevices two_disks (NewEphemeralDiskFilter [] [] []) () =
     (Inr \<lparr>dl_Devices = [nvme_disk]\<rparr>, ())"
proof -
  have m: "Match (NewEphemeralDiskFilter [] [] []) nvme_disk"
    "Match (NewEphemeralDiskFilter [] [] []) (nvme_disk\<lparr>dev_Path := ''/dev/nvme1n1''\<rparr>)"
    by code_simp+
  show ?thesis
    using scan_exact [of two_disks "()" "\<lparr>dl_Devices = [nvme_disk\<lparr>dev_Path := ''/dev/nvme1n1''\<rparr>, nvme_disk]\<rparr>"
        "NewEphemeralDiskFilter [] [] []" "\<lambda>d. dev_Path d = ''/dev/nvme1n1''" "\<lambda>_. False"] m
    by (simp add: two_disks_def Let_def) (simp add: nvme_disk_def)
qed

section \<open>Reading the output of blkid\<close>

















end
