(* ===== verification/Paths.thy ===== *)
theory Paths
  imports Prelude
begin

text \<open>
  The functions of the standard library package \<open>path/filepath\<close> that the driver calls, on Unix:
  \<open>Clean\<close>, \<open>Join\<close> and \<open>Dir\<close>. A path is rooted if it starts with a slash. \<open>Clean\<close> drops empty and
  \<open>.\<close> elements and resolves \<open>..\<close> against the element before it.
\<close>

abbreviation dot :: string where "dot \<equiv> ''.''"
abbreviation dotdot :: string where "dotdot \<equiv> ''..''"

definition rooted :: "string \<Rightarrow> bool" where
  "rooted p = (case p of [] \<Rightarrow> False | c # _ \<Rightarrow> c = CHR ''/'')"

text \<open>One element of the path against the elements kept so far, the last one first.\<close>

definition clean_step :: "bool \<Rightarrow> string list \<Rightarrow> string \<Rightarrow> string list" where
  "clean_step r st x =
     (if x = [] \<or> x = dot then st
      else if x = dotdot then
        (case st of
           [] \<Rightarrow> if r then [] else [dotdot]
         | y # ys \<Rightarrow> if y = dotdot then dotdot # st else ys)
      else x # st)"

definition clean_elems :: "string \<Rightarrow> string list" where
  "clean_elems p = rev (foldl (clean_step (rooted p)) [] (Split (CHR ''/'') p))"

definition filepath_Clean :: "string \<Rightarrow> string" where
  "filepath_Clean p =
     (if clean_elems p = [] then (if rooted p then ''/'' else dot)
      else (if rooted p then ''/'' else []) @ Join ''/'' (clean_elems p))"

definition filepath_Join :: "string list \<Rightarrow> string" where
  "filepath_Join elems =
     (case filter (\<lambda>e. e \<noteq> []) elems of
        [] \<Rightarrow> []
      | es \<Rightarrow> filepath_Clean (Join ''/'' es))"

definition upto_last_slash :: "string \<Rightarrow> string" where
  "upto_last_slash p = rev (dropWhile (\<lambda>c. c \<noteq> CHR ''/'') (rev p))"

definition filepath_Dir :: "string \<Rightarrow> string" where
  "filepath_Dir p = filepath_Clean (upto_last_slash p)"

section \<open>Clean paths\<close>

lemma clean_step_elems:
  "x \<in> set (clean_step r st e) \<Longrightarrow> x \<in> set st \<or> (x = e \<and> x \<noteq> [] \<and> x \<noteq> dot)"
  by (auto simp: clean_step_def split: if_splits list.splits)

lemma clean_fold_elems:
  "x \<in> set (foldl (clean_step r) st es) \<Longrightarrow> x \<in> set st \<or> (x \<in> set es \<and> x \<noteq> [] \<and> x \<noteq> dot)"
proof (induction es arbitrary: st)
  case (Cons e es)
  then show ?case using clean_step_elems [of x r st e] by auto
qed simp

lemma clean_step_no_dotdot: "dotdot \<notin> set st \<Longrightarrow> dotdot \<notin> set (clean_step True st e)"
  by (auto simp: clean_step_def split: if_splits list.splits)

lemma clean_fold_no_dotdot: "dotdot \<notin> set st \<Longrightarrow> dotdot \<notin> set (foldl (clean_step True) st es)"
  by (induction es arbitrary: st) (simp_all add: clean_step_no_dotdot)

text \<open>The elements of a clean rooted path: none is empty, a dot, two dots or has a slash.\<close>

definition plain_elem :: "string \<Rightarrow> bool" where
  "plain_elem x \<longleftrightarrow> x \<noteq> [] \<and> x \<noteq> dot \<and> x \<noteq> dotdot \<and> CHR ''/'' \<notin> set x"

lemma clean_elems_plain:
  assumes "rooted p" "x \<in> set (clean_elems p)"
  shows "plain_elem x"
proof -
  have "x \<in> set (foldl (clean_step True) [] (Split (CHR ''/'') p))"
    using assms by (simp add: clean_elems_def)
  moreover from this have "x \<noteq> dotdot" using clean_fold_no_dotdot [of "[]"] by auto
  ultimately show ?thesis
    using clean_fold_elems [of x True "[]"] Split_no_sep [of x "CHR ''/''" p] by (auto simp: plain_elem_def)
qed

lemma Split_Join: "xs \<noteq> [] \<Longrightarrow> (\<And>x. x \<in> set xs \<Longrightarrow> c \<notin> set x) \<Longrightarrow> Split c (Join [c] xs) = xs"
proof (induction "[c]" xs rule: Join.induct)
  case (3 x y ys)
  then show ?case by (simp add: Split_append_sep)
qed (simp_all add: Split_single)

lemma clean_fold_plain:
  "(\<And>x. x \<in> set xs \<Longrightarrow> plain_elem x) \<Longrightarrow> foldl (clean_step r) st xs = rev xs @ st"
  by (induction xs arbitrary: st) (auto simp: clean_step_def plain_elem_def)

lemma clean_elems_rooted:
  assumes "\<And>x. x \<in> set xs \<Longrightarrow> plain_elem x"
  shows "clean_elems (CHR ''/'' # Join ''/'' xs) = xs"
proof (cases "xs = []")
  case True
  then show ?thesis by (simp add: clean_elems_def clean_step_def)
next
  case False
  have "Split (CHR ''/'') (Join ''/'' xs) = xs"
    using False assms by (intro Split_Join) (auto simp: plain_elem_def)
  moreover have "clean_step r [] [] = []" for r by (simp add: clean_step_def)
  ultimately show ?thesis
    using clean_fold_plain [of xs True "[]"] assms by (simp add: clean_elems_def rooted_def)
qed

lemma Clean_rooted: "rooted p \<Longrightarrow> filepath_Clean p = CHR ''/'' # Join ''/'' (clean_elems p)"
  by (simp add: filepath_Clean_def)

lemma Clean_plain:
  assumes "\<And>x. x \<in> set xs \<Longrightarrow> plain_elem x"
  shows "filepath_Clean (CHR ''/'' # Join ''/'' xs) = CHR ''/'' # Join ''/'' xs"
  using clean_elems_rooted [OF assms] by (simp add: filepath_Clean_def rooted_def)

lemma Join_snoc: "ys \<noteq> [] \<Longrightarrow> Join sep (ys @ [x]) = Join sep ys @ sep @ x"
  by (induction sep ys rule: Join.induct) auto

lemma Split_snoc_sep: "Split c (s @ [c]) = Split c s @ [[]]"
proof (induction s)
  case (Cons x s)
  then show ?case by (cases "Split c s") auto
qed simp

lemma upto_last_slash_append:
  "CHR ''/'' \<notin> set x \<Longrightarrow> upto_last_slash (a @ CHR ''/'' # x) = a @ ''/''"
proof -
  assume "CHR ''/'' \<notin> set x"
  then have "dropWhile (\<lambda>c. c \<noteq> CHR ''/'') (rev x @ CHR ''/'' # rev a) = CHR ''/'' # rev a"
    by (subst dropWhile_append2) auto
  then show ?thesis by (simp add: upto_last_slash_def)
qed

lemma Dir_plain:
  assumes "\<And>y. y \<in> set (ys @ [x]) \<Longrightarrow> plain_elem y"
  shows "filepath_Dir (CHR ''/'' # Join ''/'' (ys @ [x])) = CHR ''/'' # Join ''/'' ys"
proof (cases "ys = []")
  case True
  have "CHR ''/'' \<notin> set x" using assms by (simp add: plain_elem_def)
  then have "upto_last_slash (CHR ''/'' # x) = ''/''" using upto_last_slash_append [of x "[]"] by simp
  moreover have "filepath_Clean ''/'' = ''/''" by code_simp
  ultimately show ?thesis using True by (simp add: filepath_Dir_def)
next
  case False
  have x: "CHR ''/'' \<notin> set x" using assms by (simp add: plain_elem_def)
  have "upto_last_slash ((CHR ''/'' # Join ''/'' ys) @ CHR ''/'' # x) = (CHR ''/'' # Join ''/'' ys) @ ''/''"
    by (rule upto_last_slash_append [OF x])
  moreover have "clean_elems (CHR ''/'' # Join ''/'' ys @ ''/'') = clean_elems (CHR ''/'' # Join ''/'' ys)"
    using Split_snoc_sep [of "CHR ''/''" "CHR ''/'' # Join ''/'' ys"]
    by (simp add: clean_elems_def rooted_def clean_step_def)
  moreover have "clean_elems (CHR ''/'' # Join ''/'' ys) = ys"
    using assms by (intro clean_elems_rooted) simp
  ultimately show ?thesis
    using False by (simp add: filepath_Dir_def filepath_Clean_def Join_snoc rooted_def)
qed

text \<open>The guard of \<open>RemoveStaleDeviceMapperNodes\<close>: a name that passes it denotes a direct child of
  \<open>/dev\<close>.\<close>

lemma direct_child_of_dev:
  assumes "filepath_Dir (filepath_Join [''/dev'', n]) = ''/dev''"
  obtains x where "filepath_Join [''/dev'', n] = ''/dev/'' @ x" "plain_elem x"
proof -
  define p where "p = (if n = [] then ''/dev'' else ''/dev/'' @ n)"
  have j: "filepath_Join [''/dev'', n] = filepath_Clean p"
    by (simp add: filepath_Join_def p_def)
  have "rooted p" by (simp add: p_def rooted_def)
  define xs where "xs = clean_elems p"
  have xs: "filepath_Clean p = CHR ''/'' # Join ''/'' xs" "\<And>x. x \<in> set xs \<Longrightarrow> plain_elem x"
    using \<open>rooted p\<close> by (simp_all add: xs_def Clean_rooted clean_elems_plain)
  have "xs \<noteq> []"
  proof
    assume "xs = []"
    then have "filepath_Dir (filepath_Clean p) = filepath_Dir ''/''" using xs(1) by simp
    moreover have "filepath_Dir ''/'' = ''/''" by code_simp
    ultimately show False using assms j by simp
  qed
  then obtain ys x where yx: "xs = ys @ [x]" by (cases xs rule: rev_cases) auto
  have "Join ''/'' ys = ''dev''"
    using assms j xs(1) Dir_plain [of ys x] xs(2) yx by simp
  moreover have "ys \<noteq> []" using calculation by auto
  moreover have "Split (CHR ''/'') (Join ''/'' ys) = ys"
    using \<open>ys \<noteq> []\<close> xs(2) yx by (intro Split_Join) (auto simp: plain_elem_def)
  ultimately have "ys = [''dev'']" by simp
  then show ?thesis using that [of x] j xs yx by simp
qed

end
