(* ===== verification/VolumeId.thy ===== *)
theory VolumeId
  imports Effects
begin

text \<open>
  Volume identifiers: \<open>internal/csi/core/lvm/id.go\<close>, the second parser of the same format in
  \<open>internal/gc/utils.go\<close>, and the device path of a logical volume as both
  \<open>internal/csi/core/lvm/id.go\<close> and \<open>internal/pkg/lvm/lvm.go\<close> build it.
\<close>

section \<open>Definitions\<close>

definition separator :: char where
  "separator = CHR ''#''"

record volumeId =
  vid_VolumeGroup :: string
  vid_LogicalVolume :: string

definition volumeId_String :: "volumeId \<Rightarrow> string" where
  "volumeId_String v = vid_VolumeGroup v @ [separator] @ vid_LogicalVolume v"

definition newVolumeId :: "string \<Rightarrow> string \<Rightarrow> goerr + volumeId" where
  "newVolumeId vg lv =
     (if length vg = 0 then Inl (errorf ''volume group name is empty'' [])
      else if length lv = 0 then Inl (errorf ''logical volume name is empty'' [])
      else Inr \<lparr>vid_VolumeGroup = vg, vid_LogicalVolume = lv\<rparr>)"

definition newIdFromString :: "string \<Rightarrow> goerr + volumeId" where
  "newIdFromString volId =
     (let segments = Split separator volId in
      if length segments \<noteq> 2 then
        Inl (errorf (''error parsing volume id: '' @ Quote volId @ '', expected 2 segments, got ''
          @ show_nat (length segments)) [])
      else let vg = segments ! 0 in
      if length vg = 0 then
        Inl (errorf (''error parsing volume id: '' @ Quote volId @ '', volume group name is empty'') [])
      else let lv = segments ! 1 in
      if length lv = 0 then
        Inl (errorf (''error parsing volume id: '' @ Quote volId @ '', logical volume name is empty'') [])
      else Inr \<lparr>vid_VolumeGroup = vg, vid_LogicalVolume = lv\<rparr>)"

definition ReconstructLogicalVolumePath :: "volumeId \<Rightarrow> string" where
  "ReconstructLogicalVolumePath v = ''/dev/'' @ vid_VolumeGroup v @ ''/'' @ vid_LogicalVolume v"

text \<open>\<open>ConstructLogicalVolumePath\<close> of the LVM client.\<close>

definition ConstructLogicalVolumePath :: "string \<Rightarrow> string \<Rightarrow> string" where
  "ConstructLogicalVolumePath vgName lvName = ''/dev/'' @ vgName @ ''/'' @ lvName"

text \<open>The parser of the garbage collector.\<close>

definition parseVolumeID :: "string \<Rightarrow> goerr + string \<times> string" where
  "parseVolumeID volumeID =
     (let segments = Split (CHR ''#'') volumeID in
      if length segments \<noteq> 2 then
        Inl (errorf (''error parsing volume id: '' @ Quote volumeID
          @ '', expected 2 segments, got '' @ show_nat (length segments)) [])
      else let vgName = segments ! 0; lvName = segments ! 1 in
      if length vgName = 0 then
        Inl (errorf (''error parsing volume id: '' @ Quote volumeID
          @ '', volume group name is empty'') [])
      else if length lvName = 0 then
        Inl (errorf (''error parsing volume id: '' @ Quote volumeID
          @ '', logical volume name is empty'') [])
      else Inr (vgName, lvName))"

text \<open>\<open>GetVolumeName\<close> and \<open>GetNodeDevicePath\<close> of the volume manager only parse the identifier.\<close>

definition GetVolumeName :: "string \<Rightarrow> goerr + string" where
  "GetVolumeName volId =
     (case newIdFromString volId of
        Inl err \<Rightarrow> Inl (errorf (''failed to parse volume id: '' @ err_msg err) [err])
      | Inr v \<Rightarrow> Inr (vid_LogicalVolume v))"

definition GetNodeDevicePath :: "string \<Rightarrow> goerr + string" where
  "GetNodeDevicePath volId =
     (case newIdFromString volId of
        Inl err \<Rightarrow> Inl (errorf (''failed to parse volume id: '' @ err_msg err) [err])
      | Inr v \<Rightarrow> Inr (ReconstructLogicalVolumePath v))"

section \<open>Lemmas\<close>

text \<open>What a well-formed identifier is: two non-empty names without the separator.\<close>

definition wf_id :: "volumeId \<Rightarrow> bool" where
  "wf_id v \<longleftrightarrow> vid_VolumeGroup v \<noteq> [] \<and> vid_LogicalVolume v \<noteq> [] \<and>
     separator \<notin> set (vid_VolumeGroup v) \<and> separator \<notin> set (vid_LogicalVolume v)"

lemma two_segments: "length xs = 2 \<Longrightarrow> xs = [xs ! 0, xs ! 1]"
  by (cases xs; cases "tl xs") auto

lemma newIdFromString_Inr_iff:
  "newIdFromString s = Inr v \<longleftrightarrow> volumeId_String v = s \<and> wf_id v"
proof
  assume eq: "newIdFromString s = Inr v"
  then have len: "length (Split separator s) = 2"
    by (auto simp: newIdFromString_def Let_def split: if_splits)
  then have "Split separator s = [Split separator s ! 0, Split separator s ! 1]"
    by (rule two_segments)
  with eq len have "Split separator s = [vid_VolumeGroup v, vid_LogicalVolume v]"
    and "vid_VolumeGroup v \<noteq> []" and "vid_LogicalVolume v \<noteq> []"
    by (auto simp: newIdFromString_def Let_def split: if_splits)
  then show "volumeId_String v = s \<and> wf_id v"
    by (auto simp: Split_two_iff volumeId_String_def wf_id_def)
next
  assume "volumeId_String v = s \<and> wf_id v"
  then have "Split separator s = [vid_VolumeGroup v, vid_LogicalVolume v]"
    and "vid_VolumeGroup v \<noteq> []" and "vid_LogicalVolume v \<noteq> []"
    by (auto simp: Split_two_iff volumeId_String_def wf_id_def)
  then show "newIdFromString s = Inr v"
    by (simp add: newIdFromString_def)
qed

lemma newIdFromString_String [simp]: "wf_id v \<Longrightarrow> newIdFromString (volumeId_String v) = Inr v"
  by (simp add: newIdFromString_Inr_iff)

lemma newIdFromString_no_sentinel: "newIdFromString s = Inl e \<Longrightarrow> \<not> errors_Is e x"
  by (auto simp: newIdFromString_def Let_def split: if_splits)

lemma volumeId_String_inj:
  "wf_id v \<Longrightarrow> wf_id w \<Longrightarrow> volumeId_String v = volumeId_String w \<Longrightarrow> v = w"
  by (metis newIdFromString_String sum.inject(2))

lemma parseVolumeID_eq:
  "parseVolumeID s = map_sum id (\<lambda>v. (vid_VolumeGroup v, vid_LogicalVolume v)) (newIdFromString s)"
  by (simp add: parseVolumeID_def newIdFromString_def separator_def Let_def)

lemma GetVolumeName_Inr_iff:
  "GetVolumeName s = Inr n \<longleftrightarrow> (\<exists>v. newIdFromString s = Inr v \<and> n = vid_LogicalVolume v)"
  by (auto simp: GetVolumeName_def split: sum.splits)

lemma GetNodeDevicePath_Inr_iff:
  "GetNodeDevicePath s = Inr p \<longleftrightarrow>
     (\<exists>v. newIdFromString s = Inr v \<and> p = ReconstructLogicalVolumePath v)"
  by (auto simp: GetNodeDevicePath_def split: sum.splits)

lemma GetNodeDevicePath_not_Nil: "GetNodeDevicePath s = Inr p \<Longrightarrow> p \<noteq> []"
  by (auto simp: GetNodeDevicePath_Inr_iff ReconstructLogicalVolumePath_def)

section \<open>Properties\<close>

text \<open>C32. The parser of volume identifiers accepts exactly the strings that
  \<open>volumeId.String\<close> prints for two non-empty names without the separator, and gives those
  two names back: parsing and printing are inverse, and no other string is accepted.\<close>

theorem volume_id_roundtrip:
  "newIdFromString s = Inr v \<longleftrightarrow>
     volumeId_String v = s \<and> newVolumeId (vid_VolumeGroup v) (vid_LogicalVolume v) = Inr v \<and>
     CHR ''#'' \<notin> set (vid_VolumeGroup v) \<and> CHR ''#'' \<notin> set (vid_LogicalVolume v)"
  by (cases v) (auto simp: newIdFromString_Inr_iff wf_id_def newVolumeId_def separator_def)

text \<open>C33. The garbage collector parses volume identifiers with its own copy of the parser, and
  unmounts the path that the volume manager derives: both agree with the identifiers and the
  device paths that the LVM client uses, on every string.\<close>

theorem volume_id_parsers_agree:
  "(case parseVolumeID s of
      Inl e \<Rightarrow> GetNodeDevicePath s = Inl (errorf (''failed to parse volume id: '' @ err_msg e) [e])
    | Inr (vg, lv) \<Rightarrow> volumeId_String \<lparr>vid_VolumeGroup = vg, vid_LogicalVolume = lv\<rparr> = s \<and>
        GetNodeDevicePath s = Inr (ConstructLogicalVolumePath vg lv))"
proof (cases "newIdFromString s")
  case (Inl e)
  then show ?thesis by (simp add: parseVolumeID_eq GetNodeDevicePath_def)
next
  case (Inr v)
  then have "volumeId_String v = s" by (simp add: newIdFromString_Inr_iff)
  with Inr show ?thesis
    by (simp add: parseVolumeID_eq GetNodeDevicePath_def ConstructLogicalVolumePath_def
        ReconstructLogicalVolumePath_def volumeId_String_def)
qed

end
