(* ===== verification/LvmClient.thy ===== *)
theory LvmClient
  imports LvmManager LvmDecode Block Paths VolumeId
begin

text \<open>
  The LVM client of \<open>internal/pkg/lvm/lvm.go\<close>: the implementation of the interface \<open>Manager\<close> that
  runs the \<open>lvm\<close> executable and decodes its JSON reports.

  The executable is the function \<open>h_Run\<close> of the node. How \<open>github.com/dpeckett/args\<close> turns an
  options struct into arguments is the parameter \<open>arg_marshal\<close>. The locale \<open>lvm_binary\<close> states what
  the driver relies on of the executable, called with these arguments; under it the client fulfils
  the contract \<open>lvm_manager\<close>.
\<close>

section \<open>The client\<close>

record arg_marshal =
  am_ListPV :: "ListPVOptions \<Rightarrow> string list"
  am_CreatePV :: "CreatePVOptions \<Rightarrow> string list"
  am_RemovePV :: "RemovePVOptions \<Rightarrow> string list"
  am_ListVG :: "ListVGOptions \<Rightarrow> string list"
  am_CreateVG :: "CreateVGOptions \<Rightarrow> string list"
  am_RemoveVG :: "RemoveVGOptions \<Rightarrow> string list"
  am_MakeVGDeviceNodes :: "MakeVGDeviceNodesOptions \<Rightarrow> string list"
  am_ListLV :: "ListLVOptions \<Rightarrow> string list"
  am_CreateLV :: "CreateLVOptions \<Rightarrow> string list"
  am_RemoveLV :: "RemoveLVOptions \<Rightarrow> string list"
  am_ExtendLV :: "ExtendLVOptions \<Rightarrow> string list"

record 's client =
  c_block :: "'s block_ops"
  c_lvmPath :: string
  c_host :: "'s host"
  c_args :: arg_marshal

definition binaryFlag :: string where "binaryFlag = ''--binary''"
definition jsonReportFlag :: string where "jsonReportFlag = ''--reportformat=json''"
definition bytesUnitFlag :: string where "bytesUnitFlag = ''--units=b''"
definition SupportedFormat :: string where "SupportedFormat = ''lvm2''"

definition runCmd :: "'s client \<Rightarrow> string \<Rightarrow> string list \<Rightarrow> ('s, goerr, string) op" where
  "runCmd c binary cmdArgs =
     (\<lambda>s. case h_Run (c_host c) binary cmdArgs s of
        ((stdout, stderr, Some err), s') \<Rightarrow>
          fail (errorf (err_msg (ex_Err err) @ '': '' @ TrimSpace stderr) [ex_Err err]) s'
      | ((stdout, stderr, None), s') \<Rightarrow> ok stdout s')"

definition run :: "'s client \<Rightarrow> string list \<Rightarrow> ('s, goerr, string) op" where
  "run c cmdArgs = runCmd c (c_lvmPath c) cmdArgs"

definition run_classified :: "'s client \<Rightarrow> string list \<Rightarrow> ('s, goerr, unit) op" where
  "run_classified c cmdArgs = call (run c cmdArgs) (\<lambda>err. fail (getErrorType err)) (\<lambda>_. ok ())"

definition Client_IsSupported :: "'s client \<Rightarrow> 's \<Rightarrow> bool \<times> 's" where
  "Client_IsSupported c s =
     (case run c [''formats''] s of
        (Inl err, s') \<Rightarrow> (False, s')
      | (Inr output, s') \<Rightarrow> (Contains output SupportedFormat, s'))"

text \<open>The three report commands decode the rows of the first report; a report without rows is nil.\<close>

definition run_report ::
  "'s client \<Rightarrow> string \<Rightarrow> ((string \<times> json) list \<Rightarrow> 'a option) \<Rightarrow> string list \<Rightarrow> ('s, goerr, 'a list) op" where
  "run_report c k f cmdArgs =
     call (run c cmdArgs) fail
       (\<lambda>reportJSON. case parse_report k f reportJSON of
          None \<Rightarrow> fail (errors_New (''failed to parse lvm output: '' @ h_JsonErr (c_host c) reportJSON))
        | Some rows \<Rightarrow> ok rows)"

definition the_only :: "'a list \<Rightarrow> ('s, goerr, 'a) op" where
  "the_only xs =
     (case xs of
        [] \<Rightarrow> fail (sentinel_err LvmErrNotFound)
      | [x] \<Rightarrow> ok x
      | _ \<Rightarrow> fail (sentinel_err LvmErrTooMany))"

section \<open>Physical volumes\<close>

definition pvs_args :: "'s client \<Rightarrow> ListPVOptions option \<Rightarrow> string list" where
  "pvs_args c opts =
     [''pvs'', jsonReportFlag, binaryFlag, ''--options=pv_all,vg_name'', bytesUnitFlag] @
     (case opts of None \<Rightarrow> [] | Some p \<Rightarrow> am_ListPV (c_args c) p)"

definition Client_ListPhysicalVolumes ::
  "'s client \<Rightarrow> ListPVOptions option \<Rightarrow> ('s, goerr, PhysicalVolume list) op" where
  "Client_ListPhysicalVolumes c opts = run_report c ''pv'' decode_PhysicalVolume (pvs_args c opts)"

definition Client_GetPhysicalVolume :: "'s client \<Rightarrow> string \<Rightarrow> ('s, goerr, PhysicalVolume) op" where
  "Client_GetPhysicalVolume c pvName =
     (if pvName = [] then fail (errors_New ''physical volume name cannot be empty'')
      else
        call (Client_ListPhysicalVolumes c (Some (zero_ListPVOptions\<lparr>ListPV_Names := [pvName]\<rparr>)))
          (\<lambda>err. fail (getErrorType err)) the_only)"

definition Client_CreatePhysicalVolume :: "'s client \<Rightarrow> CreatePVOptions \<Rightarrow> ('s, goerr, unit) op" where
  "Client_CreatePhysicalVolume c opts =
     call (blk_IsFormatted (c_block c) (CreatePV_Name opts)) (\<lambda>err. fail (getErrorType err))
       (\<lambda>formatted.
          call (blk_IsLVM2 (c_block c) (CreatePV_Name opts)) (\<lambda>err. fail (getErrorType err))
            (\<lambda>isLVM.
               if isLVM then ok ()
               else if formatted then
                 fail (errorf (sentinel_msg LvmErrInUse @ '': '' @ CreatePV_Name opts @
                   '' is already formatted'') [sentinel_err LvmErrInUse])
               else run_classified c (''pvcreate'' # am_CreatePV (c_args c) opts)))"

definition Client_RemovePhysicalVolume :: "'s client \<Rightarrow> RemovePVOptions \<Rightarrow> ('s, goerr, unit) op" where
  "Client_RemovePhysicalVolume c opts =
     run_classified c (''pvremove'' # ''--yes'' # am_RemovePV (c_args c) opts)"

section \<open>Volume groups\<close>

definition vgs_args :: "'s client \<Rightarrow> ListVGOptions option \<Rightarrow> string list" where
  "vgs_args c opts =
     [''vgs'', jsonReportFlag, binaryFlag, ''--options=vg_all'', bytesUnitFlag] @
     (case opts of None \<Rightarrow> [] | Some p \<Rightarrow> am_ListVG (c_args c) p)"

definition Client_ListVolumeGroups ::
  "'s client \<Rightarrow> ListVGOptions option \<Rightarrow> ('s, goerr, VolumeGroup list) op" where
  "Client_ListVolumeGroups c opts = run_report c ''vg'' decode_VolumeGroup (vgs_args c opts)"

definition Client_GetVolumeGroup :: "'s client \<Rightarrow> string \<Rightarrow> ('s, goerr, VolumeGroup) op" where
  "Client_GetVolumeGroup c vgName =
     (if vgName = [] then fail (errors_New ''volume group name cannot be empty'')
      else
        call (Client_ListVolumeGroups c (Some (zero_ListVGOptions\<lparr>ListVG_Names := [vgName]\<rparr>)))
          (\<lambda>err. fail (getErrorType err)) the_only)"

definition Client_CreateVolumeGroup :: "'s client \<Rightarrow> CreateVGOptions \<Rightarrow> ('s, goerr, unit) op" where
  "Client_CreateVolumeGroup c opts =
     run_classified c (''vgcreate'' # ''--yes'' # am_CreateVG (c_args c) opts)"

definition Client_RemoveVolumeGroup :: "'s client \<Rightarrow> RemoveVGOptions \<Rightarrow> ('s, goerr, unit) op" where
  "Client_RemoveVolumeGroup c opts =
     run_classified c (''vgremove'' # ''--yes'' # am_RemoveVG (c_args c) opts)"

definition Client_MakeVolumeGroupDeviceNodes ::
  "'s client \<Rightarrow> MakeVGDeviceNodesOptions \<Rightarrow> ('s, goerr, unit) op" where
  "Client_MakeVolumeGroupDeviceNodes c opts =
     call (run c (''vgmknodes'' # ''--yes'' # am_MakeVGDeviceNodes (c_args c) opts)) fail (\<lambda>_. ok ())"

section \<open>Logical volumes\<close>

definition lvs_args :: "'s client \<Rightarrow> ListLVOptions option \<Rightarrow> string list" where
  "lvs_args c opts =
     [''lvs'', jsonReportFlag, binaryFlag, ''--options=lv_all,vg_name'', bytesUnitFlag] @
     (case opts of None \<Rightarrow> [] | Some p \<Rightarrow> am_ListLV (c_args c) p)"

definition Client_ListLogicalVolumes ::
  "'s client \<Rightarrow> ListLVOptions option \<Rightarrow> ('s, goerr, LogicalVolume list) op" where
  "Client_ListLogicalVolumes c opts = run_report c ''lv'' decode_LogicalVolume (lvs_args c opts)"

definition Client_GetLogicalVolume ::
  "'s client \<Rightarrow> string \<Rightarrow> string \<Rightarrow> ('s, goerr, LogicalVolume) op" where
  "Client_GetLogicalVolume c vgName lvName =
     (let vgLvName = vgName @ ''/'' @ lvName in
      if vgName = [] \<or> lvName = [] then
        fail (errors_New (''volume group/logical volume name cannot be empty: '' @ vgLvName))
      else
        call (Client_ListLogicalVolumes c (Some (zero_ListLVOptions\<lparr>ListLV_Names := [vgLvName]\<rparr>)))
          (\<lambda>err. fail (getErrorType err)) the_only)"

definition Client_CreateLogicalVolume :: "'s client \<Rightarrow> CreateLVOptions \<Rightarrow> ('s, goerr, int) op" where
  "Client_CreateLogicalVolume c opts =
     call (run c (''lvcreate'' # ''--yes'' # am_CreateLV (c_args c) opts))
       (\<lambda>err. fail (getErrorType err))
       (\<lambda>_.
          call (Client_GetLogicalVolume c (CreateLV_VGName opts) (CreateLV_Name opts))
            (\<lambda>err. fail (errorf (''failed to get logical volume after creation: '' @ err_msg err) [err]))
            (\<lambda>lv. ok (LV_Size lv)))"

definition Client_RemoveLogicalVolume :: "'s client \<Rightarrow> RemoveLVOptions \<Rightarrow> ('s, goerr, unit) op" where
  "Client_RemoveLogicalVolume c opts =
     (if length (Split (CHR ''/'') (RemoveLV_Name opts)) \<noteq> 2 then fail (sentinel_err LvmErrInvalidInput)
      else run_classified c (''lvremove'' # ''--yes'' # am_RemoveLV (c_args c) opts))"

definition Client_ExtendLogicalVolume :: "'s client \<Rightarrow> ExtendLVOptions \<Rightarrow> ('s, goerr, unit) op" where
  "Client_ExtendLogicalVolume c opts =
     call (blk_IsFormatted (c_block c) (''/dev/'' @ ExtendLV_Name opts)) fail
       (\<lambda>formatted.
          let opts' = (if ExtendLV_ResizeFS opts \<and> \<not> formatted then opts\<lparr>ExtendLV_ResizeFS := False\<rparr>
                       else opts) in
          run_classified c (''lvextend'' # ''--yes'' # am_ExtendLV (c_args c) opts'))"

definition Client_IsLogicalVolumeCorrupted ::
  "'s client \<Rightarrow> string \<Rightarrow> string \<Rightarrow> ('s, goerr, bool) op" where
  "Client_IsLogicalVolumeCorrupted c vgName lvName =
     (if vgName = [] \<or> lvName = [] then
        fail (errors_New ''volume group and logical volume names cannot be empty'')
      else
        call (Client_GetLogicalVolume c vgName lvName)
          (\<lambda>err. if errors_Is err LvmErrNotFound then ok False
                 else fail (errorf (''failed to get logical volume: '' @ err_msg err) [err]))
          (\<lambda>lv.
             let devicePath = ConstructLogicalVolumePath vgName lvName in
             call (h_Stat (c_host c) devicePath)
               (\<lambda>err. if errors_Is err OsErrNotExist then ok True
                      else fail (errorf (''failed to check device file '' @ devicePath @ '': '' @
                        err_msg err) [err]))
               (\<lambda>_. ok False)))"

fun remove_nodes :: "'s client \<Rightarrow> string \<Rightarrow> string list \<Rightarrow> ('s, goerr, unit) op" where
  "remove_nodes c devDir [] = ok ()"
| "remove_nodes c devDir (entry # es) =
     (let p = filepath_Join [devDir, entry] in
      call (h_Remove (c_host c) p)
        (\<lambda>err. fail (errorf (''failed to remove stale device node '' @ p @ '': '' @ err_msg err) [err]))
        (\<lambda>_. remove_nodes c devDir es))"

definition Client_RemoveStaleDeviceMapperNodes :: "'s client \<Rightarrow> string \<Rightarrow> ('s, goerr, unit) op" where
  "Client_RemoveStaleDeviceMapperNodes c vgName =
     (if vgName = [] then
        fail (errorf (sentinel_msg LvmErrInvalidInput @ '': volume group name cannot be empty'')
          [sentinel_err LvmErrInvalidInput])
      else
        let devDir = filepath_Join [''/dev'', vgName] in
        if filepath_Dir devDir \<noteq> ''/dev'' then
          fail (errorf (sentinel_msg LvmErrInvalidInput @ '': invalid volume group name '' @ Quote vgName)
            [sentinel_err LvmErrInvalidInput])
        else
          call (Client_GetVolumeGroup c vgName)
            (\<lambda>err.
               if IgnoreNotFound err \<noteq> None
               then fail (errorf (''failed to check volume group '' @ vgName @ '': '' @ err_msg err) [err])
               else
                 call (Client_MakeVolumeGroupDeviceNodes c zero_MakeVGDeviceNodesOptions)
                   (\<lambda>err. fail (errorf (''failed to reconcile device nodes: '' @ err_msg err) [err]))
                   (\<lambda>_.
                      call (h_ReadDir (c_host c) devDir)
                        (\<lambda>err. if errors_Is err OsErrNotExist then ok ()
                               else fail (errorf (''failed to read device directory '' @ devDir @ '': '' @
                                 err_msg err) [err]))
                        (\<lambda>entries.
                           call (remove_nodes c devDir entries) fail
                             (\<lambda>_. call (h_Remove (c_host c) devDir) (\<lambda>_. ok ()) ok))))
            (\<lambda>_. ok ()))"

definition NewClientManager :: "'s client \<Rightarrow> 's manager" where
  "NewClientManager c =
     \<lparr>mgr_IsSupported = Client_IsSupported c,
      mgr_CreatePhysicalVolume = Client_CreatePhysicalVolume c,
      mgr_RemovePhysicalVolume = Client_RemovePhysicalVolume c,
      mgr_ListPhysicalVolumes = Client_ListPhysicalVolumes c,
      mgr_GetPhysicalVolume = Client_GetPhysicalVolume c,
      mgr_CreateVolumeGroup = Client_CreateVolumeGroup c,
      mgr_ListVolumeGroups = Client_ListVolumeGroups c,
      mgr_GetVolumeGroup = Client_GetVolumeGroup c,
      mgr_RemoveVolumeGroup = Client_RemoveVolumeGroup c,
      mgr_CreateLogicalVolume = Client_CreateLogicalVolume c,
      mgr_RemoveLogicalVolume = Client_RemoveLogicalVolume c,
      mgr_ListLogicalVolumes = Client_ListLogicalVolumes c,
      mgr_GetLogicalVolume = Client_GetLogicalVolume c,
      mgr_ExtendLogicalVolume = Client_ExtendLogicalVolume c,
      mgr_IsLogicalVolumeCorrupted = Client_IsLogicalVolumeCorrupted c,
      mgr_RemoveStaleDeviceMapperNodes = Client_RemoveStaleDeviceMapperNodes c\<rparr>"

section \<open>What the driver relies on of the executable\<close>

text \<open>
  The documented behaviour of the \<open>lvm\<close> commands, with the arguments that the client gives them,
  on the metadata \<open>meta\<close> of the node. Report commands and \<open>vgmknodes\<close> do not change the metadata,
  nor do the queries and file operations of the node; the rows of a report describe the metadata; a
  command that fails has changed nothing of what it is about, except that \<open>lvcreate\<close> and
  \<open>lvextend\<close> may have changed the volume they name. An error text of the JSON decoder does not read
  like an LVM message about a missing object.
\<close>

locale lvm_binary =
  fixes c :: "'s client"
    and meta :: "'s \<Rightarrow> lvm_meta"
  assumes report_meta: "run c (cmd # as) s = (ra, t) \<Longrightarrow>
      cmd \<in> {''pvs'', ''vgs'', ''lvs'', ''formats'', ''vgmknodes''} \<Longrightarrow> meta t = meta s"
    and pvs_all: "run c (pvs_args c None) s = (Inr out, t) \<Longrightarrow>
      parse_report ''pv'' decode_PhysicalVolume out = Some pvs \<Longrightarrow>
      m_pvs (meta s) = map_of (map (\<lambda>p. (PV_Name p, PV_VGName p)) pvs)"
    and vgs_rows: "run c (vgs_args c o4) s = (Inr out, t) \<Longrightarrow>
      parse_report ''vg'' decode_VolumeGroup out = Some vgs \<Longrightarrow> vg \<in> set vgs \<Longrightarrow>
      finite (lv_names (meta s) (VG_Name vg)) \<and>
      VG_LVCount vg = int (card (lv_names (meta s) (VG_Name vg)))"
    and vgs_named: "run c (vgs_args c (Some (zero_ListVGOptions\<lparr>ListVG_Names := [n]\<rparr>))) s = (Inr out, t) \<Longrightarrow>
      parse_report ''vg'' decode_VolumeGroup out = Some vgs \<Longrightarrow> vg \<in> set vgs \<Longrightarrow> VG_Name vg = n"
    and lvs_named: "run c (lvs_args c (Some (zero_ListLVOptions\<lparr>ListLV_Names := [vn @ ''/'' @ ln]\<rparr>))) s =
        (Inr out, t) \<Longrightarrow>
      parse_report ''lv'' decode_LogicalVolume out = Some lvs \<Longrightarrow>
      (case lvs of [] \<Rightarrow> m_lvs (meta s) (vn, ln) = None
       | lv # _ \<Rightarrow> m_lvs (meta s) (vn, ln) = Some (LV_Size lv))"
    and lvs_missing: "run c (lvs_args c (Some (zero_ListLVOptions\<lparr>ListLV_Names := [vn @ ''/'' @ ln]\<rparr>))) s =
        (Inl e, t) \<Longrightarrow>
      errors_Is (getErrorType e) LvmErrNotFound \<Longrightarrow> m_lvs (meta s) (vn, ln) = None"
    and lvs_select: "run c (lvs_args c (Some (zero_ListLVOptions\<lparr>ListLV_Select := ''vg_name='' @ n\<rparr>))) s =
        (Inr out, t) \<Longrightarrow>
      parse_report ''lv'' decode_LogicalVolume out = Some lvs \<Longrightarrow>
      set (map (\<lambda>lv. (LV_Name lv, LV_Size lv)) lvs) = {(x, sz). m_lvs (meta s) (n, x) = Some sz}"
    and pvcreate: "run c (''pvcreate'' # am_CreatePV (c_args c) o2) s = (ra, t) \<Longrightarrow>
      m_vgs (meta t) = m_vgs (meta s) \<and> m_lvs (meta t) = m_lvs (meta s)"
    and pvremove: "run c (''pvremove'' # ''--yes'' # am_RemovePV (c_args c) o3) s = (ra, t) \<Longrightarrow>
      m_vgs (meta t) = m_vgs (meta s) \<and> m_lvs (meta t) = m_lvs (meta s) \<and>
      (case ra of Inl e \<Rightarrow> m_pvs (meta t) = m_pvs (meta s)
       | Inr _ \<Rightarrow> m_pvs (meta t) = (m_pvs (meta s))(RemovePV_Name o3 := None))"
    and vgcreate: "run c (''vgcreate'' # ''--yes'' # am_CreateVG (c_args c) o5) s = (ra, t) \<Longrightarrow>
      m_lvs (meta t) = m_lvs (meta s)"
    and vgremove: "run c (''vgremove'' # ''--yes'' # am_RemoveVG (c_args c) o6) s = (ra, t) \<Longrightarrow>
      (case ra of Inl e \<Rightarrow> m_lvs (meta t) = m_lvs (meta s)
       | Inr _ \<Rightarrow> m_lvs (meta t) = drop_vg (RemoveVG_Name o6) (m_lvs (meta s)))"
    and lvcreate: "run c (''lvcreate'' # ''--yes'' # am_CreateLV (c_args c) o8) s = (ra, t) \<Longrightarrow>
      k \<noteq> (CreateLV_VGName o8, CreateLV_Name o8) \<Longrightarrow> m_lvs (meta t) k = m_lvs (meta s) k"
    and lvcreate_size: "run c (''lvcreate'' # ''--yes'' # am_CreateLV (c_args c) o8) s = (Inr out, t) \<Longrightarrow>
      CreateLV_Size o8 = show_int b @ ''B'' \<Longrightarrow>
      (\<exists>sz \<ge> b. m_lvs (meta t) (CreateLV_VGName o8, CreateLV_Name o8) = Some sz)"
    and lvremove: "run c (''lvremove'' # ''--yes'' # am_RemoveLV (c_args c) o9) s = (ra, t) \<Longrightarrow>
      RemoveLV_Name o9 = vn @ ''/'' @ ln \<Longrightarrow>
      (case ra of Inl e \<Rightarrow> meta t = meta s \<and>
           (errors_Is (getErrorType e) LvmErrNotFound \<longrightarrow> m_lvs (meta s) (vn, ln) = None)
       | Inr _ \<Rightarrow> m_lvs (meta t) = (m_lvs (meta s))((vn, ln) := None))"
    and lvextend: "run c (''lvextend'' # ''--yes'' # am_ExtendLV (c_args c) o10) s = (ra, t) \<Longrightarrow>
      ExtendLV_Name o10 = vn @ ''/'' @ ln \<Longrightarrow>
      (\<forall>k. k \<noteq> (vn, ln) \<longrightarrow> m_lvs (meta t) k = m_lvs (meta s) k) \<and>
      (\<forall>sz. m_lvs (meta s) (vn, ln) = Some sz \<longrightarrow> (\<exists>sz' \<ge> sz. m_lvs (meta t) (vn, ln) = Some sz'))"
    and formatted_meta: "blk_IsFormatted (c_block c) p s = (rb, t) \<Longrightarrow> meta t = meta s"
    and lvm2_meta: "blk_IsLVM2 (c_block c) p s = (rb, t) \<Longrightarrow> meta t = meta s"
    and stat_meta: "h_Stat (c_host c) p s = (rc, t) \<Longrightarrow> meta t = meta s"
    and readdir_meta: "h_ReadDir (c_host c) p s = (rd, t) \<Longrightarrow> meta t = meta s"
    and remove_meta: "h_Remove (c_host c) p s = (re, t) \<Longrightarrow> meta t = meta s"
    and json_text: "\<not> errors_Is (getErrorType (errors_New
      (''failed to parse lvm output: '' @ h_JsonErr (c_host c) out))) LvmErrNotFound"
begin

lemmas lvs_named' = lvs_named [unfolded append_Cons append_Nil]
lemmas lvs_missing' = lvs_missing [unfolded append_Cons append_Nil]

lemma run_report_meta:
  "run_report c k f (cmd # as) s = (r, t) \<Longrightarrow> cmd \<in> {''pvs'', ''vgs'', ''lvs''} \<Longrightarrow> meta t = meta s"
  unfolding run_report_def
  by (erule callE) (auto dest!: report_meta split: option.splits)

lemma list_meta:
  "Client_ListPhysicalVolumes c o1 s = (rf, t) \<Longrightarrow> meta t = meta s"
  "Client_ListVolumeGroups c o2 s = (rg, t) \<Longrightarrow> meta t = meta s"
  "Client_ListLogicalVolumes c o3 s = (rh, t) \<Longrightarrow> meta t = meta s"
  by (auto simp: Client_ListPhysicalVolumes_def Client_ListVolumeGroups_def Client_ListLogicalVolumes_def
      pvs_args_def vgs_args_def lvs_args_def dest!: run_report_meta)

lemma the_only_state: "the_only xs s = (r, t) \<Longrightarrow> t = s"
  by (auto simp: the_only_def split: list.splits)

lemma get_meta:
  "Client_GetPhysicalVolume c p s = (rf, t) \<Longrightarrow> meta t = meta s"
  "Client_GetVolumeGroup c n s = (rg, t) \<Longrightarrow> meta t = meta s"
  "Client_GetLogicalVolume c n p s = (rh, t) \<Longrightarrow> meta t = meta s"
  by (auto simp: Client_GetPhysicalVolume_def Client_GetVolumeGroup_def Client_GetLogicalVolume_def Let_def
      elim!: callE dest!: list_meta the_only_state split: if_splits)

lemma run_report_rows:
  "run_report c k f as s = (Inr rows, t) \<Longrightarrow> \<exists>out. run c as s = (Inr out, t) \<and> parse_report k f out = Some rows"
  unfolding run_report_def by (erule callE) (auto split: option.splits)

lemma the_only_Inr [simp]: "the_only xs s = (Inr x, t) \<longleftrightarrow> xs = [x] \<and> t = s"
  by (auto simp: the_only_def split: list.splits)

lemma GetVolumeGroup_name: "Client_GetVolumeGroup c n s = (Inr vg, t) \<Longrightarrow> VG_Name vg = n"
  unfolding Client_GetVolumeGroup_def Client_ListVolumeGroups_def
  by (auto elim!: callE dest!: run_report_rows vgs_named split: if_splits)

lemma GetLogicalVolume_found:
  assumes "Client_GetLogicalVolume c vn ln s = (Inr lv, t)"
  shows "m_lvs (meta s) (vn, ln) = Some (LV_Size lv)"
  using assms unfolding Client_GetLogicalVolume_def Client_ListLogicalVolumes_def Let_def
  by (auto elim!: callE dest!: run_report_rows lvs_named' split: if_splits)

lemma GetLogicalVolume_missing:
  assumes "Client_GetLogicalVolume c vn ln s = (Inl e, t)" "errors_Is e LvmErrNotFound"
  shows "m_lvs (meta s) (vn, ln) = None"
proof -
  let ?args = "lvs_args c (Some (zero_ListLVOptions\<lparr>ListLV_Names := [vn @ ''/'' @ ln]\<rparr>))"
  have ne: "vn \<noteq> []" "ln \<noteq> []" using assms by (auto simp: Client_GetLogicalVolume_def Let_def)
  with assms(1) consider
      (failed) e' where "run_report c ''lv'' decode_LogicalVolume ?args s = (Inl e', t)" "e = getErrorType e'"
    | (empty) u where "run_report c ''lv'' decode_LogicalVolume ?args s = (Inr [], u)"
    | (many) "e = sentinel_err LvmErrTooMany"
    unfolding Client_GetLogicalVolume_def Client_ListLogicalVolumes_def Let_def
    by (auto elim!: callE simp: the_only_def split: list.splits)
  then show ?thesis
  proof cases
    case failed
    then show ?thesis
      using assms(2) json_text unfolding run_report_def
      by (auto elim!: callE dest: lvs_missing' split: option.splits)
  next
    case empty
    then show ?thesis by (auto dest!: run_report_rows lvs_named')
  next
    case many
    then show ?thesis using assms(2) by simp
  qed
qed

lemma run_classified_cases:
  assumes "run_classified c as s = (r, t)"
  obtains (error) e where "run c as s = (Inl e, t)" "r = Inl (getErrorType e)"
    | (finished) out where "run c as s = (Inr out, t)" "r = Inr ()"
  using assms unfolding run_classified_def by (auto elim!: callE)

lemma CreatePhysicalVolume_keeps:
  "Client_CreatePhysicalVolume c o2 s = (r, t) \<Longrightarrow>
    m_vgs (meta t) = m_vgs (meta s) \<and> m_lvs (meta t) = m_lvs (meta s)"
  unfolding Client_CreatePhysicalVolume_def
  by (auto elim!: callE run_classified_cases dest!: formatted_meta lvm2_meta pvcreate split: if_splits)

lemma CreateLogicalVolume_frame:
  assumes "Client_CreateLogicalVolume c o8 s = (r, t)" "k \<noteq> (CreateLV_VGName o8, CreateLV_Name o8)"
  shows "m_lvs (meta t) k = m_lvs (meta s) k"
  using assms(1) unfolding Client_CreateLogicalVolume_def
proof (cases rule: callE)
  case (error e u)
  then show ?thesis using lvcreate [OF error(1) assms(2)] by simp
next
  case (result out u)
  then have "meta t = meta u" by (auto elim!: callE dest!: get_meta(3))
  then show ?thesis using lvcreate [OF result(1) assms(2)] by simp
qed

lemma CreateLogicalVolume_ok:
  assumes "Client_CreateLogicalVolume c o8 s = (Inr n, t)"
  shows "m_lvs (meta t) (CreateLV_VGName o8, CreateLV_Name o8) = Some n \<and>
    (\<forall>b. CreateLV_Size o8 = show_int b @ ''B'' \<longrightarrow> b \<le> n)"
  using assms unfolding Client_CreateLogicalVolume_def
proof (cases rule: callE)
  case (result out u)
  then obtain lv where lv: "Client_GetLogicalVolume c (CreateLV_VGName o8) (CreateLV_Name o8) u = (Inr lv, t)"
    "n = LV_Size lv"
    by (auto elim!: callE)
  note GetLogicalVolume_found [OF lv(1)] get_meta(3) [OF lv(1)]
  moreover note lvcreate_size [OF result(1)]
  ultimately show ?thesis using lv(2) by auto
qed simp

lemma remove_nodes_meta: "remove_nodes c d es s = (r, t) \<Longrightarrow> meta t = meta s"
  by (induction es arbitrary: s) (auto simp: Let_def elim!: callE dest!: remove_meta)

lemma RemoveStale_meta: "Client_RemoveStaleDeviceMapperNodes c n s = (r, t) \<Longrightarrow> meta t = meta s"
  unfolding Client_RemoveStaleDeviceMapperNodes_def Let_def Client_MakeVolumeGroupDeviceNodes_def
  by (auto elim!: callE dest!: get_meta(2) report_meta readdir_meta remove_nodes_meta remove_meta
      split: if_splits)

lemma IsCorrupted_meta: "Client_IsLogicalVolumeCorrupted c v n s = (r, t) \<Longrightarrow> meta t = meta s"
  unfolding Client_IsLogicalVolumeCorrupted_def Let_def
  by (auto elim!: callE dest!: get_meta(3) stat_meta split: if_splits)

lemma ExtendLogicalVolume_effect:
  assumes "Client_ExtendLogicalVolume c o10 s = (r, t)" "ExtendLV_Name o10 = vn @ ''/'' @ ln"
  shows "(\<forall>k. k \<noteq> (vn, ln) \<longrightarrow> m_lvs (meta t) k = m_lvs (meta s) k) \<and>
    (\<forall>sz. m_lvs (meta s) (vn, ln) = Some sz \<longrightarrow> (\<exists>sz' \<ge> sz. m_lvs (meta t) (vn, ln) = Some sz'))"
  using assms(1) unfolding Client_ExtendLogicalVolume_def Let_def
proof (cases rule: callE)
  case (error e u)
  then show ?thesis by (auto dest!: formatted_meta)
next
  case (result fmt u)
  define opts where "opts = (if ExtendLV_ResizeFS o10 \<and> \<not> fmt then o10\<lparr>ExtendLV_ResizeFS := False\<rparr> else o10)"
  have name: "ExtendLV_Name opts = vn @ ''/'' @ ln" using assms(2) by (simp add: opts_def)
  from result(2) obtain ra where "run c (''lvextend'' # ''--yes'' # am_ExtendLV (c_args c) opts) u = (ra, t)"
    unfolding opts_def [symmetric] by (auto elim!: run_classified_cases)
  from lvextend [OF this name] show ?thesis using formatted_meta [OF result(1)] by simp
qed

lemma RemoveLogicalVolume_effect:
  assumes "Client_RemoveLogicalVolume c o9 s = (r, t)" "RemoveLV_Name o9 = vn @ ''/'' @ ln"
  shows "case r of Inl e \<Rightarrow> meta t = meta s \<and>
           (errors_Is e LvmErrNotFound \<longrightarrow> m_lvs (meta s) (vn, ln) = None)
       | Inr _ \<Rightarrow> m_lvs (meta t) = (m_lvs (meta s))((vn, ln) := None)"
proof (cases "length (Split (CHR ''/'') (RemoveLV_Name o9)) \<noteq> 2")
  case True
  then show ?thesis using assms(1) by (auto simp: Client_RemoveLogicalVolume_def)
next
  case False
  with assms(1) have "run_classified c (''lvremove'' # ''--yes'' # am_RemoveLV (c_args c) o9) s = (r, t)"
    by (simp add: Client_RemoveLogicalVolume_def)
  then show ?thesis by (cases rule: run_classified_cases) (auto dest!: lvremove [OF _ assms(2)])
qed

end

context lvm_binary
begin

lemma ListPhysicalVolumes_all:
  "Client_ListPhysicalVolumes c None s = (Inr pvs, t) \<Longrightarrow>
    m_pvs (meta s) = map_of (map (\<lambda>p. (PV_Name p, PV_VGName p)) pvs)"
  by (auto simp: Client_ListPhysicalVolumes_def dest!: run_report_rows pvs_all)

lemma ListVolumeGroups_rows:
  "Client_ListVolumeGroups c o4 s = (Inr vgs, t) \<Longrightarrow> vg \<in> set vgs \<Longrightarrow>
    finite (lv_names (meta s) (VG_Name vg)) \<and> VG_LVCount vg = int (card (lv_names (meta s) (VG_Name vg)))"
  by (auto simp: Client_ListVolumeGroups_def dest!: run_report_rows dest: vgs_rows)

lemma ListLogicalVolumes_select:
  "Client_ListLogicalVolumes c (Some (zero_ListLVOptions\<lparr>ListLV_Select := ''vg_name='' @ n\<rparr>)) s = (Inr lvs, t) \<Longrightarrow>
    set (map (\<lambda>lv. (LV_Name lv, LV_Size lv)) lvs) = {(x, sz). m_lvs (meta s) (n, x) = Some sz}"
  unfolding Client_ListLogicalVolumes_def by (drule run_report_rows) (blast dest: lvs_select)

lemma RemovePhysicalVolume_effect:
  "Client_RemovePhysicalVolume c o3 s = (r, t) \<Longrightarrow>
      m_vgs (meta t) = m_vgs (meta s) \<and> m_lvs (meta t) = m_lvs (meta s) \<and>
      (case r of Inl e \<Rightarrow> m_pvs (meta t) = m_pvs (meta s)
       | Inr _ \<Rightarrow> m_pvs (meta t) = (m_pvs (meta s))(RemovePV_Name o3 := None))"
  unfolding Client_RemovePhysicalVolume_def
  by (erule run_classified_cases) (auto dest!: pvremove)

lemma CreateVolumeGroup_keeps:
  "Client_CreateVolumeGroup c o5 s = (r, t) \<Longrightarrow> m_lvs (meta t) = m_lvs (meta s)"
  unfolding Client_CreateVolumeGroup_def by (erule run_classified_cases) (auto dest!: vgcreate)

lemma RemoveVolumeGroup_effect:
  "Client_RemoveVolumeGroup c o6 s = (r, t) \<Longrightarrow>
      (case r of Inl e \<Rightarrow> m_lvs (meta t) = m_lvs (meta s)
       | Inr _ \<Rightarrow> m_lvs (meta t) = drop_vg (RemoveVG_Name o6) (m_lvs (meta s)))"
  unfolding Client_RemoveVolumeGroup_def by (erule run_classified_cases) (auto dest!: vgremove)

end

lemma NewClientManager_simps [simp]:
  "mgr_IsSupported (NewClientManager c) = Client_IsSupported c"
  "mgr_CreatePhysicalVolume (NewClientManager c) = Client_CreatePhysicalVolume c"
  "mgr_RemovePhysicalVolume (NewClientManager c) = Client_RemovePhysicalVolume c"
  "mgr_ListPhysicalVolumes (NewClientManager c) = Client_ListPhysicalVolumes c"
  "mgr_GetPhysicalVolume (NewClientManager c) = Client_GetPhysicalVolume c"
  "mgr_CreateVolumeGroup (NewClientManager c) = Client_CreateVolumeGroup c"
  "mgr_ListVolumeGroups (NewClientManager c) = Client_ListVolumeGroups c"
  "mgr_GetVolumeGroup (NewClientManager c) = Client_GetVolumeGroup c"
  "mgr_RemoveVolumeGroup (NewClientManager c) = Client_RemoveVolumeGroup c"
  "mgr_CreateLogicalVolume (NewClientManager c) = Client_CreateLogicalVolume c"
  "mgr_RemoveLogicalVolume (NewClientManager c) = Client_RemoveLogicalVolume c"
  "mgr_ListLogicalVolumes (NewClientManager c) = Client_ListLogicalVolumes c"
  "mgr_GetLogicalVolume (NewClientManager c) = Client_GetLogicalVolume c"
  "mgr_ExtendLogicalVolume (NewClientManager c) = Client_ExtendLogicalVolume c"
  "mgr_IsLogicalVolumeCorrupted (NewClientManager c) = Client_IsLogicalVolumeCorrupted c"
  "mgr_RemoveStaleDeviceMapperNodes (NewClientManager c) = Client_RemoveStaleDeviceMapperNodes c"
  by (simp_all add: NewClientManager_def)

sublocale lvm_binary \<subseteq> client: lvm_manager "NewClientManager c" meta
  by (unfold_locales, unfold NewClientManager_simps)
    ((rule list_meta ListPhysicalVolumes_all get_meta CreatePhysicalVolume_keeps
        RemovePhysicalVolume_effect ListVolumeGroups_rows GetVolumeGroup_name
        CreateVolumeGroup_keeps RemoveVolumeGroup_effect GetLogicalVolume_found
        GetLogicalVolume_missing ListLogicalVolumes_select RemoveLogicalVolume_effect
        IsCorrupted_meta RemoveStale_meta; assumption) |
      blast dest: CreateLogicalVolume_frame CreateLogicalVolume_ok ExtendLogicalVolume_effect)+

end
