(* ===== verification/LvmReference.thy ===== *)
theory LvmReference
  imports LvmClient
begin

text \<open>
  A node with disks and an executable that behaves as the driver relies on: an instance of the
  parameters of the LVM client, on which the locale \<open>lvm_binary\<close> is interpreted. Its metadata are
  association lists; its commands parse their arguments, refuse what they do not know, allocate in
  extents of 4 MiB and print JSON reports.
\<close>

section \<open>The node\<close>

record node =
  n_pvs :: "(string \<times> string) list"
  n_vgs :: "(string \<times> string list \<times> int) list"
  n_lvs :: "((string \<times> string) \<times> int) list"

definition meta_of :: "'z node_scheme \<Rightarrow> lvm_meta" where
  "meta_of n = \<lparr>m_pvs = map_of (n_pvs n), m_vgs = set (map fst (n_vgs n)), m_lvs = map_of (n_lvs n)\<rparr>"

lemma meta_of_simps [simp]:
  "m_pvs (meta_of n) = map_of (n_pvs n)"
  "m_vgs (meta_of n) = set (map fst (n_vgs n))"
  "m_lvs (meta_of n) = map_of (n_lvs n)"
  by (simp_all add: meta_of_def)

definition extent :: int where "extent = 4194304"

definition to_extents :: "int \<Rightarrow> int" where
  "to_extents b = (b + (extent - 1)) div extent * extent"

type_synonym 'z outcome = "(string \<times> string \<times> exec_error option) \<times> 'z node_scheme"

definition succeed :: "string \<Rightarrow> 'z node_scheme \<Rightarrow> 'z outcome" where
  "succeed out n = ((out, [], None), n)"

definition refuse :: "string \<Rightarrow> 'z node_scheme \<Rightarrow> 'z outcome" where
  "refuse text n = (([], text, Some \<lparr>ex_ExitStatus = Some 5, ex_Err = errors_New ''exit status 5''\<rparr>), n)"

section \<open>Arguments\<close>

definition arg :: "string \<Rightarrow> string \<Rightarrow> string list" where
  "arg k v = (if v = [] then [] else [''--'' @ k @ ''='' @ v])"

definition select_arg :: "string \<Rightarrow> string list" where
  "select_arg v = (if v = [] then [] else [''--select'', v])"

definition ref_args :: arg_marshal where
  "ref_args =
     \<lparr>am_ListPV = (\<lambda>p. ListPV_Names p),
      am_CreatePV = (\<lambda>p. [CreatePV_Name p]),
      am_RemovePV = (\<lambda>p. [RemovePV_Name p]),
      am_ListVG = (\<lambda>p. select_arg (ListVG_Select p) @ ListVG_Names p),
      am_CreateVG = (\<lambda>p. concat (map (arg ''addtag'') (CreateVG_Tags p)) @ (CreateVG_Name p # CreateVG_PVNames p)),
      am_RemoveVG = (\<lambda>p. [RemoveVG_Name p]),
      am_MakeVGDeviceNodes = (\<lambda>p. []),
      am_ListLV = (\<lambda>p. select_arg (ListLV_Select p) @ ListLV_Names p),
      am_CreateLV = (\<lambda>p. [''--name='' @ CreateLV_Name p, ''--size='' @ CreateLV_Size p] @
        arg ''type'' (CreateLV_Type p) @
        (case CreateLV_Stripes p of None \<Rightarrow> [] | Some k \<Rightarrow> arg ''stripes'' (show_int k)) @ [CreateLV_VGName p]),
      am_RemoveLV = (\<lambda>p. [RemoveLV_Name p]),
      am_ExtendLV = (\<lambda>p. [''--size='' @ ExtendLV_Size p, ExtendLV_Name p])\<rparr>"

definition parse_size :: "string \<Rightarrow> int option" where
  "parse_size a =
     (if HasPrefix a ''--size='' then
        (case ParseInt (TrimSuffix (drop 7 a) ''B'') of
           Some b \<Rightarrow> if 0 < b then Some b else None
         | None \<Rightarrow> None)
      else None)"

text \<open>A path \<open>vg/lv\<close> of two names.\<close>

definition parse_path :: "string \<Rightarrow> (string \<times> string) option" where
  "parse_path p =
     (case Split (CHR ''/'') p of
        [v, x] \<Rightarrow> if v = [] \<or> x = [] then None else Some (v, x)
      | _ \<Rightarrow> None)"

section \<open>Commands\<close>

definition pv_row :: "string \<times> string \<Rightarrow> (string \<times> string) list" where
  "pv_row p = [(''pv_name'', fst p), (''vg_name'', snd p)]"

definition lv_count :: "'z node_scheme \<Rightarrow> string \<Rightarrow> nat" where
  "lv_count n g = length (remdups (map (snd \<circ> fst) (filter (\<lambda>e. fst (fst e) = g) (n_lvs n))))"

definition vg_row :: "'z node_scheme \<Rightarrow> string \<times> string list \<times> int \<Rightarrow> (string \<times> string) list" where
  "vg_row n g =
     [(''vg_name'', fst g), (''vg_free'', show_int (snd (snd g)) @ ''B''),
      (''pv_count'', show_int (int (length (filter (\<lambda>p. snd p = fst g) (n_pvs n))))),
      (''lv_count'', show_int (int (lv_count n (fst g))))]"

definition lv_row :: "string \<times> string \<Rightarrow> int \<Rightarrow> (string \<times> string) list" where
  "lv_row k b = [(''lv_name'', snd k), (''lv_size'', show_int b @ ''B''), (''vg_name'', fst k)]"

definition report :: "string \<Rightarrow> (string \<times> string) list list \<Rightarrow> string" where
  "report k rows = json_print (report_json k rows)"

definition ref_pvs :: "string list \<Rightarrow> 'z node_scheme \<Rightarrow> 'z outcome" where
  "ref_pvs as n =
     (case as of
        [] \<Rightarrow> succeed (report ''pv'' (map pv_row (n_pvs n))) n
      | [d] \<Rightarrow>
          (case map_of (n_pvs n) d of
             None \<Rightarrow> refuse (''Cannot use '' @ d @ '': device not found'') n
           | Some g \<Rightarrow> succeed (report ''pv'' [pv_row (d, g)]) n)
      | _ \<Rightarrow> refuse ''Unsupported arguments.'' n)"

definition ref_vgs :: "string list \<Rightarrow> 'z node_scheme \<Rightarrow> 'z outcome" where
  "ref_vgs as n =
     (case as of
        [] \<Rightarrow> succeed (report ''vg'' (map (vg_row n) (n_vgs n))) n
      | [a] \<Rightarrow>
          (case map_of (n_vgs n) a of
             None \<Rightarrow> refuse (''Volume group '' @ Quote a @ '' not found'') n
           | Some g \<Rightarrow> succeed (report ''vg'' [vg_row n (a, g)]) n)
      | [f, v] \<Rightarrow>
          if f = ''--select'' \<and> HasPrefix v ''vg_tags=''
          then succeed (report ''vg'' (map (vg_row n) (filter (\<lambda>g. drop 8 v \<in> set (fst (snd g))) (n_vgs n)))) n
          else refuse ''Unsupported arguments.'' n
      | _ \<Rightarrow> refuse ''Unsupported arguments.'' n)"

definition group_rows :: "'z node_scheme \<Rightarrow> string \<Rightarrow> (string \<times> string) list list" where
  "group_rows n g =
     map (\<lambda>e. lv_row (fst e) (the (map_of (n_lvs n) (fst e)))) (filter (\<lambda>e. fst (fst e) = g) (n_lvs n))"

definition ref_lvs :: "string list \<Rightarrow> 'z node_scheme \<Rightarrow> 'z outcome" where
  "ref_lvs as n =
     (case as of
        [a] \<Rightarrow>
          (case parse_path a of
             None \<Rightarrow> refuse ''Invalid path for Logical Volume.'' n
           | Some k \<Rightarrow>
               (case map_of (n_lvs n) k of
                  None \<Rightarrow> refuse (''Failed to find logical volume '' @ Quote a) n
                | Some b \<Rightarrow> succeed (report ''lv'' [lv_row k b]) n))
      | [f, v] \<Rightarrow>
          if f = ''--select'' \<and> HasPrefix v ''vg_name=''
          then succeed (report ''lv'' (group_rows n (drop 8 v))) n
          else refuse ''Unsupported arguments.'' n
      | _ \<Rightarrow> refuse ''Unsupported arguments.'' n)"

definition ref_pvcreate :: "string list \<Rightarrow> 'z node_scheme \<Rightarrow> 'z outcome" where
  "ref_pvcreate as n =
     (case as of
        [d] \<Rightarrow>
          (if map_of (n_pvs n) d \<noteq> None
           then refuse (''Can't initialize physical volume '' @ Quote d @ '' of volume group'') n
           else succeed ''Physical volume successfully created.'' (n\<lparr>n_pvs := (d, []) # n_pvs n\<rparr>))
      | _ \<Rightarrow> refuse ''Unsupported arguments.'' n)"

definition ref_pvremove :: "string list \<Rightarrow> 'z node_scheme \<Rightarrow> 'z outcome" where
  "ref_pvremove as n =
     (case as of
        [d] \<Rightarrow>
          (if map_of (n_pvs n) d = Some []
           then succeed ''Labels on physical volume successfully wiped.''
             (n\<lparr>n_pvs := filter (\<lambda>p. fst p \<noteq> d) (n_pvs n)\<rparr>)
           else refuse (''PV '' @ d @ '' is used by a VG'') n)
      | _ \<Rightarrow> refuse ''Unsupported arguments.'' n)"

fun split_tags :: "string list \<Rightarrow> string list \<times> string list" where
  "split_tags [] = ([], [])"
| "split_tags (a # as) =
     (if HasPrefix a ''--addtag='' then (case split_tags as of (ts, r) \<Rightarrow> (drop 9 a # ts, r)) else ([], a # as))"

definition disk_bytes :: int where "disk_bytes = 1920383410176"

definition ref_vgcreate :: "string list \<Rightarrow> 'z node_scheme \<Rightarrow> 'z outcome" where
  "ref_vgcreate as n =
     (case split_tags as of
        (ts, g # ds) \<Rightarrow>
          (if map_of (n_vgs n) g \<noteq> None
           then refuse (''A volume group called '' @ g @ '' already exists.'') n
           else if list_all (\<lambda>d. map_of (n_pvs n) d = Some []) ds \<and> ds \<noteq> [] \<and> CHR ''/'' \<notin> set g
           then succeed ''Volume group successfully created''
             (n\<lparr>n_pvs := map (\<lambda>p. if fst p \<in> set ds then (fst p, g) else p) (n_pvs n),
                n_vgs := (g, ts, int (length ds) * to_extents (disk_bytes - extent)) # n_vgs n\<rparr>)
           else refuse ''Physical volume cannot be used.'' n)
      | _ \<Rightarrow> refuse ''Unsupported arguments.'' n)"

definition ref_vgremove :: "string list \<Rightarrow> 'z node_scheme \<Rightarrow> 'z outcome" where
  "ref_vgremove as n =
     (case as of
        [g] \<Rightarrow>
          (if map_of (n_vgs n) g = None then refuse (''Volume group '' @ Quote g @ '' not found'') n
           else succeed ''Volume group successfully removed''
             (n\<lparr>n_pvs := map (\<lambda>p. if snd p = g then (fst p, []) else p) (n_pvs n),
                n_vgs := filter (\<lambda>v. fst v \<noteq> g) (n_vgs n),
                n_lvs := filter (\<lambda>e. fst (fst e) \<noteq> g) (n_lvs n)\<rparr>))
      | _ \<Rightarrow> refuse ''Unsupported arguments.'' n)"

definition take_free :: "string \<Rightarrow> int \<Rightarrow> (string \<times> string list \<times> int) list \<Rightarrow> (string \<times> string list \<times> int) list" where
  "take_free g b = map (\<lambda>v. if fst v = g then (g, fst (snd v), snd (snd v) - b) else v)"

definition ref_lvcreate :: "string list \<Rightarrow> 'z node_scheme \<Rightarrow> 'z outcome" where
  "ref_lvcreate as n =
     (case as of
        a # z # rest \<Rightarrow>
          (let x = drop 7 a; g = last rest in
           case (map_of (n_vgs n) g, parse_size z) of
             (Some (ts, free), Some b) \<Rightarrow>
               if rest = [] \<or> x = [] \<or> CHR ''/'' \<in> set x then refuse ''Invalid logical volume name'' n
               else if map_of (n_lvs n) (g, x) \<noteq> None
               then refuse (''Logical Volume '' @ Quote x @ '' already exists in volume group '' @ Quote g) n
               else if free < to_extents b
               then refuse (''Volume group '' @ Quote g @ '' has insufficient free space'') n
               else succeed ''Logical volume created.''
                 (n\<lparr>n_lvs := ((g, x), to_extents b) # n_lvs n, n_vgs := take_free g (to_extents b) (n_vgs n)\<rparr>)
           | (None, _) \<Rightarrow> refuse (''Volume group '' @ Quote g @ '' not found'') n
           | _ \<Rightarrow> refuse ''Invalid argument for --size'' n)
      | _ \<Rightarrow> refuse ''Unsupported arguments.'' n)"

definition ref_lvremove :: "string list \<Rightarrow> 'z node_scheme \<Rightarrow> 'z outcome" where
  "ref_lvremove as n =
     (case as of
        [a] \<Rightarrow>
          (case parse_path a of
             None \<Rightarrow> refuse ''Invalid path for Logical Volume.'' n
           | Some k \<Rightarrow>
               (case map_of (n_lvs n) k of
                  None \<Rightarrow> refuse (''Failed to find logical volume '' @ Quote a) n
                | Some b \<Rightarrow> succeed ''Logical volume successfully removed.''
                    (n\<lparr>n_lvs := filter (\<lambda>e. fst e \<noteq> k) (n_lvs n),
                       n_vgs := take_free (fst k) (- b) (n_vgs n)\<rparr>)))
      | _ \<Rightarrow> refuse ''Unsupported arguments.'' n)"

definition ref_lvextend :: "string list \<Rightarrow> 'z node_scheme \<Rightarrow> 'z outcome" where
  "ref_lvextend as n =
     (case as of
        [z, a] \<Rightarrow>
          (case (parse_path a, parse_size z) of
             (Some k, Some b) \<Rightarrow>
               (case map_of (n_lvs n) k of
                  None \<Rightarrow> refuse (''Failed to find logical volume '' @ Quote a) n
                | Some old \<Rightarrow>
                    if to_extents b \<le> old then refuse ''New size given not larger than existing size'' n
                    else succeed ''Logical volume successfully resized.''
                      (n\<lparr>n_lvs := (k, to_extents b) # filter (\<lambda>e. fst e \<noteq> k) (n_lvs n),
                         n_vgs := take_free (fst k) (to_extents b - old) (n_vgs n)\<rparr>))
           | _ \<Rightarrow> refuse ''Invalid argument'' n)
      | _ \<Rightarrow> refuse ''Unsupported arguments.'' n)"

definition ref_lvm :: "string \<Rightarrow> string list \<Rightarrow> 'z node_scheme \<Rightarrow> 'z outcome" where
  "ref_lvm bin args n =
     (case args of
        [] \<Rightarrow> refuse ''No command given.'' n
      | cmd # as \<Rightarrow>
          if cmd = ''pvs'' then ref_pvs (drop 4 as) n
          else if cmd = ''vgs'' then ref_vgs (drop 4 as) n
          else if cmd = ''lvs'' then ref_lvs (drop 4 as) n
          else if cmd = ''pvcreate'' then ref_pvcreate as n
          else if cmd = ''pvremove'' then ref_pvremove (drop 1 as) n
          else if cmd = ''vgcreate'' then ref_vgcreate (drop 1 as) n
          else if cmd = ''vgremove'' then ref_vgremove (drop 1 as) n
          else if cmd = ''lvcreate'' then ref_lvcreate (drop 1 as) n
          else if cmd = ''lvremove'' then ref_lvremove (drop 1 as) n
          else if cmd = ''lvextend'' then ref_lvextend (drop 1 as) n
          else if cmd = ''vgmknodes'' then succeed [] n
          else if cmd = ''formats'' then succeed ''lvm2'' n
          else refuse ''No such command.'' n)"

section \<open>The host\<close>

definition block_mode :: "32 word" where "block_mode = 0x61B0"

definition disk_json :: "string \<Rightarrow> json" where
  "disk_json x = JObj [(''name'', JStr x), (''path'', JStr (''/dev/'' @ x)), (''type'', JStr ''disk''),
     (''mountpoint'', JNull), (''model'', JStr ''Microsoft NVMe Direct Disk v2''), (''size'', JNum ''1920383410176'')]"

definition ref_output :: "string \<Rightarrow> string list \<Rightarrow> 'z node_scheme \<Rightarrow> (string \<times> exec_error option) \<times> 'z node_scheme" where
  "ref_output cmd as n =
     (if cmd = ''lsblk''
      then ((json_print (JObj [(''blockdevices'', JArr (map disk_json [''nvme0n1'', ''nvme1n1'']))]), None), n)
      else if cmd = ''sh'' then (([], None), n)
      else if map_of (n_pvs n) (last as) = None
      then (([], Some \<lparr>ex_ExitStatus = Some 2, ex_Err = errors_New ''exit status 2''\<rparr>), n)
      else ((last as @ '': TYPE='' @ Quote ''LVM2_member'', None), n))"

definition ref_stat :: "string \<Rightarrow> ('z node_scheme, goerr, 32 word option) op" where
  "ref_stat p n =
     (if p \<in> set [''/dev/nvme0n1'', ''/dev/nvme1n1''] \<or>
         p \<in> set (map (\<lambda>e. ConstructLogicalVolumePath (fst (fst e)) (snd (fst e))) (n_lvs n))
      then (Inr (Some block_mode), n)
      else (Inl (sentinel_err OsErrNotExist), n))"

definition ref_host :: "'z node_scheme host" where
  "ref_host =
     \<lparr>h_LookPath = ok, h_CombinedOutput = ref_output, h_Run = ref_lvm, h_Stat = ref_stat,
      h_ReadDir = (\<lambda>p. fail (sentinel_err OsErrNotExist)), h_Remove = (\<lambda>p. ok ()),
      h_JsonErr = (\<lambda>_. ''unexpected end of JSON input'')\<rparr>"

definition ref_client :: "'z node_scheme client" where
  "ref_client =
     \<lparr>c_block = block_New ref_host, c_lvmPath = ''/sbin/lvm'', c_host = ref_host, c_args = ref_args\<rparr>"

section \<open>Running the executable\<close>

definition ref_error :: "string \<Rightarrow> goerr" where
  "ref_error text = errorf (''exit status 5: '' @ TrimSpace text) [errors_New ''exit status 5'']"

definition result_of :: "'z outcome \<Rightarrow> (goerr + string) \<times> 'z node_scheme" where
  "result_of r = (case r of ((out, text, Some err), n) \<Rightarrow>
       (Inl (errorf (err_msg (ex_Err err) @ '': '' @ TrimSpace text) [ex_Err err]), n)
     | ((out, text, None), n) \<Rightarrow> (Inr out, n))"

lemma result_of_simps [simp]:
  "result_of (succeed out n) = (Inr out, n)"
  "result_of (refuse text n) = (Inl (ref_error text), n)"
  by (simp_all add: result_of_def succeed_def refuse_def ref_error_def errors_New_def)

lemma run_ref: "run ref_client args n = result_of (ref_lvm ''/sbin/lvm'' args n)"
  by (simp add: run_def runCmd_def ref_client_def ref_host_def result_of_def split: prod.splits option.splits)

lemma run_ref_cmd [simp]:
  "run ref_client (''pvs'' # as) n = result_of (ref_pvs (drop 4 as) n)"
  "run ref_client (''vgs'' # as) n = result_of (ref_vgs (drop 4 as) n)"
  "run ref_client (''lvs'' # as) n = result_of (ref_lvs (drop 4 as) n)"
  "run ref_client (''pvcreate'' # as) n = result_of (ref_pvcreate as n)"
  "run ref_client (''pvremove'' # as) n = result_of (ref_pvremove (drop 1 as) n)"
  "run ref_client (''vgcreate'' # as) n = result_of (ref_vgcreate (drop 1 as) n)"
  "run ref_client (''vgremove'' # as) n = result_of (ref_vgremove (drop 1 as) n)"
  "run ref_client (''lvcreate'' # as) n = result_of (ref_lvcreate (drop 1 as) n)"
  "run ref_client (''lvremove'' # as) n = result_of (ref_lvremove (drop 1 as) n)"
  "run ref_client (''lvextend'' # as) n = result_of (ref_lvextend (drop 1 as) n)"
  "run ref_client (''vgmknodes'' # as) n = (Inr [], n)"
  "run ref_client (''formats'' # as) n = (Inr ''lvm2'', n)"
  by (simp_all add: run_ref ref_lvm_def)

lemma ref_args_simps [simp]:
  "am_ListPV ref_args p = ListPV_Names p"
  "am_CreatePV ref_args q = [CreatePV_Name q]"
  "am_RemovePV ref_args r = [RemovePV_Name r]"
  "am_ListVG ref_args s = select_arg (ListVG_Select s) @ ListVG_Names s"
  "am_RemoveVG ref_args t = [RemoveVG_Name t]"
  "am_ListLV ref_args u = select_arg (ListLV_Select u) @ ListLV_Names u"
  "am_RemoveLV ref_args v = [RemoveLV_Name v]"
  "am_ExtendLV ref_args w = [''--size='' @ ExtendLV_Size w, ExtendLV_Name w]"
  by (simp_all add: ref_args_def)

lemma ref_client_simps [simp]: "c_args ref_client = ref_args" "c_host ref_client = ref_host"
  "c_block ref_client = block_New ref_host"
  by (simp_all add: ref_client_def)

section \<open>Reading the reports\<close>

lemma row_keys [simp]:
  "\<not> EqualFold ''vg_name'' ''pv_name''" "\<not> EqualFold ''pv_name'' ''vg_name''"
  "\<not> EqualFold ''vg_free'' ''vg_name''" "\<not> EqualFold ''pv_count'' ''vg_name''"
  "\<not> EqualFold ''lv_count'' ''vg_name''" "\<not> EqualFold ''vg_name'' ''lv_count''"
  "\<not> EqualFold ''vg_free'' ''lv_count''" "\<not> EqualFold ''pv_count'' ''lv_count''"
  "\<not> EqualFold ''lv_size'' ''lv_name''" "\<not> EqualFold ''vg_name'' ''lv_name''"
  "\<not> EqualFold ''lv_name'' ''lv_size''" "\<not> EqualFold ''vg_name'' ''lv_size''"
  by code_simp+

abbreviation json_row :: "(string \<times> string) list \<Rightarrow> (string \<times> json) list" where
  "json_row r \<equiv> map (\<lambda>(k, v). (k, JStr v)) r"

lemma ParseInt_show_intD: "ParseInt (show_int i) = Some j \<Longrightarrow> j = i"
  by (auto simp: ParseInt_def split: if_splits)

lemma TrimSuffix_B [simp]: "TrimSuffix (s @ ''B'') ''B'' = s"
  by (rule TrimSuffix_append)

lemma decode_PV_fields:
  "decode_PhysicalVolume ms = Some x \<Longrightarrow>
     PV_Name x = row_string ms ''pv_name'' \<and> PV_VGName x = row_string ms ''vg_name''"
  unfolding decode_PhysicalVolume_def by (simp split: if_splits) (erule subst, simp)

lemma decode_VG_fields:
  "decode_VolumeGroup ms = Some x \<Longrightarrow> list_all (field_ok ms) VG_fields \<and>
     VG_Name x = row_string ms ''vg_name'' \<and> VG_LVCount x = row_int ms ''lv_count''"
  unfolding decode_VolumeGroup_def by (simp split: if_splits) (erule subst, simp)

lemma decode_LV_fields:
  "decode_LogicalVolume ms = Some x \<Longrightarrow> list_all (field_ok ms) LV_fields \<and>
     LV_Name x = row_string ms ''lv_name'' \<and> LV_Size x = row_int64 ms ''lv_size''"
  unfolding decode_LogicalVolume_def by (simp split: if_splits) (erule subst, simp)

lemma decode_PV_row:
  "decode_PhysicalVolume (json_row (pv_row p)) = Some x \<Longrightarrow> PV_Name x = fst p \<and> PV_VGName x = snd p"
  by (drule decode_PV_fields) (simp add: pv_row_def row_string_def string_field_def)

lemma field_okD:
  "list_all (field_ok ms) fs \<Longrightarrow> f \<in> set fs \<Longrightarrow> field_ok ms f"
  by (simp add: list_all_iff)

lemma decode_VG_row:
  assumes "decode_VolumeGroup (json_row (vg_row n g)) = Some x"
  shows "VG_Name x = fst g \<and> VG_LVCount x = int (lv_count n (fst g))"
proof -
  let ?ms = "json_row (vg_row n g)"
  have ok: "list_all (field_ok ?ms) VG_fields"
    and x: "VG_Name x = row_string ?ms ''vg_name''" "VG_LVCount x = row_int ?ms ''lv_count''"
    using decode_VG_fields [OF assms] by blast+
  have "(''lv_count'', KIntString) \<in> set VG_fields" by (simp add: VG_fields_def)
  from field_okD [OF ok this]
  have "ParseInt (show_int (int (lv_count n (fst g)))) \<noteq> None"
    by (auto simp: intstring_field_def vg_row_def IntString_Unmarshal_def split: option.splits)
  then have "ParseInt (show_int (int (lv_count n (fst g)))) = Some (int (lv_count n (fst g)))"
    by (auto dest: ParseInt_show_intD)
  then show ?thesis
    unfolding x
    by (simp add: vg_row_def row_string_def string_field_def row_int_def intstring_field_def
        IntString_Unmarshal_def)
qed

lemma decode_LV_row:
  assumes "decode_LogicalVolume (json_row (lv_row k b)) = Some x"
  shows "LV_Name x = snd k \<and> LV_Size x = b"
proof -
  let ?ms = "json_row (lv_row k b)"
  have ok: "list_all (field_ok ?ms) LV_fields"
    and x: "LV_Name x = row_string ?ms ''lv_name''" "LV_Size x = row_int64 ?ms ''lv_size''"
    using decode_LV_fields [OF assms] by blast+
  have "(''lv_size'', KInt64String) \<in> set LV_fields" by (simp add: LV_fields_def)
  from field_okD [OF ok this]
  have "ParseInt (show_int b) \<noteq> None"
    by (auto simp: int64string_field_def lv_row_def Int64String_Unmarshal_def split: option.splits)
  then have "ParseInt (show_int b) = Some b"
    by (auto dest: ParseInt_show_intD)
  then show ?thesis
    unfolding x
    by (simp add: lv_row_def row_string_def string_field_def row_int64_def int64string_field_def
        Int64String_Unmarshal_def)
qed

lemma those_SomeD: "those (map f xs) = Some ys \<Longrightarrow> list_all2 (\<lambda>x y. f x = Some y) xs ys"
  by (induction xs arbitrary: ys) (auto split: option.splits)

lemma list_all2_right: "list_all2 P xs ys \<Longrightarrow> y \<in> set ys \<Longrightarrow> \<exists>x \<in> set xs. P x y"
  by (induction rule: list_all2_induct) auto

lemma parse_reportD:
  "parse_report k f (report k rows) = Some xs \<Longrightarrow> list_all2 (\<lambda>r x. f (json_row r) = Some x) rows xs"
  unfolding report_def parse_report_print by (rule those_SomeD)

section \<open>The laws\<close>

lemma parse_path_iff:
  "parse_path p = Some (v, x) \<longleftrightarrow>
     p = v @ ''/'' @ x \<and> v \<noteq> [] \<and> x \<noteq> [] \<and> CHR ''/'' \<notin> set v \<and> CHR ''/'' \<notin> set x"
proof -
  have "parse_path p = Some (v, x) \<longleftrightarrow> Split (CHR ''/'') p = [v, x] \<and> v \<noteq> [] \<and> x \<noteq> []"
    by (auto simp: parse_path_def split: list.splits)
  then show ?thesis by (auto simp: Split_two_iff)
qed

lemma parse_path_slash: "parse_path (vn @ CHR ''/'' # ln) = Some k \<Longrightarrow> k = (vn, ln)"
  by (cases k) (auto simp: parse_path_iff append_eq_append_conv2 append_eq_Cons_conv Cons_eq_append_conv)

lemma bad_path_not_missing:
  "\<not> errors_Is (getErrorType (ref_error ''Invalid path for Logical Volume.'')) LvmErrNotFound"
  "\<not> errors_Is (getErrorType (ref_error ''Unsupported arguments.'')) LvmErrNotFound"
  by code_simp+

lemma ref_report_meta:
  "run ref_client (cmd # as) s = (ra, t) \<Longrightarrow> cmd \<in> {''pvs'', ''vgs'', ''lvs'', ''formats'', ''vgmknodes''} \<Longrightarrow> t = s"
  by (auto simp: ref_pvs_def ref_vgs_def ref_lvs_def split: list.splits option.splits if_splits)

lemma ref_pvs_all:
  "run ref_client (pvs_args ref_client None) s = (Inr out, t) \<Longrightarrow>
   parse_report ''pv'' decode_PhysicalVolume out = Some pvs \<Longrightarrow>
   n_pvs s = map (\<lambda>p. (PV_Name p, PV_VGName p)) pvs"
proof -
  assume "run ref_client (pvs_args ref_client None) s = (Inr out, t)"
    and p: "parse_report ''pv'' decode_PhysicalVolume out = Some pvs"
  then have "out = report ''pv'' (map pv_row (n_pvs s))" by (auto simp: pvs_args_def ref_pvs_def)
  with p have "list_all2 (\<lambda>r x. decode_PhysicalVolume (json_row (pv_row r)) = Some x) (n_pvs s) pvs"
    by (auto simp: list_all2_map1 dest!: parse_reportD)
  then show ?thesis by (induction rule: list_all2_induct) (auto dest: decode_PV_row)
qed

lemma lv_count_card: "lv_count n g = card (lv_names (meta_of n) g)"
proof -
  have "lv_names (meta_of n) g = set (map (snd \<circ> fst) (filter (\<lambda>e. fst (fst e) = g) (n_lvs n)))"
    by (force simp: lv_names_def map_of_eq_None_iff dom_map_of_conv_image_fst)
  then show ?thesis by (simp add: lv_count_def length_remdups_card_conv)
qed

lemma ref_vgs_output:
  assumes "result_of (ref_vgs as s) = (Inr out, t)"
  obtains gs where "out = report ''vg'' (map (vg_row s) gs)" "\<forall>n. as = [n] \<longrightarrow> fst ` set gs = {n}"
proof -
  consider (one) a g where "as = [a]" "out = report ''vg'' (map (vg_row s) [(a, g)])"
    | (many) gs where "\<And>n. as \<noteq> [n]" "out = report ''vg'' (map (vg_row s) gs)"
    using assms by (auto simp: ref_vgs_def split: option.splits list.splits if_splits)
  then show thesis
  proof cases
    case one
    then show thesis by (intro that [of "[(a, g)]"]) auto
  next
    case many
    then show thesis by (intro that [of gs]) auto
  qed
qed

lemma ref_vgs_rows:
  assumes "run ref_client (vgs_args ref_client opts) s = (Inr out, t)"
    and "parse_report ''vg'' decode_VolumeGroup out = Some vgs" and "vg \<in> set vgs"
  shows "VG_LVCount vg = int (card (lv_names (meta_of s) (VG_Name vg)))"
    and "opts = Some (zero_ListVGOptions\<lparr>ListVG_Names := [n]\<rparr>) \<Longrightarrow> VG_Name vg = n"
proof -
  let ?as = "case opts of None \<Rightarrow> [] | Some p \<Rightarrow> am_ListVG ref_args p"
  from assms(1) have "result_of (ref_vgs ?as s) = (Inr out, t)"
    by (simp add: vgs_args_def cong: option.case_cong)
  then obtain gs where out: "out = report ''vg'' (map (vg_row s) gs)"
    and gs: "\<forall>n. ?as = [n] \<longrightarrow> fst ` set gs = {n}"
    by (rule ref_vgs_output)
  have "list_all2 (\<lambda>g x. decode_VolumeGroup (json_row (vg_row s g)) = Some x) gs vgs"
    using parse_reportD [OF assms(2) [unfolded out]] by (simp add: list_all2_map1)
  then obtain g where g: "g \<in> set gs" "decode_VolumeGroup (json_row (vg_row s g)) = Some vg"
    using list_all2_right [OF _ assms(3)] by blast
  from decode_VG_row [OF g(2)]
  show "VG_LVCount vg = int (card (lv_names (meta_of s) (VG_Name vg)))" by (simp add: lv_count_card)
  assume "opts = Some (zero_ListVGOptions\<lparr>ListVG_Names := [n]\<rparr>)"
  then have "?as = [n]" by (simp add: zero_ListVGOptions_def select_arg_def)
  with gs have "fst ` set gs = {n}" by blast
  with g(1) decode_VG_row [OF g(2)] show "VG_Name vg = n" by auto
qed

lemma finite_lv_names: "finite (lv_names (meta_of n) g)"
  by (rule finite_subset [of _ "(snd \<circ> fst) ` set (n_lvs n)"])
    (force simp: lv_names_def map_of_eq_None_iff)+

lemma ref_lvs_named:
  "run ref_client (lvs_args ref_client (Some (zero_ListLVOptions\<lparr>ListLV_Names := [vn @ CHR ''/'' # ln]\<rparr>))) s = (ra, t) \<Longrightarrow>
   (case ra of
      Inl e \<Rightarrow> errors_Is (getErrorType e) LvmErrNotFound \<longrightarrow> map_of (n_lvs s) (vn, ln) = None
    | Inr out \<Rightarrow> \<exists>b. map_of (n_lvs s) (vn, ln) = Some b \<and> out = report ''lv'' [lv_row (vn, ln) b])"
  by (auto simp: lvs_args_def ref_lvs_def zero_ListLVOptions_def select_arg_def bad_path_not_missing
      dest!: parse_path_slash split: option.splits list.splits if_splits)

lemma ref_lvs_select:
  assumes "run ref_client (lvs_args ref_client (Some (zero_ListLVOptions\<lparr>ListLV_Select := ''vg_name='' @ n\<rparr>))) s =
        (Inr out, t)"
    and "parse_report ''lv'' decode_LogicalVolume out = Some lvs"
  shows "set (map (\<lambda>lv. (LV_Name lv, LV_Size lv)) lvs) = {(x, sz). map_of (n_lvs s) (n, x) = Some sz}"
proof -
  let ?es = "filter (\<lambda>e. fst (fst e) = n) (n_lvs s)"
  have "out = report ''lv'' (group_rows s n)"
    using assms(1) by (auto simp: lvs_args_def ref_lvs_def zero_ListLVOptions_def select_arg_def split: if_splits)
  with assms(2) have "list_all2 (\<lambda>e x. decode_LogicalVolume (json_row (lv_row (fst e) (the (map_of (n_lvs s) (fst e))))) = Some x)
      ?es lvs"
    by (auto simp: group_rows_def list_all2_map1 dest!: parse_reportD)
  then have "map (\<lambda>lv. (LV_Name lv, LV_Size lv)) lvs = map (\<lambda>e. (snd (fst e), the (map_of (n_lvs s) (fst e)))) ?es"
    by (induction rule: list_all2_induct) (auto dest: decode_LV_row)
  then show ?thesis
    by (auto simp: image_iff dest!: weak_map_of_SomeI dest: map_of_SomeD) (force dest: map_of_SomeD)+
qed


lemma map_of_filter_key: "map_of (filter (\<lambda>e. P (fst e)) xs) k = (if P k then map_of xs k else None)"
  by (induction xs) auto

lemma map_of_filter_neq: "map_of (filter (\<lambda>e. fst e \<noteq> k) xs) = (map_of xs)(k := None)"
  by (simp add: fun_eq_iff map_of_filter_key [of "\<lambda>x. x \<noteq> k"])

lemma map_of_filter_group: "map_of (filter (\<lambda>e. fst (fst e) \<noteq> g) xs) = drop_vg g (map_of xs)"
  by (simp add: fun_eq_iff map_of_filter_key [of "\<lambda>x. fst x \<noteq> g"] drop_vg_def)

lemma to_extents_ge: "b \<le> to_extents b"
proof -
  have "(b + (extent - 1)) div extent * extent = b + (extent - 1) - (b + (extent - 1)) mod extent"
    by (simp add: minus_mod_eq_div_mult)
  moreover have "(b + (extent - 1)) mod extent \<le> extent - 1"
    by (simp add: extent_def)
  ultimately show ?thesis by (simp add: to_extents_def)
qed

lemma fst_take_free [simp]: "map fst (take_free g b xs) = map fst xs"
  by (induction xs) (auto simp: take_free_def)

lemma ref_pvcreate_keeps:
  "result_of (ref_pvcreate as s) = (ra, t) \<Longrightarrow> n_vgs t = n_vgs s \<and> n_lvs t = n_lvs s"
  by (auto simp: ref_pvcreate_def split: list.splits if_splits)

lemma ref_pvremove_effect:
  "result_of (ref_pvremove [d] s) = (ra, t) \<Longrightarrow> n_vgs t = n_vgs s \<and> n_lvs t = n_lvs s \<and>
   (case ra of Inl e \<Rightarrow> n_pvs t = n_pvs s | Inr _ \<Rightarrow> map_of (n_pvs t) = (map_of (n_pvs s))(d := None))"
  by (auto simp: ref_pvremove_def map_of_filter_neq split: if_splits)

lemma ref_vgcreate_keeps: "result_of (ref_vgcreate as s) = (ra, t) \<Longrightarrow> n_lvs t = n_lvs s"
  by (auto simp: ref_vgcreate_def split: list.splits prod.splits if_splits)

lemma ref_vgremove_effect:
  "result_of (ref_vgremove [g] s) = (ra, t) \<Longrightarrow>
   (case ra of Inl e \<Rightarrow> n_lvs t = n_lvs s | Inr _ \<Rightarrow> map_of (n_lvs t) = drop_vg g (map_of (n_lvs s)))"
  by (auto simp: ref_vgremove_def map_of_filter_group split: if_splits)

lemma create_args:
  "\<exists>rest. am_CreateLV ref_args p = (''--name='' @ CreateLV_Name p) # (''--size='' @ CreateLV_Size p) # rest \<and>
     rest \<noteq> [] \<and> last rest = CreateLV_VGName p"
  by (simp add: ref_args_def)

lemma parse_size_show: "parse_size (''--size='' @ show_int b @ ''B'') = Some b' \<Longrightarrow> b' = b"
  by (auto simp: parse_size_def TrimSuffix_B [unfolded append_Cons append_Nil] dest: ParseInt_show_intD split: option.splits if_splits)

lemma ref_lvcreate_effect:
  assumes "result_of (ref_lvcreate (am_CreateLV ref_args p) s) = (ra, t)"
  shows "k \<noteq> (CreateLV_VGName p, CreateLV_Name p) \<Longrightarrow> map_of (n_lvs t) k = map_of (n_lvs s) k"
    and "ra = Inr out \<Longrightarrow> CreateLV_Size p = show_int b @ ''B'' \<Longrightarrow>
      \<exists>sz \<ge> b. map_of (n_lvs t) (CreateLV_VGName p, CreateLV_Name p) = Some sz"
proof -
  obtain rest where args: "am_CreateLV ref_args p = (''--name='' @ CreateLV_Name p) # (''--size='' @ CreateLV_Size p) # rest"
    and rest: "rest \<noteq> []" "last rest = CreateLV_VGName p"
    using create_args by blast
  show "k \<noteq> (CreateLV_VGName p, CreateLV_Name p) \<Longrightarrow> map_of (n_lvs t) k = map_of (n_lvs s) k"
    using assms rest unfolding args
    by (auto simp: ref_lvcreate_def Let_def split: option.splits if_splits prod.splits)
  assume "ra = Inr out" "CreateLV_Size p = show_int b @ ''B''"
  then show "\<exists>sz \<ge> b. map_of (n_lvs t) (CreateLV_VGName p, CreateLV_Name p) = Some sz"
    using assms rest to_extents_ge [of b] unfolding args
    by (auto simp: ref_lvcreate_def Let_def dest!: parse_size_show [unfolded append_Cons append_Nil]
        split: option.splits if_splits prod.splits)
qed

lemma ref_lvremove_effect:
  "result_of (ref_lvremove [vn @ CHR ''/'' # ln] s) = (ra, t) \<Longrightarrow>
   (case ra of
      Inl e \<Rightarrow> t = s \<and> (errors_Is (getErrorType e) LvmErrNotFound \<longrightarrow> map_of (n_lvs s) (vn, ln) = None)
    | Inr _ \<Rightarrow> map_of (n_lvs t) = (map_of (n_lvs s))((vn, ln) := None))"
  by (auto simp: ref_lvremove_def bad_path_not_missing map_of_filter_neq dest!: parse_path_slash
      split: option.splits)

lemma ref_lvextend_effect:
  "result_of (ref_lvextend [z, vn @ CHR ''/'' # ln] s) = (ra, t) \<Longrightarrow>
   (\<forall>k. k \<noteq> (vn, ln) \<longrightarrow> map_of (n_lvs t) k = map_of (n_lvs s) k) \<and>
   (\<forall>sz. map_of (n_lvs s) (vn, ln) = Some sz \<longrightarrow> (\<exists>sz' \<ge> sz. map_of (n_lvs t) (vn, ln) = Some sz'))"
  by (auto simp: ref_lvextend_def map_of_filter_neq dest!: parse_path_slash
      split: option.splits if_splits prod.splits)


section \<open>The interpretation\<close>

lemma ref_output_state: "ref_output cmd as s = (r, t) \<Longrightarrow> t = s"
  by (auto simp: ref_output_def split: if_splits)

lemma ref_host_simps [simp]:
  "h_CombinedOutput ref_host = ref_output" "h_Stat ref_host = ref_stat"
  "h_LookPath ref_host = ok" "h_ReadDir ref_host p = fail (sentinel_err OsErrNotExist)"
  "h_Remove ref_host q = ok ()" "h_JsonErr ref_host out = ''unexpected end of JSON input''"
  by (simp_all add: ref_host_def)

lemma ref_stat_state: "ref_stat p s = (r, t) \<Longrightarrow> t = s"
  by (auto simp: ref_stat_def split: if_splits)

lemma ref_block_state:
  "blk_IsFormatted (block_New ref_host) p s = (ra, t) \<Longrightarrow> t = s"
  "blk_IsLVM2 (block_New ref_host) p s = (rb, t) \<Longrightarrow> t = s"
  "blk_IsBlockDevice (block_New ref_host) p s = (rb, t) \<Longrightarrow> t = s"
  "blk_GetDevices (block_New ref_host) s = (rc, t) \<Longrightarrow> t = s"
  by (auto simp: block_New_def IsFormatted_def IsLVM2_def IsBlockDevice_def GetDevices_def blkid_def Let_def
      elim!: callE dest!: ref_output_state ref_stat_state split: option.splits if_splits prod.splits)

interpretation ref: lvm_binary ref_client meta_of
proof (unfold_locales, goal_cases)
  case 1
  then show ?case by (auto dest!: ref_report_meta)
next
  case 2
  then show ?case by (auto dest!: ref_pvs_all)
next
  case 3
  then show ?case by (auto dest: ref_vgs_rows(1) intro: finite_lv_names)
next
  case 4
  then show ?case by (auto dest: ref_vgs_rows(2))
next
  case 5
  then show ?case
    by (auto dest!: ref_lvs_named [unfolded append_Cons append_Nil] parse_reportD decode_LV_row simp: list_all2_Cons1)
next
  case 6
  then show ?case by (auto dest!: ref_lvs_named)
next
  case 7
  then show ?case unfolding meta_of_simps by (rule ref_lvs_select)
next
  case 8
  then show ?case by (simp add: ref_pvcreate_keeps)
next
  case (9 o3 s ra t)
  then have "result_of (ref_pvremove [RemovePV_Name o3] s) = (ra, t)" by simp
  then show ?case by (auto dest!: ref_pvremove_effect split: sum.splits)
next
  case 10
  then show ?case by (simp add: ref_vgcreate_keeps)
next
  case (11 o6 s ra t)
  then have "result_of (ref_vgremove [RemoveVG_Name o6] s) = (ra, t)" by simp
  then show ?case by (auto dest!: ref_vgremove_effect split: sum.splits)
next
  case (12 o8 s ra t k)
  then have "result_of (ref_lvcreate (am_CreateLV ref_args o8) s) = (ra, t)" by simp
  from ref_lvcreate_effect(1) [OF this 12(2)] show ?case by simp
next
  case (13 o8 s out t b)
  then have "result_of (ref_lvcreate (am_CreateLV ref_args o8) s) = (Inr out, t)" by simp
  from ref_lvcreate_effect(2) [OF this refl 13(2)] show ?case by simp
next
  case (14 o9 s ra t vn ln)
  then have "result_of (ref_lvremove [vn @ CHR ''/'' # ln] s) = (ra, t)" by simp
  then show ?case by (auto dest!: ref_lvremove_effect split: sum.splits)
next
  case (15 o10 s ra t vn ln)
  then have "result_of (ref_lvextend [''--size='' @ ExtendLV_Size o10, vn @ CHR ''/'' # ln] s) = (ra, t)" by simp
  from ref_lvextend_effect [OF this] show ?case by simp
next
  case 16
  then show ?case by (auto dest!: ref_block_state)
next
  case 17
  then show ?case by (auto dest!: ref_block_state)
next
  case 18
  then show ?case by (auto dest!: ref_stat_state)
next
  case 19
  then show ?case by auto
next
  case 20
  then show ?case by auto
next
  case 21
  show ?case by (simp only: ref_client_simps ref_host_simps) code_simp
qed

end
