(* ===== verification/Csi.thy ===== *)
theory Csi
  imports Effects
begin

text \<open>
  The messages of the CSI protocol (\<open>github.com/container-storage-interface/spec\<close>), with the
  fields that the driver reads or writes, and gRPC status errors.

  A message pointer that may be nil is an \<open>option\<close>; a getter of a nil message gives the zero value,
  as the generated getters do. A nil map and an empty map have no observable difference in the
  driver and are both \<open>Map.empty\<close>.
\<close>

section \<open>Capabilities\<close>

datatype access_mode =
    MODE_UNKNOWN
  | SINGLE_NODE_WRITER
  | SINGLE_NODE_READER_ONLY
  | MULTI_NODE_READER_ONLY
  | MULTI_NODE_SINGLE_WRITER
  | MULTI_NODE_MULTI_WRITER
  | SINGLE_NODE_SINGLE_WRITER
  | SINGLE_NODE_MULTI_WRITER

fun access_mode_String :: "access_mode \<Rightarrow> string" where
  "access_mode_String MODE_UNKNOWN = ''UNKNOWN''"
| "access_mode_String SINGLE_NODE_WRITER = ''SINGLE_NODE_WRITER''"
| "access_mode_String SINGLE_NODE_READER_ONLY = ''SINGLE_NODE_READER_ONLY''"
| "access_mode_String MULTI_NODE_READER_ONLY = ''MULTI_NODE_READER_ONLY''"
| "access_mode_String MULTI_NODE_SINGLE_WRITER = ''MULTI_NODE_SINGLE_WRITER''"
| "access_mode_String MULTI_NODE_MULTI_WRITER = ''MULTI_NODE_MULTI_WRITER''"
| "access_mode_String SINGLE_NODE_SINGLE_WRITER = ''SINGLE_NODE_SINGLE_WRITER''"
| "access_mode_String SINGLE_NODE_MULTI_WRITER = ''SINGLE_NODE_MULTI_WRITER''"

record MountVolume =
  mv_FsType :: string
  mv_MountFlags :: "string list"

datatype access_type = NoAccessType | BlockAccess | MountAccess MountVolume

record VolumeCapability =
  vc_AccessType :: access_type
  vc_AccessMode :: "access_mode option"

definition GetMode :: "access_mode option \<Rightarrow> access_mode" where
  "GetMode m = (case m of None \<Rightarrow> MODE_UNKNOWN | Some x \<Rightarrow> x)"

definition GetBlock :: "VolumeCapability \<Rightarrow> unit option" where
  "GetBlock c = (case vc_AccessType c of BlockAccess \<Rightarrow> Some () | _ \<Rightarrow> None)"

definition GetMount :: "VolumeCapability \<Rightarrow> MountVolume option" where
  "GetMount c = (case vc_AccessType c of MountAccess m \<Rightarrow> Some m | _ \<Rightarrow> None)"

datatype controller_rpc =
    CONTROLLER_UNKNOWN
  | CREATE_DELETE_VOLUME
  | PUBLISH_UNPUBLISH_VOLUME
  | LIST_VOLUMES
  | GET_CAPACITY
  | CREATE_DELETE_SNAPSHOT
  | LIST_SNAPSHOTS
  | CLONE_VOLUME
  | PUBLISH_READONLY
  | CONTROLLER_EXPAND_VOLUME
  | LIST_VOLUMES_PUBLISHED_NODES
  | CONTROLLER_VOLUME_CONDITION
  | GET_VOLUME
  | CONTROLLER_SINGLE_NODE_MULTI_WRITER
  | MODIFY_VOLUME

fun controller_rpc_String :: "controller_rpc \<Rightarrow> string" where
  "controller_rpc_String CONTROLLER_UNKNOWN = ''UNKNOWN''"
| "controller_rpc_String CREATE_DELETE_VOLUME = ''CREATE_DELETE_VOLUME''"
| "controller_rpc_String PUBLISH_UNPUBLISH_VOLUME = ''PUBLISH_UNPUBLISH_VOLUME''"
| "controller_rpc_String LIST_VOLUMES = ''LIST_VOLUMES''"
| "controller_rpc_String GET_CAPACITY = ''GET_CAPACITY''"
| "controller_rpc_String CREATE_DELETE_SNAPSHOT = ''CREATE_DELETE_SNAPSHOT''"
| "controller_rpc_String LIST_SNAPSHOTS = ''LIST_SNAPSHOTS''"
| "controller_rpc_String CLONE_VOLUME = ''CLONE_VOLUME''"
| "controller_rpc_String PUBLISH_READONLY = ''PUBLISH_READONLY''"
| "controller_rpc_String CONTROLLER_EXPAND_VOLUME = ''EXPAND_VOLUME''"
| "controller_rpc_String LIST_VOLUMES_PUBLISHED_NODES = ''LIST_VOLUMES_PUBLISHED_NODES''"
| "controller_rpc_String CONTROLLER_VOLUME_CONDITION = ''VOLUME_CONDITION''"
| "controller_rpc_String GET_VOLUME = ''GET_VOLUME''"
| "controller_rpc_String CONTROLLER_SINGLE_NODE_MULTI_WRITER = ''SINGLE_NODE_MULTI_WRITER''"
| "controller_rpc_String MODIFY_VOLUME = ''MODIFY_VOLUME''"

record ControllerServiceCapability =
  csc_Rpc :: "controller_rpc option"

definition csc_GetType :: "ControllerServiceCapability \<Rightarrow> controller_rpc" where
  "csc_GetType c = (case csc_Rpc c of None \<Rightarrow> CONTROLLER_UNKNOWN | Some r \<Rightarrow> r)"

datatype node_rpc =
    NODE_UNKNOWN
  | STAGE_UNSTAGE_VOLUME
  | GET_VOLUME_STATS
  | NODE_EXPAND_VOLUME
  | NODE_VOLUME_CONDITION
  | NODE_SINGLE_NODE_MULTI_WRITER
  | VOLUME_MOUNT_GROUP

record NodeServiceCapability =
  nsc_Rpc :: "node_rpc option"

section \<open>Requests and responses\<close>

record CapacityRange =
  cr_RequiredBytes :: int
  cr_LimitBytes :: int

definition GetRequiredBytes :: "CapacityRange option \<Rightarrow> int" where
  "GetRequiredBytes r = (case r of None \<Rightarrow> 0 | Some c \<Rightarrow> cr_RequiredBytes c)"

definition GetLimitBytes :: "CapacityRange option \<Rightarrow> int" where
  "GetLimitBytes r = (case r of None \<Rightarrow> 0 | Some c \<Rightarrow> cr_LimitBytes c)"

type_synonym string_map = "string \<rightharpoonup> string"

record Topology =
  top_Segments :: string_map

datatype VolumeContentSource = SnapshotSource string | VolumeSource string

record Volume =
  vol_CapacityBytes :: int
  vol_VolumeId :: string
  vol_VolumeContext :: string_map
  vol_ContentSource :: "VolumeContentSource option"
  vol_AccessibleTopology :: "Topology list"

record CreateVolumeRequest =
  cv_Name :: string
  cv_CapacityRange :: "CapacityRange option"
  cv_VolumeCapabilities :: "VolumeCapability list"
  cv_Parameters :: string_map
  cv_VolumeContentSource :: "VolumeContentSource option"

record DeleteVolumeRequest =
  dv_VolumeId :: string

record ListVolumesRequest =
  lr_MaxEntries :: int
  lr_StartingToken :: string

record ListVolumesResponse =
  lr_Entries :: "Volume list"

record GetCapacityRequest =
  gc_Parameters :: string_map
  gc_AccessibleTopology :: "Topology option"

record GetCapacityResponse =
  gc_AvailableCapacity :: int
  gc_MaximumVolumeSize :: "int option"

record ValidateVolumeCapabilitiesRequest =
  vr_VolumeId :: string
  vr_VolumeContext :: string_map
  vr_VolumeCapabilities :: "VolumeCapability list"
  vr_Parameters :: string_map
  vr_MutableParameters :: string_map

record ValidateConfirmed =
  vcf_VolumeContext :: string_map
  vcf_VolumeCapabilities :: "VolumeCapability list"
  vcf_Parameters :: string_map
  vcf_MutableParameters :: string_map

record NodeExpandVolumeRequest =
  ne_VolumeId :: string
  ne_VolumePath :: string
  ne_CapacityRange :: "CapacityRange option"
  ne_VolumeCapability :: "VolumeCapability option"

record NodeExpandVolumeResponse =
  ne_CapacityBytes :: int

record NodeStageVolumeRequest =
  nst_VolumeId :: string
  nst_StagingTargetPath :: string
  nst_VolumeCapability :: "VolumeCapability option"

record NodeUnstageVolumeRequest =
  nun_VolumeId :: string
  nun_StagingTargetPath :: string

record NodePublishVolumeRequest =
  npb_VolumeId :: string
  npb_StagingTargetPath :: string
  npb_TargetPath :: string
  npb_VolumeCapability :: "VolumeCapability option"
  npb_Readonly :: bool

record NodeUnpublishVolumeRequest =
  nup_VolumeId :: string
  nup_TargetPath :: string

record NodeGetVolumeStatsRequest =
  nvs_VolumeId :: string
  nvs_VolumePath :: string

datatype usage_unit = USAGE_UNKNOWN | USAGE_BYTES | USAGE_INODES

record VolumeUsage =
  vu_Unit :: usage_unit
  vu_Available :: int
  vu_Total :: int
  vu_Used :: int

record NodeGetInfoResponse =
  ngi_NodeId :: string
  ngi_AccessibleTopology :: Topology

section \<open>gRPC errors\<close>

datatype grpc_code =
    OK | Canceled | Unknown | InvalidArgument | NotFound | AlreadyExists | PermissionDenied
  | ResourceExhausted | FailedPrecondition | Aborted | OutOfRange | Unimplemented | Internal
  | Unavailable

text \<open>What a handler returns as its error: a status error, or any other error, which gRPC sends to
  the caller with code \<open>Unknown\<close>.\<close>

datatype rpc_error = StatusError grpc_code string | PlainError goerr

fun status_Code :: "rpc_error \<Rightarrow> grpc_code" where
  "status_Code (StatusError c _) = c"
| "status_Code (PlainError _) = Unknown"

fun status_Message :: "rpc_error \<Rightarrow> string" where
  "status_Message (StatusError _ m) = m"
| "status_Message (PlainError e) = err_msg e"

end
