(* ===== verification/Capability.thy ===== *)
theory Capability
  imports Csi
begin

text \<open>
  Validation of capabilities: package \<open>internal/csi/capability\<close>. A nil error is \<open>None\<close>. The text
  that \<open>%v\<close> gives for a list of capability messages is a parameter, since it comes from the
  protobuf runtime.
\<close>

section \<open>Controller capabilities\<close>

definition ValidateController ::
  "controller_rpc \<Rightarrow> ControllerServiceCapability list \<Rightarrow> goerr option" where
  "ValidateController c supported =
     (if c = CONTROLLER_UNKNOWN then None
      else if \<exists>cap \<in> set supported. c = csc_GetType cap then None
      else Some (errors_New (''unsupported capability '' @ controller_rpc_String c)))"

definition NewControllerServiceCapability :: "controller_rpc \<Rightarrow> ControllerServiceCapability" where
  "NewControllerServiceCapability cap = \<lparr>csc_Rpc = Some cap\<rparr>"

definition NewNodeServiceCapability :: "node_rpc \<Rightarrow> NodeServiceCapability" where
  "NewNodeServiceCapability cap = \<lparr>nsc_Rpc = Some cap\<rparr>"

section \<open>Volume capabilities\<close>

definition ErrVolCapabilityMissing :: goerr where
  "ErrVolCapabilityMissing = errors_New ''volume capabilities missing in request''"

definition ErrVolCapabilityAccessModeInvalid :: goerr where
  "ErrVolCapabilityAccessModeInvalid = errors_New ''invalid access mode''"

definition ErrVolCapabilityAccessModeUnsupported :: goerr where
  "ErrVolCapabilityAccessModeUnsupported = errors_New ''unsupported access mode''"

definition ErrVolCapabilityAccessTypeNotSet :: goerr where
  "ErrVolCapabilityAccessTypeNotSet = errors_New ''no access type set''"

definition validCaps :: "access_mode list" where
  "validCaps =
     [SINGLE_NODE_WRITER, SINGLE_NODE_READER_ONLY, SINGLE_NODE_SINGLE_WRITER,
      SINGLE_NODE_MULTI_WRITER, MULTI_NODE_READER_ONLY, MULTI_NODE_SINGLE_WRITER,
      MULTI_NODE_MULTI_WRITER]"

definition IsSupportedVolume :: "VolumeCapability list \<Rightarrow> access_mode list \<Rightarrow> bool" where
  "IsSupportedVolume requested supported \<longleftrightarrow>
     requested \<noteq> [] \<and>
     (\<forall>r \<in> set requested. \<exists>s \<in> set supported. GetMode (vc_AccessMode r) = s)"

definition IsValidAccessModes :: "VolumeCapability list \<Rightarrow> bool" where
  "IsValidAccessModes requested \<longleftrightarrow>
     (\<forall>c \<in> set requested. \<exists>v \<in> set validCaps. v = GetMode (vc_AccessMode c))"

definition IsValidVolume :: "VolumeCapability list \<Rightarrow> goerr option" where
  "IsValidVolume requested =
     (if requested = [] then Some ErrVolCapabilityMissing
      else if \<not> IsValidAccessModes requested then Some ErrVolCapabilityAccessModeInvalid
      else if \<exists>c \<in> set requested. GetBlock c = None \<and> GetMount c = None
        then Some ErrVolCapabilityAccessTypeNotSet
      else None)"

definition ValidateVolume :: "VolumeCapability list \<Rightarrow> access_mode list \<Rightarrow> goerr option" where
  "ValidateVolume requested supported =
     (case IsValidVolume requested of
        Some err \<Rightarrow> Some err
      | None \<Rightarrow>
          if \<not> IsSupportedVolume requested supported then Some ErrVolCapabilityAccessModeUnsupported
          else None)"

text \<open>The check that the node service applies to a capability, one after the other; the loop
  returns at the first capability it refuses.\<close>

fun check_volCaps :: "VolumeCapability list \<Rightarrow> goerr option" where
  "check_volCaps [] = None"
| "check_volCaps (c # cs) =
     (let accessMode = GetMode (vc_AccessMode c) in
      if GetBlock c = None \<and> GetMount c = None
        then Some (errors_New ''blockVolume and mountVolume are both nil'')
      else if GetBlock c \<noteq> None \<and> GetMount c \<noteq> None
        then Some (errors_New ''blockVolume and mountVolume are both not nil'')
      else if GetMount c \<noteq> None \<and>
          (accessMode = MULTI_NODE_MULTI_WRITER \<or> accessMode = MULTI_NODE_READER_ONLY \<or>
           accessMode = MULTI_NODE_SINGLE_WRITER)
        then Some (errors_New (''mountVolume is not supported for access mode: '' @
            access_mode_String accessMode))
      else check_volCaps cs)"

definition IsValidVolumeCapabilities ::
  "(VolumeCapability list \<Rightarrow> string) \<Rightarrow> VolumeCapability list \<Rightarrow> goerr option" where
  "IsValidVolumeCapabilities show_caps volCaps =
     (if \<not> IsValidAccessModes volCaps
        then Some (errors_New (''invalid access mode: '' @ show_caps volCaps))
      else check_volCaps volCaps)"

section \<open>What the checks accept\<close>

lemma mem_validCaps [simp]: "m \<in> set validCaps \<longleftrightarrow> m \<noteq> MODE_UNKNOWN"
  by (cases m) (simp_all add: validCaps_def)

lemma IsValidAccessModes_iff:
  "IsValidAccessModes cs \<longleftrightarrow> (\<forall>c \<in> set cs. GetMode (vc_AccessMode c) \<noteq> MODE_UNKNOWN)"
  by (auto simp: IsValidAccessModes_def)

lemma no_access_type_iff: "GetBlock c = None \<and> GetMount c = None \<longleftrightarrow> vc_AccessType c = NoAccessType"
  by (auto simp: GetBlock_def GetMount_def split: access_type.splits)

lemma not_both_access_types: "\<not> (GetBlock c \<noteq> None \<and> GetMount c \<noteq> None)"
  by (auto simp: GetBlock_def GetMount_def split: access_type.splits)

definition multi_node :: "access_mode \<Rightarrow> bool" where
  "multi_node m \<longleftrightarrow>
     m \<in> {MULTI_NODE_MULTI_WRITER, MULTI_NODE_READER_ONLY, MULTI_NODE_SINGLE_WRITER}"

lemma check_volCaps_None_iff:
  "check_volCaps cs = None \<longleftrightarrow>
     (\<forall>c \<in> set cs. vc_AccessType c \<noteq> NoAccessType \<and>
        (GetMount c \<noteq> None \<longrightarrow> \<not> multi_node (GetMode (vc_AccessMode c))))"
proof (induction cs)
  case (Cons c cs)
  show ?case
    using no_access_type_iff [of c] not_both_access_types [of c] Cons.IH
    by (auto simp: Let_def multi_node_def)
qed simp

lemma IsValidVolumeCapabilities_None_iff:
  "IsValidVolumeCapabilities sc cs = None \<longleftrightarrow>
     (\<forall>c \<in> set cs. GetMode (vc_AccessMode c) \<noteq> MODE_UNKNOWN \<and> vc_AccessType c \<noteq> NoAccessType \<and>
        (GetMount c \<noteq> None \<longrightarrow> \<not> multi_node (GetMode (vc_AccessMode c))))"
  by (auto simp: IsValidVolumeCapabilities_def IsValidAccessModes_iff check_volCaps_None_iff)

text \<open>C36. \<open>ValidateVolume\<close> accepts a request exactly if it names at least one capability, every
  capability has an access mode of the protocol that the driver supports, and every capability
  says whether the volume is used as a block device or mounted. In particular the order of its
  checks loses no case: a list that passes has all three properties.\<close>

theorem ValidateVolume_accepts:
  "ValidateVolume requested supported = None \<longleftrightarrow>
     requested \<noteq> [] \<and>
     (\<forall>c \<in> set requested. GetMode (vc_AccessMode c) \<in> set supported - {MODE_UNKNOWN} \<and>
        vc_AccessType c \<noteq> NoAccessType)"
  by (auto simp: ValidateVolume_def IsValidVolume_def IsSupportedVolume_def IsValidAccessModes_iff
      no_access_type_iff split: option.splits if_splits)

theorem ValidateVolume_accepts_witness:
  "ValidateVolume [\<lparr>vc_AccessType = BlockAccess, vc_AccessMode = Some SINGLE_NODE_WRITER\<rparr>]
     [SINGLE_NODE_WRITER] = None"
  by (simp add: ValidateVolume_accepts GetMode_def)

end
