(* ===== verification/CoreLvm.thy ===== *)
theory CoreLvm
  imports LvmManager Block VolumeId Csi Capability
begin

text \<open>
  The volume manager of a node: \<open>internal/csi/core/lvm/lvm.go\<close>, \<open>controller.go\<close> and \<open>node.go\<close>.

  The struct \<open>LVM\<close> is a record; the interfaces it holds, \<open>lvm.Manager\<close> and \<open>probe.Interface\<close>, are
  records of operations on the state \<open>'s\<close> of the node. The recorder that the code takes from its
  context is an argument of every method that records events. A method returns either an error or
  a value, as the interfaces promise. Calls of \<open>vgGroup.Do\<close> that do not overlap run their function.
\<close>

section \<open>Constants and the driver object\<close>

definition DriverName :: string where "DriverName = ''localdisk.csi.acstor.io''"
definition VolumeGroupNameParam :: string where "VolumeGroupNameParam = ''volumeGroup''"
definition DefaultVolumeGroup :: string where "DefaultVolumeGroup = ''containerstorage''"
definition DefaultVolumeGroupTag :: string where "DefaultVolumeGroupTag = ''local-csi''"
definition TopologyKey :: string where "TopologyKey = ''topology.localdisk.csi.acstor.io/node''"
definition raid0LvType :: string where "raid0LvType = ''raid0''"
definition CapacityParam :: string where "CapacityParam = DriverName @ ''/capacity''"
definition LimitParam :: string where "LimitParam = DriverName @ ''/limit''"
definition ExpandedCapacityParam :: string where
  "ExpandedCapacityParam = DriverName @ ''/expanded-capacity''"

abbreviation Normal :: string where "Normal \<equiv> ''Normal''"
abbreviation Warning :: string where "Warning \<equiv> ''Warning''"

definition controllerCapabilities :: "controller_rpc list" where
  "controllerCapabilities = [CREATE_DELETE_VOLUME, GET_CAPACITY]"

definition nodeCapabilities :: "node_rpc list" where
  "nodeCapabilities = [STAGE_UNSTAGE_VOLUME, NODE_EXPAND_VOLUME, GET_VOLUME_STATS]"

definition accessModes :: "access_mode list" where
  "accessModes = [SINGLE_NODE_WRITER, SINGLE_NODE_READER_ONLY, SINGLE_NODE_SINGLE_WRITER]"

definition GetControllerDriverCapabilities :: "ControllerServiceCapability list" where
  "GetControllerDriverCapabilities = map NewControllerServiceCapability controllerCapabilities"

definition GetNodeDriverCapabilities :: "NodeServiceCapability list" where
  "GetNodeDriverCapabilities = map NewNodeServiceCapability nodeCapabilities"

definition GetNodeAccessModes :: "access_mode list" where
  "GetNodeAccessModes = accessModes"

record 's LVM =
  l_releaseNamespace :: string
  l_podName :: string
  l_nodeName :: string
  l_enableCleanup :: bool
  l_probe :: "('s, goerr, DeviceList) op"
  l_lvm :: "'s manager"

definition NewLVM ::
  "string \<Rightarrow> string \<Rightarrow> string \<Rightarrow> bool \<Rightarrow> ('s, goerr, DeviceList) op \<Rightarrow> 's manager \<Rightarrow> goerr + 's LVM" where
  "NewLVM podName nodeName releaseNamespace enableCleanup probe lvmMgr =
     (if podName = [] then Inl (errors_New ''podName must not be empty'')
      else if nodeName = [] then Inl (errors_New ''nodeName must not be empty'')
      else if releaseNamespace = [] then Inl (errors_New ''releaseNamespace must not be empty'')
      else Inr \<lparr>l_releaseNamespace = releaseNamespace, l_podName = podName, l_nodeName = nodeName,
                l_enableCleanup = enableCleanup, l_probe = probe, l_lvm = lvmMgr\<rparr>)"

section \<open>Volume groups\<close>

definition provisionVolumeGroup ::
  "'s LVM \<Rightarrow> object_recorder \<Rightarrow> string \<Rightarrow> string list \<Rightarrow> ('s world, goerr, VolumeGroup) op" where
  "provisionVolumeGroup l rec name devices =
     call (on_sys (mgr_GetVolumeGroup (l_lvm l) name))
       (\<lambda>err.
          if IgnoreNotFound err \<noteq> None
          then fail (errorf (''failed to get volume group: '' @ err_msg err) [err])
          else
            eventf rec Normal ''ProvisioningVolumeGroup'' (''Provisioning volume group '' @ name)
            (call (on_sys (mgr_RemoveStaleDeviceMapperNodes (l_lvm l) name))
              (\<lambda>err.
                 eventf rec Warning ''ProvisioningVolumeGroupFailed''
                   (''Failed to remove stale device-mapper nodes for volume group '' @ name @ '': '' @
                    err_msg err)
                 (fail (errorf (''failed to remove stale device-mapper nodes: '' @ err_msg err) [err])))
              (\<lambda>_.
                 let got =
                   eventf rec Normal ''ProvisionedVolumeGroup''
                     (''Successfully provisioned volume group '' @ name)
                   (call (on_sys (mgr_GetVolumeGroup (l_lvm l) name))
                     (\<lambda>err. fail (errorf (''failed to get volume group after creation: '' @ err_msg err) [err]))
                     ok) in
                 call (on_sys (mgr_CreateVolumeGroup (l_lvm l)
                     (zero_CreateVGOptions\<lparr>CreateVG_Name := name, CreateVG_PVNames := devices,
                        CreateVG_Tags := [DefaultVolumeGroupTag]\<rparr>)))
                   (\<lambda>err.
                      if IgnoreAlreadyExists err \<noteq> None
                      then
                        eventf rec Warning ''ProvisioningVolumeGroupFailed''
                          (''Provisioning volume group '' @ name @ '' failed: '' @ err_msg err)
                        (fail (errorf (''failed to create volume group: '' @ err_msg err) [err]))
                      else got)
                   (\<lambda>_. got))))
       ok"

definition EnsureVolumeGroup ::
  "'s LVM \<Rightarrow> object_recorder \<Rightarrow> string \<Rightarrow> string list \<Rightarrow> ('s world, goerr, VolumeGroup) op" where
  "EnsureVolumeGroup l rec name devices =
     (if name = [] then
        fail (errorf (sentinel_msg CoreErrInvalidArgument @ '': volume group name is required'')
          [sentinel_err CoreErrInvalidArgument])
      else if devices = [] then
        fail (errorf (sentinel_msg CoreErrResourceExhausted @ '': no disks found'')
          [sentinel_err CoreErrResourceExhausted])
      else provisionVolumeGroup l rec name devices)"

section \<open>Physical volumes\<close>

text \<open>The variable \<open>err\<close> that decides about the event is the one of the first lookup: the error of
  \<open>CreatePhysicalVolume\<close> is scoped to its own \<open>if\<close>.\<close>

definition ensurePhysicalVolume ::
  "'s LVM \<Rightarrow> object_recorder \<Rightarrow> string \<Rightarrow> ('s world, goerr, PhysicalVolume) op" where
  "ensurePhysicalVolume l rec device =
     (if device = [] then fail (errors_New ''device path is required'')
      else
        call (on_sys (mgr_GetPhysicalVolume (l_lvm l) device))
          (\<lambda>err.
             if IgnoreNotFound err \<noteq> None
             then fail (errorf (''failed to get physical volume '' @ device @ '': '' @ err_msg err) [err])
             else
               let got =
                 (\<lambda>w. call (on_sys (mgr_GetPhysicalVolume (l_lvm l) device))
                   (\<lambda>err. fail (errorf (''failed to get physical volume '' @ device @
                      '' after creation: '' @ err_msg err) [err]))
                   ok
                   (if \<not> errors_Is err LvmErrAlreadyExists
                    then Eventf rec Normal ''ProvisionedPhysicalVolume''
                      (''Successfully provisioned physical volume on device '' @ device) w
                    else w)) in
               call (on_sys (mgr_CreatePhysicalVolume (l_lvm l)
                   (zero_CreatePVOptions\<lparr>CreatePV_Name := device\<rparr>)))
                 (\<lambda>err.
                    if IgnoreAlreadyExists err \<noteq> None
                    then fail (errorf (''failed to create physical volume on device '' @ device @
                      '': '' @ err_msg err) [err])
                    else got)
                 (\<lambda>_. got))
          ok)"

fun ensure_devices ::
  "'s LVM \<Rightarrow> object_recorder \<Rightarrow> string \<Rightarrow> Device list \<Rightarrow> string list \<Rightarrow> ('s world, goerr, string list) op" where
  "ensure_devices l rec vgName [] pvs = ok pvs"
| "ensure_devices l rec vgName (d # ds) pvs =
     call (ensurePhysicalVolume l rec (dev_Path d))
       (\<lambda>err.
          eventf rec Warning ''ProvisioningPhysicalVolumeFailed''
            (''Provisioning physical volume on device '' @ dev_Path d @ '' failed: '' @ err_msg err)
          (fail (errorf (''failed to ensure physical volume on device '' @ dev_Path d @ '': '' @
             err_msg err) [err])))
       (\<lambda>pv.
          if PV_VGName pv \<noteq> [] \<and> PV_VGName pv \<noteq> vgName
          then ensure_devices l rec vgName ds pvs
          else ensure_devices l rec vgName ds (pvs @ [dev_Path d]))"

definition EnsurePhysicalVolumes ::
  "'s LVM \<Rightarrow> object_recorder \<Rightarrow> string \<Rightarrow> ('s world, goerr, string list) op" where
  "EnsurePhysicalVolumes l rec vgName =
     call (on_sys (l_probe l))
       (\<lambda>err.
          if errors_Is err ErrNoDevicesFound
          then
            eventf rec Warning ''ProvisioningPhysicalVolumeFailed''
              (''Provisioning physical volume failed: '' @ err_msg err)
            (fail (errorf (sentinel_msg CoreErrResourceExhausted @ '': scan devices found: '' @ err_msg err)
               [sentinel_err CoreErrResourceExhausted]))
          else fail (errorf (''failed to scan devices: '' @ err_msg err) [err]))
       (\<lambda>devices.
          call (ensure_devices l rec vgName (dl_Devices devices) []) fail
            (\<lambda>pvs.
               if pvs = [] then
                 eventf rec Warning ''ProvisioningPhysicalVolumeFailed''
                   (''Provisioning physical volume failed: '' @ sentinel_msg ErrNoDisksFound)
                 (fail (errorf (sentinel_msg CoreErrResourceExhausted @ '': no disks found'')
                    [sentinel_err CoreErrResourceExhausted]))
               else ok pvs))"

section \<open>Logical volumes\<close>

definition slash_name :: "volumeId \<Rightarrow> string" where
  "slash_name i = vid_VolumeGroup i @ ''/'' @ vid_LogicalVolume i"

text \<open>What \<open>EnsureVolume\<close> asks the manager to create in the volume group \<open>vg\<close>: a striped volume
  if the group has more than one physical volume, a linear one otherwise.\<close>

definition create_options :: "volumeId \<Rightarrow> int \<Rightarrow> VolumeGroup \<Rightarrow> CreateLVOptions" where
  "create_options i capacity vg =
     (let createOps = zero_CreateLVOptions\<lparr>CreateLV_Name := vid_LogicalVolume i,
            CreateLV_VGName := VG_Name vg, CreateLV_Size := show_int capacity @ ''B''\<rparr> in
      if VG_PVCount vg > 1
      then createOps\<lparr>CreateLV_Type := raid0LvType, CreateLV_Stripes := Some (VG_PVCount vg)\<rparr>
      else createOps)"

definition create_in_group ::
  "'s LVM \<Rightarrow> object_recorder \<Rightarrow> volumeId \<Rightarrow> int \<Rightarrow> bool \<Rightarrow> VolumeGroup \<Rightarrow> ('s world, goerr, int) op" where
  "create_in_group l rec i capacity isMountOperation vg =
     call (on_sys (mgr_CreateLogicalVolume (l_lvm l) (create_options i capacity vg)))
        (\<lambda>err.
           eventf rec Warning ''ProvisioningLogicalVolumeFailed''
             (''Provisioning logical volume '' @ slash_name i @ '' failed: '' @ err_msg err)
           (if errors_Is err LvmErrResourceExhausted
            then fail (errorf (''failed to create logical volume: '' @ sentinel_msg CoreErrResourceExhausted)
              [sentinel_err CoreErrResourceExhausted])
            else fail (errorf (''failed to create logical volume: '' @ err_msg err) [err])))
        (\<lambda>allocatedSize.
           if isMountOperation
           then
             eventf rec Normal ''ProvisionedEmptyVolume''
               (''A new empty volume was created during mount because the logical volume '' @
                slash_name i @ '' was not found on the node. This may indicate the volume was not '' @
                ''previously provisioned on this node.'')
             (ok allocatedSize)
           else ok allocatedSize)"

text \<open>The first half: the volume group, created from the available disks if it is missing.\<close>

definition create_volume ::
  "'s LVM \<Rightarrow> object_recorder \<Rightarrow> volumeId \<Rightarrow> int \<Rightarrow> bool \<Rightarrow> ('s world, goerr, int) op" where
  "create_volume l rec i capacity isMountOperation =
     call (on_sys (mgr_GetVolumeGroup (l_lvm l) (vid_VolumeGroup i)))
       (\<lambda>err.
          if IgnoreNotFound err \<noteq> None
          then
            eventf rec Warning ''ProvisioningLogicalVolumeFailed''
              (''Failed to check if volume group exists for '' @ slash_name i @ '': '' @ err_msg err)
            (fail (errorf (''failed to check if volume group exists: '' @ err_msg err) [err]))
          else
            call (EnsurePhysicalVolumes l rec (vid_VolumeGroup i))
              (\<lambda>err.
                 eventf rec Warning ''ProvisioningLogicalVolumeFailed''
                   (''Failed to ensure physical volumes created for '' @ slash_name i @ '': '' @ err_msg err)
                 (fail err))
              (\<lambda>devices.
                 call (EnsureVolumeGroup l rec (vid_VolumeGroup i) devices)
                   (\<lambda>err.
                      eventf rec Warning ''ProvisioningLogicalVolumeFailed''
                        (''Failed to ensure volume group created for '' @ slash_name i @ '': '' @ err_msg err)
                      (fail err))
                   (create_in_group l rec i capacity isMountOperation)))
       (create_in_group l rec i capacity isMountOperation)"

text \<open>Check an existing logical volume against the request.\<close>

definition check_existing ::
  "object_recorder \<Rightarrow> volumeId \<Rightarrow> int \<Rightarrow> int \<Rightarrow> LogicalVolume \<Rightarrow> ('s world, goerr, int) op" where
  "check_existing rec i capacity limit lv =
     (let lvSize = LV_Size lv in
      if lvSize < capacity \<or> (limit > 0 \<and> lvSize > limit)
      then
        eventf rec Warning ''ProvisionedLogicalVolumeSizeMismatch''
          (''Volume size mismatch '' @ slash_name i @ '': request '' @ show_int capacity @
           '', limit '' @ show_int limit @ '', actual '' @ show_int lvSize)
        (fail (errorf (''volume size mismatch: request '' @ show_int capacity @ '', limit '' @
           show_int limit @ '', actual '' @ show_int lvSize @ '': '' @
           sentinel_msg CoreErrVolumeSizeMismatch) [sentinel_err CoreErrVolumeSizeMismatch]))
      else ok lvSize)"

text \<open>An existing volume: a corrupted one is removed and created again.\<close>

definition reuse_or_recreate ::
  "'s LVM \<Rightarrow> object_recorder \<Rightarrow> volumeId \<Rightarrow> int \<Rightarrow> int \<Rightarrow> bool \<Rightarrow> LogicalVolume \<Rightarrow> ('s world, goerr, int) op" where
  "reuse_or_recreate l rec i capacity limit isMountOperation lv =
     call (on_sys (mgr_IsLogicalVolumeCorrupted (l_lvm l) (vid_VolumeGroup i) (vid_LogicalVolume i)))
       (\<lambda>err. fail (errorf (''failed to check if logical volume is corrupted: '' @ err_msg err) [err]))
       (\<lambda>corrupted.
          if corrupted then
            call (on_sys (mgr_RemoveLogicalVolume (l_lvm l)
                (zero_RemoveLVOptions\<lparr>RemoveLV_Name := slash_name i\<rparr>)))
              (\<lambda>err.
                 eventf rec Warning ''FailedToRemoveCorruptedLogicalVolume''
                   (''Failed to remove corrupted logical volume '' @ slash_name i @ '': '' @ err_msg err)
                 (fail (errorf (''failed to remove corrupted logical volume '' @ slash_name i @ '': '' @
                    err_msg err) [err])))
              (\<lambda>_.
                 eventf rec Normal ''RemovedCorruptedLogicalVolume''
                   (''Successfully removed corrupted logical volume '' @ slash_name i)
                 (create_volume l rec i capacity isMountOperation))
          else check_existing rec i capacity limit lv)"

definition EnsureVolume ::
  "'s LVM \<Rightarrow> object_recorder \<Rightarrow> string \<Rightarrow> int \<Rightarrow> int \<Rightarrow> bool \<Rightarrow> ('s world, goerr, int) op" where
  "EnsureVolume l rec volumeId capacity limit isMountOperation =
     (case newIdFromString volumeId of
        Inl err \<Rightarrow>
          fail (errorf (sentinel_msg CoreErrInvalidArgument @ '': failed to parse volume id '' @
            volumeId @ '': '' @ err_msg err) [sentinel_err CoreErrInvalidArgument, err])
      | Inr i \<Rightarrow>
          if vid_VolumeGroup i = [] then
            fail (errorf (sentinel_msg CoreErrInvalidArgument @ '': volume group name is required'')
              [sentinel_err CoreErrInvalidArgument])
          else if capacity \<le> 0 \<or> limit < 0 \<or> (limit > 0 \<and> limit < capacity) then
            fail (errorf (sentinel_msg CoreErrInvalidArgument @ '': invalid capacity '' @
              show_int capacity @ '' or limit '' @ show_int limit) [sentinel_err CoreErrInvalidArgument])
          else
            call (on_sys (mgr_GetLogicalVolume (l_lvm l) (vid_VolumeGroup i) (vid_LogicalVolume i)))
              (\<lambda>err. if IgnoreNotFound err \<noteq> None then fail err
                     else create_volume l rec i capacity isMountOperation)
              (reuse_or_recreate l rec i capacity limit isMountOperation))"

section \<open>Cleanup\<close>

definition removeVolumeGroup :: "'s LVM \<Rightarrow> string \<Rightarrow> ('s, goerr, unit) op" where
  "removeVolumeGroup l vgName =
     call (mgr_GetVolumeGroup (l_lvm l) vgName)
       (\<lambda>err. if errors_Is err LvmErrNotFound then ok ()
              else fail (errorf (''failed to get VG: '' @ err_msg err) [err]))
       (\<lambda>_. call (mgr_RemoveVolumeGroup (l_lvm l) (zero_RemoveVGOptions\<lparr>RemoveVG_Name := vgName\<rparr>))
              (\<lambda>err. fail (errorf (''failed to remove VG: '' @ err_msg err) [err]))
              ok)"

fun remove_devices :: "'s LVM \<Rightarrow> string set \<Rightarrow> string list \<Rightarrow> ('s, goerr, unit) op" where
  "remove_devices l pvs [] = ok ()"
| "remove_devices l pvs (device # ds) =
     (if device \<notin> pvs then remove_devices l pvs ds
      else
        call (mgr_RemovePhysicalVolume (l_lvm l) (zero_RemovePVOptions\<lparr>RemovePV_Name := device\<rparr>))
          (\<lambda>err. fail (errorf (''failed to remove physical volumes: '' @ err_msg err) [err]))
          (\<lambda>_. remove_devices l pvs ds))"

definition removePhysicalVolumes :: "'s LVM \<Rightarrow> string list \<Rightarrow> ('s, goerr, unit) op" where
  "removePhysicalVolumes l devicePaths =
     call (mgr_ListPhysicalVolumes (l_lvm l) None)
       (\<lambda>err. fail (errorf (''failed to list physical volumes: '' @ err_msg err) [err]))
       (\<lambda>listResult. remove_devices l (set (map PV_Name listResult)) devicePaths)"

fun remove_groups :: "'s LVM \<Rightarrow> VolumeGroup list \<Rightarrow> ('s, goerr, unit) op" where
  "remove_groups l [] = ok ()"
| "remove_groups l (vg # vgs) =
     call (removeVolumeGroup l (VG_Name vg))
       (\<lambda>err. fail (errorf (''failed to remove volume group '' @ VG_Name vg @ '': '' @ err_msg err) [err]))
       (\<lambda>_. remove_groups l vgs)"

definition tagged_groups :: ListVGOptions where
  "tagged_groups = zero_ListVGOptions\<lparr>ListVG_Select := ''vg_tags='' @ DefaultVolumeGroupTag\<rparr>"

definition total_lv_count :: "VolumeGroup list \<Rightarrow> int" where
  "total_lv_count vgs = foldl (\<lambda>n vg. wrap64 (n + VG_LVCount vg)) 0 vgs"

definition Cleanup :: "'s LVM \<Rightarrow> ('s, goerr, unit) op" where
  "Cleanup l =
     call (mgr_ListVolumeGroups (l_lvm l) (Some tagged_groups))
       (\<lambda>err. fail (errorf (''failed to list volume groups: '' @ err_msg err) [err]))
       (\<lambda>volumeGroup.
          if total_lv_count volumeGroup > 0 then ok ()
          else
            call (remove_groups l volumeGroup) fail
              (\<lambda>_. call (mgr_ListPhysicalVolumes (l_lvm l) None)
                 (\<lambda>err. fail (errorf (''failed to list physical volumes: '' @ err_msg err) [err]))
                 (\<lambda>pvs. removePhysicalVolumes l (map PV_Name pvs))))"

text \<open>\<open>Start\<close> waits for the end of its context and then cleans up, if that is enabled.\<close>

definition LVM_Start :: "'s LVM \<Rightarrow> ('s, goerr, unit) op" where
  "LVM_Start l = (if \<not> l_enableCleanup l then ok () else Cleanup l)"

section \<open>What the operations keep and establish\<close>

text \<open>The driver on a node whose LVM metadata is \<open>meta\<close>: its manager fulfils the contract, and
  scanning for devices does not change the metadata.\<close>

lemma create_options_simps [simp]:
  "CreateLV_Name (create_options i c vg) = vid_LogicalVolume i"
  "CreateLV_VGName (create_options i c vg) = VG_Name vg"
  "CreateLV_Size (create_options i c vg) = show_int c @ ''B''"
  by (simp_all add: create_options_def Let_def)

locale lvm_driver = lvm_manager mgr meta for mgr :: "'s manager" and meta :: "'s \<Rightarrow> lvm_meta" +
  fixes l :: "'s LVM"
  assumes l_mgr: "l_lvm l = mgr"
    and scan_meta: "l_probe l s = (ri, t) \<Longrightarrow> meta t = meta s"
begin

lemmas reads = list_pvs get_pv list_vgs get_vg get_lv list_lvs corrupted remove_stale scan_meta

lemma provisionVolumeGroup_lvs:
  "provisionVolumeGroup l rec n ds w = (r, w') \<Longrightarrow>
    m_lvs (meta (w_sys w')) = m_lvs (meta (w_sys w))"
  unfolding provisionVolumeGroup_def Let_def l_mgr
  by (erule callE; (auto elim!: callE dest!: reads create_vg split: if_splits)?)

lemma provisionVolumeGroup_name:
  "provisionVolumeGroup l rec n ds w = (Inr vg, w') \<Longrightarrow> VG_Name vg = n"
  unfolding provisionVolumeGroup_def Let_def l_mgr
  by (erule callE; (auto elim!: callE dest!: get_vg_name split: if_splits)?)

lemma EnsureVolumeGroup_lvs:
  "EnsureVolumeGroup l rec n ds w = (r, w') \<Longrightarrow>
    m_lvs (meta (w_sys w')) = m_lvs (meta (w_sys w))"
  by (auto simp: EnsureVolumeGroup_def split: if_splits dest!: provisionVolumeGroup_lvs)

lemma EnsureVolumeGroup_name:
  "EnsureVolumeGroup l rec n ds w = (Inr vg, w') \<Longrightarrow> VG_Name vg = n"
  by (auto simp: EnsureVolumeGroup_def split: if_splits dest!: provisionVolumeGroup_name)

lemma ensurePhysicalVolume_lvs:
  "ensurePhysicalVolume l rec d w = (r, w') \<Longrightarrow>
    m_lvs (meta (w_sys w')) = m_lvs (meta (w_sys w))"
  unfolding ensurePhysicalVolume_def Let_def l_mgr
  by (auto elim!: callE dest!: reads create_pv split: if_splits)

lemma ensure_devices_lvs:
  "ensure_devices l rec vg ds pvs w = (r, w') \<Longrightarrow>
    m_lvs (meta (w_sys w')) = m_lvs (meta (w_sys w))"
  by (induction ds arbitrary: pvs w)
    (auto elim!: callE dest!: ensurePhysicalVolume_lvs split: if_splits)

lemma EnsurePhysicalVolumes_lvs:
  "EnsurePhysicalVolumes l rec vg w = (r, w') \<Longrightarrow>
    m_lvs (meta (w_sys w')) = m_lvs (meta (w_sys w))"
  unfolding EnsurePhysicalVolumes_def
  by (auto elim!: callE dest!: reads ensure_devices_lvs split: if_splits)

abbreviation key :: "volumeId \<Rightarrow> string \<times> string" where
  "key i \<equiv> (vid_VolumeGroup i, vid_LogicalVolume i)"

lemma create_in_group_frame:
  assumes "create_in_group l rec i c mnt vg w = (r, w')" "VG_Name vg = vid_VolumeGroup i" "k \<noteq> key i"
  shows "m_lvs (meta (w_sys w')) k = m_lvs (meta (w_sys w)) k"
  using assms unfolding create_in_group_def l_mgr
  by (cases k) (auto elim!: callE dest!: create_lv split: if_splits)

lemma create_lv_done:
  "mgr_CreateLogicalVolume mgr (create_options i c vg) s = (Inr n, t) \<Longrightarrow>
    m_lvs (meta t) (VG_Name vg, vid_LogicalVolume i) = Some n \<and> c \<le> n"
  using create_lv_ok [of "create_options i c vg"] create_lv_size [of "create_options i c vg" s n t c]
  by simp

lemma create_in_group_ok:
  assumes "create_in_group l rec i c mnt vg w = (Inr n, w')" "VG_Name vg = vid_VolumeGroup i"
  shows "m_lvs (meta (w_sys w')) (key i) = Some n \<and> c \<le> n"
  using assms unfolding create_in_group_def l_mgr
  by (auto elim!: callE dest!: create_lv_done split: if_splits)

lemma get_vg_ok: "mgr_GetVolumeGroup mgr n s = (Inr vg, t) \<Longrightarrow> VG_Name vg = n \<and> meta t = meta s"
  by (simp add: get_vg get_vg_name)

lemma EnsureVolumeGroup_ok:
  "EnsureVolumeGroup l rec n ds w = (Inr vg, w') \<Longrightarrow>
    VG_Name vg = n \<and> m_lvs (meta (w_sys w')) = m_lvs (meta (w_sys w))"
  by (simp add: EnsureVolumeGroup_name EnsureVolumeGroup_lvs)

lemma EnsureVolumeGroup_failed:
  "EnsureVolumeGroup l rec n ds w = (Inl e, w') \<Longrightarrow>
    m_lvs (meta (w_sys w')) = m_lvs (meta (w_sys w))"
  by (rule EnsureVolumeGroup_lvs)

lemma create_volume_cases:
  assumes "create_volume l rec i c mnt w = (r, w')"
  obtains (failed) e where "r = Inl e" "m_lvs (meta (w_sys w')) = m_lvs (meta (w_sys w))"
    | (creating) vg u where "VG_Name vg = vid_VolumeGroup i"
        "m_lvs (meta (w_sys u)) = m_lvs (meta (w_sys w))"
        "create_in_group l rec i c mnt vg u = (r, w')"
  using assms unfolding create_volume_def l_mgr
proof (cases rule: callE)
  case (error e u)
  then show ?thesis
    using that by (auto elim!: callE dest!: get_vg EnsurePhysicalVolumes_lvs EnsureVolumeGroup_ok
        EnsureVolumeGroup_failed split: if_splits)
next
  case (result vg u)
  then show ?thesis by (intro creating [of vg u]) (auto dest: get_vg get_vg_name)
qed

lemma create_volume_frame:
  assumes "create_volume l rec i c mnt w = (r, w')" "k \<noteq> key i"
  shows "m_lvs (meta (w_sys w')) k = m_lvs (meta (w_sys w)) k"
  using assms(1)
  by (cases rule: create_volume_cases) (simp_all add: create_in_group_frame assms(2))

lemma create_volume_ok:
  assumes "create_volume l rec i c mnt w = (Inr n, w')"
  shows "m_lvs (meta (w_sys w')) (key i) = Some n \<and> c \<le> n"
  using assms by (cases rule: create_volume_cases) (auto dest: create_in_group_ok)

text \<open>The outcomes of ensuring a volume that exists.\<close>

lemma check_existing_lvs:
  "check_existing rec i c lim lv w = (r, w') \<Longrightarrow> w_sys w' = w_sys w"
  by (auto simp: check_existing_def Let_def split: if_splits)

lemma check_existing_result:
  "check_existing rec i c lim lv w = (r, w') \<Longrightarrow>
    (case r of Inr n \<Rightarrow> n = LV_Size lv \<and> c \<le> n \<and> (lim > 0 \<longrightarrow> n \<le> lim)
     | Inl e \<Rightarrow> errors_Is e CoreErrVolumeSizeMismatch \<and>
         (LV_Size lv < c \<or> (lim > 0 \<and> LV_Size lv > lim)))"
  by (auto simp: check_existing_def Let_def split: if_splits)

lemma check_existing_ok:
  "check_existing rec i c lim lv w = (Inr n, w') \<Longrightarrow>
    w' = w \<and> n = LV_Size lv \<and> c \<le> n \<and> (lim > 0 \<longrightarrow> n \<le> lim)"
  by (auto simp: check_existing_def Let_def split: if_splits)

lemma get_lv_ok:
  "mgr_GetLogicalVolume mgr vn ln s = (Inr lv, t) \<Longrightarrow>
    meta t = meta s \<and> m_lvs (meta s) (vn, ln) = Some (LV_Size lv)"
  by (simp add: get_lv get_lv_found)

lemma remove_named:
  "mgr_RemoveLogicalVolume mgr (zero_RemoveLVOptions\<lparr>RemoveLV_Name := slash_name i\<rparr>) s = (r, t) \<Longrightarrow>
    (case r of Inl e \<Rightarrow> meta t = meta s \<and>
         (errors_Is e LvmErrNotFound \<longrightarrow> m_lvs (meta s) (key i) = None)
     | Inr _ \<Rightarrow> m_lvs (meta t) = (m_lvs (meta s))(key i := None))"
  by (erule remove_lv) (simp add: slash_name_def)

lemma reuse_or_recreate_frame:
  assumes "reuse_or_recreate l rec i c lim mnt lv w = (r, w')" "k \<noteq> key i"
  shows "m_lvs (meta (w_sys w')) k = m_lvs (meta (w_sys w)) k"
  using assms unfolding reuse_or_recreate_def l_mgr
  by (auto elim!: callE dest!: corrupted remove_named create_volume_frame [OF _ assms(2)]
      check_existing_lvs split: if_splits)

lemma EnsureVolume_frame:
  assumes "EnsureVolume l rec v c lim mnt w = (r, w')"
    and "\<And>i. newIdFromString v = Inr i \<Longrightarrow> k \<noteq> key i"
  shows "m_lvs (meta (w_sys w')) k = m_lvs (meta (w_sys w)) k"
  using assms unfolding EnsureVolume_def l_mgr
  by (auto elim!: callE dest!: get_lv reuse_or_recreate_frame create_volume_frame
      split: if_splits sum.splits)

lemma reuse_or_recreate_ok:
  assumes "reuse_or_recreate l rec i c lim mnt lv w = (Inr n, w')"
    and "m_lvs (meta (w_sys w)) (key i) = Some (LV_Size lv)"
  shows "m_lvs (meta (w_sys w')) (key i) = Some n \<and> c \<le> n"
  using assms unfolding reuse_or_recreate_def l_mgr
  by (auto elim!: callE dest!: corrupted create_volume_ok check_existing_ok split: if_splits)

lemma EnsureVolume_ok:
  assumes "EnsureVolume l rec v c lim mnt w = (Inr n, w')"
  obtains i where "newIdFromString v = Inr i" "m_lvs (meta (w_sys w')) (key i) = Some n" "c \<le> n"
    "0 < c" "0 \<le> lim" "lim > 0 \<longrightarrow> c \<le> lim"
  using assms unfolding EnsureVolume_def l_mgr
  by (auto elim!: callE dest!: get_lv_ok create_volume_ok reuse_or_recreate_ok
      split: if_splits sum.splits)

lemma reuse_or_recreate_intact:
  assumes "reuse_or_recreate l rec i c lim mnt lv w = (r, w')"
    and "\<And>s t. meta s = meta (w_sys w) \<Longrightarrow>
      mgr_IsLogicalVolumeCorrupted mgr (vid_VolumeGroup i) (vid_LogicalVolume i) s \<noteq> (Inr True, t)"
  shows "meta (w_sys w') = meta (w_sys w)"
  using assms(1) unfolding reuse_or_recreate_def l_mgr
proof (cases rule: callE)
  case (error e u)
  then show ?thesis by (auto dest!: corrupted)
next
  case (result b u)
  then have "\<not> b" using assms(2) by auto
  with result show ?thesis by (auto dest!: check_existing_lvs corrupted)
qed

lemma EnsureVolume_intact:
  assumes "EnsureVolume l rec v c lim mnt w = (r, w')" "newIdFromString v = Inr i"
    and "m_lvs (meta (w_sys w)) (key i) \<noteq> None"
    and "\<And>s t. meta s = meta (w_sys w) \<Longrightarrow>
      mgr_IsLogicalVolumeCorrupted mgr (vid_VolumeGroup i) (vid_LogicalVolume i) s \<noteq> (Inr True, t)"
  shows "meta (w_sys w') = meta (w_sys w)"
proof -
  have missing: "\<not> errors_Is e LvmErrNotFound \<and> meta t = meta (w_sys w)"
    if "mgr_GetLogicalVolume mgr (vid_VolumeGroup i) (vid_LogicalVolume i) (w_sys w) = (Inl e, t)" for e t
    using get_lv [OF that] get_lv_missing [OF that] assms(3) by auto
  have keep: "meta (w_sys w') = meta (w_sys w)"
    if "reuse_or_recreate l rec i c lim' mnt lv (w\<lparr>w_sys := u\<rparr>) = (r, w')" "meta u = meta (w_sys w)" for lim' lv u
    using reuse_or_recreate_intact [OF that(1)] that(2) assms(4) by simp
  show ?thesis
    using assms(1,2) unfolding EnsureVolume_def l_mgr
    by (auto elim!: callE dest!: missing get_lv_ok keep split: if_splits)
qed

text \<open>Cleanup.\<close>

lemma removeVolumeGroup_lvs:
  "removeVolumeGroup l n s = (r, t) \<Longrightarrow> lv_names (meta s) n = {} \<Longrightarrow> m_lvs (meta t) = m_lvs (meta s)"
  unfolding removeVolumeGroup_def l_mgr
  by (auto elim!: callE dest!: get_vg remove_vg simp: drop_vg_id split: if_splits)

lemma lv_names_cong: "m_lvs m = m_lvs m' \<Longrightarrow> lv_names m = lv_names m'"
  by (simp add: lv_names_def fun_eq_iff)

lemma remove_groups_lvs:
  "remove_groups l vgs s = (r, t) \<Longrightarrow> (\<And>vg. vg \<in> set vgs \<Longrightarrow> lv_names (meta s) (VG_Name vg) = {}) \<Longrightarrow>
    m_lvs (meta t) = m_lvs (meta s)"
proof (induction vgs arbitrary: s)
  case (Cons vg vgs)
  from Cons.prems(1) show ?case
    unfolding remove_groups.simps
  proof (cases rule: callE)
    case (error e u)
    then show ?thesis using removeVolumeGroup_lvs Cons.prems(2) by simp
  next
    case (result a u)
    then have "m_lvs (meta u) = m_lvs (meta s)" using removeVolumeGroup_lvs Cons.prems(2) by simp
    then show ?thesis
      using Cons.IH [OF result(2)] Cons.prems(2) lv_names_cong [of "meta u" "meta s"] by simp
  qed
qed simp

lemma remove_devices_lvs:
  "remove_devices l P ds s = (r, t) \<Longrightarrow> m_lvs (meta t) = m_lvs (meta s)"
  by (induction ds arbitrary: s) (auto elim!: callE dest!: remove_pv simp: l_mgr split: if_splits)

lemma remove_devices_pvs:
  "remove_devices l P ds s = (Inr x, t) \<Longrightarrow>
    m_pvs (meta t) = (\<lambda>d. if d \<in> set ds \<inter> P then None else m_pvs (meta s) d)"
proof (induction ds arbitrary: s)
  case (Cons d ds)
  show ?case
  proof (cases "d \<in> P")
    case True
    with Cons.prems obtain u where
      u: "mgr_RemovePhysicalVolume mgr (zero_RemovePVOptions\<lparr>RemovePV_Name := d\<rparr>) s = (Inr (), u)"
        "remove_devices l P ds u = (Inr x, t)"
      by (auto elim!: callE simp: l_mgr)
    from remove_pv [OF u(1)] have "m_pvs (meta u) = (m_pvs (meta s))(d := None)" by simp
    then show ?thesis using Cons.IH [OF u(2)] True by (auto simp: fun_eq_iff)
  qed (use Cons in \<open>auto simp: fun_eq_iff\<close>)
qed simp

lemma removePhysicalVolumes_lvs:
  "removePhysicalVolumes l ds s = (r, t) \<Longrightarrow> m_lvs (meta t) = m_lvs (meta s)"
  unfolding removePhysicalVolumes_def l_mgr
  by (auto elim!: callE dest!: list_pvs remove_devices_lvs)

end

lemma total_lv_count_eq:
  assumes "\<And>vg. vg \<in> set vgs \<Longrightarrow> 0 \<le> VG_LVCount vg" "sum_list (map VG_LVCount vgs) < 2 ^ 63"
  shows "total_lv_count vgs = sum_list (map VG_LVCount vgs)"
proof -
  have "foldl (\<lambda>n vg. wrap64 (n + VG_LVCount vg)) n vgs = n + sum_list (map VG_LVCount vgs)"
    if "0 \<le> n" "n + sum_list (map VG_LVCount vgs) < 2 ^ 63" for n
    using that assms(1)
  proof (induction vgs arbitrary: n)
    case (Cons vg vgs)
    have "0 \<le> sum_list (map VG_LVCount vgs)" by (rule sum_list_nonneg) (use Cons.prems(3) in auto)
    moreover have "0 \<le> VG_LVCount vg" by (rule Cons.prems(3)) simp
    ultimately have "wrap64 (n + VG_LVCount vg) = n + VG_LVCount vg"
      using Cons.prems(1,2) by (intro wrap64_id) (auto simp: int64_range_def)
    then show ?case using Cons by simp
  qed simp
  from this [of 0] assms(2) show ?thesis by (simp add: total_lv_count_def)
qed

lemma total_lv_count_zero:
  assumes "\<And>vg. vg \<in> set vgs \<Longrightarrow> 0 \<le> VG_LVCount vg" "sum_list (map VG_LVCount vgs) < 2 ^ 63"
    and "\<not> total_lv_count vgs > 0" "vg \<in> set vgs"
  shows "VG_LVCount vg = 0"
proof -
  have "VG_LVCount vg \<le> sum_list (map VG_LVCount vgs)"
    using assms(1,4) by (intro member_le_sum_list) auto
  then show ?thesis using assms total_lv_count_eq [OF assms(1,2)] by fastforce
qed

context lvm_driver
begin

lemma Cleanup_lvs:
  assumes "Cleanup l s = (r, t)"
    and "\<And>vgs u. mgr_ListVolumeGroups mgr (Some tagged_groups) s = (Inr vgs, u) \<Longrightarrow>
      sum_list (map VG_LVCount vgs) < 2 ^ 63"
  shows "m_lvs (meta t) = m_lvs (meta s)"
  using assms(1) unfolding Cleanup_def l_mgr
proof (cases rule: callE)
  case (error e u)
  then show ?thesis by (auto dest!: list_vgs)
next
  case (result vgs u)
  have u: "meta u = meta s" by (rule list_vgs [OF result(1)])
  note rows = list_vgs_rows [OF result(1)]
  show ?thesis
  proof (cases "total_lv_count vgs > 0")
    case True
    then show ?thesis using result u by simp
  next
    case False
    have "VG_LVCount vg = 0" if "vg \<in> set vgs" for vg
      using rows assms(2) [OF result(1)] False that by (intro total_lv_count_zero [of vgs]) auto
    then have "lv_names (meta u) (VG_Name vg) = {}" if "vg \<in> set vgs" for vg
      using rows [OF that] u that by auto
    with result False show ?thesis
      by (auto elim!: callE dest!: remove_groups_lvs list_pvs removePhysicalVolumes_lvs simp: u)
  qed
qed

lemma Cleanup_pvs:
  assumes "Cleanup l s = (Inr x, t)"
  shows "m_pvs (meta t) = Map.empty \<or>
    (\<exists>vgs u. mgr_ListVolumeGroups mgr (Some tagged_groups) s = (Inr vgs, u) \<and>
      total_lv_count vgs > 0 \<and> meta t = meta s)"
  using assms unfolding Cleanup_def l_mgr
proof (cases rule: callE)
  case (result vgs u)
  show ?thesis
  proof (cases "total_lv_count vgs > 0")
    case True
    then show ?thesis using result list_vgs [OF result(1)] by auto
  next
    case False
    with result(2) obtain u1 u2 u3 pvs pvs' where
      list1: "mgr_ListPhysicalVolumes mgr None u1 = (Inr pvs, u2)" and
      list2: "mgr_ListPhysicalVolumes mgr None u2 = (Inr pvs', u3)" and
      rm: "remove_devices l (set (map PV_Name pvs')) (map PV_Name pvs) u3 = (Inr x, t)"
      unfolding removePhysicalVolumes_def l_mgr by (auto elim!: callE)
    have "meta u3 = meta u1" using list_pvs [OF list1] list_pvs [OF list2] by simp
    moreover have "dom (m_pvs (meta u1)) = set (map PV_Name pvs)"
      unfolding list_pvs_all [OF list1] by (auto simp: dom_map_of_conv_image_fst image_image)
    moreover have "dom (m_pvs (meta u2)) = set (map PV_Name pvs')"
      unfolding list_pvs_all [OF list2] by (auto simp: dom_map_of_conv_image_fst image_image)
    then have "dom (m_pvs (meta u1)) = set (map PV_Name pvs')" using list_pvs [OF list1] by simp
    ultimately show ?thesis
      using remove_devices_pvs [OF rm] by (auto simp: fun_eq_iff)
  qed
qed simp

end

end
