(* ===== verification/CoreController.thy ===== *)
theory CoreController
  imports CoreLvm
begin

text \<open>
  The controller and node operations of the volume manager: \<open>internal/csi/core/lvm/controller.go\<close>
  and \<open>node.go\<close>.

  The retry loop of \<open>Delete\<close> selects between its ticker and the end of its context. The number of
  ticks that it takes before the context ends is an argument (with a poll of 500 ms and a timeout of
  10 s at most about 20), and so is the error of the ended context; the loop stops earlier when a
  removal succeeds or fails for good. \<open>resource.NewQuantity(n, BinarySI).String()\<close> is the
  parameter \<open>quantity_String\<close>; comparing such a quantity with an integer compares \<open>n\<close>.
\<close>

section \<open>Create\<close>

definition volume_group_param :: "string_map \<Rightarrow> string" where
  "volume_group_param params =
     (let vgName = map_get params VolumeGroupNameParam in
      if vgName = [] then DefaultVolumeGroup else vgName)"

definition requested_capacity :: "int \<Rightarrow> int \<Rightarrow> int" where
  "requested_capacity required limit =
     (let capacity = (if required = 0 \<and> limit > 0 then limit else required) in
      if capacity = 0 then 1024 * 1024 * 1024 else capacity)"

definition node_topology :: "'s LVM \<Rightarrow> Topology list" where
  "node_topology l = [\<lparr>top_Segments = [TopologyKey \<mapsto> l_nodeName l]\<rparr>]"

definition Create :: "'s LVM \<Rightarrow> object_recorder \<Rightarrow> CreateVolumeRequest \<Rightarrow> ('s world, goerr, Volume) op" where
  "Create l rec req =
     (let params = cv_Parameters req;
          vgName = volume_group_param params;
          limit = GetLimitBytes (cv_CapacityRange req);
          capacity = requested_capacity (GetRequiredBytes (cv_CapacityRange req)) limit in
      case newVolumeId vgName (cv_Name req) of
        Inl err \<Rightarrow> fail (errorf (''failed to create volume id: '' @ err_msg err) [err])
      | Inr i \<Rightarrow>
          call (EnsureVolume l rec (volumeId_String i) capacity limit False)
            (\<lambda>err. fail (errorf (''failed to ensure volume: '' @ err_msg err) [err]))
            (\<lambda>allocatedSize.
               ok \<lparr>vol_CapacityBytes = allocatedSize, vol_VolumeId = volumeId_String i,
                   vol_VolumeContext = params(CapacityParam \<mapsto> show_int allocatedSize,
                     LimitParam \<mapsto> show_int limit),
                   vol_ContentSource = cv_VolumeContentSource req,
                   vol_AccessibleTopology = node_topology l\<rparr>))"

section \<open>Delete\<close>

fun delete_loop ::
  "'s LVM \<Rightarrow> object_recorder \<Rightarrow> goerr \<Rightarrow> string \<Rightarrow> nat \<Rightarrow> goerr option \<Rightarrow> ('s world, goerr, unit) op" where
  "delete_loop l rec ctxErr volumeId 0 lastErr =
     (let err = errors_Join (case lastErr of None \<Rightarrow> [ctxErr] | Some e \<Rightarrow> [e, ctxErr]) in
      eventf rec Warning ''DeletingLogicalVolumeFailed''
        (''Failed to delete logical volume '' @ volumeId @ '': '' @ err_msg err)
      (fail (errorf (''failed to remove logical volume '' @ volumeId @ '': '' @ err_msg err) [err])))"
| "delete_loop l rec ctxErr volumeId (Suc n) lastErr =
     call (on_sys (mgr_RemoveLogicalVolume (l_lvm l) (zero_RemoveLVOptions\<lparr>RemoveLV_Name := volumeId\<rparr>)))
       (\<lambda>err.
          if IgnoreNotFound err = None then ok ()
          else if \<not> errors_Is err LvmErrInUse
          then
            eventf rec Warning ''DeletingLogicalVolumeFailed''
              (''Failed to delete logical volume '' @ volumeId @ '': '' @ err_msg err)
            (fail err)
          else delete_loop l rec ctxErr volumeId n (Some err))
       ok"

definition Delete ::
  "'s LVM \<Rightarrow> object_recorder \<Rightarrow> nat \<Rightarrow> goerr \<Rightarrow> DeleteVolumeRequest \<Rightarrow> ('s world, goerr, unit) op" where
  "Delete l rec ticks ctxErr req =
     (case newIdFromString (dv_VolumeId req) of
        Inl err \<Rightarrow> ok ()
      | Inr i \<Rightarrow> delete_loop l rec ctxErr (slash_name i) ticks None)"

section \<open>List\<close>

definition list_entry :: "'s LVM \<Rightarrow> VolumeGroup \<Rightarrow> LogicalVolume \<Rightarrow> Volume" where
  "list_entry l vg lv =
     \<lparr>vol_CapacityBytes = LV_Size lv, vol_VolumeId = VG_Name vg @ [separator] @ LV_Name lv,
      vol_VolumeContext = Map.empty, vol_ContentSource = None,
      vol_AccessibleTopology = node_topology l\<rparr>"

fun list_groups :: "'s LVM \<Rightarrow> VolumeGroup list \<Rightarrow> Volume list \<Rightarrow> ('s, goerr, Volume list) op" where
  "list_groups l [] entries = ok entries"
| "list_groups l (vg # vgs) entries =
     call (mgr_ListLogicalVolumes (l_lvm l)
         (Some (zero_ListLVOptions\<lparr>ListLV_Select := ''vg_name='' @ VG_Name vg\<rparr>)))
       (\<lambda>err. fail (errorf (''failed to list logical volumes for VG '' @ VG_Name vg @ '': '' @
          err_msg err) [err]))
       (\<lambda>lvs. list_groups l vgs (entries @ map (list_entry l vg) lvs))"

definition ListVols :: "'s LVM \<Rightarrow> ListVolumesRequest \<Rightarrow> ('s, goerr, ListVolumesResponse) op" where
  "ListVols l req =
     call (mgr_ListVolumeGroups (l_lvm l) (Some tagged_groups))
       (\<lambda>err. fail (errorf (''failed to list volume groups: '' @ err_msg err) [err]))
       (\<lambda>vgs.
          if vgs = [] then ok \<lparr>lr_Entries = []\<rparr>
          else call (list_groups l vgs []) fail (\<lambda>entries. ok \<lparr>lr_Entries = entries\<rparr>))"

section \<open>Capacity\<close>

definition defaultPeSize :: int where "defaultPeSize = 4 * 1024 * 1024"
definition defaultDataAlignment :: int where "defaultDataAlignment = 1024 * 1024"

definition usable_capacity :: "int \<Rightarrow> int" where
  "usable_capacity sz =
     (let usableCapacity = max (wrap64 (sz - defaultDataAlignment)) 0 in
      wrap64 (go_div usableCapacity defaultPeSize * defaultPeSize))"

text \<open>A later physical volume with the same name replaces an earlier one.\<close>

definition disk_to_pv :: "PhysicalVolume list \<Rightarrow> string \<rightharpoonup> PhysicalVolume" where
  "disk_to_pv pvs = foldl (\<lambda>m pv. m(PV_Name pv \<mapsto> pv)) Map.empty pvs"

definition taken_by_other :: "(string \<rightharpoonup> PhysicalVolume) \<Rightarrow> string \<Rightarrow> Device \<Rightarrow> bool" where
  "taken_by_other diskToPV vgName device =
     (case diskToPV (dev_Path device) of
        None \<Rightarrow> False
      | Some pv \<Rightarrow> PV_VGName pv \<noteq> [] \<and> PV_VGName pv \<noteq> vgName)"

definition sum_capacity :: "(string \<rightharpoonup> PhysicalVolume) \<Rightarrow> string \<Rightarrow> Device list \<Rightarrow> int" where
  "sum_capacity diskToPV vgName devices =
     foldl (\<lambda>n device. if taken_by_other diskToPV vgName device then n
                       else wrap64 (n + usable_capacity (dev_Size device))) 0 devices"

definition AvailableCapacity :: "'s LVM \<Rightarrow> string \<Rightarrow> ('s, goerr, int) op" where
  "AvailableCapacity l vgName =
     call (mgr_GetVolumeGroup (l_lvm l) vgName)
       (\<lambda>err.
          if IgnoreNotFound err \<noteq> None
          then fail (errorf (''failed to get volume group: '' @ err_msg err) [err])
          else
            call (l_probe l)
              (\<lambda>err. if errors_Is err ErrNoDevicesFound then ok 0
                     else fail (errorf (''failed to scan devices: '' @ err_msg err) [err]))
              (\<lambda>filtered.
                 call (mgr_ListPhysicalVolumes (l_lvm l) None)
                   (\<lambda>err. fail (errorf (''failed to list physical volumes: '' @ err_msg err) [err]))
                   (\<lambda>pvs. ok (sum_capacity (disk_to_pv pvs) vgName (dl_Devices filtered)))))
       (\<lambda>vg. ok (VG_Free vg))"

definition no_capacity :: GetCapacityResponse where
  "no_capacity = \<lparr>gc_AvailableCapacity = 0, gc_MaximumVolumeSize = None\<rparr>"

text \<open>Segments that are empty have no value for the topology key, so the check of the key covers
  the check of their length.\<close>

definition GetCapacity :: "'s LVM \<Rightarrow> GetCapacityRequest \<Rightarrow> ('s, goerr, GetCapacityResponse) op" where
  "GetCapacity l req =
     (let vgName = volume_group_param (gc_Parameters req) in
      case gc_AccessibleTopology req of
        None \<Rightarrow> ok no_capacity
      | Some t \<Rightarrow>
          if map_get (top_Segments t) TopologyKey = [] then ok no_capacity
          else
            call (AvailableCapacity l vgName) fail
              (\<lambda>availableCapacity.
                 ok \<lparr>gc_AvailableCapacity = availableCapacity,
                     gc_MaximumVolumeSize = Some availableCapacity\<rparr>))"

section \<open>Validation\<close>

definition ValidateCapabilities ::
  "'s LVM \<Rightarrow> ValidateVolumeCapabilitiesRequest \<Rightarrow> ('s, goerr, ValidateConfirmed) op" where
  "ValidateCapabilities l req =
     (case newIdFromString (vr_VolumeId req) of
        Inl err \<Rightarrow> fail (errorf (''failed to parse volume id '' @ vr_VolumeId req @ '': '' @ err_msg err) [err])
      | Inr i \<Rightarrow>
          call (mgr_GetLogicalVolume (l_lvm l) (vid_VolumeGroup i) (vid_LogicalVolume i))
            (\<lambda>err. if errors_Is err LvmErrNotFound then fail (sentinel_err CoreErrVolumeNotFound)
                   else fail err)
            (\<lambda>_. ok \<lparr>vcf_VolumeContext = vr_VolumeContext req,
                    vcf_VolumeCapabilities = vr_VolumeCapabilities req,
                    vcf_Parameters = vr_Parameters req,
                    vcf_MutableParameters = vr_MutableParameters req\<rparr>))"

section \<open>Node operations\<close>

definition extend_options :: "(int \<Rightarrow> string) \<Rightarrow> volumeId \<Rightarrow> NodeExpandVolumeRequest \<Rightarrow> ExtendLVOptions" where
  "extend_options quantity_String i req =
     (let extendOps = zero_ExtendLVOptions\<lparr>ExtendLV_Name := slash_name i,
            ExtendLV_Size := quantity_String (GetRequiredBytes (ne_CapacityRange req))\<rparr> in
      case ne_VolumeCapability req of
        None \<Rightarrow> extendOps
      | Some c \<Rightarrow> (case vc_AccessType c of MountAccess _ \<Rightarrow> extendOps\<lparr>ExtendLV_ResizeFS := True\<rparr>
                                       | _ \<Rightarrow> extendOps))"

text \<open>Extend the volume and read its size back.\<close>

definition expand_lv ::
  "(int \<Rightarrow> string) \<Rightarrow> 's LVM \<Rightarrow> object_recorder \<Rightarrow> volumeId \<Rightarrow> NodeExpandVolumeRequest \<Rightarrow>
    ('s world, goerr, NodeExpandVolumeResponse) op" where
  "expand_lv quantity_String l rec i req =
     (let to = '' to '' @ show_int (GetRequiredBytes (ne_CapacityRange req)) in
      eventf rec Normal ''ExpandingLogicalVolume'' (''Expanding volume '' @ slash_name i @ to)
      (call (on_sys (mgr_ExtendLogicalVolume (l_lvm l) (extend_options quantity_String i req)))
        (\<lambda>err.
           eventf rec Warning ''ExpandingLogicalVolumeFailed''
             (''Failed to expand volume '' @ slash_name i @ to @ '': '' @ err_msg err)
           (if errors_Is err LvmErrResourceExhausted
            then fail (errorf (sentinel_msg CoreErrOutOfRange @ '': '' @ err_msg err)
              [sentinel_err CoreErrOutOfRange])
            else fail (errorf (''failed to expand volume: '' @ err_msg err) [err])))
        (\<lambda>_.
           call (on_sys (mgr_GetLogicalVolume (l_lvm l) (vid_VolumeGroup i) (vid_LogicalVolume i)))
             (\<lambda>err. fail (errorf (''failed to get volume after expand: '' @ err_msg err) [err]))
             (\<lambda>expandedLV.
                eventf rec Normal ''ExpandedLogicalVolume''
                  (''Expanded volume '' @ slash_name i @ '' to '' @ show_int (LV_Size expandedLV))
                (ok \<lparr>ne_CapacityBytes = LV_Size expandedLV\<rparr>)))))"

definition NodeExpandVolume ::
  "(int \<Rightarrow> string) \<Rightarrow> 's LVM \<Rightarrow> object_recorder \<Rightarrow> NodeExpandVolumeRequest \<Rightarrow>
    ('s world, goerr, NodeExpandVolumeResponse) op" where
  "NodeExpandVolume quantity_String l rec req =
     (if ne_VolumeId req = [] then
        fail (errorf (sentinel_msg CoreErrInvalidArgument @ '': volume id is required'')
          [sentinel_err CoreErrInvalidArgument])
      else
        case newIdFromString (ne_VolumeId req) of
          Inl err \<Rightarrow>
            fail (errorf (sentinel_msg CoreErrInvalidArgument @ '': failed to parse volume id '' @
              ne_VolumeId req @ '': '' @ err_msg err) [sentinel_err CoreErrInvalidArgument])
        | Inr i \<Rightarrow>
            call (on_sys (mgr_GetLogicalVolume (l_lvm l) (vid_VolumeGroup i) (vid_LogicalVolume i)))
              (\<lambda>err.
                 if IgnoreNotFound err \<noteq> None
                 then fail (errorf (''failed to find volume '' @ ne_VolumeId req @ '': '' @ err_msg err) [err])
                 else fail (errorf (sentinel_msg CoreErrVolumeNotFound @ '': volume '' @
                   ne_VolumeId req @ '' not found'') [sentinel_err CoreErrVolumeNotFound]))
              (\<lambda>lv.
                 if ne_CapacityRange req = None \<or> GetRequiredBytes (ne_CapacityRange req) = 0
                 then fail (errorf (sentinel_msg CoreErrOutOfRange @ '': capacity range is required'')
                   [sentinel_err CoreErrOutOfRange])
                 else if GetRequiredBytes (ne_CapacityRange req) \<le> LV_Size lv
                 then ok \<lparr>ne_CapacityBytes = LV_Size lv\<rparr>
                 else expand_lv quantity_String l rec i req))"

definition NodeEnsureVolume ::
  "'s LVM \<Rightarrow> object_recorder \<Rightarrow> string \<Rightarrow> int \<Rightarrow> int \<Rightarrow> ('s world, goerr, unit) op" where
  "NodeEnsureVolume l rec volumeId capacity limit =
     call (EnsureVolume l rec volumeId capacity limit True) fail (\<lambda>_. ok ())"

section \<open>What the operations establish\<close>

lemma id_String_inject:
  "newIdFromString (volumeId_String i) = Inr j \<Longrightarrow> j = i"
  by (auto simp: newIdFromString_Inr_iff volumeId_String_def wf_id_def append_Cons_eq_iff)

text \<open>The id and the size that a request asks for.\<close>

definition create_id :: "CreateVolumeRequest \<Rightarrow> string" where
  "create_id req = volume_group_param (cv_Parameters req) @ [separator] @ cv_Name req"

definition create_bytes :: "CreateVolumeRequest \<Rightarrow> int" where
  "create_bytes req = requested_capacity (GetRequiredBytes (cv_CapacityRange req)) (GetLimitBytes (cv_CapacityRange req))"

lemma create_idD:
  assumes "newIdFromString (create_id req) = Inr i"
  shows "i = \<lparr>vid_VolumeGroup = volume_group_param (cv_Parameters req), vid_LogicalVolume = cv_Name req\<rparr>"
    "newVolumeId (volume_group_param (cv_Parameters req)) (cv_Name req) = Inr i" "volumeId_String i = create_id req"
proof -
  let ?i = "\<lparr>vid_VolumeGroup = volume_group_param (cv_Parameters req), vid_LogicalVolume = cv_Name req\<rparr>"
  have "create_id req = volumeId_String ?i" by (simp add: create_id_def volumeId_String_def)
  with assms have "i = ?i" using id_String_inject by simp
  moreover have "wf_id i" using assms by (simp add: newIdFromString_Inr_iff)
  ultimately show "i = ?i" "newVolumeId (volume_group_param (cv_Parameters req)) (cv_Name req) = Inr i"
    "volumeId_String i = create_id req"
    by (auto simp: wf_id_def newVolumeId_def create_id_def volumeId_String_def)
qed

context lvm_driver
begin

lemma delete_loop_effect:
  "delete_loop l rec ce (slash_name i) n le w = (r, w') \<Longrightarrow>
    (case r of Inl e \<Rightarrow> meta (w_sys w') = meta (w_sys w)
     | Inr _ \<Rightarrow> m_lvs (meta (w_sys w')) = (m_lvs (meta (w_sys w)))(key i := None))"
proof (induction n arbitrary: le w)
  case 0
  then show ?case by (auto simp: Let_def)
next
  case (Suc n)
  from Suc.prems show ?case
    unfolding delete_loop.simps l_mgr
  proof (cases rule: callE)
    case (error e u)
    then obtain s' where s': "u = w\<lparr>w_sys := s'\<rparr>" "mgr_RemoveLogicalVolume mgr
        (zero_RemoveLVOptions\<lparr>RemoveLV_Name := slash_name i\<rparr>) (w_sys w) = (Inl e, s')" by auto
    note rn = remove_named [OF s'(2)]
    show ?thesis
      using error(2) rn s'(1) Suc.IH [of "Some e" u]
      by (auto simp: fun_eq_iff split: if_splits sum.splits)
  next
    case (result a u)
    then show ?thesis by (auto dest!: remove_named)
  qed
qed

lemma Delete_effect:
  assumes "Delete l rec n ce req w = (r, w')"
  shows "case newIdFromString (dv_VolumeId req) of
      Inl _ \<Rightarrow> r = Inr () \<and> w' = w
    | Inr i \<Rightarrow> (case r of Inl e \<Rightarrow> meta (w_sys w') = meta (w_sys w)
        | Inr _ \<Rightarrow> m_lvs (meta (w_sys w')) = (m_lvs (meta (w_sys w)))(key i := None))"
  using assms by (auto simp: Delete_def split: sum.splits dest!: delete_loop_effect)

lemma Create_ok:
  assumes "Create l rec req w = (Inr vol, w')"
  defines "vg \<equiv> volume_group_param (cv_Parameters req)"
    and "limit \<equiv> GetLimitBytes (cv_CapacityRange req)"
    and "required \<equiv> GetRequiredBytes (cv_CapacityRange req)"
  shows "m_lvs (meta (w_sys w')) (vg, cv_Name req) = Some (vol_CapacityBytes vol) \<and>
    required \<le> vol_CapacityBytes vol \<and> 0 < vol_CapacityBytes vol \<and>
    newIdFromString (vol_VolumeId vol) =
      Inr \<lparr>vid_VolumeGroup = vg, vid_LogicalVolume = cv_Name req\<rparr> \<and>
    map_get (vol_VolumeContext vol) CapacityParam = show_int (vol_CapacityBytes vol) \<and>
    map_get (vol_VolumeContext vol) LimitParam = show_int limit \<and>
    vol_AccessibleTopology vol = node_topology l"
proof -
  obtain i n where i: "newVolumeId vg (cv_Name req) = Inr i" and
    ens: "EnsureVolume l rec (volumeId_String i) (requested_capacity required limit) limit False w = (Inr n, w')"
    and vol: "vol_CapacityBytes vol = n" "vol_VolumeId vol = volumeId_String i"
      "vol_VolumeContext vol = (cv_Parameters req)(CapacityParam \<mapsto> show_int n, LimitParam \<mapsto> show_int limit)"
      "vol_AccessibleTopology vol = node_topology l"
    using assms(1) by (auto simp: Create_def Let_def vg_def limit_def required_def elim!: callE split: sum.splits)
  from ens obtain j where j: "newIdFromString (volumeId_String i) = Inr j"
    "m_lvs (meta (w_sys w')) (key j) = Some n" "requested_capacity required limit \<le> n"
    "0 < requested_capacity required limit"
    by (rule EnsureVolume_ok)
  have "required \<le> n" using j(3,4) by (auto simp: requested_capacity_def Let_def split: if_splits)
  moreover have "i = \<lparr>vid_VolumeGroup = vg, vid_LogicalVolume = cv_Name req\<rparr>"
    using i by (auto simp: newVolumeId_def split: if_splits)
  moreover have "j = i" by (rule id_String_inject [OF j(1)])
  ultimately show ?thesis
    using j vol by (auto simp: map_get_def CapacityParam_def LimitParam_def)
qed

lemma Create_frame:
  assumes "Create l rec req w = (r, w')"
    and "k \<noteq> (volume_group_param (cv_Parameters req), cv_Name req)"
  shows "m_lvs (meta (w_sys w')) k = m_lvs (meta (w_sys w)) k"
  using assms
  by (auto simp: Create_def Let_def newVolumeId_def elim!: callE split: sum.splits if_splits
      dest!: EnsureVolume_frame [where k = k] id_String_inject)

lemma list_groups_entries:
  assumes "list_groups l vgs es s = (Inr es', t)"
  shows "meta t = meta s \<and>
    set (map (\<lambda>v. (vol_VolumeId v, vol_CapacityBytes v)) es') =
      set (map (\<lambda>v. (vol_VolumeId v, vol_CapacityBytes v)) es) \<union>
      {(VG_Name vg @ [separator] @ x, sz) | vg x sz. vg \<in> set vgs \<and> m_lvs (meta s) (VG_Name vg, x) = Some sz}"
  using assms
proof (induction vgs arbitrary: es s)
  case (Cons vg vgs)
  let ?o = "zero_ListLVOptions\<lparr>ListLV_Select := ''vg_name='' @ VG_Name vg\<rparr>"
  obtain lvs u where u: "mgr_ListLogicalVolumes mgr (Some ?o) s = (Inr lvs, u)"
    "list_groups l vgs (es @ map (list_entry l vg) lvs) u = (Inr es', t)"
    using Cons.prems by (auto simp: l_mgr elim!: callE)
  have "(\<lambda>lv. (VG_Name vg @ [separator] @ LV_Name lv, LV_Size lv)) ` set lvs =
      (\<lambda>(x, sz). (VG_Name vg @ [separator] @ x, sz)) ` set (map (\<lambda>lv. (LV_Name lv, LV_Size lv)) lvs)"
    by (auto simp: image_image)
  also have "\<dots> = {(VG_Name vg @ [separator] @ x, sz) | x sz. m_lvs (meta s) (VG_Name vg, x) = Some sz}"
    unfolding list_lvs_rows [OF u(1)] by auto
  finally show ?case
    using Cons.IH [OF u(2)] list_lvs [OF u(1)] by (auto simp: list_entry_def image_Un image_image)
qed simp

lemma ListVols_entries:
  assumes "ListVols l req s = (Inr resp, t)"
  obtains vgs u where "mgr_ListVolumeGroups mgr (Some tagged_groups) s = (Inr vgs, u)" "meta t = meta s"
    "set (map (\<lambda>v. (vol_VolumeId v, vol_CapacityBytes v)) (lr_Entries resp)) =
      {(VG_Name vg @ [separator] @ x, sz) | vg x sz. vg \<in> set vgs \<and> m_lvs (meta s) (VG_Name vg, x) = Some sz}"
  using assms unfolding ListVols_def l_mgr
proof (cases rule: callE)
  case (result vgs u)
  note u = list_vgs [OF result(1)]
  show ?thesis
  proof (cases "vgs = []")
    case True
    then show ?thesis using that [OF result(1)] result(2) u by auto
  next
    case False
    with result(2) obtain es where "list_groups l vgs [] u = (Inr es, t)" "lr_Entries resp = es"
      by (auto elim!: callE)
    then show ?thesis using that [OF result(1)] list_groups_entries [of vgs "[]" u] u by simp
  qed
qed auto

lemma extend_named:
  "mgr_ExtendLogicalVolume mgr (extend_options qs i req) s = (r, t) \<Longrightarrow>
    (\<forall>k. k \<noteq> key i \<longrightarrow> m_lvs (meta t) k = m_lvs (meta s) k) \<and>
    (\<forall>sz. m_lvs (meta s) (key i) = Some sz \<longrightarrow> (\<exists>sz' \<ge> sz. m_lvs (meta t) (key i) = Some sz'))"
proof -
  assume a: "mgr_ExtendLogicalVolume mgr (extend_options qs i req) s = (r, t)"
  have "ExtendLV_Name (extend_options qs i req) = vid_VolumeGroup i @ ''/'' @ vid_LogicalVolume i"
    by (auto simp: extend_options_def Let_def slash_name_def split: option.splits access_type.splits)
  from extend_lv [OF a this] extend_lv_grows [OF a this] show ?thesis by blast
qed

lemma expand_lv_effect:
  assumes "expand_lv qs l rec i req w = (r, w')"
  shows "(\<forall>k. k \<noteq> key i \<longrightarrow> m_lvs (meta (w_sys w')) k = m_lvs (meta (w_sys w)) k) \<and>
    (\<forall>sz. m_lvs (meta (w_sys w)) (key i) = Some sz \<longrightarrow>
      (\<exists>sz' \<ge> sz. m_lvs (meta (w_sys w')) (key i) = Some sz' \<and>
        (\<forall>a. r = Inr a \<longrightarrow> ne_CapacityBytes a = sz')))"
  using assms unfolding expand_lv_def Let_def l_mgr eventf_run
proof (cases rule: callE)
  case (error e u)
  then show ?thesis by (auto dest!: extend_named split: if_splits)
next
  case (result a u)
  from result(1) obtain s' where "u = (Eventf rec Normal ''ExpandingLogicalVolume''
      (''Expanding volume '' @ slash_name i @ '' to '' @ show_int (GetRequiredBytes (ne_CapacityRange req))) w)
      \<lparr>w_sys := s'\<rparr>" and s': "mgr_ExtendLogicalVolume mgr (extend_options qs i req) (w_sys w) = (Inr a, s')"
    by auto
  then have us: "w_sys u = s'" by simp
  note ext = extend_named [OF s']
  from result(2) show ?thesis
  proof (cases rule: callE)
    case (error e v)
    then have "meta (w_sys w') = meta s'" "\<exists>e. r = Inl e" using us by (auto dest!: get_lv)
    then show ?thesis using ext by auto
  next
    case (result lv v)
    then have "meta (w_sys w') = meta s'" "m_lvs (meta s') (key i) = Some (LV_Size lv)"
      "r = Inr \<lparr>ne_CapacityBytes = LV_Size lv\<rparr>"
      using us by (auto dest!: get_lv_ok)
    then show ?thesis using ext by auto
  qed
qed

lemma get_lv_failed: "mgr_GetLogicalVolume mgr vn ln s = (Inl e, t) \<Longrightarrow> meta t = meta s"
  by (rule get_lv)

lemma NodeExpandVolume_effect:
  assumes "NodeExpandVolume qs l rec req w = (r, w')" "newIdFromString (ne_VolumeId req) = Inr i"
  shows "(\<forall>k. k \<noteq> key i \<longrightarrow> m_lvs (meta (w_sys w')) k = m_lvs (meta (w_sys w)) k) \<and>
    (\<forall>sz. m_lvs (meta (w_sys w)) (key i) = Some sz \<longrightarrow>
      (\<exists>sz' \<ge> sz. m_lvs (meta (w_sys w')) (key i) = Some sz' \<and>
        (\<forall>a. r = Inr a \<longrightarrow> ne_CapacityBytes a = sz')))"
proof (cases "ne_VolumeId req = []")
  case True
  then show ?thesis using assms by (auto simp: NodeExpandVolume_def)
next
  case False
  from assms False show ?thesis
    unfolding NodeExpandVolume_def l_mgr
    by (auto elim!: callE dest!: get_lv_ok get_lv_failed expand_lv_effect split: if_splits)
qed

lemma manager_frames:
  "keeps meta (mgr_ListVolumeGroups mgr oa)" "keeps meta (mgr_GetVolumeGroup mgr na)"
  "keeps meta (mgr_ListPhysicalVolumes mgr ob)" "keeps meta (mgr_ListLogicalVolumes mgr oc)"
  "keeps meta (mgr_GetLogicalVolume mgr nb nc)" "keeps meta (l_probe l)"
  by (rule keepsI, erule reads)+

lemma list_groups_frame: "keeps meta (list_groups l vgs es)"
proof (induction vgs arbitrary: es)
  case (Cons vg vgs)
  then show ?case unfolding list_groups.simps l_mgr by (intro frame_intros manager_frames) simp
qed (unfold list_groups.simps, rule keeps_ok)

lemma query_frames:
  "keeps meta (ListVols l lreq)" "keeps meta (GetCapacity l creq)" "keeps meta (ValidateCapabilities l vreq)"
  unfolding ListVols_def GetCapacity_def AvailableCapacity_def ValidateCapabilities_def Let_def l_mgr
  by (intro frame_intros manager_frames list_groups_frame)+

lemma Create_only:
  assumes "Create l rec req w = (r, w')"
    and "\<And>i. newIdFromString (volume_group_param (cv_Parameters req) @ [separator] @ cv_Name req) = Inr i \<Longrightarrow> k \<noteq> key i"
  shows "m_lvs (meta (w_sys w')) k = m_lvs (meta (w_sys w)) k"
  using assms
  by (auto simp: Create_def Let_def newVolumeId_def volumeId_String_def elim!: callE split: sum.splits if_splits
      dest!: EnsureVolume_frame [where k = k])

lemma Create_intact:
  assumes "Create l rec req w = (r, w')"
    and "newIdFromString (volume_group_param (cv_Parameters req) @ [separator] @ cv_Name req) = Inr i"
    and "m_lvs (meta (w_sys w)) (key i) \<noteq> None"
    and "\<And>s t. meta s = meta (w_sys w) \<Longrightarrow>
      mgr_IsLogicalVolumeCorrupted mgr (vid_VolumeGroup i) (vid_LogicalVolume i) s \<noteq> (Inr True, t)"
  shows "meta (w_sys w') = meta (w_sys w)"
  using assms
  by (auto simp: Create_def Let_def newVolumeId_def volumeId_String_def elim!: callE split: sum.splits if_splits
      dest!: EnsureVolume_intact)

lemma NodeExpandVolume_absent:
  assumes "NodeExpandVolume qs l rec req w = (r, w')"
    and "\<And>i. newIdFromString (ne_VolumeId req) = Inr i \<Longrightarrow> m_lvs (meta (w_sys w)) (key i) = None"
  shows "meta (w_sys w') = meta (w_sys w)"
  using assms unfolding NodeExpandVolume_def l_mgr
  by (auto elim!: callE dest!: get_lv_ok get_lv_failed split: if_splits sum.splits)

end

section \<open>Capacity\<close>

lemma usable_capacity_eq:
  assumes "0 \<le> sz" "sz < 2 ^ 63"
  shows "usable_capacity sz = max (sz - defaultDataAlignment) 0 div defaultPeSize * defaultPeSize"
proof -
  let ?u = "max (sz - defaultDataAlignment) 0"
  have "wrap64 (sz - defaultDataAlignment) = sz - defaultDataAlignment"
    using assms by (intro wrap64_id) (auto simp: int64_range_def defaultDataAlignment_def)
  moreover have "?u div defaultPeSize * defaultPeSize \<le> ?u" "0 \<le> ?u div defaultPeSize * defaultPeSize"
    by (auto simp: defaultPeSize_def div_mult_mod_eq [symmetric] intro: order.trans)
  then have "wrap64 (?u div defaultPeSize * defaultPeSize) = ?u div defaultPeSize * defaultPeSize"
    using assms by (intro wrap64_id) (auto simp: int64_range_def defaultDataAlignment_def)
  ultimately show ?thesis
    by (simp add: usable_capacity_def Let_def go_div_nonneg defaultPeSize_def)
qed

lemma usable_capacity_bounds:
  assumes "0 \<le> sz" "sz < 2 ^ 63"
  shows "0 \<le> usable_capacity sz" "usable_capacity sz \<le> sz" "defaultPeSize dvd usable_capacity sz"
proof -
  let ?u = "max (sz - defaultDataAlignment) 0"
  have "?u div defaultPeSize * defaultPeSize \<le> ?u" "?u \<le> sz"
    using assms by (auto simp: defaultPeSize_def defaultDataAlignment_def)
  then show "usable_capacity sz \<le> sz" unfolding usable_capacity_eq [OF assms] by (rule order.trans)
  show "0 \<le> usable_capacity sz" "defaultPeSize dvd usable_capacity sz"
    unfolding usable_capacity_eq [OF assms] by (simp_all add: defaultPeSize_def)
qed

definition free_devices :: "(string \<rightharpoonup> PhysicalVolume) \<Rightarrow> string \<Rightarrow> Device list \<Rightarrow> Device list" where
  "free_devices m vg ds = filter (\<lambda>d. \<not> taken_by_other m vg d) ds"

lemma sum_capacity_eq:
  assumes "\<And>d. d \<in> set ds \<Longrightarrow> 0 \<le> dev_Size d" "sum_list (map dev_Size ds) < 2 ^ 63"
  shows "sum_capacity m vg ds = sum_list (map (\<lambda>d. usable_capacity (dev_Size d)) (free_devices m vg ds))"
proof -
  have "foldl (\<lambda>n d. if taken_by_other m vg d then n else wrap64 (n + usable_capacity (dev_Size d))) n ds =
      n + sum_list (map (\<lambda>d. usable_capacity (dev_Size d)) (free_devices m vg ds))"
    if "0 \<le> n" "n + sum_list (map dev_Size ds) < 2 ^ 63" for n
    using that assms(1)
  proof (induction ds arbitrary: n)
    case (Cons d ds)
    have nn: "0 \<le> sum_list (map dev_Size ds)" "0 \<le> dev_Size d"
      by (auto intro!: sum_list_nonneg Cons.prems(3))
    then have b: "0 \<le> usable_capacity (dev_Size d)" "usable_capacity (dev_Size d) \<le> dev_Size d"
      using usable_capacity_bounds [of "dev_Size d"] Cons.prems(1,2) by simp_all
    then have "wrap64 (n + usable_capacity (dev_Size d)) = n + usable_capacity (dev_Size d)"
      using Cons.prems(1,2) nn by (intro wrap64_id) (auto simp: int64_range_def)
    then show ?case
      using Cons.IH [of n] Cons.IH [of "n + usable_capacity (dev_Size d)"] Cons.prems b nn
      by (auto simp: free_devices_def)
  qed (simp add: free_devices_def)
  from this [of 0] assms(2) show ?thesis by (simp add: sum_capacity_def)
qed

lemma usable_capacity_loss:
  assumes "0 \<le> sz" "sz < 2 ^ 63"
  shows "sz - usable_capacity sz \<le> defaultPeSize + defaultDataAlignment"
proof -
  let ?u = "max (sz - defaultDataAlignment) 0"
  have "?u mod defaultPeSize < defaultPeSize" by (simp add: defaultPeSize_def)
  then have "?u - ?u div defaultPeSize * defaultPeSize \<le> defaultPeSize"
    using div_mult_mod_eq [of ?u defaultPeSize] by linarith
  moreover have "sz - defaultDataAlignment \<le> ?u" by simp
  ultimately show ?thesis unfolding usable_capacity_eq [OF assms] by linarith
qed

text \<open>The volumes that a run of removals finds in use, one after the other.\<close>

inductive refused :: "('s, goerr, unit) op \<Rightarrow> nat \<Rightarrow> 's \<Rightarrow> 's \<Rightarrow> bool" for m where
  none: "refused m 0 s s"
| busy: "m s = (Inl e, u) \<Longrightarrow> errors_Is e LvmErrInUse \<Longrightarrow> IgnoreNotFound e \<noteq> None \<Longrightarrow> refused m k u t \<Longrightarrow>
    refused m (Suc k) s t"

definition remove_volume :: "'s LVM \<Rightarrow> volumeId \<Rightarrow> ('s, goerr, unit) op" where
  "remove_volume l i = mgr_RemoveLogicalVolume (l_lvm l) (zero_RemoveLVOptions\<lparr>RemoveLV_Name := slash_name i\<rparr>)"

definition removal_outcome :: "('s, goerr, unit) op \<Rightarrow> 's \<Rightarrow> (goerr + unit) \<times> 's world \<Rightarrow> bool" where
  "removal_outcome m s out \<longleftrightarrow>
     (case m s of
        (Inr _, t) \<Rightarrow> fst out = Inr () \<and> w_sys (snd out) = t
      | (Inl e, t) \<Rightarrow> w_sys (snd out) = t \<and>
          (if IgnoreNotFound e = None then fst out = Inr () else \<not> errors_Is e LvmErrInUse \<and> fst out = Inl e))"

lemma delete_loop_attempts:
  "\<exists>k s. k \<le> n \<and> refused (remove_volume l i) k (w_sys w) s \<and>
    (if k = n then w_sys (snd (delete_loop l rec ce (slash_name i) n le w)) = s \<and>
       (\<exists>e. fst (delete_loop l rec ce (slash_name i) n le w) = Inl e \<and> set (err_is ce) \<subseteq> set (err_is e))
     else removal_outcome (remove_volume l i) s (delete_loop l rec ce (slash_name i) n le w))"
proof (induction n arbitrary: le w)
  case 0
  show ?case
    by (intro exI [of _ 0] exI [of _ "w_sys w"])
      (auto simp: refused.none Let_def errors_Join_def errorf_def split: option.splits)
next
  case (Suc n)
  obtain r t where run: "remove_volume l i (w_sys w) = (r, t)" by fastforce
  show ?case
  proof (cases "\<exists>e. r = Inl e \<and> errors_Is e LvmErrInUse \<and> IgnoreNotFound e \<noteq> None")
    case True
    then obtain e where e: "r = Inl e" "errors_Is e LvmErrInUse" "IgnoreNotFound e \<noteq> None" by blast
    then have eq: "delete_loop l rec ce (slash_name i) (Suc n) le w =
        delete_loop l rec ce (slash_name i) n (Some e) (w\<lparr>w_sys := t\<rparr>)"
      using run by (simp add: remove_volume_def call_def on_sys_run)
    from Suc.IH [of "w\<lparr>w_sys := t\<rparr>" "Some e"] obtain k s where
      "k \<le> n" "refused (remove_volume l i) k t s"
      "if k = n then w_sys (snd (delete_loop l rec ce (slash_name i) (Suc n) le w)) = s \<and>
         (\<exists>e. fst (delete_loop l rec ce (slash_name i) (Suc n) le w) = Inl e \<and> set (err_is ce) \<subseteq> set (err_is e))
       else removal_outcome (remove_volume l i) s (delete_loop l rec ce (slash_name i) (Suc n) le w)"
      unfolding eq by auto
    with refused.busy [of "remove_volume l i", OF run [unfolded e(1)] e(2,3)] show ?thesis
      by (intro exI [of _ "Suc k"] exI [of _ s]) simp
  next
    case False
    have "removal_outcome (remove_volume l i) (w_sys w) (delete_loop l rec ce (slash_name i) (Suc n) le w)"
      using False run
      by (auto simp: removal_outcome_def remove_volume_def call_def on_sys_run split: sum.splits)
    then show ?thesis
      by (intro exI [of _ 0] exI [of _ "w_sys w"]) (simp add: refused.none)
  qed
qed

lemma usable_sum_bounds:
  assumes "\<And>d. d \<in> set xs \<Longrightarrow> 0 \<le> dev_Size d \<and> dev_Size d < 2 ^ 63"
  defines "cap \<equiv> sum_list (map (\<lambda>d. usable_capacity (dev_Size d)) xs)"
  shows "0 \<le> cap" "cap \<le> sum_list (map dev_Size xs)" "defaultPeSize dvd cap"
    "sum_list (map dev_Size xs) - cap \<le> int (length xs) * (defaultPeSize + defaultDataAlignment)"
proof -
  have "0 \<le> cap \<and> cap \<le> sum_list (map dev_Size xs) \<and> defaultPeSize dvd cap \<and>
      sum_list (map dev_Size xs) - cap \<le> int (length xs) * (defaultPeSize + defaultDataAlignment)"
    unfolding cap_def using assms(1)
  proof (induction xs)
    case (Cons d xs)
    then have d: "0 \<le> dev_Size d" "dev_Size d < 2 ^ 63" by auto
    from Cons usable_capacity_bounds [OF d] usable_capacity_loss [OF d] show ?case
      by (auto simp: algebra_simps)
  qed simp
  then show "0 \<le> cap" "cap \<le> sum_list (map dev_Size xs)" "defaultPeSize dvd cap"
    "sum_list (map dev_Size xs) - cap \<le> int (length xs) * (defaultPeSize + defaultDataAlignment)" by blast+
qed

section \<open>Properties\<close>

text \<open>C24. The capacity reported for disks that are not yet in the volume group: if the sizes
  are not negative and add up within \<open>int64\<close>, the sum does not overflow, is a
  multiple of the extent size, counts only the disks that no other volume group has, is at most their
  size, and falls short of it by at most one extent and the alignment for each disk.\<close>

theorem capacity_bounds:
  assumes "\<And>d. d \<in> set ds \<Longrightarrow> 0 \<le> dev_Size d" "sum_list (map dev_Size ds) < 2 ^ 63"
  shows "let free = free_devices m vg ds; total = sum_list (map dev_Size free); cap = sum_capacity m vg ds in
    0 \<le> cap \<and> cap \<le> total \<and> defaultPeSize dvd cap \<and>
    total - cap \<le> int (length free) * (defaultPeSize + defaultDataAlignment)"
proof -
  have "sum_capacity m vg ds = sum_list (map (\<lambda>d. usable_capacity (dev_Size d)) (free_devices m vg ds))"
    by (rule sum_capacity_eq) (use assms in auto)
  moreover have "0 \<le> dev_Size d \<and> dev_Size d < 2 ^ 63" if "d \<in> set (free_devices m vg ds)" for d
  proof -
    from that have d: "d \<in> set ds" by (simp add: free_devices_def)
    then have "dev_Size d \<le> sum_list (map dev_Size ds)" using assms(1) by (intro member_le_sum_list) auto
    with assms d show ?thesis by fastforce
  qed
  ultimately show ?thesis
    unfolding Let_def using usable_sum_bounds [of "free_devices m vg ds"] by simp
qed

definition ref_disk :: "int \<Rightarrow> Device" where
  "ref_disk sz = \<lparr>dev_Name = [], dev_Path = ''/dev/nvme0n1'', dev_MajMin = [], dev_Removable = False, dev_Type = [],
     dev_Mountpoint = [], dev_Mountpoints = [], dev_Model = [], dev_Serial = [], dev_Size = sz\<rparr>"

theorem capacity_bounds_witness:
  "sum_capacity Map.empty ''containerstorage'' [ref_disk 1920383410176, ref_disk 5] \<le> 1920383410181"
  by (rule order.trans [OF conjunct1 [OF conjunct2 [OF capacity_bounds [unfolded Let_def]]]])
    (auto simp: ref_disk_def free_devices_def taken_by_other_def)

end
