(* ===== verification/Driver.thy ===== *)
theory Driver
  imports LvmReference CoreController
begin

text \<open>
  The volume manager as the driver builds it (\<open>cmd/driver/main.go\<close>): the LVM client of
  \<open>internal/pkg/lvm\<close> as its manager and a scan of the block devices of the node as its probe.

  The locale \<open>node_driver\<close> puts the components together and rests on the documented behaviour of the
  executables only (\<open>lvm_binary\<close>, and that listing block devices changes no LVM metadata). The
  properties of this theory are about this composition.
\<close>

section \<open>The composition\<close>

locale node_driver = lvm_binary c meta for c :: "'s client" and meta :: "'s \<Rightarrow> lvm_meta" +
  fixes l :: "'s LVM"
    and flt :: filter_predicate
  assumes uses_client: "l_lvm l = NewClientManager c"
    and uses_scan: "l_probe l = ScanAvailableDevices (c_block c) flt"
    and devices_meta: "blk_GetDevices (c_block c) s = (rk, t) \<Longrightarrow> meta t = meta s"
begin

lemma scan_devices_meta:
  "scan_devices (c_block c) flt ds acc s = (r, t) \<Longrightarrow> meta t = meta s"
  by (induction ds arbitrary: acc s)
    (auto elim!: callE dest!: formatted_meta lvm2_meta split: if_splits)

lemma scan_keeps_meta: "l_probe l s = (r, t) \<Longrightarrow> meta t = meta s"
  unfolding uses_scan ScanAvailableDevices_def
  by (auto elim!: callE dest!: devices_meta scan_devices_meta split: if_splits)

end

sublocale node_driver \<subseteq> drv: lvm_driver "NewClientManager c" meta l
  by (unfold_locales) (fact uses_client, fact scan_keeps_meta)

context node_driver
begin

lemma is_lvm_driver: "lvm_driver (NewClientManager c) meta l"
  by unfold_locales

text \<open>A volume whose device file is there is not taken for corrupted.\<close>

lemma not_corrupted:
  assumes "\<And>s e t. meta s = m \<Longrightarrow>
      h_Stat (c_host c) (ConstructLogicalVolumePath vg lv) s = (Inl e, t) \<Longrightarrow> \<not> errors_Is e OsErrNotExist"
    and "meta s = m"
  shows "mgr_IsLogicalVolumeCorrupted (NewClientManager c) vg lv s \<noteq> (Inr True, t)"
  unfolding NewClientManager_simps Client_IsLogicalVolumeCorrupted_def Let_def
  using assms by (auto elim!: callE dest!: get_meta(3) split: if_splits)

end

definition ref_driver :: "'z node_scheme LVM" where
  "ref_driver =
     \<lparr>l_releaseNamespace = ''kube-system'', l_podName = ''csi-local-node-x'', l_nodeName = ''node-1'',
      l_enableCleanup = True,
      l_probe = ScanAvailableDevices (block_New ref_host) (NewEphemeralDiskFilter [] [] []),
      l_lvm = NewClientManager ref_client\<rparr>"

interpretation ref_node: node_driver ref_client meta_of ref_driver "NewEphemeralDiskFilter [] [] []"
  by unfold_locales (auto simp: ref_driver_def dest: ref_block_state)

lemma NewLVM_ref_driver:
  "NewLVM ''csi-local-node-x'' ''node-1'' ''kube-system'' True
     (ScanAvailableDevices (block_New ref_host) (NewEphemeralDiskFilter [] [] []))
     (NewClientManager ref_client) = Inr ref_driver"
  by (simp add: NewLVM_def ref_driver_def)

text \<open>A node with one disk in the default volume group, which holds one volume.\<close>

definition ref_world :: "node world" where
  "ref_world =
     \<lparr>w_sys = \<lparr>n_pvs = [(''/dev/nvme0n1'', ''containerstorage'')],
        n_vgs = [(''containerstorage'', [''local-csi''], 1920378765312)],
        n_lvs = [((''containerstorage'', ''pvc-1''), 4194304)]\<rparr>,
      w_events = []\<rparr>"

lemma ref_world_simps [simp]:
  "n_lvs (w_sys ref_world) = [((''containerstorage'', ''pvc-1''), 4194304)]"
  by (simp add: ref_world_def)

lemma ref_ids:
  "newIdFromString ''containerstorage#pvc-1'' =
     Inr \<lparr>vid_VolumeGroup = ''containerstorage'', vid_LogicalVolume = ''pvc-1''\<rparr>"
  "newIdFromString ''containerstorage#pvc-2'' =
     Inr \<lparr>vid_VolumeGroup = ''containerstorage'', vid_LogicalVolume = ''pvc-2''\<rparr>"
  by code_simp+

lemma ref_stat_lv:
  "(k, b) \<in> set (n_lvs s) \<Longrightarrow> ref_stat (ConstructLogicalVolumePath (fst k) (snd k)) s = (Inr (Some block_mode), s)"
  by (auto simp: ref_stat_def intro: image_eqI [of _ _ "(k, b)"])

lemma meta_of_lvs: "meta_of s = meta_of t \<Longrightarrow> map_of (n_lvs s) = map_of (n_lvs t)"
  by (simp add: meta_of_def)

text \<open>The key of a volume in the LVM metadata.\<close>

definition volume_key :: "volumeId \<Rightarrow> string \<times> string" where
  "volume_key i = (vid_VolumeGroup i, vid_LogicalVolume i)"

section \<open>Provisioning\<close>

text \<open>C4. Ensuring a volume, on any node whose LVM executable behaves as documented: if it returns
  a size, the volume id is well formed, the volume exists in the LVM metadata with exactly that
  size, and the size is at least the requested capacity; whatever it returns, every other logical
  volume of the node is exactly as before.\<close>

theorem EnsureVolume_provisions:
  assumes "node_driver c meta l flt"
  shows "case EnsureVolume l rec v cap lim mnt w of (r, w') \<Rightarrow>
    (\<forall>n. r = Inr n \<longrightarrow> 0 < cap \<and> cap \<le> n \<and>
       (\<exists>i. newIdFromString v = Inr i \<and> m_lvs (meta (w_sys w')) (volume_key i) = Some n)) \<and>
    (\<forall>k. (\<forall>i. newIdFromString v = Inr i \<longrightarrow> k \<noteq> volume_key i) \<longrightarrow>
       m_lvs (meta (w_sys w')) k = m_lvs (meta (w_sys w)) k)"
proof -
  note drv = node_driver.is_lvm_driver [OF assms]
  obtain r w' where run: "EnsureVolume l rec v cap lim mnt w = (r, w')" by fastforce
  have "0 < cap \<and> cap \<le> n \<and> (\<exists>i. newIdFromString v = Inr i \<and> m_lvs (meta (w_sys w')) (volume_key i) = Some n)"
    if "r = Inr n" for n
    by (rule lvm_driver.EnsureVolume_ok [OF drv run [unfolded that]]) (auto simp: volume_key_def)
  moreover have "m_lvs (meta (w_sys w')) k = m_lvs (meta (w_sys w)) k"
    if "\<forall>i. newIdFromString v = Inr i \<longrightarrow> k \<noteq> volume_key i" for k
    by (rule lvm_driver.EnsureVolume_frame [OF drv run]) (use that in \<open>simp add: volume_key_def\<close>)
  ultimately show ?thesis by (simp add: run)
qed

theorem EnsureVolume_provisions_witness:
  "case EnsureVolume ref_driver NoopObjectRecorder ''containerstorage#pvc-2'' 5000000 0 False ref_world of
    (r, w') \<Rightarrow> m_lvs (meta_of (w_sys w')) (''containerstorage'', ''pvc-1'') = Some 4194304"
  using EnsureVolume_provisions [OF ref_node.node_driver_axioms, where rec = NoopObjectRecorder
      and v = "''containerstorage#pvc-2''" and cap = 5000000 and lim = 0 and mnt = False and w = ref_world]
  by (auto simp: volume_key_def ref_ids split: prod.splits)

text \<open>C9. Ensuring a volume that exists and whose device file is present changes nothing in the LVM
  metadata, whatever size is asked for and whatever it returns: a mount never removes, recreates or
  resizes an intact volume.\<close>

theorem EnsureVolume_keeps_intact:
  assumes "node_driver c meta l flt" and "newIdFromString v = Inr i"
    and "m_lvs (meta (w_sys w)) (volume_key i) \<noteq> None"
    and "\<And>s e t. meta s = meta (w_sys w) \<Longrightarrow>
      h_Stat (c_host c) (ConstructLogicalVolumePath (vid_VolumeGroup i) (vid_LogicalVolume i)) s = (Inl e, t) \<Longrightarrow>
      \<not> errors_Is e OsErrNotExist"
  shows "meta (w_sys (snd (EnsureVolume l rec v cap lim mnt w))) = meta (w_sys w)"
proof -
  note drv = node_driver.is_lvm_driver [OF assms(1)]
  obtain r w' where run: "EnsureVolume l rec v cap lim mnt w = (r, w')" by fastforce
  have "mgr_IsLogicalVolumeCorrupted (NewClientManager c) (vid_VolumeGroup i) (vid_LogicalVolume i) s \<noteq> (Inr True, t)"
    if "meta s = meta (w_sys w)" for s t
    using assms(4) that by (rule node_driver.not_corrupted [OF assms(1)])
  from lvm_driver.EnsureVolume_intact [OF drv run assms(2) _ this] assms(3) show ?thesis
    by (simp add: run volume_key_def)
qed

theorem EnsureVolume_keeps_intact_witness:
  "meta_of (w_sys (snd (EnsureVolume ref_driver NoopObjectRecorder ''containerstorage#pvc-1'' 1 0 True ref_world))) =
     meta_of (w_sys ref_world)"
proof (rule EnsureVolume_keeps_intact [OF ref_node.node_driver_axioms ref_ids(1)], goal_cases)
  case 1
  then show ?case by (simp add: volume_key_def)
next
  case (2 s e t)
  from meta_of_lvs [OF 2(1)] have "map_of (n_lvs s) (''containerstorage'', ''pvc-1'') = Some 4194304" by simp
  then have "((''containerstorage'', ''pvc-1''), 4194304) \<in> set (n_lvs s)" by (rule map_of_SomeD)
  from ref_stat_lv [OF this] show ?case using 2(2) by simp
qed

text \<open>C5. A volume that \<open>Create\<close> returns exists: the logical volume named by the request, in the
  volume group of the parameters or the default one, has exactly the reported capacity, which is
  positive and at least the required bytes; its id parses back to that volume, its context carries
  the size and the limit for a later mount, and its topology is this node. Whatever \<open>Create\<close> returns,
  it leaves all other logical volumes as they are.\<close>

theorem Create_makes_volume:
  assumes "node_driver c meta l flt"
  shows "case Create l rec req w of (r, w') \<Rightarrow>
    (let vg = volume_group_param (cv_Parameters req); range = cv_CapacityRange req in
     (\<forall>vol. r = Inr vol \<longrightarrow>
        m_lvs (meta (w_sys w')) (vg, cv_Name req) = Some (vol_CapacityBytes vol) \<and>
        GetRequiredBytes range \<le> vol_CapacityBytes vol \<and> 0 < vol_CapacityBytes vol \<and>
        newIdFromString (vol_VolumeId vol) = Inr \<lparr>vid_VolumeGroup = vg, vid_LogicalVolume = cv_Name req\<rparr> \<and>
        map_get (vol_VolumeContext vol) CapacityParam = show_int (vol_CapacityBytes vol) \<and>
        map_get (vol_VolumeContext vol) LimitParam = show_int (GetLimitBytes range) \<and>
        vol_AccessibleTopology vol = node_topology l) \<and>
     (\<forall>k. k \<noteq> (vg, cv_Name req) \<longrightarrow> m_lvs (meta (w_sys w')) k = m_lvs (meta (w_sys w)) k))"
proof -
  note drv = node_driver.is_lvm_driver [OF assms]
  obtain r w' where run: "Create l rec req w = (r, w')" by fastforce
  show ?thesis
    unfolding run prod.case Let_def
    using lvm_driver.Create_ok [OF drv, where rec = rec and w = w and w' = w'] run
      lvm_driver.Create_frame [OF drv run] by blast
qed

definition ref_request :: CreateVolumeRequest where
  "ref_request =
     \<lparr>cv_Name = ''pvc-2'', cv_CapacityRange = Some \<lparr>cr_RequiredBytes = 5000000, cr_LimitBytes = 0\<rparr>,
      cv_VolumeCapabilities = [], cv_Parameters = Map.empty, cv_VolumeContentSource = None\<rparr>"

theorem Create_makes_volume_witness:
  "case Create ref_driver NoopObjectRecorder ref_request ref_world of (r, w') \<Rightarrow>
    m_lvs (meta_of (w_sys w')) (''containerstorage'', ''pvc-1'') = Some 4194304"
  using Create_makes_volume [OF ref_node.node_driver_axioms, where rec = NoopObjectRecorder
      and req = ref_request and w = ref_world]
  by (auto simp: ref_request_def volume_group_param_def DefaultVolumeGroup_def Let_def split: prod.splits)

text \<open>C6. \<open>Delete\<close> is all or nothing: if it reports success for an id that names a volume, that logical
  volume is gone and nothing else changed, and if it reports an error, no metadata changed, however
  often the removal was retried; an id that does not parse is accepted and changes nothing.\<close>

theorem Delete_all_or_nothing:
  assumes "node_driver c meta l flt"
  shows "case Delete l rec ticks ctxErr req w of (r, w') \<Rightarrow>
    (case newIdFromString (dv_VolumeId req) of
       Inl _ \<Rightarrow> r = Inr () \<and> w' = w
     | Inr i \<Rightarrow>
         (case r of
            Inl e \<Rightarrow> meta (w_sys w') = meta (w_sys w)
          | Inr _ \<Rightarrow> m_lvs (meta (w_sys w')) = (m_lvs (meta (w_sys w)))(volume_key i := None)))"
proof -
  note drv = node_driver.is_lvm_driver [OF assms]
  obtain r w' where run: "Delete l rec ticks ctxErr req w = (r, w')" by fastforce
  from lvm_driver.Delete_effect [OF drv run] show ?thesis
    unfolding run volume_key_def prod.case .
qed

theorem Delete_all_or_nothing_witness:
  "case Delete ref_driver NoopObjectRecorder 20 (sentinel_err DeadlineExceeded)
      \<lparr>dv_VolumeId = ''containerstorage#pvc-2''\<rparr> ref_world of
    (r, w') \<Rightarrow> m_lvs (meta_of (w_sys w')) (''containerstorage'', ''pvc-1'') = Some 4194304"
  using Delete_all_or_nothing [OF ref_node.node_driver_axioms, where rec = NoopObjectRecorder and ticks = 20
      and ctxErr = "sentinel_err DeadlineExceeded" and req = "\<lparr>dv_VolumeId = ''containerstorage#pvc-2''\<rparr>"
      and w = ref_world]
  by (auto simp: ref_ids volume_key_def dest: meta_of_lvs split: prod.splits sum.splits)



text \<open>C22. \<open>List\<close> changes nothing, and its entries are exactly the logical volumes of the volume
  groups that carry the driver's tag, each with its size.\<close>

theorem ListVols_exact:
  assumes "node_driver c meta l flt"
  shows "case ListVols l req s of (r, t) \<Rightarrow>
    (\<forall>resp. r = Inr resp \<longrightarrow> meta t = meta s \<and>
       (\<exists>vgs u. mgr_ListVolumeGroups (l_lvm l) (Some tagged_groups) s = (Inr vgs, u) \<and>
         set (map (\<lambda>v. (vol_VolumeId v, vol_CapacityBytes v)) (lr_Entries resp)) =
           {(VG_Name vg @ [separator] @ x, sz) | vg x sz.
              vg \<in> set vgs \<and> m_lvs (meta s) (VG_Name vg, x) = Some sz}))"
proof -
  note drv = node_driver.is_lvm_driver [OF assms]
  obtain r t where run: "ListVols l req s = (r, t)" by fastforce
  show ?thesis
    unfolding run prod.case lvm_driver.l_mgr [OF drv]
  proof (intro allI impI)
    fix resp
    assume r: "r = Inr resp"
    show "meta t = meta s \<and> (\<exists>vgs u. mgr_ListVolumeGroups (NewClientManager c) (Some tagged_groups) s = (Inr vgs, u) \<and>
         set (map (\<lambda>v. (vol_VolumeId v, vol_CapacityBytes v)) (lr_Entries resp)) =
           {(VG_Name vg @ [separator] @ x, sz) | vg x sz.
              vg \<in> set vgs \<and> m_lvs (meta s) (VG_Name vg, x) = Some sz})"
      by (rule lvm_driver.ListVols_entries [OF drv run [unfolded r]]) (intro conjI exI; assumption)
  qed
qed

theorem ListVols_exact_witness:
  "case ListVols ref_driver \<lparr>lr_MaxEntries = 0, lr_StartingToken = []\<rparr> (w_sys ref_world) of
    (r, t) \<Rightarrow> \<forall>resp. r = Inr resp \<longrightarrow> meta_of t = meta_of (w_sys ref_world)"
  using ListVols_exact [OF ref_node.node_driver_axioms, where req = "\<lparr>lr_MaxEntries = 0, lr_StartingToken = []\<rparr>"
      and s = "w_sys ref_world"]
  by (auto split: prod.splits)

text \<open>C20. Cleanup at shutdown destroys no data: provided the volume counts that the tagged volume
  groups report add up without overflow, the logical volumes of the node are the same after it,
  whether it succeeds or fails.\<close>

theorem Cleanup_keeps_volumes:
  assumes "node_driver c meta l flt"
    and "\<And>vgs u. mgr_ListVolumeGroups (l_lvm l) (Some tagged_groups) s = (Inr vgs, u) \<Longrightarrow>
      sum_list (map VG_LVCount vgs) < 2 ^ 63"
  shows "m_lvs (meta (snd (Cleanup l s))) = m_lvs (meta s)"
proof -
  note drv = node_driver.is_lvm_driver [OF assms(1)]
  show ?thesis
    by (rule lvm_driver.Cleanup_lvs [OF drv prod.collapse [symmetric]])
      (use assms(2) in \<open>simp add: lvm_driver.l_mgr [OF drv]\<close>)
qed

lemma ref_tagged_count:
  assumes "mgr_ListVolumeGroups (l_lvm ref_driver) (Some tagged_groups) (w_sys ref_world) = (Inr vgs, u)"
  shows "sum_list (map VG_LVCount vgs) = 1"
proof -
  let ?g = "(''containerstorage'', [''local-csi''], 1920378765312)"
  have "run_report ref_client ''vg'' decode_VolumeGroup (vgs_args (ref_client :: node client) (Some tagged_groups)) (w_sys ref_world) = (Inr vgs, u)"
    using assms by (simp add: ref_driver_def Client_ListVolumeGroups_def)
  then obtain out where "run ref_client (vgs_args (ref_client :: node client) (Some tagged_groups)) (w_sys ref_world) = (Inr out, u)"
    and out: "parse_report ''vg'' decode_VolumeGroup out = Some vgs"
    by (blast dest: ref.run_report_rows)
  then have "out = report ''vg'' (map (vg_row (w_sys ref_world)) [?g])"
    by (auto simp: vgs_args_def tagged_groups_def zero_ListVGOptions_def DefaultVolumeGroupTag_def select_arg_def
        ref_vgs_def ref_world_def)
  from parse_reportD [OF out [unfolded this]]
  obtain vg where "vgs = [vg]" "decode_VolumeGroup (json_row (vg_row (w_sys ref_world) ?g)) = Some vg"
    by (auto simp: list_all2_Cons1)
  then show ?thesis using decode_VG_row [of "w_sys ref_world" ?g vg] by (simp add: lv_count_def)
qed

theorem Cleanup_keeps_volumes_witness:
  "m_lvs (meta_of (snd (Cleanup ref_driver (w_sys ref_world)))) = m_lvs (meta_of (w_sys ref_world))"
  by (rule Cleanup_keeps_volumes [OF ref_node.node_driver_axioms]) (simp add: ref_tagged_count)

text \<open>C23. Expanding a volume never shrinks it and touches no other volume: if the volume exists, it
  exists afterwards with at least its old size, whatever the expansion returns, and a reported
  capacity is the size it has.\<close>

theorem NodeExpand_grows:
  assumes "node_driver c meta l flt" and "newIdFromString (ne_VolumeId req) = Inr i"
    and "m_lvs (meta (w_sys w)) (volume_key i) = Some sz"
  shows "case NodeExpandVolume qs l rec req w of (r, w') \<Rightarrow>
    (\<exists>sz' \<ge> sz. m_lvs (meta (w_sys w')) (volume_key i) = Some sz' \<and>
       (\<forall>a. r = Inr a \<longrightarrow> ne_CapacityBytes a = sz')) \<and>
    (\<forall>k. k \<noteq> volume_key i \<longrightarrow> m_lvs (meta (w_sys w')) k = m_lvs (meta (w_sys w)) k)"
proof -
  note drv = node_driver.is_lvm_driver [OF assms(1)]
  obtain r w' where run: "NodeExpandVolume qs l rec req w = (r, w')" by fastforce
  show ?thesis
    unfolding run prod.case
    using lvm_driver.NodeExpandVolume_effect [OF drv run assms(2)] assms(3)
    unfolding volume_key_def by blast
qed

theorem NodeExpand_grows_witness:
  "case NodeExpandVolume (\<lambda>n. show_int n) ref_driver NoopObjectRecorder
      \<lparr>ne_VolumeId = ''containerstorage#pvc-1'', ne_VolumePath = [],
       ne_CapacityRange = Some \<lparr>cr_RequiredBytes = 8388608, cr_LimitBytes = 0\<rparr>, ne_VolumeCapability = None\<rparr> ref_world of
    (r, w') \<Rightarrow> \<exists>sz \<ge> 4194304. m_lvs (meta_of (w_sys w')) (''containerstorage'', ''pvc-1'') = Some sz"
  using NodeExpand_grows [OF ref_node.node_driver_axioms, where req = "\<lparr>ne_VolumeId = ''containerstorage#pvc-1'',
      ne_VolumePath = [], ne_CapacityRange = Some \<lparr>cr_RequiredBytes = 8388608, cr_LimitBytes = 0\<rparr>,
      ne_VolumeCapability = None\<rparr>" and w = ref_world and sz = 4194304 and rec = NoopObjectRecorder
      and qs = "\<lambda>n. show_int n"]
  by (auto simp: ref_ids volume_key_def split: prod.splits)

end
