(* ===== verification/Mounter.thy ===== *)
theory Mounter
  imports Block Paths Csi
begin

text \<open>
  Mounting: \<open>internal/csi/mounter/mounter.go\<close>.

  The interface is the record \<open>mounter\<close>. The struct \<open>Mounter\<close> implements it on top of the packages
  \<open>mount-utils\<close>, \<open>hostutil\<close> and \<open>client-go/util/retry\<close>, of commands and of file operations, which are
  the fields of \<open>mount_host\<close>. What is documented of \<open>retry.OnError\<close> is the predicate \<open>attempts\<close>.
\<close>

section \<open>The host\<close>

text \<open>\<open>mh_Output\<close> is \<open>Command(..).Output()\<close>; \<open>mh_Start\<close> and \<open>mh_Wait\<close> are the two halves of running a
  command with its standard output in a buffer. \<open>mh_OnError\<close> takes the number of steps of the backoff.\<close>

record 's mount_host =
  mh_Output :: "string \<Rightarrow> string list \<Rightarrow> 's \<Rightarrow> (string \<times> exec_error option) \<times> 's"
  mh_Start :: "string \<Rightarrow> string list \<Rightarrow> ('s, goerr, unit) op"
  mh_Wait :: "string \<Rightarrow> string list \<Rightarrow> 's \<Rightarrow> (string \<times> exec_error option) \<times> 's"
  mh_Create :: "string \<Rightarrow> ('s, goerr, unit) op"
  mh_Close :: "string \<Rightarrow> ('s, goerr, unit) op"
  mh_MkdirAll :: "string \<Rightarrow> ('s, goerr, unit) op"
  mh_Lstat :: "string \<Rightarrow> ('s, goerr, unit) op"
  mh_Remove :: "string \<Rightarrow> ('s, goerr, unit) op"
  mh_IsLikelyNotMountPoint :: "string \<Rightarrow> ('s, goerr, bool) op"
  mh_IsMountPoint :: "string \<Rightarrow> ('s, goerr, bool) op"
  mh_Mount :: "string \<Rightarrow> string \<Rightarrow> string \<Rightarrow> string list \<Rightarrow> ('s, goerr, unit) op"
  mh_Unmount :: "string \<Rightarrow> ('s, goerr, unit) op"
  mh_FormatAndMount :: "string \<Rightarrow> string \<Rightarrow> string \<Rightarrow> string list \<Rightarrow> string list \<Rightarrow> ('s, goerr, unit) op"
  mh_PathExists :: "string \<Rightarrow> ('s, goerr, bool) op"
  mh_CleanupMountPoint :: "string \<Rightarrow> ('s, goerr, unit) op"
  mh_PathIsDevice :: "string \<Rightarrow> ('s, goerr, bool) op"
  mh_OnError :: "nat \<Rightarrow> (goerr \<Rightarrow> bool) \<Rightarrow> ('s, goerr, unit) op \<Rightarrow> ('s, goerr, unit) op"

section \<open>The interface\<close>

record 's mounter =
  mnt_Mount :: "string \<Rightarrow> string \<Rightarrow> string \<Rightarrow> string list \<Rightarrow> ('s, goerr, unit) op"
  mnt_IsLikelyNotMountPoint :: "string \<Rightarrow> ('s, goerr, bool) op"
  mnt_FormatAndMount :: "string \<Rightarrow> string \<Rightarrow> string \<Rightarrow> string list \<Rightarrow> string list \<Rightarrow> ('s, goerr, unit) op"
  mnt_GetBlockSizeBytes :: "string \<Rightarrow> ('s, goerr, int) op"
  mnt_FileExists :: "string \<Rightarrow> ('s, goerr, bool) op"
  mnt_MakeFile :: "string \<Rightarrow> ('s, goerr, unit) op"
  mnt_MakeDir :: "string \<Rightarrow> ('s, goerr, unit) op"
  mnt_PathIsDevice :: "string \<Rightarrow> ('s, goerr, bool) op"
  mnt_PathExists :: "string \<Rightarrow> ('s, goerr, bool) op"
  mnt_CleanupMountPoint :: "string \<Rightarrow> ('s, goerr, unit) op"
  mnt_CleanupStagingDir :: "string \<Rightarrow> ('s, goerr, unit) op"

section \<open>The implementation\<close>

definition Mounter_GetBlockSizeBytes :: "'s mount_host \<Rightarrow> string \<Rightarrow> ('s, goerr, int) op" where
  "Mounter_GetBlockSizeBytes h devicePath =
     (\<lambda>s. case mh_Output h ''blockdev'' [''--getsize64'', devicePath] s of
        ((output, Some err), s') \<Rightarrow>
          fail (errors_New (''error when getting size of block volume at path '' @ devicePath @
            '': output: '' @ output @ '', err: '' @ err_msg (ex_Err err))) s'
      | ((output, None), s') \<Rightarrow>
          (let strOut = TrimSpace output in
           case ParseInt strOut of
             None \<Rightarrow> fail (errors_New (''failed to parse size '' @ strOut @ '' into int a size'')) s'
           | Some gotSizeBytes \<Rightarrow> ok gotSizeBytes s'))"

text \<open>If \<open>os.Create\<close> reports that the file exists, there is no file to close, and closing a nil file is
  the error \<open>os.ErrInvalid\<close>.\<close>

definition Mounter_MakeFile :: "'s mount_host \<Rightarrow> string \<Rightarrow> ('s, goerr, unit) op" where
  "Mounter_MakeFile h path =
     call (mh_Create h path)
       (\<lambda>err. if \<not> errors_Is err OsErrExist then fail err else fail (errors_New ''invalid argument''))
       (\<lambda>_. call (mh_Close h path) fail ok)"

definition Mounter_MakeDir :: "'s mount_host \<Rightarrow> string \<Rightarrow> ('s, goerr, unit) op" where
  "Mounter_MakeDir h path =
     call (mh_MkdirAll h path)
       (\<lambda>err. fail (errorf (''failed to create directory '' @ path @ '': '' @ err_msg err) [err]))
       ok"

definition Mounter_FileExists :: "'s mount_host \<Rightarrow> string \<Rightarrow> ('s, goerr, bool) op" where
  "Mounter_FileExists h path =
     call (mh_Lstat h path)
       (\<lambda>err. if errors_Is err OsErrNotExist then ok False else fail err)
       (\<lambda>_. ok True)"

definition newline :: char where "newline = char_of (10 :: nat)"

definition FindMountTargets :: "'s mount_host \<Rightarrow> string \<Rightarrow> ('s, goerr, string list) op" where
  "FindMountTargets h path =
     (let args = [''--noheadings'', ''--uniq'', ''--output'', ''TARGET'', path] in
      call (mh_Start h ''findmnt'' args)
        (\<lambda>err. fail (errorf (''failed to start findmnt command: '' @ err_msg err) [err]))
        (\<lambda>_ s. case mh_Wait h ''findmnt'' args s of
           ((out, Some err), s') \<Rightarrow>
             if ex_ExitStatus err = Some 1 then ok [] s'
             else fail (errorf (''findmnt failed: '' @ err_msg (ex_Err err)) [ex_Err err]) s'
         | ((out, None), s') \<Rightarrow> ok (Split newline (TrimSpace out)) s'))"

definition vol_data_file :: "string \<Rightarrow> string" where
  "vol_data_file path = filepath_Dir path @ ''/vol_data.json''"

text \<open>Removing the staging directory, then the file that the kubelet left beside it, then the directory
  of both.\<close>

definition remove_staging :: "'s mount_host \<Rightarrow> string \<Rightarrow> ('s, goerr, unit) op" where
  "remove_staging h path =
     (let volPath = filepath_Dir path;
          dataFile = vol_data_file path;
          rest = call (mh_Remove h dataFile)
            (\<lambda>err.
               if errors_Is err OsErrNotExist then ok ()
               else fail (errors_New (''failed to delete volume data file '' @ dataFile @ '': '' @ err_msg err)))
            (\<lambda>_. call (mh_Remove h volPath)
               (\<lambda>err.
                  if errors_Is err OsErrNotExist then ok ()
                  else fail (errors_New (''failed to delete volume path '' @ volPath @ '': '' @ err_msg err)))
               ok) in
      call (mh_Remove h path)
        (\<lambda>err.
           if errors_Is err OsErrNotExist then rest
           else fail (errors_New (''failed to remove staging dir '' @ path @ '': '' @ err_msg err)))
        (\<lambda>_. rest))"

definition cleanupStagingDir :: "'s mount_host \<Rightarrow> string \<Rightarrow> ('s, goerr, unit) op" where
  "cleanupStagingDir h path =
     call (mh_IsMountPoint h path)
       (\<lambda>err. fail (errorf (''failed to check if path '' @ path @ '' is a mount point: '' @ err_msg err) [err]))
       (\<lambda>isMnt.
          if isMnt then
            call (mh_Unmount h path)
              (\<lambda>err. fail (errorf (''failed to unmount path '' @ path @ '': '' @ err_msg err) [err]))
              (\<lambda>_. remove_staging h path)
          else remove_staging h path)"

fun cleanup_refs :: "'s mount_host \<Rightarrow> string list \<Rightarrow> ('s, goerr, unit) op" where
  "cleanup_refs h [] = ok ()"
| "cleanup_refs h (ref # refs) =
     call (cleanupStagingDir h ref)
       (\<lambda>err. fail (errorf (''failed to unmount '' @ ref @ '': '' @ err_msg err) [err]))
       (\<lambda>_. cleanup_refs h refs)"

definition unmount_targets :: "'s mount_host \<Rightarrow> string \<Rightarrow> ('s, goerr, unit) op" where
  "unmount_targets h path = call (FindMountTargets h path) fail (cleanup_refs h)"

text \<open>The number of steps of \<open>retry.WriteBackoff\<close>.\<close>

definition WriteBackoff_Steps :: nat where "WriteBackoff_Steps = 10"

definition CleanupStagingDir :: "'s mount_host \<Rightarrow> string \<Rightarrow> ('s, goerr, unit) op" where
  "CleanupStagingDir h path = mh_OnError h WriteBackoff_Steps (\<lambda>_. True) (unmount_targets h path)"

definition NewMounter :: "'s mount_host \<Rightarrow> 's mounter" where
  "NewMounter h =
     \<lparr>mnt_Mount = mh_Mount h, mnt_IsLikelyNotMountPoint = mh_IsLikelyNotMountPoint h,
      mnt_FormatAndMount = mh_FormatAndMount h, mnt_GetBlockSizeBytes = Mounter_GetBlockSizeBytes h,
      mnt_FileExists = Mounter_FileExists h, mnt_MakeFile = Mounter_MakeFile h,
      mnt_MakeDir = Mounter_MakeDir h, mnt_PathIsDevice = mh_PathIsDevice h,
      mnt_PathExists = mh_PathExists h, mnt_CleanupMountPoint = mh_CleanupMountPoint h,
      mnt_CleanupStagingDir = CleanupStagingDir h\<rparr>"

lemma NewMounter_simps [simp]:
  "mnt_Mount (NewMounter h) = mh_Mount h"
  "mnt_IsLikelyNotMountPoint (NewMounter h) = mh_IsLikelyNotMountPoint h"
  "mnt_FormatAndMount (NewMounter h) = mh_FormatAndMount h"
  "mnt_GetBlockSizeBytes (NewMounter h) = Mounter_GetBlockSizeBytes h"
  "mnt_FileExists (NewMounter h) = Mounter_FileExists h"
  "mnt_MakeFile (NewMounter h) = Mounter_MakeFile h"
  "mnt_MakeDir (NewMounter h) = Mounter_MakeDir h"
  "mnt_PathIsDevice (NewMounter h) = mh_PathIsDevice h"
  "mnt_PathExists (NewMounter h) = mh_PathExists h"
  "mnt_CleanupMountPoint (NewMounter h) = mh_CleanupMountPoint h"
  "mnt_CleanupStagingDir (NewMounter h) = CleanupStagingDir h"
  by (simp_all add: NewMounter_def)

section \<open>Retries\<close>

text \<open>The runs of \<open>retry.OnError\<close> with a number of steps: an attempt that succeeds or fails for good
  ends it, a failure that may be retried starts the next attempt, and the last attempt gives its error.\<close>

inductive attempts ::
  "(goerr \<Rightarrow> bool) \<Rightarrow> ('s, goerr, 'a) op \<Rightarrow> nat \<Rightarrow> 's \<Rightarrow> goerr + 'a \<Rightarrow> 's \<Rightarrow> bool"
  for p :: "goerr \<Rightarrow> bool" and m :: "('s, goerr, 'a) op" where
  success: "m s = (Inr a, t) \<Longrightarrow> attempts p m (Suc n) s (Inr a) t"
| permanent: "m s = (Inl e, t) \<Longrightarrow> \<not> p e \<Longrightarrow> attempts p m (Suc n) s (Inl e) t"
| exhausted: "m s = (Inl e, t) \<Longrightarrow> p e \<Longrightarrow> attempts p m (Suc 0) s (Inl e) t"
| again: "m s = (Inl e, u) \<Longrightarrow> p e \<Longrightarrow> attempts p m (Suc n) u r t \<Longrightarrow> attempts p m (Suc (Suc n)) s r t"

fun retry_loop :: "nat \<Rightarrow> (goerr \<Rightarrow> bool) \<Rightarrow> ('s, goerr, 'a) op \<Rightarrow> ('s, goerr, 'a) op" where
  "retry_loop 0 p m = m"
| "retry_loop (Suc 0) p m = m"
| "retry_loop (Suc (Suc n)) p m = call m (\<lambda>e. if p e then retry_loop (Suc n) p m else fail e) ok"

lemma retry_loop_attempts: "retry_loop (Suc n) p m s = (r, t) \<Longrightarrow> attempts p m (Suc n) s r t"
proof (induction n arbitrary: s)
  case 0
  then show ?case by (cases r) (auto intro: attempts.intros)
next
  case (Suc n)
  from Suc.prems show ?case
    unfolding retry_loop.simps
    by (cases rule: callE) (auto intro: attempts.intros Suc.IH split: if_splits)
qed

lemma attempts_keeps: "attempts p m n s r t \<Longrightarrow> keeps f m \<Longrightarrow> f t = f s"
  by (induction rule: attempts.induct) (auto dest: keepsD)

text \<open>What an operation ensures whenever it succeeds, and what it preserves whenever it fails.\<close>

lemma attempts_success:
  assumes "attempts p m n s (Inr a) t"
    and "\<And>u a v. m u = (Inr a, v) \<Longrightarrow> I u \<Longrightarrow> Q a v" and "\<And>u e v. m u = (Inl e, v) \<Longrightarrow> I u \<Longrightarrow> I v" and "I s"
  shows "Q a t"
  using assms(1,4)
  by (induction n s "Inr a :: goerr + 'b" t rule: attempts.induct) (auto intro: assms(2,3))

section \<open>What the mounter changes\<close>

text \<open>Mounting, unmounting and file operations leave the part \<open>f\<close> of the state alone.\<close>

locale mounter_frame =
  fixes m :: "'s mounter"
    and f :: "'s \<Rightarrow> 'm"
  assumes mount_frame: "keeps f (mnt_Mount m p q fs os)"
    and not_mount_frame: "keeps f (mnt_IsLikelyNotMountPoint m p)"
    and format_frame: "keeps f (mnt_FormatAndMount m p q fs os fos)"
    and block_size_frame: "keeps f (mnt_GetBlockSizeBytes m p)"
    and file_exists_frame: "keeps f (mnt_FileExists m p)"
    and make_file_frame: "keeps f (mnt_MakeFile m p)"
    and make_dir_frame: "keeps f (mnt_MakeDir m p)"
    and is_device_frame: "keeps f (mnt_PathIsDevice m p)"
    and path_exists_frame: "keeps f (mnt_PathExists m p)"
    and cleanup_mount_frame: "keeps f (mnt_CleanupMountPoint m p)"
    and cleanup_staging_frame: "keeps f (mnt_CleanupStagingDir m p)"
begin

lemmas mounter_frames = mount_frame not_mount_frame format_frame block_size_frame file_exists_frame
  make_file_frame make_dir_frame is_device_frame path_exists_frame cleanup_mount_frame
  cleanup_staging_frame

end

text \<open>The host: every operation leaves \<open>f\<close> alone, and retries are attempts.\<close>

locale host_frame =
  fixes h :: "'s mount_host"
    and f :: "'s \<Rightarrow> 'm"
  assumes output_frame: "keeps f (mh_Output h c as)"
    and start_frame: "keeps f (mh_Start h c as)"
    and wait_frame: "keeps f (mh_Wait h c as)"
    and create_frame: "keeps f (mh_Create h p)"
    and close_frame: "keeps f (mh_Close h p)"
    and mkdir_frame: "keeps f (mh_MkdirAll h p)"
    and lstat_frame: "keeps f (mh_Lstat h p)"
    and remove_frame: "keeps f (mh_Remove h p)"
    and likely_frame: "keeps f (mh_IsLikelyNotMountPoint h p)"
    and mount_point_frame: "keeps f (mh_IsMountPoint h p)"
    and h_mount_frame: "keeps f (mh_Mount h p q fs os)"
    and unmount_frame: "keeps f (mh_Unmount h p)"
    and h_format_frame: "keeps f (mh_FormatAndMount h p q fs os fos)"
    and h_path_exists_frame: "keeps f (mh_PathExists h p)"
    and h_cleanup_frame: "keeps f (mh_CleanupMountPoint h p)"
    and h_is_device_frame: "keeps f (mh_PathIsDevice h p)"
    and on_error: "mh_OnError h (Suc n) pr m s = (r, t) \<Longrightarrow> attempts pr m (Suc n) s r t"
begin

lemmas host_frames = output_frame start_frame wait_frame create_frame close_frame mkdir_frame
  lstat_frame remove_frame likely_frame mount_point_frame h_mount_frame unmount_frame
  h_format_frame h_path_exists_frame h_cleanup_frame h_is_device_frame

lemma GetBlockSizeBytes_frame: "keeps f (Mounter_GetBlockSizeBytes h p)"
  by (rule keepsI)
    (auto simp: Mounter_GetBlockSizeBytes_def Let_def dest!: keepsD [OF output_frame]
      split: prod.splits option.splits)

lemma FindMountTargets_frame: "keeps f (FindMountTargets h p)"
  by (rule keepsI)
    (auto simp: FindMountTargets_def Let_def elim!: callE dest!: keepsD [OF wait_frame] keepsD [OF start_frame]
      split: prod.splits option.splits if_splits)

lemma file_frames:
  "keeps f (Mounter_MakeFile h p)" "keeps f (Mounter_MakeDir h p)" "keeps f (Mounter_FileExists h p)"
  by (auto simp: Mounter_MakeFile_def Mounter_MakeDir_def Mounter_FileExists_def
      intro!: frame_intros host_frames)

lemma cleanupStagingDir_frame: "keeps f (cleanupStagingDir h p)"
  unfolding cleanupStagingDir_def remove_staging_def Let_def
  by (intro frame_intros host_frames)

lemma cleanup_refs_frame: "keeps f (cleanup_refs h refs)"
proof (induction refs)
  case Nil
  show ?case unfolding cleanup_refs.simps by (rule keeps_ok)
next
  case (Cons ref refs)
  then show ?case unfolding cleanup_refs.simps by (intro frame_intros cleanupStagingDir_frame)
qed

lemma unmount_targets_frame: "keeps f (unmount_targets h p)"
  unfolding unmount_targets_def by (intro frame_intros FindMountTargets_frame cleanup_refs_frame)

lemma CleanupStagingDir_attempts:
  "CleanupStagingDir h p s = (r, t) \<Longrightarrow> attempts (\<lambda>_. True) (unmount_targets h p) WriteBackoff_Steps s r t"
  using on_error [of 9] by (simp add: CleanupStagingDir_def WriteBackoff_Steps_def)

lemma CleanupStagingDir_frame: "keeps f (CleanupStagingDir h p)"
  by (rule keepsI) (blast dest: CleanupStagingDir_attempts attempts_keeps intro: unmount_targets_frame)

end

sublocale host_frame \<subseteq> impl: mounter_frame "NewMounter h" f
  by unfold_locales
    (simp_all add: host_frames GetBlockSizeBytes_frame file_frames CleanupStagingDir_frame)

section \<open>Unmounting a device\<close>

text \<open>What is documented of the commands and of \<open>mount-utils\<close> about the mount table \<open>mounts\<close>, which maps
  a mount point to the device that is mounted there: \<open>findmnt\<close> lists the mount points of a device, one
  per line, or exits with status 1 if there are none.\<close>

definition findmnt_args :: "string \<Rightarrow> string list" where
  "findmnt_args path = [''--noheadings'', ''--uniq'', ''--output'', ''TARGET'', path]"

locale mount_table =
  fixes h :: "'s mount_host"
    and mounts :: "'s \<Rightarrow> (string \<rightharpoonup> string)"
  assumes start_mounts: "keeps mounts (mh_Start h c as)"
    and wait_mounts: "keeps mounts (mh_Wait h c as)"
    and findmnt_none: "mh_Wait h ''findmnt'' (findmnt_args d) s = ((out, Some err), t) \<Longrightarrow>
      ex_ExitStatus err = Some 1 \<Longrightarrow> mounts s x \<noteq> Some d"
    and findmnt_some: "mh_Wait h ''findmnt'' (findmnt_args d) s = ((out, None), t) \<Longrightarrow>
      set (Split newline (TrimSpace out)) = {x. mounts s x = Some d}"
    and mount_point_mounts: "keeps mounts (mh_IsMountPoint h p)"
    and mount_point: "mh_IsMountPoint h p s = (Inr b, t) \<Longrightarrow> b \<longleftrightarrow> mounts s p \<noteq> None"
    and unmounted: "mh_Unmount h p s = (r, t) \<Longrightarrow>
      mounts t = (case r of Inl _ \<Rightarrow> mounts s | Inr _ \<Rightarrow> (mounts s)(p := None))"
    and remove_mounts: "keeps mounts (mh_Remove h p)"
    and retried: "mh_OnError h (Suc n) pr m s = (r, t) \<Longrightarrow> attempts pr m (Suc n) s r t"
begin

lemma remove_staging_mounts: "keeps mounts (remove_staging h p)"
  unfolding remove_staging_def Let_def by (intro frame_intros remove_mounts)

lemma cleanupStagingDir_mounts:
  assumes "cleanupStagingDir h p s = (r, t)"
  shows "mounts t = mounts s \<or> mounts t = (mounts s)(p := None)"
    and "r = Inr a \<Longrightarrow> mounts t = (mounts s)(p := None)"
proof -
  have *: "(mounts t = mounts s \<or> mounts t = (mounts s)(p := None)) \<and>
    (\<forall>a. r = Inr a \<longrightarrow> mounts t = (mounts s)(p := None))"
    using assms unfolding cleanupStagingDir_def
  proof (cases rule: callE)
    case (error e u)
    then show ?thesis by (auto dest!: keepsD [OF mount_point_mounts])
  next
    case (result b u)
    note u = keepsD [OF mount_point_mounts result(1)] mount_point [OF result(1)]
    show ?thesis
    proof (cases b)
      case True
      with result(2) u show ?thesis
        by (auto elim!: callE dest!: unmounted keepsD [OF remove_staging_mounts])
    next
      case False
      with result(2) u show ?thesis
        by (auto dest!: keepsD [OF remove_staging_mounts] simp: fun_upd_idem)
    qed
  qed
  from * show "mounts t = mounts s \<or> mounts t = (mounts s)(p := None)" by blast
  from * show "r = Inr a \<Longrightarrow> mounts t = (mounts s)(p := None)" by blast
qed

lemma cleanup_refs_mounts:
  "cleanup_refs h refs s = (r, t) \<Longrightarrow>
    (\<forall>x. x \<notin> set refs \<longrightarrow> mounts t x = mounts s x) \<and>
    (\<forall>a. r = Inr a \<longrightarrow> (\<forall>x \<in> set refs. mounts t x = None))"
proof (induction refs arbitrary: s)
  case (Cons ref refs)
  from Cons.prems show ?case
    unfolding cleanup_refs.simps
  proof (cases rule: callE)
    case (error e u)
    then show ?thesis using cleanupStagingDir_mounts(1) [OF error(1)] by auto
  next
    case (result a u)
    then show ?thesis
      using Cons.IH [OF result(2)] cleanupStagingDir_mounts(2) [OF result(1)]
      by (cases "ref \<in> set refs") auto
  qed
qed simp

lemma unmount_targets_mounts:
  assumes "unmount_targets h d s = (r, t)"
  shows "(\<forall>x. mounts s x \<noteq> Some d \<longrightarrow> mounts t x = mounts s x) \<and>
    (\<forall>a. r = Inr a \<longrightarrow> (\<forall>x. mounts t x \<noteq> Some d))"
  using assms unfolding unmount_targets_def
proof (cases rule: callE)
  case (error e u)
  then have "mounts u = mounts s" "r = Inl e" "t = u"
    by (auto simp: FindMountTargets_def Let_def elim!: callE dest!: keepsD [OF wait_mounts] keepsD [OF start_mounts]
        split: prod.splits option.splits if_splits)
  then show ?thesis by simp
next
  case (result refs u)
  from result(1) obtain v where v: "mounts v = mounts s" and
    w: "(refs = [] \<and> (\<exists>out err. mh_Wait h ''findmnt'' (findmnt_args d) v = ((out, Some err), u) \<and>
          ex_ExitStatus err = Some 1)) \<or>
        (\<exists>out. mh_Wait h ''findmnt'' (findmnt_args d) v = ((out, None), u) \<and> refs = Split newline (TrimSpace out))"
    by (auto simp: FindMountTargets_def Let_def findmnt_args_def elim!: callE dest!: keepsD [OF start_mounts]
        split: prod.splits option.splits if_splits)
  from w have u: "mounts u = mounts v" by (auto dest: keepsD [OF wait_mounts])
  from w have refs: "set refs = {x. mounts s x = Some d}"
    by (auto dest: findmnt_none findmnt_some simp: v)
  note cr = cleanup_refs_mounts [OF result(2), unfolded refs u v mem_Collect_eq]
  show ?thesis
  proof (intro conjI allI impI)
    fix x
    assume "mounts s x \<noteq> Some d"
    with cr show "mounts t x = mounts s x" by blast
  next
    fix a x
    assume "r = Inr a"
    with cr show "mounts t x \<noteq> Some d" by (cases "mounts s x = Some d") auto
  qed
qed

lemma CleanupStagingDir_unmounts:
  assumes "CleanupStagingDir h d s = (r, t)"
  shows "(\<forall>x. mounts s x \<noteq> Some d \<longrightarrow> mounts t x = mounts s x) \<and>
    (\<forall>a. r = Inr a \<longrightarrow> (\<forall>x. mounts t x \<noteq> Some d))"
proof -
  have "attempts (\<lambda>_. True) (unmount_targets h d) 10 s r t"
    using retried [of 9] assms by (simp add: CleanupStagingDir_def WriteBackoff_Steps_def)
  then show ?thesis
  proof (induction rule: attempts.induct)
    case (again s e u n r t)
    then show ?case using unmount_targets_mounts [OF again(1)] by simp
  qed (auto dest: unmount_targets_mounts)
qed

end

end
