(* ===== verification/K8s.thy ===== *)
theory K8s
  imports Csi
begin

text \<open>
  The Kubernetes objects that the driver and its manager read and write, with the fields they use,
  and the client for the API server.

  String types of the API (phases, policies, condition types) are strings, so that their zero value
  is the empty string. A nil map and an empty map are distinguished only for the volume attributes of a
  persistent volume, where the sources distinguish them.

  The client is a record of operations on the state \<open>'s\<close>; what it returns is the business of the API
  server and of the cache in front of it.
\<close>

section \<open>Node selectors\<close>

datatype NodeSelectorOperator =
    NodeSelectorOpIn
  | NodeSelectorOpNotIn
  | NodeSelectorOpExists
  | NodeSelectorOpDoesNotExist
  | NodeSelectorOpGt
  | NodeSelectorOpLt

record NodeSelectorRequirement =
  nsr_Key :: string
  nsr_Operator :: NodeSelectorOperator
  nsr_Values :: "string list"

record NodeSelectorTerm =
  nsl_MatchExpressions :: "NodeSelectorRequirement list"
  nsl_MatchFields :: "NodeSelectorRequirement list"

record NodeSelector =
  ns_NodeSelectorTerms :: "NodeSelectorTerm list"

section \<open>Persistent volumes\<close>

record VolumeNodeAffinity =
  vna_Required :: "NodeSelector option"

record CSIPersistentVolumeSource =
  csi_Driver :: string
  csi_VolumeHandle :: string
  csi_VolumeAttributes :: "string_map option"

abbreviation VolumePending :: string where "VolumePending \<equiv> ''Pending''"
abbreviation VolumeAvailable :: string where "VolumeAvailable \<equiv> ''Available''"
abbreviation VolumeBound :: string where "VolumeBound \<equiv> ''Bound''"
abbreviation VolumeReleased :: string where "VolumeReleased \<equiv> ''Released''"
abbreviation VolumeFailed :: string where "VolumeFailed \<equiv> ''Failed''"

abbreviation PersistentVolumeReclaimDelete :: string where "PersistentVolumeReclaimDelete \<equiv> ''Delete''"

record PersistentVolume =
  pv_Name :: string
  pv_Annotations :: string_map
  pv_Finalizers :: "string list"
  pv_DeletionTimestamp :: "int option"
  pv_CSI :: "CSIPersistentVolumeSource option"
  pv_ClaimRef :: "string option"
  pv_NodeAffinity :: "VolumeNodeAffinity option"
  pv_ReclaimPolicy :: string
  pv_Phase :: string

definition zero_PersistentVolume :: PersistentVolume where
  "zero_PersistentVolume =
     \<lparr>pv_Name = [], pv_Annotations = Map.empty, pv_Finalizers = [], pv_DeletionTimestamp = None,
      pv_CSI = None, pv_ClaimRef = None, pv_NodeAffinity = None, pv_ReclaimPolicy = [], pv_Phase = []\<rparr>"

text \<open>A value of the volume attributes; a nil map has none.\<close>

definition volume_attribute :: "PersistentVolume \<Rightarrow> string \<Rightarrow> string option" where
  "volume_attribute pv k =
     (case pv_CSI pv of None \<Rightarrow> None
      | Some c \<Rightarrow> (case csi_VolumeAttributes c of None \<Rightarrow> None | Some m \<Rightarrow> m k))"

text \<open>The requirements of a persistent volume on its node.\<close>

definition required_terms :: "PersistentVolume \<Rightarrow> NodeSelectorTerm list" where
  "required_terms pv =
     (case pv_NodeAffinity pv of None \<Rightarrow> []
      | Some a \<Rightarrow> (case vna_Required a of None \<Rightarrow> [] | Some s \<Rightarrow> ns_NodeSelectorTerms s))"

section \<open>Nodes, claims and storage classes\<close>

abbreviation NodeReady :: string where "NodeReady \<equiv> ''Ready''"
abbreviation ConditionTrue :: string where "ConditionTrue \<equiv> ''True''"

record NodeCondition =
  cond_Type :: string
  cond_Status :: string
  cond_Reason :: string
  cond_Message :: string

record Node =
  nd_Kind :: string
  nd_APIVersion :: string
  nd_Name :: string
  nd_Namespace :: string
  nd_UID :: string
  nd_ResourceVersion :: string
  nd_Labels :: string_map
  nd_Annotations :: string_map
  nd_Finalizers :: "string list"
  nd_Conditions :: "NodeCondition list"

record OwnerReference =
  or_Kind :: string
  or_Name :: string

record PersistentVolumeClaim =
  pvc_Name :: string
  pvc_Namespace :: string
  pvc_Annotations :: string_map
  pvc_OwnerReferences :: "OwnerReference list"
  pvc_StorageClassName :: "string option"
  pvc_VolumeName :: string

record StorageClass =
  sc_Name :: string
  sc_Provisioner :: string

record CSIDriver =
  cd_Name :: string
  cd_AttachRequired :: bool
  cd_PodInfoOnMount :: bool
  cd_StorageCapacity :: bool
  cd_FSGroupPolicy :: string
  cd_VolumeLifecycleModes :: "string list"

section \<open>The client\<close>

text \<open>\<open>k8s_GetNodeMeta\<close> is the lookup of the metadata of a node only. \<open>k8s_PatchPV new original\<close> sends
  the merge patch that turns \<open>original\<close> into \<open>new\<close>, and gives the object as it is stored then, which the
  client writes over the one that was passed.\<close>

record 's k8s =
  k8s_GetPV :: "string \<Rightarrow> ('s, goerr, PersistentVolume) op"
  k8s_ListPVsByHandle :: "string \<Rightarrow> ('s, goerr, PersistentVolume list) op"
  k8s_PatchPV :: "PersistentVolume \<Rightarrow> PersistentVolume \<Rightarrow> ('s, goerr, PersistentVolume) op"
  k8s_DeletePV :: "PersistentVolume \<Rightarrow> ('s, goerr, unit) op"
  k8s_GetNode :: "string \<Rightarrow> ('s, goerr, Node) op"
  k8s_GetNodeMeta :: "string \<Rightarrow> ('s, goerr, unit) op"
  k8s_GetPVC :: "string \<Rightarrow> string \<Rightarrow> ('s, goerr, PersistentVolumeClaim) op"
  k8s_GetStorageClass :: "string \<Rightarrow> ('s, goerr, StorageClass) op"
  k8s_GetCSIDriver :: "string \<Rightarrow> ('s, goerr, CSIDriver) op"
  k8s_CreateCSIDriver :: "CSIDriver \<Rightarrow> ('s, goerr, unit) op"

text \<open>What a merge patch does to the stored object: of a map, the entries that the patch changes; of a
  list, the whole list if the patch changes it.\<close>

definition merge_map :: "string_map \<Rightarrow> string_map \<Rightarrow> string_map \<Rightarrow> string_map" where
  "merge_map original new stored = (\<lambda>k. if new k = original k then stored k else new k)"

definition merge_list :: "'a list \<Rightarrow> 'a list \<Rightarrow> 'a list \<Rightarrow> 'a list" where
  "merge_list original new stored = (if new = original then stored else new)"

definition merge_pv :: "PersistentVolume \<Rightarrow> PersistentVolume \<Rightarrow> PersistentVolume \<Rightarrow> PersistentVolume" where
  "merge_pv original new stored =
     stored\<lparr>pv_Annotations := merge_map (pv_Annotations original) (pv_Annotations new) (pv_Annotations stored),
            pv_Finalizers := merge_list (pv_Finalizers original) (pv_Finalizers new) (pv_Finalizers stored)\<rparr>"

lemma merge_map_same [simp]: "merge_map m n m = n"
  by (auto simp: merge_map_def fun_eq_iff)

lemma merge_list_same [simp]: "merge_list m n m = n"
  by (simp add: merge_list_def)

text \<open>\<open>client.IgnoreNotFound\<close> of a non-nil error is nil exactly for an error with this reason.\<close>

abbreviation is_not_found :: "goerr \<Rightarrow> bool" where
  "is_not_found \<equiv> apierrors_IsNotFound"

section \<open>Names\<close>

text \<open>The volume attribute and the annotation of a persistent volume that name its node
  (\<open>internal/csi/driver.go\<close>).\<close>

definition SelectedInitialNodeParam :: string where
  "SelectedInitialNodeParam = ''localdisk.csi.acstor.io/selected-initial-node''"

definition SelectedNodeAnnotation :: string where
  "SelectedNodeAnnotation = ''localdisk.csi.acstor.io/selected-node''"

section \<open>What the rest of the driver relies on of the client\<close>

text \<open>Calls to the API server leave the part \<open>f\<close> of the state alone.\<close>

locale api_frame =
  fixes k :: "'s k8s"
    and f :: "'s \<Rightarrow> 'm"
  assumes get_pv_frame: "keeps f (k8s_GetPV k n)"
    and list_pv_frame: "keeps f (k8s_ListPVsByHandle k h)"
    and patch_pv_frame: "keeps f (k8s_PatchPV k pv orig)"
    and delete_pv_frame: "keeps f (k8s_DeletePV k pv)"
    and get_node_frame: "keeps f (k8s_GetNode k n)"
    and get_node_meta_frame: "keeps f (k8s_GetNodeMeta k n)"
begin

lemmas api_frames = get_pv_frame list_pv_frame patch_pv_frame delete_pv_frame get_node_frame
  get_node_meta_frame

end

end
