(* ===== verification/ClusterReference.thy ===== *)
theory ClusterReference
  imports Driver Mounter K8s
begin

text \<open>
  A node with a mount table, some files and an API server: an instance of the parameters of the
  mounter and of the Kubernetes client on which their locales are interpreted. It extends the node of
  \<open>LvmReference\<close>, so that the LVM commands of that theory run on it too.
\<close>

section \<open>The cluster\<close>

record cluster = node +
  cl_mounts :: "(string \<times> string) list"
  cl_files :: "string list"
  cl_pvs :: "(string \<times> PersistentVolume) list"
  cl_nodes :: "(string \<times> Node) list"

lemma meta_of_cluster [simp]:
  "meta_of (s\<lparr>cl_mounts := a\<rparr>) = meta_of s" "meta_of (s\<lparr>cl_files := b\<rparr>) = meta_of s"
  "meta_of (s\<lparr>cl_pvs := c\<rparr>) = meta_of s" "meta_of (s\<lparr>cl_nodes := d\<rparr>) = meta_of s"
  by (simp_all add: meta_of_def)

section \<open>The API server\<close>

definition api_error :: "status_reason \<Rightarrow> string \<Rightarrow> goerr" where
  "api_error r text = \<lparr>err_is = [ApiReason r], err_msg = text\<rparr>"

definition ref_get :: "('s \<Rightarrow> (string \<times> 'a) list) \<Rightarrow> string \<Rightarrow> ('s, goerr, 'a) op" where
  "ref_get sel n s =
     (case map_of (sel s) n of
        None \<Rightarrow> fail (api_error StatusReasonNotFound (Quote n @ '' not found'')) s
      | Some x \<Rightarrow> ok x s)"

definition has_handle :: "string \<Rightarrow> PersistentVolume \<Rightarrow> bool" where
  "has_handle h pv = (case pv_CSI pv of None \<Rightarrow> False | Some c \<Rightarrow> csi_Driver c = DriverName \<and> csi_VolumeHandle c = h)"

text \<open>Storing a new version of an object; one that is being deleted and has no finalizers left is
  gone.\<close>

definition store_pv :: "PersistentVolume \<Rightarrow> cluster \<Rightarrow> cluster" where
  "store_pv pv s =
     (let rest = filter (\<lambda>e. fst e \<noteq> pv_Name pv) (cl_pvs s) in
      if pv_DeletionTimestamp pv \<noteq> None \<and> pv_Finalizers pv = [] then s\<lparr>cl_pvs := rest\<rparr>
      else s\<lparr>cl_pvs := (pv_Name pv, pv) # rest\<rparr>)"

definition ref_PatchPV :: "PersistentVolume \<Rightarrow> PersistentVolume \<Rightarrow> (cluster, goerr, PersistentVolume) op" where
  "ref_PatchPV new original =
     call (ref_get cl_pvs (pv_Name new)) fail
       (\<lambda>pv s. let stored = (merge_pv original new pv)\<lparr>pv_Name := pv_Name new\<rparr> in
          ok stored (store_pv stored s))"

definition ref_DeletePV :: "PersistentVolume \<Rightarrow> (cluster, goerr, unit) op" where
  "ref_DeletePV old =
     call (ref_get cl_pvs (pv_Name old)) fail
       (\<lambda>pv s. ok () (store_pv (pv\<lparr>pv_Name := pv_Name old, pv_DeletionTimestamp := Some 1\<rparr>) s))"

definition ref_k8s :: "cluster k8s" where
  "ref_k8s =
     \<lparr>k8s_GetPV = ref_get cl_pvs,
      k8s_ListPVsByHandle = (\<lambda>h s. ok (filter (has_handle h) (map snd (cl_pvs s))) s),
      k8s_PatchPV = ref_PatchPV, k8s_DeletePV = ref_DeletePV, k8s_GetNode = ref_get cl_nodes,
      k8s_GetNodeMeta = (\<lambda>n. call (ref_get cl_nodes n) fail (\<lambda>_. ok ())),
      k8s_GetPVC = (\<lambda>n ns. fail (api_error StatusReasonNotFound (Quote n @ '' not found''))),
      k8s_GetStorageClass = (\<lambda>n. fail (api_error StatusReasonNotFound (Quote n @ '' not found''))),
      k8s_GetCSIDriver = (\<lambda>n. fail (api_error StatusReasonNotFound n)), k8s_CreateCSIDriver = (\<lambda>n. ok ())\<rparr>"

lemma ref_k8s_simps [simp]:
  "k8s_GetPV ref_k8s = ref_get cl_pvs" "k8s_GetNode ref_k8s = ref_get cl_nodes"
  "k8s_PatchPV ref_k8s = ref_PatchPV" "k8s_DeletePV ref_k8s = ref_DeletePV"
  "k8s_GetNodeMeta ref_k8s n = call (ref_get cl_nodes n) fail (\<lambda>_. ok ())"
  "k8s_ListPVsByHandle ref_k8s h = (\<lambda>s. ok (filter (has_handle h) (map snd (cl_pvs s))) s)"
  by (simp_all add: ref_k8s_def)

lemma ref_get_keeps [frame_intros]: "keeps f (ref_get sel n)"
  by (rule keepsI) (auto simp: ref_get_def split: option.splits)

lemma meta_of_store_pv [simp]: "meta_of (store_pv pv s) = meta_of s"
  by (simp add: store_pv_def Let_def)

lemma ref_write_keeps:
  "keeps meta_of (ref_PatchPV new original)" "keeps meta_of (ref_DeletePV old)"
  unfolding ref_PatchPV_def ref_DeletePV_def
  by (rule keepsI; auto simp: Let_def elim!: callE dest!: keepsD [OF ref_get_keeps [of meta_of]])+

lemma ref_read_keeps: "keeps f (\<lambda>s. ok (g s) s)" "keeps f (\<lambda>s. if P s then ok (g s) s else fail e s)"
  "keeps f (Pair r)"
  by (simp_all add: keeps_def)

interpretation ref_api: api_frame ref_k8s meta_of
  by (unfold_locales, unfold ref_k8s_simps)
    (rule ref_get_keeps ref_read_keeps ref_write_keeps keeps_call keeps_fail keeps_ok)+

section \<open>Mounts\<close>

definition plain_path :: "string \<Rightarrow> bool" where
  "plain_path p \<longleftrightarrow> p \<noteq> [] \<and> list_all (\<lambda>c. \<not> is_space c) p"

definition mounts_of :: "cluster \<Rightarrow> (string \<rightharpoonup> string)" where
  "mounts_of s = (\<lambda>x. if plain_path x then map_of (cl_mounts s) x else None)"

definition mount_targets :: "string \<Rightarrow> cluster \<Rightarrow> string list" where
  "mount_targets d s = filter (\<lambda>x. mounts_of s x = Some d) (map fst (cl_mounts s))"

definition exit_error :: "int \<Rightarrow> exec_error" where
  "exit_error n = \<lparr>ex_ExitStatus = Some n, ex_Err = errors_New (''exit status '' @ show_int n)\<rparr>"

definition ref_Wait :: "string \<Rightarrow> string list \<Rightarrow> cluster \<Rightarrow> (string \<times> exec_error option) \<times> cluster" where
  "ref_Wait cmd as s =
     (case mount_targets (last as) s of
        [] \<Rightarrow> (([], Some (exit_error 1)), s)
      | ts \<Rightarrow> ((concat (map (\<lambda>t. t @ [newline]) ts), None), s))"

definition ref_Unmount :: "string \<Rightarrow> (cluster, goerr, unit) op" where
  "ref_Unmount p s =
     (if mounts_of s p = None then fail (errors_New (''umount: '' @ p @ '': not mounted.'')) s
      else ok () (s\<lparr>cl_mounts := filter (\<lambda>e. fst e \<noteq> p) (cl_mounts s)\<rparr>))"

definition ref_Mount :: "string \<Rightarrow> string \<Rightarrow> (cluster, goerr, unit) op" where
  "ref_Mount src tgt s =
     (if \<not> plain_path tgt then fail (errors_New ''mount failed: invalid argument'') s
      else ok () (s\<lparr>cl_mounts := (tgt, src) # cl_mounts s\<rparr>))"

definition ref_Remove :: "string \<Rightarrow> (cluster, goerr, unit) op" where
  "ref_Remove p s =
     (if p \<in> set (cl_files s) then ok () (s\<lparr>cl_files := removeAll p (cl_files s)\<rparr>)
      else fail (sentinel_err OsErrNotExist) s)"

definition ref_add_file :: "string \<Rightarrow> (cluster, goerr, unit) op" where
  "ref_add_file p s = ok () (s\<lparr>cl_files := List.insert p (cl_files s)\<rparr>)"

definition ref_exists :: "string \<Rightarrow> cluster \<Rightarrow> bool" where
  "ref_exists p s \<longleftrightarrow> p \<in> set (cl_files s)"

definition ref_mount_host :: "cluster mount_host" where
  "ref_mount_host =
     \<lparr>mh_Output = (\<lambda>cmd as s. ((''4194304'' @ [newline], None), s)),
      mh_Start = (\<lambda>cmd as. ok ()), mh_Wait = ref_Wait,
      mh_Create = ref_add_file, mh_Close = (\<lambda>p. ok ()), mh_MkdirAll = ref_add_file,
      mh_Lstat = (\<lambda>p s. if ref_exists p s then ok () s else fail (sentinel_err OsErrNotExist) s),
      mh_Remove = ref_Remove,
      mh_IsLikelyNotMountPoint = (\<lambda>p s. if ref_exists p s then ok (mounts_of s p = None) s
         else fail (sentinel_err OsErrNotExist) s),
      mh_IsMountPoint = (\<lambda>p s. ok (mounts_of s p \<noteq> None) s),
      mh_Mount = (\<lambda>src tgt fs os. ref_Mount src tgt), mh_Unmount = ref_Unmount,
      mh_FormatAndMount = (\<lambda>src tgt fs os fos. ref_Mount src tgt),
      mh_PathExists = (\<lambda>p s. ok (ref_exists p s) s),
      mh_CleanupMountPoint = (\<lambda>p. call (ref_Unmount p) (\<lambda>_. ref_Remove p) (\<lambda>_. ref_Remove p)),
      mh_PathIsDevice = (\<lambda>p. ok (HasPrefix p ''/dev/'')),
      mh_OnError = retry_loop\<rparr>"

lemma ref_mount_host_simps [simp]:
  "mh_Start ref_mount_host = (\<lambda>cmd as. ok ())" "mh_Wait ref_mount_host = ref_Wait"
  "mh_Remove ref_mount_host = ref_Remove" "mh_Unmount ref_mount_host = ref_Unmount"
  "mh_IsMountPoint ref_mount_host = (\<lambda>p s. ok (mounts_of s p \<noteq> None) s)"
  "mh_OnError ref_mount_host = retry_loop"
  by (simp_all add: ref_mount_host_def)

lemma ref_host_keeps:
  assumes "\<And>s a. f (s\<lparr>cl_files := a\<rparr>) = f s"
  shows "keeps f (ref_Remove p)" "keeps f (ref_add_file p)" "keeps f (ref_Wait c as)"
  using assms
  by (auto simp: keeps_def ref_Remove_def ref_add_file_def ref_Wait_def split: list.splits)

lemma ref_mount_keeps: "keeps meta_of (ref_Mount src tgt)" "keeps meta_of (ref_Unmount p)"
  by (auto simp: keeps_def ref_Mount_def ref_Unmount_def)

interpretation ref_host: host_frame ref_mount_host meta_of
proof unfold_locales
  show "mh_OnError ref_mount_host (Suc n) pr m s = (r, t) \<Longrightarrow> attempts pr m (Suc n) s r t" for n pr m s r t
    by (simp add: retry_loop_attempts)
qed (unfold ref_mount_host_def mount_host.simps,
  (rule keeps_call keeps_fail keeps_ok ref_host_keeps ref_mount_keeps ref_read_keeps meta_of_cluster)+)

text \<open>The text that \<open>findmnt\<close> prints gives back its lines.\<close>

lemma newline_space [simp]: "is_space newline"
  by (simp add: newline_def is_space_def)

lemma concat_lines: "ts \<noteq> [] \<Longrightarrow> concat (map (\<lambda>t. t @ [c]) ts) = Join [c] ts @ [c]"
  by (induction "[c]" ts rule: Join.induct) auto

lemma Join_ends:
  assumes "ts \<noteq> []" "\<And>t. t \<in> set ts \<Longrightarrow> plain_path t"
  shows "Join [c] ts \<noteq> [] \<and> \<not> is_space (hd (Join [c] ts)) \<and> \<not> is_space (last (Join [c] ts))"
  using assms
proof (induction "[c]" ts rule: Join.induct)
  case (2 x)
  then show ?case by (cases x) (auto simp: plain_path_def list_all_iff)
next
  case (3 x y zs)
  then have "plain_path x" by simp
  with 3 show ?case by (cases x) (auto simp: plain_path_def list_all_iff)
qed simp

lemma TrimSpace_newline:
  assumes "s \<noteq> []" "\<not> is_space (hd s)" "\<not> is_space (last s)"
  shows "TrimSpace (s @ [newline]) = s"
proof -
  have "dropWhile is_space (s @ [newline]) = s @ [newline]" using assms by (cases s) auto
  moreover have "dropWhile is_space (rev s) = rev s"
    using assms by (cases s rule: rev_cases) auto
  ultimately show ?thesis by (simp add: TrimSpace_def)
qed

lemma split_lines:
  assumes "ts \<noteq> []" "\<And>t. t \<in> set ts \<Longrightarrow> plain_path t"
  shows "Split newline (TrimSpace (concat (map (\<lambda>t. t @ [newline]) ts))) = ts"
proof -
  have "newline \<notin> set t" if "t \<in> set ts" for t
    using assms(2) [OF that] newline_space by (auto simp: plain_path_def list_all_iff)
  then show ?thesis
    using assms Join_ends [OF assms] by (simp add: concat_lines TrimSpace_newline Split_Join)
qed

lemma mount_targets_set: "set (mount_targets d s) = {x. mounts_of s x = Some d}"
  by (auto simp: mount_targets_def mounts_of_def image_iff split: if_splits dest: map_of_SomeD)
    (force dest: map_of_SomeD)

lemma mount_targets_plain: "x \<in> set (mount_targets d s) \<Longrightarrow> plain_path x"
  by (auto simp: mount_targets_def mounts_of_def split: if_splits)

lemma listed_targets:
  assumes "mounts_of s x = Some d"
  shows "Split newline (TrimSpace (concat (map (\<lambda>t. t @ [newline]) (mount_targets d s)))) = mount_targets d s"
    "y \<in> set (mount_targets d s) \<longleftrightarrow> mounts_of s y = Some d"
proof -
  have "x \<in> set (mount_targets d s)" using assms by (simp add: mount_targets_set)
  then show "Split newline (TrimSpace (concat (map (\<lambda>t. t @ [newline]) (mount_targets d s)))) = mount_targets d s"
    by (intro split_lines mount_targets_plain) auto
qed (simp add: mount_targets_set)

lemma ref_Wait_findmnt:
  "ref_Wait c (findmnt_args d) s =
     (if {x. mounts_of s x = Some d} = {} then (([], Some (exit_error 1)), s)
      else ((concat (map (\<lambda>t. t @ [newline]) (mount_targets d s)), None), s))"
  unfolding mount_targets_set [symmetric]
  by (simp add: ref_Wait_def findmnt_args_def split: list.splits)

lemma mounts_of_files [simp]: "mounts_of (s\<lparr>cl_files := a\<rparr>) = mounts_of s"
  by (simp add: mounts_of_def fun_eq_iff)

lemma ref_Unmount_mounts:
  "ref_Unmount p s = (r, t) \<Longrightarrow>
     mounts_of t = (case r of Inl _ \<Rightarrow> mounts_of s | Inr _ \<Rightarrow> (mounts_of s)(p := None))"
  by (auto simp: ref_Unmount_def mounts_of_def map_of_filter_neq fun_eq_iff split: if_splits)

interpretation ref_mounts: mount_table ref_mount_host mounts_of
proof unfold_locales
  show "mh_Wait ref_mount_host ''findmnt'' (findmnt_args d) s = ((out, Some err), t) \<Longrightarrow>
      ex_ExitStatus err = Some 1 \<Longrightarrow> mounts_of s x \<noteq> Some d" for d s out err t x
    by (auto simp: ref_Wait_findmnt split: if_splits)
  show "mh_Wait ref_mount_host ''findmnt'' (findmnt_args d) s = ((out, None), t) \<Longrightarrow>
      set (Split newline (TrimSpace out)) = {x. mounts_of s x = Some d}" for d s out t
    by (auto simp: ref_Wait_findmnt listed_targets split: if_splits)
  show "mh_Unmount ref_mount_host p s = (r, t) \<Longrightarrow>
      mounts_of t = (case r of Inl _ \<Rightarrow> mounts_of s | Inr _ \<Rightarrow> (mounts_of s)(p := None))" for p s r t
    by (simp add: ref_Unmount_mounts)
  show "mh_OnError ref_mount_host (Suc n) pr m s = (r, t) \<Longrightarrow> attempts pr m (Suc n) s r t" for n pr m s r t
    by (simp add: retry_loop_attempts)
qed (unfold ref_mount_host_simps, (rule ref_host_keeps ref_read_keeps keeps_ok mounts_of_files | simp)+)

section \<open>An instance\<close>

text \<open>A cluster with two volumes: the claim of \<open>pvc-1\<close> was bound on this node, that of \<open>pvc-2\<close> on another
  one, where a volume group of the same name holds it.\<close>

definition ref_pv :: "string \<Rightarrow> string \<Rightarrow> PersistentVolume" where
  "ref_pv name node =
     zero_PersistentVolume\<lparr>pv_Name := name,
       pv_Annotations := [SelectedNodeAnnotation \<mapsto> node],
       pv_CSI := Some \<lparr>csi_Driver = DriverName, csi_VolumeHandle = ''containerstorage#'' @ name,
         csi_VolumeAttributes = Some [CapacityParam \<mapsto> ''4194304'']\<rparr>\<rparr>"

definition ref_cluster :: "cluster world" where
  "ref_cluster =
     \<lparr>w_sys = \<lparr>n_pvs = [(''/dev/nvme0n1'', ''containerstorage'')],
        n_vgs = [(''containerstorage'', [''local-csi''], 1920378765312)],
        n_lvs = [((''containerstorage'', ''pvc-1''), 4194304), ((''containerstorage'', ''pvc-2''), 8388608)],
        cl_mounts = [(''/staging'', ''/dev/containerstorage/pvc-1'')], cl_files = [''/staging''],
        cl_pvs = [(''pvc-1'', ref_pv ''pvc-1'' []), (''pvc-2'', ref_pv ''pvc-2'' ''node-2'')],
        cl_nodes = []\<rparr>,
      w_events = []\<rparr>"

lemma ref_get_pv:
  "ref_get cl_pvs ''pvc-1'' (w_sys ref_cluster) = (Inr (ref_pv ''pvc-1'' []), w_sys ref_cluster)"
  "ref_get cl_pvs ''pvc-2'' (w_sys ref_cluster) = (Inr (ref_pv ''pvc-2'' ''node-2''), w_sys ref_cluster)"
  by (simp_all add: ref_cluster_def ref_get_def)

lemma ref_cluster_lvs [simp]:
  "n_lvs (w_sys ref_cluster) =
     [((''containerstorage'', ''pvc-1''), 4194304), ((''containerstorage'', ''pvc-2''), 8388608)]"
  by (simp add: ref_cluster_def)

end
