(* ===== verification/CsiController.thy ===== *)
theory CsiController
  imports ClusterReference
begin

text \<open>
  The controller service of the driver: \<open>internal/csi/controller/controller.go\<close>, and the interface to
  the volume manager that it uses (\<open>core.ControllerInterface\<close> of \<open>internal/csi/core/interfaces.go\<close>).

  A handler returns a response or a gRPC error. Tracing and logging are left out.
\<close>

section \<open>The volume interface\<close>

definition PVCNameParam :: string where "PVCNameParam = ''csi.storage.k8s.io/pvc/name''"
definition PVCNamespaceParam :: string where "PVCNamespaceParam = ''csi.storage.k8s.io/pvc/namespace''"

record 's controller_volume =
  cvi_Create :: "object_recorder \<Rightarrow> CreateVolumeRequest \<Rightarrow> ('s world, goerr, Volume) op"
  cvi_Delete :: "object_recorder \<Rightarrow> DeleteVolumeRequest \<Rightarrow> ('s world, goerr, unit) op"
  cvi_List :: "ListVolumesRequest \<Rightarrow> ('s, goerr, ListVolumesResponse) op"
  cvi_GetCapacity :: "GetCapacityRequest \<Rightarrow> ('s, goerr, GetCapacityResponse) op"
  cvi_ValidateCapabilities :: "ValidateVolumeCapabilitiesRequest \<Rightarrow> ('s, goerr, ValidateConfirmed) op"
  cvi_GetVolumeName :: "string \<Rightarrow> goerr + string"
  cvi_GetNodeDevicePath :: "string \<Rightarrow> goerr + string"

text \<open>The volume manager as a value of this interface; the argument \<open>ticks\<close> and the error of the ended
  context are those of its retry loop.\<close>

definition LVM_controller :: "'s LVM \<Rightarrow> nat \<Rightarrow> goerr \<Rightarrow> 's controller_volume" where
  "LVM_controller l ticks ctxErr =
     \<lparr>cvi_Create = Create l, cvi_Delete = (\<lambda>rec. Delete l rec ticks ctxErr), cvi_List = ListVols l,
      cvi_GetCapacity = CoreController.GetCapacity l, cvi_ValidateCapabilities = ValidateCapabilities l,
      cvi_GetVolumeName = GetVolumeName, cvi_GetNodeDevicePath = GetNodeDevicePath\<rparr>"

section \<open>The server\<close>

record 's controller_server =
  cs_caps :: "ControllerServiceCapability list"
  cs_modes :: "access_mode list"
  cs_volume :: "'s controller_volume"
  cs_mounter :: "'s mounter"
  cs_k8sClient :: "'s k8s"
  cs_nodeId :: string
  cs_selfPod :: "string option"
  cs_selectedNodeAnnotation :: string
  cs_selectedInitialNodeParam :: string
  cs_removePvNodeAffinity :: bool
  cs_recorder :: event_recorder

definition controller_New ::
  "'s controller_volume \<Rightarrow> ControllerServiceCapability list \<Rightarrow> access_mode list \<Rightarrow> 's mounter \<Rightarrow> 's k8s \<Rightarrow>
   string \<Rightarrow> string option \<Rightarrow> string \<Rightarrow> string \<Rightarrow> bool \<Rightarrow> event_recorder \<Rightarrow> 's controller_server" where
  "controller_New volume caps modes mounter k8sClient nodeID selfPod selectedNodeAnnotation
     selectedInitialNodeParam removePvNodeAffinity recorder =
     \<lparr>cs_caps = caps, cs_modes = modes, cs_volume = volume, cs_mounter = mounter, cs_k8sClient = k8sClient,
      cs_nodeId = nodeID, cs_selfPod = selfPod, cs_selectedNodeAnnotation = selectedNodeAnnotation,
      cs_selectedInitialNodeParam = selectedInitialNodeParam,
      cs_removePvNodeAffinity = removePvNodeAffinity, cs_recorder = recorder\<rparr>"

lemma controller_New_simps [simp]:
  "cs_caps (controller_New v caps modes m k n p a i r rec) = caps"
  "cs_modes (controller_New v caps modes m k n p a i r rec) = modes"
  "cs_volume (controller_New v caps modes m k n p a i r rec) = v"
  "cs_mounter (controller_New v caps modes m k n p a i r rec) = m"
  "cs_k8sClient (controller_New v caps modes m k n p a i r rec) = k"
  "cs_nodeId (controller_New v caps modes m k n p a i r rec) = n"
  "cs_selfPod (controller_New v caps modes m k n p a i r rec) = p"
  "cs_selectedNodeAnnotation (controller_New v caps modes m k n p a i r rec) = a"
  "cs_selectedInitialNodeParam (controller_New v caps modes m k n p a i r rec) = i"
  "cs_removePvNodeAffinity (controller_New v caps modes m k n p a i r rec) = r"
  "cs_recorder (controller_New v caps modes m k n p a i r rec) = rec"
  by (simp_all add: controller_New_def)

section \<open>Errors\<close>

definition fromCoreError :: "goerr \<Rightarrow> rpc_error" where
  "fromCoreError err =
     (if errors_Is err CoreErrResourceExhausted then StatusError ResourceExhausted (err_msg err)
      else if errors_Is err CoreErrVolumeSizeMismatch then StatusError AlreadyExists (err_msg err)
      else StatusError Internal (err_msg err))"

section \<open>CreateVolume\<close>

definition CreateVolume ::
  "'s controller_server \<Rightarrow> CreateVolumeRequest \<Rightarrow> ('s world, rpc_error, Volume) op" where
  "CreateVolume cs req =
     (case ValidateController CREATE_DELETE_VOLUME (cs_caps cs) of
        Some err \<Rightarrow> fail (StatusError InvalidArgument (err_msg err))
      | None \<Rightarrow>
     (case ValidateVolume (cv_VolumeCapabilities req) (cs_modes cs) of
        Some err \<Rightarrow> fail (StatusError InvalidArgument (err_msg err))
      | None \<Rightarrow>
          let capacity = GetRequiredBytes (cv_CapacityRange req);
              limit = GetLimitBytes (cv_CapacityRange req) in
          if capacity < 0 \<or> limit < 0 then fail (StatusError InvalidArgument ''cannot have negative capacity'')
          else if limit > 0 \<and> capacity > limit then fail (StatusError InvalidArgument ''capacity cannot exceed limit'')
          else
            call (cvi_Create (cs_volume cs) (WithObject (cs_recorder cs) (map_option PodObject (cs_selfPod cs))) req)
              (\<lambda>err. fail (fromCoreError err))
              (\<lambda>vol.
                 if cs_removePvNodeAffinity cs then
                   if map_get (cv_Parameters req) PVCNameParam = [] \<or>
                      map_get (cv_Parameters req) PVCNamespaceParam = []
                   then ok vol
                   else ok (vol\<lparr>vol_VolumeContext := (vol_VolumeContext vol)(cs_selectedInitialNodeParam cs \<mapsto> cs_nodeId cs),
                                vol_AccessibleTopology := []\<rparr>)
                 else ok vol)))"

section \<open>DeleteVolume\<close>

definition pvHasHostnameTopology :: "PersistentVolume \<Rightarrow> bool" where
  "pvHasHostnameTopology pv =
     list_ex (\<lambda>term. list_ex (\<lambda>expr. nsr_Key expr = TopologyKey \<and> nsr_Operator expr = NodeSelectorOpIn)
       (nsl_MatchExpressions term)) (required_terms pv)"

text \<open>The node of a volume without hostname topology: the annotation, or the attribute that was set
  when the volume was created.\<close>

definition selected_node :: "'s controller_server \<Rightarrow> PersistentVolume \<Rightarrow> string" where
  "selected_node cs pv =
     (let selectedNode = map_get (pv_Annotations pv) (cs_selectedNodeAnnotation cs) in
      if selectedNode = [] then
        (case volume_attribute pv (cs_selectedInitialNodeParam cs) of None \<Rightarrow> [] | Some n \<Rightarrow> n)
      else selectedNode)"

text \<open>Unmount the device and remove the volume.\<close>

definition unmount_and_delete ::
  "'s controller_server \<Rightarrow> PersistentVolume \<Rightarrow> DeleteVolumeRequest \<Rightarrow> ('s world, rpc_error, unit) op" where
  "unmount_and_delete cs pv req =
     (let rec = WithObject (cs_recorder cs) (Some (PVObject (pv_Name pv)));
          delete = call (cvi_Delete (cs_volume cs) rec req) (\<lambda>err. fail (StatusError Internal (err_msg err))) ok in
      case cvi_GetNodeDevicePath (cs_volume cs) (dv_VolumeId req) of
        Inl err \<Rightarrow> fail (StatusError Internal (''failed to get node device path: '' @ err_msg err))
      | Inr devicePath \<Rightarrow>
          if devicePath \<noteq> [] then
            call (on_sys (mnt_CleanupStagingDir (cs_mounter cs) devicePath))
              (\<lambda>err. fail (StatusError Internal (''failed to unmount device path '' @ Quote devicePath @ '': '' @ err_msg err)))
              (\<lambda>_. delete)
          else delete)"

text \<open>The check that the volume belongs to this node. A failed lookup of the node other than that it
  does not exist is only logged.\<close>

definition on_selected_node ::
  "'s controller_server \<Rightarrow> string \<Rightarrow> ('s world, rpc_error, unit) op \<Rightarrow> ('s world, rpc_error, unit) op" where
  "on_selected_node cs selectedNode continue =
     (let check =
        if \<not> EqualFold selectedNode (cs_nodeId cs)
        then fail (StatusError FailedPrecondition (''Volume is on a different node '' @ selectedNode))
        else continue in
      call (on_sys (k8s_GetNodeMeta (cs_k8sClient cs) selectedNode))
        (\<lambda>err. if is_not_found err then ok () else check)
        (\<lambda>_. check))"

definition DeleteVolume ::
  "'s controller_server \<Rightarrow> DeleteVolumeRequest \<Rightarrow> ('s world, rpc_error, unit) op" where
  "DeleteVolume cs req =
     (if dv_VolumeId req = [] then fail (StatusError InvalidArgument ''Volume ID missing in request'')
      else
        case cvi_GetVolumeName (cs_volume cs) (dv_VolumeId req) of
          Inl err \<Rightarrow> ok ()
        | Inr pvName \<Rightarrow>
            call (on_sys (k8s_GetPV (cs_k8sClient cs) pvName))
              (\<lambda>err. if \<not> is_not_found err then fail (StatusError Internal (err_msg err)) else ok ())
              (\<lambda>pv.
                 if \<not> pvHasHostnameTopology pv \<and> cs_nodeId cs \<noteq> [] \<and> selected_node cs pv \<noteq> []
                 then on_selected_node cs (selected_node cs pv) (unmount_and_delete cs pv req)
                 else unmount_and_delete cs pv req))"

section \<open>Other handlers\<close>

definition ControllerValidateVolumeCapabilities ::
  "'s controller_server \<Rightarrow> ValidateVolumeCapabilitiesRequest \<Rightarrow> ('s, rpc_error, ValidateConfirmed) op" where
  "ControllerValidateVolumeCapabilities cs req =
     (if vr_VolumeId req = [] then fail (StatusError InvalidArgument ''Volume ID missing in request'')
      else
        case ValidateVolume (vr_VolumeCapabilities req) (cs_modes cs) of
          Some err \<Rightarrow> fail (StatusError InvalidArgument (err_msg err))
        | None \<Rightarrow>
            call (cvi_ValidateCapabilities (cs_volume cs) req)
              (\<lambda>err. if errors_Is err CoreErrVolumeNotFound then fail (StatusError NotFound (err_msg err))
                     else fail (StatusError Internal (err_msg err)))
              ok)"

text \<open>\<open>strconv.Atoi\<close>, with the texts of its errors.\<close>

definition Atoi :: "string \<Rightarrow> goerr + int" where
  "Atoi s =
     (case parse_decimal s of
        None \<Rightarrow> Inl (errors_New (''strconv.Atoi: parsing '' @ Quote s @ '': invalid syntax''))
      | Some i \<Rightarrow>
          if int64_range i then Inr i
          else Inl (errors_New (''strconv.Atoi: parsing '' @ Quote s @ '': value out of range'')))"

definition ListVolumes ::
  "'s controller_server \<Rightarrow> ListVolumesRequest \<Rightarrow> ('s, rpc_error, ListVolumesResponse) op" where
  "ListVolumes cs req =
     (let list = call (cvi_List (cs_volume cs) req) (\<lambda>err. fail (StatusError Internal (err_msg err))) ok in
      if lr_StartingToken req \<noteq> [] then
        (case Atoi (lr_StartingToken req) of
           Inl err \<Rightarrow> fail (StatusError Aborted (''ListVolumes starting token('' @ lr_StartingToken req @
             '') parsing with error: '' @ err_msg err))
         | Inr start \<Rightarrow>
             if start < 0
             then fail (StatusError Aborted (''ListVolumes starting token('' @ show_int start @ '') can not be negative''))
             else list)
      else list)"

definition ControllerGetCapacity ::
  "'s controller_server \<Rightarrow> GetCapacityRequest \<Rightarrow> ('s, rpc_error, GetCapacityResponse) op" where
  "ControllerGetCapacity cs req =
     call (cvi_GetCapacity (cs_volume cs) req) (\<lambda>err. fail (StatusError Internal (err_msg err))) ok"

definition ControllerGetCapabilities ::
  "'s controller_server \<Rightarrow> ('s, rpc_error, ControllerServiceCapability list) op" where
  "ControllerGetCapabilities cs = ok (cs_caps cs)"

text \<open>The handlers of \<open>ControllerPublishVolume\<close>, \<open>ControllerUnpublishVolume\<close>, \<open>ControllerGetVolume\<close>,
  \<open>ControllerModifyVolume\<close>, \<open>CreateSnapshot\<close>, \<open>DeleteSnapshot\<close> and \<open>ListSnapshots\<close>.\<close>

definition unimplemented_rpc :: "('s, rpc_error, 'a) op" where
  "unimplemented_rpc = fail (StatusError Unimplemented [])"

section \<open>What CreateVolume checks and changes\<close>

definition valid_create :: "'s controller_server \<Rightarrow> CreateVolumeRequest \<Rightarrow> bool" where
  "valid_create cs req \<longleftrightarrow>
     ValidateController CREATE_DELETE_VOLUME (cs_caps cs) = None \<and>
     ValidateVolume (cv_VolumeCapabilities req) (cs_modes cs) = None \<and>
     0 \<le> GetRequiredBytes (cv_CapacityRange req) \<and> 0 \<le> GetLimitBytes (cv_CapacityRange req) \<and>
     (0 < GetLimitBytes (cv_CapacityRange req) \<longrightarrow>
        GetRequiredBytes (cv_CapacityRange req) \<le> GetLimitBytes (cv_CapacityRange req))"

definition without_affinity :: "'s controller_server \<Rightarrow> CreateVolumeRequest \<Rightarrow> Volume \<Rightarrow> Volume" where
  "without_affinity cs req vol =
     (if cs_removePvNodeAffinity cs \<and> map_get (cv_Parameters req) PVCNameParam \<noteq> [] \<and>
         map_get (cv_Parameters req) PVCNamespaceParam \<noteq> []
      then vol\<lparr>vol_VolumeContext := (vol_VolumeContext vol)(cs_selectedInitialNodeParam cs \<mapsto> cs_nodeId cs),
               vol_AccessibleTopology := []\<rparr>
      else vol)"

lemma CreateVolume_valid:
  assumes "valid_create cs req"
  shows "CreateVolume cs req =
    call (cvi_Create (cs_volume cs) (WithObject (cs_recorder cs) (map_option PodObject (cs_selfPod cs))) req)
      (\<lambda>err. fail (fromCoreError err)) (\<lambda>vol. ok (without_affinity cs req vol))"
proof -
  have affinity: "(if cs_removePvNodeAffinity cs then
           if map_get (cv_Parameters req) PVCNameParam = [] \<or> map_get (cv_Parameters req) PVCNamespaceParam = []
           then ok vol
           else ok (vol\<lparr>vol_VolumeContext := (vol_VolumeContext vol)(cs_selectedInitialNodeParam cs \<mapsto> cs_nodeId cs),
                        vol_AccessibleTopology := []\<rparr>)
         else ok vol) = ok (without_affinity cs req vol)" for vol
    by (simp add: without_affinity_def)
  from assms show ?thesis
    unfolding CreateVolume_def Let_def affinity by (auto simp: valid_create_def)
qed

lemma CreateVolume_invalid: "\<not> valid_create cs req \<Longrightarrow> \<exists>t. CreateVolume cs req = fail (StatusError InvalidArgument t)"
  unfolding CreateVolume_def
  by (cases "ValidateController CREATE_DELETE_VOLUME (cs_caps cs)";
      cases "ValidateVolume (cv_VolumeCapabilities req) (cs_modes cs)")
    (auto simp: valid_create_def Let_def not_le)

lemma fromCoreError_not_invalid [simp]: "fromCoreError e \<noteq> StatusError InvalidArgument t"
  by (simp add: fromCoreError_def)

section \<open>The composition\<close>

text \<open>The server as \<open>cmd/driver/main.go\<close> builds it, on the volume manager of this node, the mounter and the
  client of the API server, which all work on the same system: requests to the API server and mounts
  change no LVM metadata, and the mount table is that of the node.\<close>

locale csi_controller =
  node_driver c meta l flt +
  api: api_frame k meta +
  mnt: host_frame h meta +
  tab: mount_table h mounts
  for c :: "'s client" and meta :: "'s \<Rightarrow> lvm_meta" and l :: "'s LVM" and flt :: filter_predicate
    and k :: "'s k8s" and h :: "'s mount_host" and mounts :: "'s \<Rightarrow> (string \<rightharpoonup> string)" +
  fixes cs :: "'s controller_server"
    and ticks :: nat
    and ctxErr :: goerr
  assumes cs_volume: "cs_volume cs = LVM_controller l ticks ctxErr"
    and cs_mounter: "cs_mounter cs = NewMounter h"
    and cs_client: "cs_k8sClient cs = k"
begin

lemma unmount_and_delete_effect:
  assumes "unmount_and_delete cs pv req w = (r, w')" and id: "newIdFromString (dv_VolumeId req) = Inr i"
  shows "case r of
      Inl _ \<Rightarrow> meta (w_sys w') = meta (w_sys w)
    | Inr _ \<Rightarrow> (\<exists>s rec. meta s = meta (w_sys w) \<and> (\<forall>x. mounts s x \<noteq> Some (ReconstructLogicalVolumePath i)) \<and>
        Delete l rec ticks ctxErr req (w\<lparr>w_sys := s\<rparr>) = (Inr (), w') \<and>
        m_lvs (meta (w_sys w')) = (m_lvs (meta (w_sys w)))(volume_key i := None))"
proof -
  let ?rec = "WithObject (cs_recorder cs) (Some (PVObject (pv_Name pv)))"
  have p: "GetNodeDevicePath (dv_VolumeId req) = Inr (ReconstructLogicalVolumePath i)"
    using id by (simp add: GetNodeDevicePath_def)
  have "call (on_sys (CleanupStagingDir h (ReconstructLogicalVolumePath i)))
    (\<lambda>err. fail (StatusError Internal (''failed to unmount device path '' @
      Quote (ReconstructLogicalVolumePath i) @ '': '' @ err_msg err)))
    (\<lambda>_. call (Delete l ?rec ticks ctxErr req) (\<lambda>err. fail (StatusError Internal (err_msg err))) ok) w = (r, w')"
    using assms(1) GetNodeDevicePath_not_Nil [OF p] p
    by (simp add: unmount_and_delete_def cs_volume cs_mounter LVM_controller_def Let_def)
  then show ?thesis
  proof (cases rule: callE)
    case (error e u)
    then show ?thesis by (auto dest: keepsD [OF mnt.CleanupStagingDir_frame])
  next
    case (result a u)
    from result(1) obtain s where s: "CleanupStagingDir h (ReconstructLogicalVolumePath i) (w_sys w) = (Inr a, s)"
      "u = w\<lparr>w_sys := s\<rparr>" by auto
    have m: "meta s = meta (w_sys w)" using s(1) by (rule keepsD [OF mnt.CleanupStagingDir_frame])
    have none: "\<forall>x. mounts s x \<noteq> Some (ReconstructLogicalVolumePath i)"
      using tab.CleanupStagingDir_unmounts [OF s(1)] by blast
    from result(2) show ?thesis
    proof (cases rule: callE)
      case (error e v)
      then show ?thesis using drv.Delete_effect [OF error(1)] m s(2) id by auto
    next
      case (result b v)
      then have "r = Inr ()" "w' = v" "Delete l ?rec ticks ctxErr req (w\<lparr>w_sys := s\<rparr>) = (Inr (), w')"
        using s(2) by simp_all
      moreover have "m_lvs (meta (w_sys w')) = (m_lvs (meta (w_sys w)))(volume_key i := None)"
        using drv.Delete_effect [OF result(1)] m s(2) id \<open>w' = v\<close> by (simp add: volume_key_def)
      ultimately show ?thesis using m none by (simp only: sum.case) blast
    qed
  qed
qed

lemma DeleteVolume_found:
  assumes "newIdFromString (dv_VolumeId req) = Inr i"
    and "k8s_GetPV k (vid_LogicalVolume i) (w_sys w) = (Inr pv, s)"
  shows "DeleteVolume cs req w =
      (if \<not> pvHasHostnameTopology pv \<and> cs_nodeId cs \<noteq> [] \<and> selected_node cs pv \<noteq> []
       then on_selected_node cs (selected_node cs pv) (unmount_and_delete cs pv req) (w\<lparr>w_sys := s\<rparr>)
       else unmount_and_delete cs pv req (w\<lparr>w_sys := s\<rparr>))"
    and "meta s = meta (w_sys w)"
proof -
  have "dv_VolumeId req \<noteq> []" using assms(1) by (auto simp: newIdFromString_Inr_iff volumeId_String_def)
  then show "DeleteVolume cs req w =
      (if \<not> pvHasHostnameTopology pv \<and> cs_nodeId cs \<noteq> [] \<and> selected_node cs pv \<noteq> []
       then on_selected_node cs (selected_node cs pv) (unmount_and_delete cs pv req) (w\<lparr>w_sys := s\<rparr>)
       else unmount_and_delete cs pv req (w\<lparr>w_sys := s\<rparr>))"
    using assms by (simp add: DeleteVolume_def cs_volume cs_client LVM_controller_def GetVolumeName_def call_def on_sys_run)
qed (rule keepsD [OF api.get_pv_frame assms(2)])

lemma DeleteVolume_here:
  assumes "newIdFromString (dv_VolumeId req) = Inr i"
    and "k8s_GetPV k (vid_LogicalVolume i) (w_sys w) = (Inr pv, s)"
    and "pvHasHostnameTopology pv \<or> cs_nodeId cs = [] \<or> selected_node cs pv = [] \<or>
      EqualFold (selected_node cs pv) (cs_nodeId cs) \<and>
      (\<forall>e t. k8s_GetNodeMeta k (selected_node cs pv) s = (Inl e, t) \<longrightarrow> \<not> is_not_found e)"
    and "DeleteVolume cs req w = (r, w')"
  shows "case r of
      Inl _ \<Rightarrow> meta (w_sys w') = meta (w_sys w)
    | Inr _ \<Rightarrow> (\<exists>s rec. meta s = meta (w_sys w) \<and> (\<forall>x. mounts s x \<noteq> Some (ReconstructLogicalVolumePath i)) \<and>
        Delete l rec ticks ctxErr req (w\<lparr>w_sys := s\<rparr>) = (Inr (), w') \<and>
        m_lvs (meta (w_sys w')) = (m_lvs (meta (w_sys w)))(volume_key i := None))"
proof -
  obtain res t where look: "k8s_GetNodeMeta k (selected_node cs pv) s = (res, t)" by fastforce
  have "meta t = meta s" by (rule keepsD [OF api.get_node_meta_frame look])
  moreover have "unmount_and_delete cs pv req (w\<lparr>w_sys := s\<rparr>) = (r, w') \<or>
      unmount_and_delete cs pv req (w\<lparr>w_sys := t\<rparr>) = (r, w')"
    using assms(3,4) look unfolding DeleteVolume_found(1) [OF assms(1,2)]
    by (auto simp: on_selected_node_def cs_client call_def on_sys_run Let_def split: sum.splits if_splits)
  ultimately show ?thesis
    using unmount_and_delete_effect [OF _ assms(1)] DeleteVolume_found(2) [OF assms(1,2)]
    by (cases r) fastforce+
qed

lemma DeleteVolume_elsewhere:
  assumes "newIdFromString (dv_VolumeId req) = Inr i"
    and "k8s_GetPV k (vid_LogicalVolume i) (w_sys w) = (Inr pv, s)"
    and "\<not> pvHasHostnameTopology pv" "cs_nodeId cs \<noteq> []" "selected_node cs pv \<noteq> []"
    and "\<not> EqualFold (selected_node cs pv) (cs_nodeId cs)"
    and "DeleteVolume cs req w = (r, w')"
  shows "\<exists>res t. k8s_GetNodeMeta k (selected_node cs pv) s = (res, t) \<and> w' = w\<lparr>w_sys := t\<rparr> \<and>
    meta t = meta (w_sys w) \<and>
    r = (case res of Inl e \<Rightarrow> if is_not_found e then Inr () else
           Inl (StatusError FailedPrecondition (''Volume is on a different node '' @ selected_node cs pv))
         | Inr _ \<Rightarrow> Inl (StatusError FailedPrecondition (''Volume is on a different node '' @ selected_node cs pv)))"
proof -
  from assms have "on_selected_node cs (selected_node cs pv) (unmount_and_delete cs pv req) (w\<lparr>w_sys := s\<rparr>) = (r, w')"
    by (simp add: DeleteVolume_found)
  moreover obtain res t where "k8s_GetNodeMeta k (selected_node cs pv) s = (res, t)" by fastforce
  ultimately show ?thesis
    using assms(6) keepsD [OF api.get_node_meta_frame] DeleteVolume_found(2) [OF assms(1,2)]
    by (auto simp: on_selected_node_def cs_client call_def on_sys_run Let_def split: sum.splits if_splits)
qed

lemma CreateVolume_cases:
  assumes "CreateVolume cs req w = (r, w')"
  obtains (invalid) t where "\<not> valid_create cs req" "r = Inl (StatusError InvalidArgument t)" "w' = w"
  | (error) rec e where "valid_create cs req" "Create l rec req w = (Inl e, w')" "r = Inl (fromCoreError e)"
  | (created) rec vol where "valid_create cs req" "Create l rec req w = (Inr vol, w')"
      "r = Inr (without_affinity cs req vol)"
proof (cases "valid_create cs req")
  case True
  with assms have "call (Create l (WithObject (cs_recorder cs) (map_option PodObject (cs_selfPod cs))) req)
      (\<lambda>err. fail (fromCoreError err)) (\<lambda>vol. ok (without_affinity cs req vol)) w = (r, w')"
    by (simp add: CreateVolume_valid cs_volume LVM_controller_def)
  then show thesis using error created True by (cases rule: callE) auto
next
  case False
  from CreateVolume_invalid [OF this] assms False show thesis using invalid by auto
qed

lemma query_rpc_frames:
  "keeps meta (ListVolumes cs lreq)" "keeps meta (ControllerGetCapacity cs creq)"
  "keeps meta (ControllerValidateVolumeCapabilities cs vreq)"
  unfolding ListVolumes_def ControllerGetCapacity_def ControllerValidateVolumeCapabilities_def cs_volume
    LVM_controller_def controller_volume.simps Let_def
  by (intro frame_intros drv.query_frames)+

lemma DeleteVolume_effect:
  assumes "DeleteVolume cs req w = (r, w')"
  shows "meta (w_sys w') = meta (w_sys w) \<or>
    (\<exists>i. newIdFromString (dv_VolumeId req) = Inr i \<and>
      m_lvs (meta (w_sys w')) = (m_lvs (meta (w_sys w)))(volume_key i := None))"
proof -
  define outcome where "outcome \<longleftrightarrow> ?thesis"
  have del: "outcome"
    if "unmount_and_delete cs pv req u = (r, w')" "meta (w_sys u) = meta (w_sys w)"
      "newIdFromString (dv_VolumeId req) = Inr i" for pv u i
    using unmount_and_delete_effect [OF that(1,3)] that(2,3) unfolding outcome_def by (cases r) auto
  have same: "outcome" if "meta (w_sys w') = meta (w_sys w)" using that by (simp add: outcome_def)
  have sel: "outcome"
    if "on_selected_node cs n (unmount_and_delete cs pv req) u = (r, w')" "meta (w_sys u) = meta (w_sys w)"
      "newIdFromString (dv_VolumeId req) = Inr i" for pv u i n
    using that(1) unfolding on_selected_node_def Let_def cs_client
    by (auto elim!: callE dest!: keepsD [OF api.get_node_meta_frame] del [OF _ _ that(3)] simp: that(2) same split: if_splits)
  have "outcome"
    using assms unfolding DeleteVolume_def cs_client cs_volume
    by (auto simp: LVM_controller_def GetVolumeName_def same elim!: callE dest!: keepsD [OF api.get_pv_frame]
        split: if_splits sum.splits dest!: del sel)
  then show ?thesis by (simp add: outcome_def)
qed

end

definition ref_controller :: "cluster controller_server" where
  "ref_controller =
     controller_New (LVM_controller ref_driver 20 (sentinel_err DeadlineExceeded)) GetControllerDriverCapabilities
       GetNodeAccessModes (NewMounter ref_mount_host) ref_k8s ''node-1'' None SelectedNodeAnnotation
       SelectedInitialNodeParam True NoopRecorder"

interpretation ref_csi: csi_controller ref_client meta_of ref_driver "NewEphemeralDiskFilter [] [] []"
  ref_k8s ref_mount_host mounts_of ref_controller 20 "sentinel_err DeadlineExceeded"
  by unfold_locales (simp_all add: ref_controller_def)

lemma ref_selected [simp]: "selected_node ref_controller (ref_pv name n) = n"
  by (simp add: selected_node_def ref_controller_def ref_pv_def volume_attribute_def SelectedInitialNodeParam_def
      CapacityParam_def DriverName_def Let_def)

lemma ref_no_topology [simp]: "\<not> pvHasHostnameTopology (ref_pv name n)"
  by (simp add: pvHasHostnameTopology_def required_terms_def ref_pv_def zero_PersistentVolume_def)

section \<open>Properties\<close>

text \<open>C16. \<open>DeleteVolume\<close> of a volume that belongs to this node, by its hostname topology, for want of a
  selected node, or because its selected node is this one and not known to be gone: an error leaves the LVM metadata of the
  node as it is; success removes exactly the logical volume named by the id, and the removal
  started in a state in which its device was mounted nowhere.\<close>

theorem DeleteVolume_removes:
  assumes "csi_controller c meta l flt k h mounts cs ticks ctxErr"
    and "newIdFromString (dv_VolumeId req) = Inr i"
    and "k8s_GetPV k (vid_LogicalVolume i) (w_sys w) = (Inr pv, s)"
    and "pvHasHostnameTopology pv \<or> cs_nodeId cs = [] \<or> selected_node cs pv = [] \<or>
      EqualFold (selected_node cs pv) (cs_nodeId cs) \<and>
      (\<forall>e t. k8s_GetNodeMeta k (selected_node cs pv) s = (Inl e, t) \<longrightarrow> \<not> is_not_found e)"
  shows "case DeleteVolume cs req w of (r, w') \<Rightarrow>
    (case r of
       Inl _ \<Rightarrow> meta (w_sys w') = meta (w_sys w)
     | Inr _ \<Rightarrow> (\<exists>s rec. meta s = meta (w_sys w) \<and>
         (\<forall>x. mounts s x \<noteq> Some (ReconstructLogicalVolumePath i)) \<and>
         Delete l rec ticks ctxErr req (w\<lparr>w_sys := s\<rparr>) = (Inr (), w') \<and>
         m_lvs (meta (w_sys w')) = (m_lvs (meta (w_sys w)))(volume_key i := None)))"
  using csi_controller.DeleteVolume_here [OF assms] by (simp split: prod.splits)

theorem DeleteVolume_removes_witness:
  "case DeleteVolume ref_controller \<lparr>dv_VolumeId = ''containerstorage#pvc-1''\<rparr> ref_cluster of (r, w') \<Rightarrow>
    m_lvs (meta_of (w_sys w')) (''containerstorage'', ''pvc-2'') = Some 8388608"
proof -
  let ?req = "\<lparr>dv_VolumeId = ''containerstorage#pvc-1''\<rparr>"
  have id: "newIdFromString (dv_VolumeId ?req) =
      Inr \<lparr>vid_VolumeGroup = ''containerstorage'', vid_LogicalVolume = ''pvc-1''\<rparr>"
    by (simp add: ref_ids)
  obtain r w' where run: "DeleteVolume ref_controller ?req ref_cluster = (r, w')" by fastforce
  show ?thesis
    using DeleteVolume_removes [OF ref_csi.csi_controller_axioms id, where w = ref_cluster] ref_get_pv(1)
    unfolding run by (cases r) (auto simp: volume_key_def dest: meta_of_lvs)
qed

text \<open>C17. \<open>DeleteVolume\<close> never removes a volume of another node: if the persistent volume has no
  hostname topology and its selected node, by annotation or else by volume attribute, is not this
  node, then the only request made is the lookup of that node, no LVM metadata changes, and the
  answer is a failed precondition, or success if that node no longer exists.\<close>

theorem DeleteVolume_not_here:
  assumes "csi_controller c meta l flt k h mounts cs ticks ctxErr"
    and "newIdFromString (dv_VolumeId req) = Inr i"
    and "k8s_GetPV k (vid_LogicalVolume i) (w_sys w) = (Inr pv, s)"
    and "\<not> pvHasHostnameTopology pv" "cs_nodeId cs \<noteq> []" "selected_node cs pv \<noteq> []"
    and "\<not> EqualFold (selected_node cs pv) (cs_nodeId cs)"
  shows "case DeleteVolume cs req w of (r, w') \<Rightarrow>
    (\<exists>res t. k8s_GetNodeMeta k (selected_node cs pv) s = (res, t) \<and> w' = w\<lparr>w_sys := t\<rparr> \<and>
       meta t = meta (w_sys w) \<and>
       r = (case res of
          Inl e \<Rightarrow> if is_not_found e then Inr () else
            Inl (StatusError FailedPrecondition (''Volume is on a different node '' @ selected_node cs pv))
        | Inr _ \<Rightarrow> Inl (StatusError FailedPrecondition (''Volume is on a different node '' @ selected_node cs pv))))"
  using csi_controller.DeleteVolume_elsewhere [OF assms] by (simp split: prod.splits)

theorem DeleteVolume_not_here_witness:
  "case DeleteVolume ref_controller \<lparr>dv_VolumeId = ''containerstorage#pvc-2''\<rparr> ref_cluster of (r, w') \<Rightarrow>
    r = Inr () \<and> meta_of (w_sys w') = meta_of (w_sys ref_cluster)"
proof -
  let ?req = "\<lparr>dv_VolumeId = ''containerstorage#pvc-2''\<rparr>"
  have id: "newIdFromString (dv_VolumeId ?req) =
      Inr \<lparr>vid_VolumeGroup = ''containerstorage'', vid_LogicalVolume = ''pvc-2''\<rparr>"
    by (simp add: ref_ids)
  have pv: "k8s_GetPV ref_k8s (vid_LogicalVolume \<lparr>vid_VolumeGroup = ''containerstorage'', vid_LogicalVolume = ''pvc-2''\<rparr>)
      (w_sys ref_cluster) = (Inr (ref_pv ''pvc-2'' ''node-2''), w_sys ref_cluster)"
    by (simp add: ref_get_pv)
  have other: "\<not> EqualFold ''node-2'' ''node-1''" by code_simp
  have gone: "k8s_GetNodeMeta ref_k8s ''node-2'' (w_sys ref_cluster) =
      (Inl (api_error StatusReasonNotFound (Quote ''node-2'' @ '' not found'')), w_sys ref_cluster)"
    by (simp add: ref_get_def ref_cluster_def call_def)
  have "is_not_found (api_error StatusReasonNotFound x)" for x
    by (simp add: api_error_def apierrors_IsNotFound_def ReasonForError_def)
  with DeleteVolume_not_here [OF ref_csi.csi_controller_axioms id pv] other gone show ?thesis
    by (simp add: ref_controller_def [THEN arg_cong [where f = cs_nodeId]] split: prod.splits)
qed

text \<open>C15. \<open>CreateVolume\<close> answers with an invalid argument exactly for the requests that fail its checks
  (an unsupported capability, a negative size, a size above its limit), and does nothing for them.
  A volume that it returns exists on this node with the reported size, at least the required one,
  and is identified by the returned id; if node affinity is removed, the volume is accessible from
  everywhere and its context names this node, otherwise its topology is this node.\<close>

theorem CreateVolume_creates:
  assumes "csi_controller c meta l flt k h mounts cs ticks ctxErr"
  shows "case CreateVolume cs req w of (r, w') \<Rightarrow>
    ((\<exists>t. r = Inl (StatusError InvalidArgument t)) \<longleftrightarrow> \<not> valid_create cs req) \<and>
    (\<not> valid_create cs req \<longrightarrow> w' = w) \<and>
    (\<forall>vol. r = Inr vol \<longrightarrow>
       m_lvs (meta (w_sys w')) (volume_group_param (cv_Parameters req), cv_Name req) = Some (vol_CapacityBytes vol) \<and>
       GetRequiredBytes (cv_CapacityRange req) \<le> vol_CapacityBytes vol \<and>
       newIdFromString (vol_VolumeId vol) =
         Inr \<lparr>vid_VolumeGroup = volume_group_param (cv_Parameters req), vid_LogicalVolume = cv_Name req\<rparr> \<and>
       (if cs_removePvNodeAffinity cs \<and> map_get (cv_Parameters req) PVCNameParam \<noteq> [] \<and>
           map_get (cv_Parameters req) PVCNamespaceParam \<noteq> []
        then vol_AccessibleTopology vol = [] \<and>
          map_get (vol_VolumeContext vol) (cs_selectedInitialNodeParam cs) = cs_nodeId cs
        else vol_AccessibleTopology vol = node_topology l)) \<and>
    (\<forall>k. k \<noteq> (volume_group_param (cv_Parameters req), cv_Name req) \<longrightarrow>
       m_lvs (meta (w_sys w')) k = m_lvs (meta (w_sys w)) k)"
proof -
  have nd: "node_driver c meta l flt" using assms by (simp add: csi_controller_def)
  note drv = node_driver.is_lvm_driver [OF nd]
  obtain r w' where run: "CreateVolume cs req w = (r, w')" by fastforce
  show ?thesis
  proof (cases rule: csi_controller.CreateVolume_cases [OF assms run])
    case (1 t)
    then show ?thesis by (simp add: run)
  next
    case (2 rec e)
    then show ?thesis using lvm_driver.Create_frame [OF drv 2(2)] by (simp add: run)
  next
    case (3 rec vol)
    then show ?thesis
      using lvm_driver.Create_frame [OF drv 3(2)] lvm_driver.Create_ok [OF drv 3(2)]
      by (simp add: run without_affinity_def map_get_def)
  qed
qed

theorem CreateVolume_creates_witness:
  "case CreateVolume ref_controller (ref_request\<lparr>cv_CapacityRange := Some \<lparr>cr_RequiredBytes = 2, cr_LimitBytes = 1\<rparr>\<rparr>)
      ref_cluster of
    (r, w') \<Rightarrow> w' = ref_cluster \<and> (\<exists>t. r = Inl (StatusError InvalidArgument t))"
  using CreateVolume_creates [OF ref_csi.csi_controller_axioms, where w = ref_cluster
      and req = "ref_request\<lparr>cv_CapacityRange := Some \<lparr>cr_RequiredBytes = 2, cr_LimitBytes = 1\<rparr>\<rparr>"]
  by (auto simp: valid_create_def GetRequiredBytes_def GetLimitBytes_def split: prod.splits)

end
