(* ===== verification/CsiNode.thy ===== *)
theory CsiNode
  imports ClusterReference
begin

text \<open>
  The node service of the driver: \<open>internal/csi/node/node.go\<close>, and the interface to the volume manager
  that it uses (\<open>core.NodeInterface\<close> of \<open>internal/csi/core/interfaces.go\<close>).

  A handler returns a response or a gRPC error. Tracing and logging are left out.
\<close>

section \<open>The interfaces\<close>

record 's node_volume =
  nvi_GetNodeDevicePath :: "string \<Rightarrow> goerr + string"
  nvi_NodeExpandVolume :: "object_recorder \<Rightarrow> NodeExpandVolumeRequest \<Rightarrow> ('s world, goerr, NodeExpandVolumeResponse) op"
  nvi_NodeEnsureVolume :: "object_recorder \<Rightarrow> string \<Rightarrow> int \<Rightarrow> int \<Rightarrow> ('s world, goerr, unit) op"
  nvi_GetVolumeName :: "string \<Rightarrow> goerr + string"

definition LVM_node :: "(int \<Rightarrow> string) \<Rightarrow> 's LVM \<Rightarrow> 's node_volume" where
  "LVM_node quantity_String l =
     \<lparr>nvi_GetNodeDevicePath = GetNodeDevicePath,
      nvi_NodeExpandVolume = CoreController.NodeExpandVolume quantity_String l,
      nvi_NodeEnsureVolume = NodeEnsureVolume l, nvi_GetVolumeName = GetVolumeName\<rparr>"

text \<open>A quantity of \<open>k8s.io/apimachinery\<close>: its value if that fits an \<open>int64\<close>, and how it is printed.\<close>

record quantity =
  q_AsInt64 :: "int option"
  q_String :: string

record VolumeMetrics =
  vm_Available :: quantity
  vm_Capacity :: quantity
  vm_Used :: quantity
  vm_InodesFree :: quantity
  vm_Inodes :: quantity
  vm_InodesUsed :: quantity

text \<open>What the handlers use of the system and of other packages: \<open>os.Stat\<close>, the value of
  \<open>resource.ParseQuantity\<close>, the file system metrics of \<open>k8s.io/kubernetes\<close>, and how a list of
  capabilities is printed.\<close>

record 's node_host =
  nh_Stat :: "string \<Rightarrow> ('s, goerr, unit) op"
  nh_ParseQuantity :: "string \<Rightarrow> goerr + int"
  nh_GetMetrics :: "string \<Rightarrow> ('s, goerr, VolumeMetrics) op"
  nh_show_caps :: "VolumeCapability list \<Rightarrow> string"

section \<open>The server\<close>

definition defaultFsType :: string where "defaultFsType = ''ext4''"

record 's node_server =
  ns_volume :: "'s node_volume"
  ns_nodeID :: string
  ns_driver :: string
  ns_caps :: "NodeServiceCapability list"
  ns_mounter :: "'s mounter"
  ns_k8sClient :: "'s k8s"
  ns_selectedNodeAnnotation :: string
  ns_selectedInitialNodeParam :: string
  ns_removePvNodeAffinity :: bool
  ns_recorder :: event_recorder
  ns_host :: "'s node_host"

definition node_New ::
  "'s node_volume \<Rightarrow> string \<Rightarrow> string \<Rightarrow> string \<Rightarrow> string \<Rightarrow> NodeServiceCapability list \<Rightarrow> 's mounter \<Rightarrow>
   's k8s \<Rightarrow> bool \<Rightarrow> event_recorder \<Rightarrow> 's node_host \<Rightarrow> 's node_server" where
  "node_New volume nodeID selectedNodeAnnotation selectedInitialNodeParam driver caps mounter k8sClient
     removeNodeAffinity recorder host =
     \<lparr>ns_volume = volume, ns_nodeID = nodeID, ns_driver = driver, ns_caps = caps, ns_mounter = mounter,
      ns_k8sClient = k8sClient, ns_selectedNodeAnnotation = selectedNodeAnnotation,
      ns_selectedInitialNodeParam = selectedInitialNodeParam,
      ns_removePvNodeAffinity = removeNodeAffinity, ns_recorder = recorder, ns_host = host\<rparr>"

definition topologyKey :: "'s node_server \<Rightarrow> string" where
  "topologyKey ns = ''topology.'' @ ns_driver ns @ ''/node''"

definition topologyValue :: "'s node_server \<Rightarrow> string" where
  "topologyValue ns = ns_nodeID ns"

section \<open>Files, mounts and errors\<close>

definition EnsureTargetFile :: "'s node_server \<Rightarrow> string \<Rightarrow> ('s, goerr, unit) op" where
  "EnsureTargetFile ns targetPath =
     call (mnt_FileExists (ns_mounter ns) targetPath) fail
       (\<lambda>exists. if \<not> exists then mnt_MakeFile (ns_mounter ns) targetPath else ok ())"

definition EnsureMount :: "'s node_server \<Rightarrow> string \<Rightarrow> ('s, goerr, bool) op" where
  "EnsureMount ns path =
     call (mnt_IsLikelyNotMountPoint (ns_mounter ns) path)
       (\<lambda>err. if errors_Is err OsErrNotExist
              then call (mnt_MakeDir (ns_mounter ns) path) fail (\<lambda>_. ok False)
              else fail err)
       (\<lambda>notMnt. ok (\<not> notMnt))"

definition CheckMountError :: "goerr \<Rightarrow> rpc_error" where
  "CheckMountError err =
     (if Contains (err_msg err) ''permission denied'' then StatusError PermissionDenied (err_msg err)
      else if Contains (err_msg err) ''invalid argument'' then StatusError InvalidArgument (err_msg err)
      else StatusError Internal (err_msg err))"

text \<open>The case of a nil error does not arise: the function is called with an error only.\<close>

definition fromVolumeError :: "goerr \<Rightarrow> rpc_error" where
  "fromVolumeError err =
     (if errors_Is err CoreErrInvalidArgument then StatusError InvalidArgument (err_msg err)
      else if errors_Is err CoreErrVolumeNotFound then StatusError NotFound (err_msg err)
      else if errors_Is err CoreErrOutOfRange then StatusError OutOfRange (err_msg err)
      else StatusError Internal (err_msg err))"

abbreviation invalid :: "string \<Rightarrow> ('s, rpc_error, 'a) op" where
  "invalid text \<equiv> fail (StatusError InvalidArgument text)"

abbreviation internal :: "goerr \<Rightarrow> ('s, rpc_error, 'a) op" where
  "internal err \<equiv> fail (StatusError Internal (err_msg err))"

section \<open>Publishing\<close>

definition bind_mount ::
  "'s node_server \<Rightarrow> NodePublishVolumeRequest \<Rightarrow> string \<Rightarrow> ('s, rpc_error, unit) op" where
  "bind_mount ns req source =
     call (mnt_Mount (ns_mounter ns) source (npb_TargetPath req) []
         (''bind'' # (if npb_Readonly req then [''ro''] else [])))
       (\<lambda>err. fail (CheckMountError (errors_New (''could not mount: '' @ err_msg err))))
       (\<lambda>_. ok ())"

definition NodePublishVolume ::
  "'s node_server \<Rightarrow> NodePublishVolumeRequest \<Rightarrow> ('s, rpc_error, unit) op" where
  "NodePublishVolume ns req =
     (if npb_VolumeId req = [] then invalid ''Volume ID missing in request''
      else case npb_VolumeCapability req of
        None \<Rightarrow> invalid ''Volume capability missing in request''
      | Some cap \<Rightarrow>
     (case IsValidVolumeCapabilities (nh_show_caps (ns_host ns)) [cap] of
        Some err \<Rightarrow> invalid (err_msg err)
      | None \<Rightarrow>
          if npb_StagingTargetPath req = [] then invalid ''Staging target path not provided''
          else if npb_TargetPath req = [] then invalid ''Target path not provided''
          else
            (case vc_AccessType cap of
               BlockAccess \<Rightarrow>
                 call (EnsureMount ns (filepath_Dir (npb_TargetPath req))) internal
                   (\<lambda>_. call (EnsureTargetFile ns (npb_TargetPath req)) internal
                     (\<lambda>_. case nvi_GetNodeDevicePath (ns_volume ns) (npb_VolumeId req) of
                            Inl err \<Rightarrow> fail (PlainError err)
                          | Inr devicePath \<Rightarrow> bind_mount ns req devicePath))
             | MountAccess m \<Rightarrow>
                 call (EnsureMount ns (npb_TargetPath req))
                   (\<lambda>err. fail (StatusError Internal (''could not mount target: '' @ err_msg err)))
                   (\<lambda>mnt. if mnt then ok () else bind_mount ns req (npb_StagingTargetPath req))
             | NoAccessType \<Rightarrow> bind_mount ns req (npb_StagingTargetPath req))))"

definition NodeUnpublishVolume ::
  "'s node_server \<Rightarrow> NodeUnpublishVolumeRequest \<Rightarrow> ('s, rpc_error, unit) op" where
  "NodeUnpublishVolume ns req =
     (if nup_VolumeId req = [] then invalid ''Volume ID missing in request''
      else if nup_TargetPath req = [] then invalid ''Target path missing in request''
      else
        call (mnt_CleanupMountPoint (ns_mounter ns) (nup_TargetPath req))
          (\<lambda>err. fail (StatusError Internal (''failed to unmount target '' @ Quote (nup_TargetPath req) @ '': '' @ err_msg err)))
          (\<lambda>_. ok ()))"

section \<open>Information and statistics\<close>

definition NodeGetInfo :: "'s node_server \<Rightarrow> ('s, rpc_error, NodeGetInfoResponse) op" where
  "NodeGetInfo ns =
     ok \<lparr>ngi_NodeId = ns_nodeID ns,
         ngi_AccessibleTopology = \<lparr>top_Segments = [topologyKey ns \<mapsto> topologyValue ns]\<rparr>\<rparr>"

definition NodeGetCapabilities :: "'s node_server \<Rightarrow> ('s, rpc_error, NodeServiceCapability list) op" where
  "NodeGetCapabilities ns = ok (ns_caps ns)"

text \<open>A quantity that must fit an \<open>int64\<close>.\<close>

definition transform :: "string \<Rightarrow> quantity \<Rightarrow> (int \<Rightarrow> ('s, rpc_error, 'a) op) \<Rightarrow> ('s, rpc_error, 'a) op" where
  "transform what q k =
     (case q_AsInt64 q of
        None \<Rightarrow> fail (StatusError Internal (''failed to transform '' @ what @ ''('' @ q_String q @ '')''))
      | Some n \<Rightarrow> k n)"

definition file_system_stats :: "VolumeMetrics \<Rightarrow> ('s, rpc_error, VolumeUsage list) op" where
  "file_system_stats m =
     transform ''volume available size'' (vm_Available m) (\<lambda>available.
     transform ''volume capacity size'' (vm_Capacity m) (\<lambda>capacity.
     transform ''volume used size'' (vm_Used m) (\<lambda>used.
     transform ''disk inodes free'' (vm_InodesFree m) (\<lambda>inodesFree.
     transform ''disk inodes'' (vm_Inodes m) (\<lambda>inodes.
     transform ''disk inodes used'' (vm_InodesUsed m) (\<lambda>inodesUsed.
       ok [\<lparr>vu_Unit = USAGE_BYTES, vu_Available = available, vu_Total = capacity, vu_Used = used\<rparr>,
           \<lparr>vu_Unit = USAGE_INODES, vu_Available = inodesFree, vu_Total = inodes, vu_Used = inodesUsed\<rparr>]))))))"

definition NodeGetVolumeStats ::
  "'s node_server \<Rightarrow> NodeGetVolumeStatsRequest \<Rightarrow> ('s, rpc_error, VolumeUsage list) op" where
  "NodeGetVolumeStats ns req =
     (let path = nvs_VolumePath req in
      if nvs_VolumeId req = [] then invalid ''volume ID was empty''
      else if path = [] then invalid ''volume path was empty''
      else
        call (mnt_PathExists (ns_mounter ns) path)
          (\<lambda>err. fail (StatusError Internal (''failed to stat volume path '' @ path @ '': '' @ err_msg err)))
          (\<lambda>exists.
             if \<not> exists then fail (StatusError NotFound ''volume path does not exist'')
             else
               call (mnt_PathIsDevice (ns_mounter ns) path)
                 (\<lambda>err. fail (StatusError Internal (''failed to determine whether '' @ path @ '' is block device: '' @ err_msg err)))
                 (\<lambda>isBlock.
                    if isBlock then
                      call (mnt_GetBlockSizeBytes (ns_mounter ns) path)
                        (\<lambda>err. fail (StatusError Internal (''failed to get block capacity on path '' @ path @ '': '' @ err_msg err)))
                        (\<lambda>bcap. ok [\<lparr>vu_Unit = USAGE_BYTES, vu_Available = 0, vu_Total = bcap, vu_Used = 0\<rparr>])
                    else
                      call (nh_GetMetrics (ns_host ns) path) (\<lambda>err. fail (PlainError err)) file_system_stats)))"

section \<open>Staging\<close>

text \<open>The capacity and the limit that the volume was created with; an expanded capacity, written by
  \<open>NodeExpandVolume\<close>, takes precedence if it parses and is larger.\<close>

definition expanded_capacity :: "(string \<Rightarrow> goerr + int) \<Rightarrow> string_map \<Rightarrow> int \<Rightarrow> int" where
  "expanded_capacity pq annotations capacityBytes =
     (case annotations ExpandedCapacityParam of
        None \<Rightarrow> capacityBytes
      | Some ec \<Rightarrow>
          if ec = [] then capacityBytes
          else (case pq ec of Inl _ \<Rightarrow> capacityBytes
                | Inr expandedBytes \<Rightarrow> if expandedBytes > capacityBytes then expandedBytes else capacityBytes))"

definition getCapacityAndLimit ::
  "(string \<Rightarrow> goerr + int) \<Rightarrow> string_map \<Rightarrow> string_map \<Rightarrow> goerr + int \<times> int" where
  "getCapacityAndLimit pq attrs annotations =
     (let limit_of = (\<lambda>capacityBytes.
        case attrs LimitParam of
          None \<Rightarrow> Inr (expanded_capacity pq annotations capacityBytes, 0)
        | Some l \<Rightarrow>
            if l = [] then Inr (expanded_capacity pq annotations capacityBytes, 0)
            else
              (case pq l of
                 Inl err \<Rightarrow> Inl (errorf (''failed to parse volume limit size from pv attribute '' @ LimitParam @
                   ''='' @ l @ '': '' @ err_msg err) [err])
               | Inr limitBytes \<Rightarrow> Inr (expanded_capacity pq annotations capacityBytes, limitBytes))) in
      case attrs CapacityParam of
        None \<Rightarrow> Inl (errors_New (''volume request size is missing in pv attribute '' @ CapacityParam @
          '' - recovery impossible''))
      | Some c \<Rightarrow>
          if c = [] then limit_of 0
          else
            (case pq c of
               Inl err \<Rightarrow> Inl (errorf (''failed to parse volume request size from pv attribute '' @ CapacityParam @
                 ''='' @ c @ '': '' @ err_msg err) [err])
             | Inr capacityBytes \<Rightarrow> limit_of capacityBytes))"

text \<open>The persistent volume with this node as its selected node, if it has to be updated: its
  annotation names another node, or it has none and the node it was created on is another one.\<close>

definition select_this_node :: "'s node_server \<Rightarrow> PersistentVolume \<Rightarrow> PersistentVolume option" where
  "select_this_node ns pv =
     (let updated = pv\<lparr>pv_Annotations := (pv_Annotations pv)(ns_selectedNodeAnnotation ns \<mapsto> ns_nodeID ns)\<rparr> in
      case pv_Annotations pv (ns_selectedNodeAnnotation ns) of
        None \<Rightarrow>
          (case volume_attribute pv (ns_selectedInitialNodeParam ns) of
             None \<Rightarrow> None
           | Some initialNode \<Rightarrow> if \<not> EqualFold initialNode (ns_nodeID ns) then Some updated else None)
      | Some selectedNode \<Rightarrow> if \<not> EqualFold selectedNode (ns_nodeID ns) then Some updated else None)"

definition mark_selected_node :: "'s node_server \<Rightarrow> PersistentVolume \<Rightarrow> ('s world, rpc_error, PersistentVolume) op" where
  "mark_selected_node ns pv =
     (if ns_removePvNodeAffinity ns then
        (case select_this_node ns pv of
           None \<Rightarrow> ok pv
         | Some pv' \<Rightarrow> call (on_sys (k8s_PatchPV (ns_k8sClient ns) pv' pv)) internal ok)
      else ok pv)"

text \<open>The recorder of the claim of a persistent volume.\<close>

definition claim_recorder :: "'s node_server \<Rightarrow> PersistentVolume \<Rightarrow> object_recorder" where
  "claim_recorder ns pv =
     (case pv_ClaimRef pv of None \<Rightarrow> NoopObjectRecorder
      | Some claim \<Rightarrow> WithObject (ns_recorder ns) (Some (ClaimObject claim)))"

definition ensure_volume ::
  "'s node_server \<Rightarrow> object_recorder \<Rightarrow> PersistentVolume \<Rightarrow> string \<Rightarrow> ('s world, rpc_error, unit) op" where
  "ensure_volume ns rec pv volumeID =
     (case pv_CSI pv of
        None \<Rightarrow> ok ()
      | Some csi \<Rightarrow>
          (case csi_VolumeAttributes csi of
             None \<Rightarrow> ok ()
           | Some attrs \<Rightarrow>
               (case getCapacityAndLimit (nh_ParseQuantity (ns_host ns)) attrs (pv_Annotations pv) of
                  Inl err \<Rightarrow> internal err
                | Inr (capacityBytes, limitBytes) \<Rightarrow>
                    call (nvi_NodeEnsureVolume (ns_volume ns) rec volumeID capacityBytes limitBytes) internal ok)))"

definition format_and_mount ::
  "'s node_server \<Rightarrow> VolumeCapability \<Rightarrow> string \<Rightarrow> string \<Rightarrow> ('s, rpc_error, unit) op" where
  "format_and_mount ns cap volumeID stagingTargetPath =
     (let fsType = (case GetMount cap of None \<Rightarrow> defaultFsType | Some m \<Rightarrow> mv_FsType m);
          mountOptions = (case GetMount cap of None \<Rightarrow> [] | Some m \<Rightarrow> mv_MountFlags m) in
      case nvi_GetNodeDevicePath (ns_volume ns) volumeID of
        Inl err \<Rightarrow> fail (PlainError err)
      | Inr source \<Rightarrow>
          call (mnt_FormatAndMount (ns_mounter ns) source stagingTargetPath fsType mountOptions
              (if fsType = ''xfs'' then [''-i'', ''nrext64=0''] else []))
            (\<lambda>err. fail (CheckMountError err)) (\<lambda>_. ok ()))"

definition mount_staging ::
  "'s node_server \<Rightarrow> NodeStageVolumeRequest \<Rightarrow> VolumeCapability \<Rightarrow> ('s, rpc_error, unit) op" where
  "mount_staging ns req cap =
     (if GetBlock cap \<noteq> None then ok ()
      else
        call (EnsureMount ns (nst_StagingTargetPath req)) internal
          (\<lambda>isMnt.
             if isMnt then ok ()
             else format_and_mount ns cap (nst_VolumeId req) (nst_StagingTargetPath req)))"

text \<open>Staging, given the persistent volume.\<close>

definition stage ::
  "'s node_server \<Rightarrow> NodeStageVolumeRequest \<Rightarrow> VolumeCapability \<Rightarrow> PersistentVolume \<Rightarrow> ('s world, rpc_error, unit) op" where
  "stage ns req cap pv0 =
     call (mark_selected_node ns pv0) fail
       (\<lambda>pv. call (ensure_volume ns (claim_recorder ns pv0) pv (nst_VolumeId req)) fail
         (\<lambda>_. on_sys (mount_staging ns req cap)))"

definition NodeStageVolume ::
  "'s node_server \<Rightarrow> NodeStageVolumeRequest \<Rightarrow> ('s world, rpc_error, unit) op" where
  "NodeStageVolume ns req =
     (if nst_VolumeId req = [] then invalid ''Volume ID missing in request''
      else if nst_StagingTargetPath req = [] then invalid ''Staging target path not provided''
      else case nst_VolumeCapability req of
        None \<Rightarrow> invalid ''Volume capability missing in request''
      | Some cap \<Rightarrow>
     (case IsValidVolumeCapabilities (nh_show_caps (ns_host ns)) [cap] of
        Some err \<Rightarrow> invalid (err_msg err)
      | None \<Rightarrow>
     (case nvi_GetVolumeName (ns_volume ns) (nst_VolumeId req) of
        Inl err \<Rightarrow> internal err
      | Inr pvName \<Rightarrow>
          call (on_sys (k8s_GetPV (ns_k8sClient ns) pvName))
            (\<lambda>_. stage ns req cap zero_PersistentVolume)
            (stage ns req cap))))"

definition NodeUnstageVolume ::
  "'s node_server \<Rightarrow> NodeUnstageVolumeRequest \<Rightarrow> ('s, rpc_error, unit) op" where
  "NodeUnstageVolume ns req =
     (if nun_VolumeId req = [] then invalid ''Volume ID missing in request''
      else if nun_StagingTargetPath req = [] then invalid ''Staging target path not provided''
      else ok ())"

section \<open>Expanding\<close>

text \<open>Recording the expanded size on the persistent volume, if it was found.\<close>

definition persist_expanded ::
  "'s node_server \<Rightarrow> PersistentVolume \<Rightarrow> NodeExpandVolumeResponse \<Rightarrow> ('s world, rpc_error, NodeExpandVolumeResponse) op" where
  "persist_expanded ns pv resp =
     (if pv_Name pv \<noteq> [] then
        call (on_sys (k8s_PatchPV (ns_k8sClient ns)
            (pv\<lparr>pv_Annotations := (pv_Annotations pv)(ExpandedCapacityParam \<mapsto> show_int (ne_CapacityBytes resp))\<rparr>) pv))
          (\<lambda>err. fail (StatusError Internal (''failed to persist expanded capacity on PV '' @ pv_Name pv @ '': '' @ err_msg err)))
          (\<lambda>_. ok resp)
      else ok resp)"

text \<open>Expanding, given the persistent volume.\<close>

definition expand ::
  "'s node_server \<Rightarrow> NodeExpandVolumeRequest \<Rightarrow> PersistentVolume \<Rightarrow> ('s world, rpc_error, NodeExpandVolumeResponse) op" where
  "expand ns req pv =
     call (nvi_NodeExpandVolume (ns_volume ns) (claim_recorder ns pv) req)
       (\<lambda>err. fail (fromVolumeError err))
       (persist_expanded ns pv)"

definition NodeExpandVolume ::
  "'s node_server \<Rightarrow> NodeExpandVolumeRequest \<Rightarrow> ('s world, rpc_error, NodeExpandVolumeResponse) op" where
  "NodeExpandVolume ns req =
     (if ne_VolumeId req = [] then invalid ''Volume ID missing in the request''
      else if ne_VolumePath req = [] then invalid ''volume path is required''
      else
        call (on_sys (nh_Stat (ns_host ns) (ne_VolumePath req)))
          (\<lambda>err. if errors_Is err OsErrNotExist then fail (StatusError NotFound ''volume path does not exist'')
                 else fail (StatusError Internal (''failed to stat volume path '' @ ne_VolumePath req @ '': '' @ err_msg err)))
          (\<lambda>_. case nvi_GetVolumeName (ns_volume ns) (ne_VolumeId req) of
                 Inl err \<Rightarrow> invalid (err_msg err)
               | Inr pvName \<Rightarrow>
                   call (on_sys (k8s_GetPV (ns_k8sClient ns) pvName))
                     (\<lambda>_. expand ns req zero_PersistentVolume)
                     (expand ns req)))"

section \<open>The composition\<close>

lemma keeps_access:
  "keeps f a \<Longrightarrow> keeps f b \<Longrightarrow> (\<And>x. keeps f (d x)) \<Longrightarrow>
    keeps f (case t of NoAccessType \<Rightarrow> a | BlockAccess \<Rightarrow> b | MountAccess x \<Rightarrow> d x)"
  by (cases t) auto

text \<open>The server on the volume manager of this node, a mounter and a client of the API server, which
  work on the same system; mounts, file system queries and API requests change no LVM metadata.\<close>

locale csi_node =
  node_driver c meta l flt +
  api: api_frame k meta +
  mnt: mounter_frame m meta
  for c :: "'s client" and meta :: "'s \<Rightarrow> lvm_meta" and l :: "'s LVM" and flt :: filter_predicate
    and k :: "'s k8s" and m :: "'s mounter" +
  fixes ns :: "'s node_server"
    and qs :: "int \<Rightarrow> string"
  assumes ns_volume: "ns_volume ns = LVM_node qs l"
    and ns_mounter: "ns_mounter ns = m"
    and ns_client: "ns_k8sClient ns = k"
    and stat_frame: "keeps meta (nh_Stat (ns_host ns) p)"
    and metrics_frame: "keeps meta (nh_GetMetrics (ns_host ns) p)"
begin

lemma ensure_frames: "keeps meta (EnsureMount ns p)" "keeps meta (EnsureTargetFile ns p)"
  unfolding EnsureMount_def EnsureTargetFile_def ns_mounter by (intro frame_intros mnt.mounter_frames)+

lemma format_and_mount_frame: "keeps meta (format_and_mount ns cap v p)"
  unfolding format_and_mount_def ns_mounter Let_def by (intro frame_intros mnt.mounter_frames)

lemma mount_staging_frame: "keeps meta (mount_staging ns req cap)"
  unfolding mount_staging_def by (intro frame_intros ensure_frames format_and_mount_frame)

lemma bind_mount_frame: "keeps meta (bind_mount ns req p)"
  unfolding bind_mount_def ns_mounter by (intro frame_intros mnt.mounter_frames)

lemma transform_frame: "(\<And>n. keeps meta (h n)) \<Longrightarrow> keeps meta (transform what q h)"
  unfolding transform_def by (intro frame_intros)

lemma mark_selected_frame: "keeps (\<lambda>w. meta (w_sys w)) (mark_selected_node ns pv)"
  unfolding mark_selected_node_def ns_client by (intro frame_intros api.api_frames)

lemma persist_frame: "keeps (\<lambda>w. meta (w_sys w)) (persist_expanded ns pv resp)"
  unfolding persist_expanded_def ns_client by (intro frame_intros api.api_frames)

lemma publish_frames:
  "keeps meta (NodeUnpublishVolume ns ureq)" "keeps meta (NodeGetVolumeStats ns sreq)"
  "keeps meta (NodeUnstageVolume ns nreq)"
  unfolding NodeUnpublishVolume_def NodeGetVolumeStats_def NodeUnstageVolume_def ns_mounter Let_def
    file_system_stats_def
  by (intro frame_intros mnt.mounter_frames metrics_frame transform_frame)+

lemma NodePublishVolume_frame: "keeps meta (NodePublishVolume ns req)"
  unfolding NodePublishVolume_def
  by (intro frame_intros keeps_access ensure_frames bind_mount_frame)

lemma ensure_volume_lvs:
  assumes "ensure_volume ns rec pv v w = (r, w')" "\<And>i. newIdFromString v = Inr i \<Longrightarrow> key \<noteq> volume_key i"
  shows "m_lvs (meta (w_sys w')) key = m_lvs (meta (w_sys w)) key"
  using assms
  by (auto simp: ensure_volume_def ns_volume LVM_node_def NodeEnsureVolume_def volume_key_def
      elim!: callE dest!: drv.EnsureVolume_frame [where k = key] split: option.splits sum.splits)

lemma ensure_volume_ok:
  assumes "ensure_volume ns rec pv v w = (Inr (), w')" "pv_CSI pv = Some csi" "csi_VolumeAttributes csi = Some attrs"
  obtains i cap lim n where "newIdFromString v = Inr i"
    "getCapacityAndLimit (nh_ParseQuantity (ns_host ns)) attrs (pv_Annotations pv) = Inr (cap, lim)"
    "m_lvs (meta (w_sys w')) (volume_key i) = Some n" "cap \<le> n"
  using assms
  by (auto simp: ensure_volume_def ns_volume LVM_node_def NodeEnsureVolume_def volume_key_def
      elim!: callE elim!: drv.EnsureVolume_ok split: sum.splits)

lemma stage_lvs:
  assumes "stage ns req cap pv w = (r, w')" "\<And>i. newIdFromString (nst_VolumeId req) = Inr i \<Longrightarrow> key \<noteq> volume_key i"
  shows "m_lvs (meta (w_sys w')) key = m_lvs (meta (w_sys w)) key"
proof -
  have mount: "meta (w_sys y) = meta (w_sys x)" if "on_sys (mount_staging ns req cap) x = (q, y)" for x q y
    using that by (auto dest: keepsD [OF mount_staging_frame])
  from assms(1) show ?thesis
    unfolding stage_def
    by (auto elim!: callE dest!: keepsD [OF mark_selected_frame] ensure_volume_lvs [OF _ assms(2)] mount)
qed

lemma stage_ok:
  assumes "stage ns req cap pv0 w = (Inr (), w')"
  obtains pv u where "mark_selected_node ns pv0 w = (Inr pv, u)"
    "\<And>csi attrs. pv_CSI pv = Some csi \<Longrightarrow> csi_VolumeAttributes csi = Some attrs \<Longrightarrow>
      \<exists>i c lim n. newIdFromString (nst_VolumeId req) = Inr i \<and>
        getCapacityAndLimit (nh_ParseQuantity (ns_host ns)) attrs (pv_Annotations pv) = Inr (c, lim) \<and>
        m_lvs (meta (w_sys w')) (volume_key i) = Some n \<and> c \<le> n"
proof -
  obtain pv u v where run: "mark_selected_node ns pv0 w = (Inr pv, u)"
    "ensure_volume ns (claim_recorder ns pv0) pv (nst_VolumeId req) u = (Inr (), v)"
    "on_sys (mount_staging ns req cap) v = (Inr (), w')"
    using assms by (auto simp: stage_def elim!: callE)
  from run(3) have "meta (w_sys w') = meta (w_sys v)" by (auto dest: keepsD [OF mount_staging_frame])
  with run(2) have "\<exists>i c lim n. newIdFromString (nst_VolumeId req) = Inr i \<and>
      getCapacityAndLimit (nh_ParseQuantity (ns_host ns)) attrs (pv_Annotations pv) = Inr (c, lim) \<and>
      m_lvs (meta (w_sys w')) (volume_key i) = Some n \<and> c \<le> n"
    if "pv_CSI pv = Some csi" "csi_VolumeAttributes csi = Some attrs" for csi attrs
    using ensure_volume_ok [OF run(2) that] by metis
  with run(1) show thesis by (rule that)
qed

lemma NodeStageVolume_lvs:
  assumes "NodeStageVolume ns req w = (r, w')" "\<And>i. newIdFromString (nst_VolumeId req) = Inr i \<Longrightarrow> key \<noteq> volume_key i"
  shows "m_lvs (meta (w_sys w')) key = m_lvs (meta (w_sys w)) key"
  using assms(1) unfolding NodeStageVolume_def ns_client
  by (auto elim!: callE dest!: keepsD [OF api.get_pv_frame] stage_lvs [OF _ assms(2)]
      split: if_splits option.splits sum.splits)

lemma NodeStageVolume_found:
  assumes "NodeStageVolume ns req w = (Inr (), w')" "newIdFromString (nst_VolumeId req) = Inr i"
    and "k8s_GetPV k (vid_LogicalVolume i) (w_sys w) = (Inr pv, s)"
  obtains cap where "stage ns req cap pv (w\<lparr>w_sys := s\<rparr>) = (Inr (), w')"
  using assms
  by (auto simp: NodeStageVolume_def ns_client ns_volume LVM_node_def GetVolumeName_def call_def on_sys_run
      split: if_splits option.splits)

lemma expand_ok:
  assumes "expand ns req pv w = (Inr resp, w')" and id: "newIdFromString (ne_VolumeId req) = Inr i"
    and sz: "m_lvs (meta (w_sys w)) (volume_key i) = Some sz"
  shows "m_lvs (meta (w_sys w')) (volume_key i) = Some (ne_CapacityBytes resp) \<and> sz \<le> ne_CapacityBytes resp \<and>
    (pv_Name pv \<noteq> [] \<longrightarrow> (\<exists>s stored. k8s_PatchPV k
       (pv\<lparr>pv_Annotations := (pv_Annotations pv)(ExpandedCapacityParam \<mapsto> show_int (ne_CapacityBytes resp))\<rparr>) pv s =
       (Inr stored, w_sys w')))"
proof -
  from assms(1) obtain a v where run: "CoreController.NodeExpandVolume qs l (claim_recorder ns pv) req w = (Inr a, v)"
    "persist_expanded ns pv a v = (Inr resp, w')"
    by (auto simp: expand_def ns_volume LVM_node_def elim!: callE)
  have a: "resp = a" "pv_Name pv \<noteq> [] \<longrightarrow> (\<exists>s stored. k8s_PatchPV k
       (pv\<lparr>pv_Annotations := (pv_Annotations pv)(ExpandedCapacityParam \<mapsto> show_int (ne_CapacityBytes resp))\<rparr>) pv s =
       (Inr stored, w_sys w'))"
    using run(2) by (auto simp: persist_expanded_def ns_client elim!: callE split: if_splits) blast
  have "meta (w_sys w') = meta (w_sys v)" using run(2) by (rule keepsD [OF persist_frame])
  moreover obtain sz' where "sz \<le> sz'" "m_lvs (meta (w_sys v)) (volume_key i) = Some sz'" "ne_CapacityBytes a = sz'"
    using drv.NodeExpandVolume_effect [OF run(1) id] sz by (auto simp: volume_key_def)
  ultimately show ?thesis using a by simp
qed

lemma NodeExpandVolume_ok:
  assumes "NodeExpandVolume ns req w = (Inr resp, w')" and id: "newIdFromString (ne_VolumeId req) = Inr i"
    and s1: "nh_Stat (ns_host ns) (ne_VolumePath req) (w_sys w) = (Inr (), s1)"
    and t: "k8s_GetPV k (vid_LogicalVolume i) s1 = (Inr pv, t)"
    and sz: "m_lvs (meta (w_sys w)) (volume_key i) = Some sz"
  shows "m_lvs (meta (w_sys w')) (volume_key i) = Some (ne_CapacityBytes resp) \<and> sz \<le> ne_CapacityBytes resp \<and>
    (pv_Name pv \<noteq> [] \<longrightarrow> (\<exists>s stored. k8s_PatchPV k
       (pv\<lparr>pv_Annotations := (pv_Annotations pv)(ExpandedCapacityParam \<mapsto> show_int (ne_CapacityBytes resp))\<rparr>) pv s =
       (Inr stored, w_sys w')))"
proof -
  from assms(1) have rest: "call (on_sys (k8s_GetPV k (vid_LogicalVolume i))) (\<lambda>_. expand ns req zero_PersistentVolume)
      (expand ns req) (w\<lparr>w_sys := s1\<rparr>) = (Inr resp, w')"
    using id s1 by (auto simp: NodeExpandVolume_def ns_client ns_volume LVM_node_def GetVolumeName_def elim!: callE
        split: if_splits)
  have m1: "meta s1 = meta (w_sys w)" by (rule keepsD [OF stat_frame s1])
  from rest t have "expand ns req pv (w\<lparr>w_sys := t\<rparr>) = (Inr resp, w')" by (simp add: call_def on_sys_run)
  moreover have "m_lvs (meta (w_sys (w\<lparr>w_sys := t\<rparr>))) (volume_key i) = Some sz"
    using keepsD [OF api.get_pv_frame t] m1 sz by simp
  ultimately show ?thesis using expand_ok [OF _ id] by blast
qed

lemma ensure_volume_intact:
  assumes "ensure_volume ns rec pv v w = (r, w')" "newIdFromString v = Inr i"
    and "m_lvs (meta (w_sys w)) (volume_key i) \<noteq> None"
    and "\<And>s t. meta s = meta (w_sys w) \<Longrightarrow>
      mgr_IsLogicalVolumeCorrupted (NewClientManager c) (vid_VolumeGroup i) (vid_LogicalVolume i) s \<noteq> (Inr True, t)"
  shows "meta (w_sys w') = meta (w_sys w)"
  using assms
  by (auto simp: ensure_volume_def ns_volume LVM_node_def NodeEnsureVolume_def volume_key_def
      simp del: NewClientManager_simps
      elim!: callE dest!: drv.EnsureVolume_intact split: option.splits sum.splits)

lemma NodeStageVolume_intact:
  assumes "NodeStageVolume ns req w = (r, w')" "newIdFromString (nst_VolumeId req) = Inr i"
    and "m_lvs (meta (w_sys w)) (volume_key i) \<noteq> None"
    and "\<And>s t. meta s = meta (w_sys w) \<Longrightarrow>
      mgr_IsLogicalVolumeCorrupted (NewClientManager c) (vid_VolumeGroup i) (vid_LogicalVolume i) s \<noteq> (Inr True, t)"
  shows "meta (w_sys w') = meta (w_sys w)"
proof -
  have mount: "meta (w_sys y) = meta (w_sys x)" if "on_sys (mount_staging ns req cap) x = (q, y)" for x q y cap
    using that by (auto dest: keepsD [OF mount_staging_frame])
  have ensure: "meta (w_sys y) = meta (w_sys w)"
    if "ensure_volume ns rec pv (nst_VolumeId req) x = (q, y)" "meta (w_sys x) = meta (w_sys w)" for rec pv x q y
    using ensure_volume_intact [OF that(1) assms(2)] assms(3,4) that(2) by (simp del: NewClientManager_simps)
  have stage: "meta (w_sys y) = meta (w_sys w)"
    if "stage ns req cap pv x = (q, y)" "meta (w_sys x) = meta (w_sys w)" for cap pv x q y
    using that unfolding stage_def
    by (auto elim!: callE dest!: keepsD [OF mark_selected_frame] ensure mount)
  show ?thesis
    using assms(1) unfolding NodeStageVolume_def ns_client
    by (auto elim!: callE dest!: keepsD [OF api.get_pv_frame] stage split: if_splits option.splits sum.splits)
qed

lemma expand_lvs:
  assumes "expand ns req pv w = (r, w')"
  shows "m_lvs (meta (w_sys w')) = m_lvs (meta (w_sys w)) \<or>
    (\<exists>i sz sz'. newIdFromString (ne_VolumeId req) = Inr i \<and> m_lvs (meta (w_sys w)) (volume_key i) = Some sz \<and>
      sz \<le> sz' \<and> m_lvs (meta (w_sys w')) = (m_lvs (meta (w_sys w)))(volume_key i \<mapsto> sz'))"
proof -
  obtain a v where run: "CoreController.NodeExpandVolume qs l (claim_recorder ns pv) req w = (a, v)"
    and m: "meta (w_sys w') = meta (w_sys v)"
    using assms by (auto simp: expand_def ns_volume LVM_node_def elim!: callE dest!: keepsD [OF persist_frame])
  show ?thesis
  proof (cases "\<exists>i sz. newIdFromString (ne_VolumeId req) = Inr i \<and> m_lvs (meta (w_sys w)) (volume_key i) = Some sz")
    case True
    then obtain i sz where i: "newIdFromString (ne_VolumeId req) = Inr i" "m_lvs (meta (w_sys w)) (volume_key i) = Some sz"
      by blast
    from drv.NodeExpandVolume_effect [OF run i(1)] i(2) obtain sz' where "sz \<le> sz'"
      "m_lvs (meta (w_sys v)) = (m_lvs (meta (w_sys w)))(volume_key i \<mapsto> sz')"
      by (auto simp: volume_key_def fun_eq_iff)
    with i m show ?thesis by auto
  next
    case False
    then have "meta (w_sys v) = meta (w_sys w)"
      by (intro drv.NodeExpandVolume_absent [OF run]) (auto simp: volume_key_def)
    with m show ?thesis by simp
  qed
qed

lemma NodeExpandVolume_lvs:
  assumes "NodeExpandVolume ns req w = (r, w')"
  shows "m_lvs (meta (w_sys w')) = m_lvs (meta (w_sys w)) \<or>
    (\<exists>i sz sz'. newIdFromString (ne_VolumeId req) = Inr i \<and> m_lvs (meta (w_sys w)) (volume_key i) = Some sz \<and>
      sz \<le> sz' \<and> m_lvs (meta (w_sys w')) = (m_lvs (meta (w_sys w)))(volume_key i \<mapsto> sz'))"
proof -
  define outcome where "outcome \<longleftrightarrow> ?thesis"
  have same: "outcome" if "meta (w_sys w') = meta (w_sys w)" using that by (simp add: outcome_def)
  have exp: "outcome" if "expand ns req pv u = (r, w')" "meta (w_sys u) = meta (w_sys w)" for pv u
    using expand_lvs [OF that(1)] that(2) by (simp add: outcome_def)
  have "outcome"
    using assms unfolding NodeExpandVolume_def ns_client
    by (auto simp: same elim!: callE dest!: keepsD [OF stat_frame] keepsD [OF api.get_pv_frame]
        split: if_splits sum.splits dest!: exp)
  then show ?thesis by (simp add: outcome_def)
qed

end

lemma getCapacityAndLimit_expanded:
  assumes "annotations ExpandedCapacityParam = Some (show_int n)" "pq (show_int n) = Inr n"
    and "getCapacityAndLimit pq attrs annotations = Inr (cap, lim)"
  shows "n \<le> cap"
proof -
  have "n \<le> expanded_capacity pq annotations c" for c
    using assms(1,2) by (simp add: expanded_capacity_def)
  with assms(3) show ?thesis
    by (auto simp: getCapacityAndLimit_def Let_def split: option.splits if_splits sum.splits)
qed

section \<open>A reference server\<close>

definition ref_node_host :: "cluster node_host" where
  "ref_node_host =
     \<lparr>nh_Stat = (\<lambda>p s. if ref_exists p s then ok () s else fail (sentinel_err OsErrNotExist) s),
      nh_ParseQuantity = (\<lambda>t. case parse_decimal t of None \<Rightarrow> Inl (errors_New ''unable to parse quantity's suffix'')
         | Some n \<Rightarrow> Inr n),
      nh_GetMetrics = (\<lambda>p. fail (errors_New ''no metrics'')), nh_show_caps = (\<lambda>cs. [])\<rparr>"

definition ref_node_server :: "cluster node_server" where
  "ref_node_server =
     node_New (LVM_node (\<lambda>n. show_int n) ref_driver) ''node-1'' SelectedNodeAnnotation SelectedInitialNodeParam
       DriverName GetNodeDriverCapabilities (NewMounter ref_mount_host) ref_k8s True NoopRecorder ref_node_host"

interpretation ref_ns: csi_node ref_client meta_of ref_driver "NewEphemeralDiskFilter [] [] []" ref_k8s
  "NewMounter ref_mount_host" ref_node_server "\<lambda>n. show_int n"
  by unfold_locales
    (simp_all add: ref_node_server_def node_New_def ref_node_host_def ref_read_keeps keeps_fail)

section \<open>Properties\<close>

text \<open>C7. Staging provisions: if \<open>NodeStageVolume\<close> succeeds for a persistent volume that it finds and
  whose selected node needs no update, and that carries volume attributes, then these determine a
  capacity, and the logical volume exists on this node with at least that capacity, be it newly
  created or already there; whatever it returns, it changes no other logical volume.\<close>

theorem NodeStageVolume_provisions:
  assumes "csi_node c meta l flt k m ns qs"
    and "newIdFromString (nst_VolumeId req) = Inr i"
    and "k8s_GetPV k (vid_LogicalVolume i) (w_sys w) = (Inr pv, s)"
    and "pv_CSI pv = Some csi" "csi_VolumeAttributes csi = Some attrs"
    and "\<not> ns_removePvNodeAffinity ns \<or> select_this_node ns pv = None"
  shows "case NodeStageVolume ns req w of (r, w') \<Rightarrow>
    (r = Inr () \<longrightarrow> (\<exists>cap lim n.
       getCapacityAndLimit (nh_ParseQuantity (ns_host ns)) attrs (pv_Annotations pv) = Inr (cap, lim) \<and>
       m_lvs (meta (w_sys w')) (volume_key i) = Some n \<and> cap \<le> n)) \<and>
    (\<forall>key. key \<noteq> volume_key i \<longrightarrow> m_lvs (meta (w_sys w')) key = m_lvs (meta (w_sys w)) key)"
proof -
  obtain r w' where run: "NodeStageVolume ns req w = (r, w')" by fastforce
  have "\<exists>cap lim n. getCapacityAndLimit (nh_ParseQuantity (ns_host ns)) attrs (pv_Annotations pv) = Inr (cap, lim) \<and>
      m_lvs (meta (w_sys w')) (volume_key i) = Some n \<and> cap \<le> n" if ok: "r = Inr ()"
  proof -
    obtain cap where st: "stage ns req cap pv (w\<lparr>w_sys := s\<rparr>) = (Inr (), w')"
      by (rule csi_node.NodeStageVolume_found [OF assms(1) run [unfolded ok] assms(2,3)])
    from csi_node.stage_ok [OF assms(1) st] obtain pv' u where
      pv': "mark_selected_node ns pv (w\<lparr>w_sys := s\<rparr>) = (Inr pv', u)"
        "\<And>csi attrs. pv_CSI pv' = Some csi \<Longrightarrow> csi_VolumeAttributes csi = Some attrs \<Longrightarrow>
          \<exists>i c lim n. newIdFromString (nst_VolumeId req) = Inr i \<and>
            getCapacityAndLimit (nh_ParseQuantity (ns_host ns)) attrs (pv_Annotations pv') = Inr (c, lim) \<and>
            m_lvs (meta (w_sys w')) (volume_key i) = Some n \<and> c \<le> n"
      by blast
    have "pv' = pv" using pv'(1) assms(6) by (auto simp: mark_selected_node_def split: if_splits)
    with pv'(2) assms(2,4,5) show ?thesis by auto
  qed
  moreover have "m_lvs (meta (w_sys w')) key = m_lvs (meta (w_sys w)) key" if "key \<noteq> volume_key i" for key
    by (rule csi_node.NodeStageVolume_lvs [OF assms(1) run]) (use that assms(2) in simp)
  ultimately show ?thesis by (simp add: run)
qed

definition ref_staged :: "cluster world" where
  "ref_staged = ref_cluster\<lparr>w_sys := (w_sys ref_cluster)\<lparr>cl_pvs := [(''pvc-1'', ref_pv ''pvc-1'' ''node-1'')]\<rparr>\<rparr>"

lemma ref_staged_simps [simp]:
  "ref_get cl_pvs ''pvc-1'' (w_sys ref_staged) = (Inr (ref_pv ''pvc-1'' ''node-1''), w_sys ref_staged)"
  "n_lvs (w_sys ref_staged) =
     [((''containerstorage'', ''pvc-1''), 4194304), ((''containerstorage'', ''pvc-2''), 8388608)]"
  by (simp_all add: ref_staged_def ref_get_def)

lemma ref_pv_csi:
  "pv_CSI (ref_pv name node) = Some \<lparr>csi_Driver = DriverName, csi_VolumeHandle = ''containerstorage#'' @ name,
     csi_VolumeAttributes = Some [CapacityParam \<mapsto> ''4194304'']\<rparr>"
  by (simp add: ref_pv_def)

lemma ref_selects_node: "select_this_node ref_node_server (ref_pv ''pvc-1'' ''node-1'') = None"
  by (simp add: select_this_node_def ref_pv_def ref_node_server_def node_New_def Let_def EqualFold_def)

theorem NodeStageVolume_provisions_witness:
  "case NodeStageVolume ref_node_server \<lparr>nst_VolumeId = ''containerstorage#pvc-1'', nst_StagingTargetPath = ''/staging'',
      nst_VolumeCapability = Some \<lparr>vc_AccessType = BlockAccess, vc_AccessMode = Some SINGLE_NODE_WRITER\<rparr>\<rparr> ref_staged of
    (r, w') \<Rightarrow> m_lvs (meta_of (w_sys w')) (''containerstorage'', ''pvc-2'') = Some 8388608"
  using NodeStageVolume_provisions [OF ref_ns.csi_node_axioms, where w = ref_staged
      and req = "\<lparr>nst_VolumeId = ''containerstorage#pvc-1'', nst_StagingTargetPath = ''/staging'',
        nst_VolumeCapability = Some \<lparr>vc_AccessType = BlockAccess, vc_AccessMode = Some SINGLE_NODE_WRITER\<rparr>\<rparr>"
      and i = "\<lparr>vid_VolumeGroup = ''containerstorage'', vid_LogicalVolume = ''pvc-1''\<rparr>"
      and pv = "ref_pv ''pvc-1'' ''node-1''" and s = "w_sys ref_staged", OF _ _ ref_pv_csi]
  by (auto simp: ref_ids ref_selects_node volume_key_def split: prod.splits)

text \<open>C19. An expansion survives a failover: when \<open>NodeExpandVolume\<close> reports a capacity for a persistent
  volume that it found, the logical volume has exactly that size, at least its old one, and the last
  thing it did was to store an annotation on the persistent volume with which
  every later staging, on whatever node, asks for at least that size.\<close>

theorem NodeExpandVolume_recorded:
  assumes "csi_node c meta l flt k m ns qs"
    and "newIdFromString (ne_VolumeId req) = Inr i"
    and "nh_Stat (ns_host ns) (ne_VolumePath req) (w_sys w) = (Inr (), s)"
    and "k8s_GetPV k (vid_LogicalVolume i) s = (Inr pv, t)" "pv_Name pv \<noteq> []"
    and "m_lvs (meta (w_sys w)) (volume_key i) = Some sz"
    and "\<And>n. nh_ParseQuantity (ns_host ns) (show_int n) = Inr n"
  shows "case NodeExpandVolume ns req w of (r, w') \<Rightarrow>
    \<forall>resp. r = Inr resp \<longrightarrow>
      m_lvs (meta (w_sys w')) (volume_key i) = Some (ne_CapacityBytes resp) \<and> sz \<le> ne_CapacityBytes resp \<and>
      (\<exists>ann s stored. k8s_PatchPV k (pv\<lparr>pv_Annotations := ann\<rparr>) pv s = (Inr stored, w_sys w') \<and>
         (\<forall>attrs cap lim. getCapacityAndLimit (nh_ParseQuantity (ns_host ns)) attrs ann = Inr (cap, lim) \<longrightarrow>
            ne_CapacityBytes resp \<le> cap))"
proof -
  obtain r w' where run: "NodeExpandVolume ns req w = (r, w')" by fastforce
  show ?thesis
    unfolding run prod.case
  proof (intro allI impI)
    fix resp assume r: "r = Inr resp"
    let ?ann = "(pv_Annotations pv)(ExpandedCapacityParam \<mapsto> show_int (ne_CapacityBytes resp))"
    have "ne_CapacityBytes resp \<le> cap"
      if "getCapacityAndLimit (nh_ParseQuantity (ns_host ns)) attrs ?ann = Inr (cap, lim)" for attrs cap lim
      by (rule getCapacityAndLimit_expanded [OF _ assms(7) that]) simp
    with csi_node.NodeExpandVolume_ok [OF assms(1) run [unfolded r] assms(2,3,4,6)] assms(5)
    show "m_lvs (meta (w_sys w')) (volume_key i) = Some (ne_CapacityBytes resp) \<and> sz \<le> ne_CapacityBytes resp \<and>
      (\<exists>ann s stored. k8s_PatchPV k (pv\<lparr>pv_Annotations := ann\<rparr>) pv s = (Inr stored, w_sys w') \<and>
         (\<forall>attrs cap lim. getCapacityAndLimit (nh_ParseQuantity (ns_host ns)) attrs ann = Inr (cap, lim) \<longrightarrow>
            ne_CapacityBytes resp \<le> cap))" by blast
  qed
qed

theorem NodeExpandVolume_recorded_witness:
  "case NodeExpandVolume ref_node_server \<lparr>ne_VolumeId = ''containerstorage#pvc-1'', ne_VolumePath = ''/staging'',
      ne_CapacityRange = Some \<lparr>cr_RequiredBytes = 8388608, cr_LimitBytes = 0\<rparr>, ne_VolumeCapability = None\<rparr> ref_staged of
    (r, w') \<Rightarrow> \<forall>resp. r = Inr resp \<longrightarrow> 4194304 \<le> ne_CapacityBytes resp"
  using NodeExpandVolume_recorded [OF ref_ns.csi_node_axioms, where w = ref_staged and s = "w_sys ref_staged"
      and t = "w_sys ref_staged" and pv = "ref_pv ''pvc-1'' ''node-1''" and sz = 4194304
      and i = "\<lparr>vid_VolumeGroup = ''containerstorage'', vid_LogicalVolume = ''pvc-1''\<rparr>"
      and req = "\<lparr>ne_VolumeId = ''containerstorage#pvc-1'', ne_VolumePath = ''/staging'',
        ne_CapacityRange = Some \<lparr>cr_RequiredBytes = 8388608, cr_LimitBytes = 0\<rparr>, ne_VolumeCapability = None\<rparr>"]
  by (auto simp: ref_ids volume_key_def ref_node_server_def node_New_def ref_node_host_def ref_exists_def
      ref_staged_def ref_cluster_def ref_get_def ref_pv_def meta_of_def split: prod.splits)

text \<open>C25. \<open>NodePublishVolume\<close> changes no LVM metadata, and when it succeeds, the request has a capability
  and either its target already was a mount point, for a mounted volume, or the last thing done was
  a bind mount onto the target, read-only exactly if that was asked for: of the device of the volume
  for a block volume, of the staging path otherwise.\<close>

theorem NodePublishVolume_binds:
  assumes "csi_node c meta l flt k m ns qs"
  shows "case NodePublishVolume ns req s of (r, t) \<Rightarrow>
    meta t = meta s \<and>
    (r = Inr () \<longrightarrow> (\<exists>cap. npb_VolumeCapability req = Some cap \<and>
       (GetMount cap \<noteq> None \<and> mnt_IsLikelyNotMountPoint m (npb_TargetPath req) s = (Inr False, t) \<or>
        (\<exists>src u. mnt_Mount m src (npb_TargetPath req) [] (''bind'' # (if npb_Readonly req then [''ro''] else [])) u = (Inr (), t) \<and>
           (if GetBlock cap \<noteq> None then GetNodeDevicePath (npb_VolumeId req) = Inr src
            else src = npb_StagingTargetPath req)))))"
proof -
  obtain r t where run: "NodePublishVolume ns req s = (r, t)" by fastforce
  have "meta t = meta s"
    using run by (rule keepsD [OF csi_node.NodePublishVolume_frame [OF assms]])
  moreover have bind: "\<exists>u. mnt_Mount m src (npb_TargetPath req) [] (''bind'' # (if npb_Readonly req then [''ro''] else [])) u = (Inr (), t)"
    if "bind_mount ns req src v = (Inr (), t)" for src v
    using that by (auto simp: bind_mount_def csi_node.ns_mounter [OF assms] elim!: callE split: if_splits)
  have mnt: "mnt_IsLikelyNotMountPoint m p s = (Inr False, v)" if "EnsureMount ns p s = (Inr True, v)" for p v
    using that by (auto simp: EnsureMount_def csi_node.ns_mounter [OF assms] elim!: callE split: if_splits)
  ultimately show ?thesis
    using run
    by (auto simp: NodePublishVolume_def csi_node.ns_volume [OF assms] LVM_node_def GetBlock_def GetMount_def
        elim!: callE dest!: bind mnt split: if_splits option.splits access_type.splits sum.splits; blast)
qed

theorem NodePublishVolume_binds_witness:
  "case NodePublishVolume ref_node_server \<lparr>npb_VolumeId = ''containerstorage#pvc-1'', npb_StagingTargetPath = ''/staging'',
      npb_TargetPath = ''/target'', npb_VolumeCapability = None, npb_Readonly = False\<rparr> (w_sys ref_staged) of
    (r, t) \<Rightarrow> r \<noteq> Inr () \<and> meta_of t = meta_of (w_sys ref_staged)"
  using NodePublishVolume_binds [OF ref_ns.csi_node_axioms, where s = "w_sys ref_staged"
      and req = "\<lparr>npb_VolumeId = ''containerstorage#pvc-1'', npb_StagingTargetPath = ''/staging'',
        npb_TargetPath = ''/target'', npb_VolumeCapability = None, npb_Readonly = False\<rparr>"]
  by (auto split: prod.splits)

end
