(* ===== verification/Service.thy ===== *)
theory Service
  imports CsiController CsiNode
begin

text \<open>
  The gRPC servers around the CSI services: the endpoint they listen on (\<open>internal/csi/server/endpoint.go\<close>),
  the identity service (\<open>internal/csi/identity/identity.go\<close>), the driver object that holds the services
  (\<open>internal/csi/driver.go\<close>), the three servers (\<open>combined.go\<close>, \<open>controller.go\<close> and \<open>node.go\<close> of
  \<open>internal/csi/server\<close>), and the loading of kernel modules (\<open>internal/pkg/raid/raid.go\<close>).

  Listening and serving are parameters; telemetry and the logging of requests are left out.
\<close>

section \<open>Endpoints\<close>

text \<open>\<open>strings.SplitN\<close> into at most two parts, with a separator that is not empty.\<close>

fun SplitN2 :: "string \<Rightarrow> string \<Rightarrow> string list" where
  "SplitN2 [] sep = [[]]"
| "SplitN2 (c # cs) sep =
     (if HasPrefix (c # cs) sep then [[], drop (length sep) (c # cs)]
      else (case SplitN2 cs sep of [] \<Rightarrow> [[c]] | x # xs \<Rightarrow> (c # x) # xs))"

text \<open>An endpoint that starts with a protocol contains the separator, so the split has two parts.\<close>

definition parseEndpoint :: "string \<Rightarrow> goerr + string \<times> string" where
  "parseEndpoint ep =
     (let invalid_endpoint = Inl (errors_New (''invalid endpoint: '' @ ep)) in
      if HasPrefix (ToLower ep) ''unix://'' \<or> HasPrefix (ToLower ep) ''tcp://'' then
        (case SplitN2 ep ''://'' of
           s0 # s1 # _ \<Rightarrow> if s1 \<noteq> [] then Inr (s0, s1) else invalid_endpoint
         | _ \<Rightarrow> invalid_endpoint)
      else invalid_endpoint)"

definition prepareEndpoint :: "(string \<Rightarrow> ('s, goerr, unit) op) \<Rightarrow> string \<Rightarrow> string \<Rightarrow> ('s, goerr, unit) op" where
  "prepareEndpoint remove proto addr =
     (if proto = ''unix'' then
        let addr = ''/'' @ addr in
        call (remove addr)
          (\<lambda>err. if \<not> errors_Is err OsErrNotExist
                 then fail (errorf (''failed to remove '' @ addr @ '': '' @ err_msg err) [err]) else ok ())
          ok
      else ok ())"

section \<open>The identity service\<close>

record identity_server =
  is_name :: string
  is_version :: string

definition identity_New :: "string \<Rightarrow> string \<Rightarrow> identity_server" where
  "identity_New name version = \<lparr>is_name = name, is_version = version\<rparr>"

record GetPluginInfoResponse =
  gpi_Name :: string
  gpi_VendorVersion :: string

datatype plugin_service = CONTROLLER_SERVICE | VOLUME_ACCESSIBILITY_CONSTRAINTS
datatype expansion_type = ONLINE
datatype PluginCapability = PluginService plugin_service | PluginVolumeExpansion expansion_type

definition GetPluginInfo :: "identity_server \<Rightarrow> ('s, rpc_error, GetPluginInfoResponse) op" where
  "GetPluginInfo ids = ok \<lparr>gpi_Name = is_name ids, gpi_VendorVersion = is_version ids\<rparr>"

definition identity_Probe :: "identity_server \<Rightarrow> ('s, rpc_error, unit) op" where
  "identity_Probe ids = ok ()"

definition GetPluginCapabilities :: "identity_server \<Rightarrow> ('s, rpc_error, PluginCapability list) op" where
  "GetPluginCapabilities ids =
     ok [PluginService CONTROLLER_SERVICE, PluginService VOLUME_ACCESSIBILITY_CONSTRAINTS, PluginVolumeExpansion ONLINE]"

section \<open>The driver object\<close>

definition Version :: string where "Version = ''0.0.1''"

definition csiDriver :: CSIDriver where
  "csiDriver =
     \<lparr>cd_Name = DriverName, cd_AttachRequired = False, cd_PodInfoOnMount = True, cd_StorageCapacity = True,
      cd_FSGroupPolicy = ''File'', cd_VolumeLifecycleModes = [''Persistent'', ''Ephemeral'']\<rparr>"

text \<open>The interface \<open>core.Interface\<close>.\<close>

record 's core_interface =
  ci_controller :: "'s controller_volume"
  ci_node :: "'s node_volume"
  ci_GetControllerDriverCapabilities :: "ControllerServiceCapability list"
  ci_GetNodeAccessModes :: "access_mode list"
  ci_GetNodeDriverCapabilities :: "NodeServiceCapability list"
  ci_GetDriverName :: string
  ci_GetCSIDriver :: CSIDriver

definition LVM_interface :: "(int \<Rightarrow> string) \<Rightarrow> nat \<Rightarrow> goerr \<Rightarrow> 's LVM \<Rightarrow> 's core_interface" where
  "LVM_interface quantity_String ticks ctxErr l =
     \<lparr>ci_controller = LVM_controller l ticks ctxErr, ci_node = LVM_node quantity_String l,
      ci_GetControllerDriverCapabilities = GetControllerDriverCapabilities,
      ci_GetNodeAccessModes = GetNodeAccessModes, ci_GetNodeDriverCapabilities = GetNodeDriverCapabilities,
      ci_GetDriverName = DriverName, ci_GetCSIDriver = csiDriver\<rparr>"

text \<open>A service that the driver does not run is nil.\<close>

record 's driver =
  d_is :: identity_server
  d_cs :: "'s controller_server option"
  d_ns :: "'s node_server option"
  d_client :: "'s k8s"
  d_volume :: "'s core_interface"
  d_recorder :: event_recorder

definition driver_NewCombined ::
  "'s mount_host \<Rightarrow> 's node_host \<Rightarrow> string \<Rightarrow> string option \<Rightarrow> 's core_interface \<Rightarrow> 's k8s \<Rightarrow> bool \<Rightarrow> event_recorder \<Rightarrow> 's driver" where
  "driver_NewCombined h nh nodeID selfPod volumeClient client removePvNodeAffinity recorder =
     \<lparr>d_is = identity_New (ci_GetDriverName volumeClient) Version,
      d_cs = Some (controller_New (ci_controller volumeClient) (ci_GetControllerDriverCapabilities volumeClient)
        (ci_GetNodeAccessModes volumeClient) (NewMounter h) client nodeID selfPod SelectedNodeAnnotation
        SelectedInitialNodeParam removePvNodeAffinity recorder),
      d_ns = Some (node_New (ci_node volumeClient) nodeID SelectedNodeAnnotation SelectedInitialNodeParam
        (ci_GetDriverName volumeClient) (ci_GetNodeDriverCapabilities volumeClient) (NewMounter h) client
        removePvNodeAffinity recorder nh),
      d_client = client, d_volume = volumeClient, d_recorder = recorder\<rparr>"

definition driver_NewController ::
  "'s mount_host \<Rightarrow> 's core_interface \<Rightarrow> 's k8s \<Rightarrow> bool \<Rightarrow> event_recorder \<Rightarrow> 's driver" where
  "driver_NewController h volumeClient client removePvNodeAffinity recorder =
     \<lparr>d_is = identity_New (ci_GetDriverName volumeClient) Version,
      d_cs = Some (controller_New (ci_controller volumeClient) (ci_GetControllerDriverCapabilities volumeClient)
        (ci_GetNodeAccessModes volumeClient) (NewMounter h) client [] None SelectedNodeAnnotation
        SelectedInitialNodeParam removePvNodeAffinity NoopRecorder),
      d_ns = None, d_client = client, d_volume = volumeClient, d_recorder = recorder\<rparr>"

definition driver_NewNode ::
  "'s mount_host \<Rightarrow> 's node_host \<Rightarrow> string \<Rightarrow> 's core_interface \<Rightarrow> 's k8s \<Rightarrow> bool \<Rightarrow> event_recorder \<Rightarrow> 's driver" where
  "driver_NewNode h nh nodeID volumeClient client removePvNodeAffinity recorder =
     \<lparr>d_is = identity_New (ci_GetDriverName volumeClient) Version, d_cs = None,
      d_ns = Some (node_New (ci_node volumeClient) nodeID SelectedNodeAnnotation SelectedInitialNodeParam
        (ci_GetDriverName volumeClient) (ci_GetNodeDriverCapabilities volumeClient) (NewMounter h) client
        removePvNodeAffinity recorder nh),
      d_client = client, d_volume = volumeClient, d_recorder = recorder\<rparr>"

text \<open>\<open>show\<close> prints the object that the error text includes.\<close>

definition Register :: "(CSIDriver \<Rightarrow> string) \<Rightarrow> 's driver \<Rightarrow> ('s, goerr, unit) op" where
  "Register show d =
     (let obj = ci_GetCSIDriver (d_volume d) in
      call (k8s_GetCSIDriver (d_client d) (cd_Name obj))
        (\<lambda>err. if \<not> is_not_found err
               then fail (errorf (''failed to get CSIDriver '' @ show obj @ '': '' @ err_msg err) [err])
               else k8s_CreateCSIDriver (d_client d) obj)
        (\<lambda>_. ok ()))"

section \<open>Servers\<close>

datatype 's service =
    IdentityService identity_server
  | ControllerService "'s controller_server option"
  | NodeService "'s node_server option"

text \<open>\<open>net_Serve\<close> serves the registered services on the listener until the context ends.\<close>

record 's net =
  net_Listen :: "string \<Rightarrow> string \<Rightarrow> ('s, goerr, unit) op"
  net_Serve :: "'s service list \<Rightarrow> ('s, goerr, unit) op"

record 's csi_server =
  srv_proto :: string
  srv_addr :: string
  srv_driver :: "'s driver"

definition new_server ::
  "(string \<Rightarrow> ('s, goerr, unit) op) \<Rightarrow> string \<Rightarrow> 's driver \<Rightarrow> ('s, goerr, 's csi_server) op" where
  "new_server remove endpoint driver =
     (case parseEndpoint endpoint of
        Inl err \<Rightarrow> fail err
      | Inr (proto, addr) \<Rightarrow>
          call (prepareEndpoint remove proto addr) fail
            (\<lambda>_. ok \<lparr>srv_proto = proto, srv_addr = addr, srv_driver = driver\<rparr>))"

definition NewCombined ::
  "(string \<Rightarrow> ('s, goerr, unit) op) \<Rightarrow> string \<Rightarrow> 's driver \<Rightarrow> ('s, goerr, 's csi_server) op" where
  "NewCombined = new_server"

definition NewControllerServer ::
  "(string \<Rightarrow> ('s, goerr, unit) op) \<Rightarrow> string \<Rightarrow> 's driver \<Rightarrow> ('s, goerr, 's csi_server) op" where
  "NewControllerServer = new_server"

definition NewNodeServer ::
  "(string \<Rightarrow> ('s, goerr, unit) op) \<Rightarrow> string \<Rightarrow> 's driver \<Rightarrow> ('s, goerr, 's csi_server) op" where
  "NewNodeServer = new_server"

definition listen_error :: "'s csi_server \<Rightarrow> goerr \<Rightarrow> goerr" where
  "listen_error s err =
     errorf (''failed to create listener on '' @ srv_proto s @ ''://'' @ srv_addr s @ '': '' @ err_msg err) [err]"

definition register_error :: "goerr \<Rightarrow> goerr" where
  "register_error err = errorf (''failed to register driver: '' @ err_msg err) [err]"

definition CombinedServer_Start ::
  "'s net \<Rightarrow> (CSIDriver \<Rightarrow> string) \<Rightarrow> 's csi_server \<Rightarrow> ('s, goerr, unit) op" where
  "CombinedServer_Start n show s =
     call (net_Listen n (srv_proto s) (srv_addr s)) (\<lambda>err. fail (listen_error s err))
       (\<lambda>_. call (Register show (srv_driver s)) (\<lambda>err. fail (register_error err))
          (\<lambda>_. net_Serve n [IdentityService (d_is (srv_driver s)), ControllerService (d_cs (srv_driver s)),
             NodeService (d_ns (srv_driver s))]))"

definition ControllerServer_Start ::
  "'s net \<Rightarrow> (CSIDriver \<Rightarrow> string) \<Rightarrow> 's csi_server \<Rightarrow> ('s, goerr, unit) op" where
  "ControllerServer_Start n show s =
     call (net_Listen n (srv_proto s) (srv_addr s)) (\<lambda>err. fail (listen_error s err))
       (\<lambda>_. call (Register show (srv_driver s)) (\<lambda>err. fail (register_error err))
          (\<lambda>_. net_Serve n [IdentityService (d_is (srv_driver s)), ControllerService (d_cs (srv_driver s))]))"

definition NodeServer_Start :: "'s net \<Rightarrow> 's csi_server \<Rightarrow> ('s, goerr, unit) op" where
  "NodeServer_Start n s =
     call (net_Listen n (srv_proto s) (srv_addr s)) (\<lambda>err. fail (listen_error s err))
       (\<lambda>_. net_Serve n [IdentityService (d_is (srv_driver s)), NodeService (d_ns (srv_driver s))])"

definition getLogLevel :: "string \<Rightarrow> int" where
  "getLogLevel method =
     (if method \<in> {''/csi.v1.Identity/Probe'', ''/csi.v1.Identity/GetPluginInfo'',
         ''/csi.v1.Identity/GetPluginCapabilities'', ''/csi.v1.Node/NodeGetInfo'',
         ''/csi.v1.Node/NodeGetCapabilities'', ''/csi.v1.Node/NodeGetVolumeStats'',
         ''/csi.v1.Controller/ControllerGetCapabilities'', ''/csi.v1.Controller/ListVolumes'',
         ''/csi.v1.Controller/GetCapacity''}
      then 4 else 2)"

section \<open>Kernel modules\<close>

definition modules :: "string list" where "modules = [''dm-raid'', ''raid0'']"

fun load_modules :: "'s host \<Rightarrow> string list \<Rightarrow> ('s, goerr, unit) op" where
  "load_modules h [] = ok ()"
| "load_modules h (m # ms) =
     (\<lambda>s. case h_CombinedOutput h ''sh''
          [''-c'', ''nsenter --target 1 --mount --uts --ipc --net --pid modprobe '' @ m] s of
        ((output, Some err), s') \<Rightarrow>
          fail (errors_New (''failed to load module '' @ [CHR 0x27] @ m @ [CHR 0x27] @ '': '' @ err_msg (ex_Err err) @
            '', output: '' @ output)) s'
      | ((output, None), s') \<Rightarrow> load_modules h ms s')"

definition raid_Initialize :: "'s host \<Rightarrow> ('s, goerr, unit) op" where
  "raid_Initialize h = load_modules h modules"

section \<open>Lemmas\<close>

lemma SplitN2_at: "CHR '':'' \<notin> set p \<Longrightarrow> SplitN2 (p @ ''://'' @ a) ''://'' = [p, a]"
  by (induction p) auto

lemma of_lower_char:
  "(of_char (lower_char c) :: nat) = (if 65 \<le> (of_char c :: nat) \<and> (of_char c :: nat) \<le> 90 then of_char c + 32 else of_char c)"
  by (auto simp: lower_char_def Let_def)

lemma lower_char_fixed:
  assumes "(of_char d :: nat) < 65"
  shows "lower_char c = d \<longleftrightarrow> c = d"
proof
  assume "lower_char c = d"
  with of_lower_char [of c] assms have "(of_char c :: nat) = of_char d" by (auto split: if_splits)
  then show "c = d" by simp
next
  assume "c = d"
  with of_lower_char [of c] assms have "(of_char (lower_char c) :: nat) = of_char d" by auto
  then show "lower_char c = d" by simp
qed

lemma lower_separator: "ToLower s = ''://'' \<longleftrightarrow> s = ''://''"
  by (auto simp: ToLower_def lower_char_fixed map_eq_Cons_conv)

lemma map_append_split: "map f s = x @ y \<Longrightarrow> \<exists>u v. s = u @ v \<and> map f u = x \<and> map f v = y"
  by (auto simp: map_eq_append_conv)

lemma parseEndpoint_prefix:
  "HasPrefix (ToLower ep) (p @ ''://'') \<longleftrightarrow> (\<exists>q a. ep = q @ ''://'' @ a \<and> ToLower q = p)"
proof
  assume "HasPrefix (ToLower ep) (p @ ''://'')"
  then obtain t where "map lower_char ep = p @ ''://'' @ t" by (auto simp: HasPrefix_iff ToLower_def)
  from map_append_split [OF this] obtain q y where
    q: "ep = q @ y" "map lower_char q = p" "map lower_char y = ''://'' @ t" by (elim exE conjE)
  from map_append_split [OF q(3)] obtain x a where x: "y = x @ a" "map lower_char x = ''://''" by (elim exE conjE)
  have "x = ''://''" by (rule lower_separator [THEN iffD1]) (simp only: ToLower_def x(2))
  with q x(1) have "ep = q @ ''://'' @ a" "ToLower q = p" by (simp_all only: ToLower_def)
  then show "\<exists>q a. ep = q @ ''://'' @ a \<and> ToLower q = p" by (intro exI conjI)
next
  assume "\<exists>q a. ep = q @ ''://'' @ a \<and> ToLower q = p"
  then obtain q a where q: "ep = q @ ''://'' @ a" "ToLower q = p" by (elim exE conjE)
  have "ToLower ep = (p @ ToLower ''://'') @ ToLower a"
    unfolding q(1) q(2) [symmetric] by (simp only: ToLower_def map_append append_assoc)
  also have "ToLower ''://'' = ''://''" by (rule lower_separator [THEN iffD2]) (rule refl)
  finally show "HasPrefix (ToLower ep) (p @ ''://'')" by (simp only: HasPrefix_append)
qed

lemma no_colon: "CHR '':'' \<in> set q \<Longrightarrow> CHR '':'' \<in> set (ToLower q)"
proof -
  have "lower_char (CHR '':'') = CHR '':''" by (simp add: lower_char_fixed)
  then show "CHR '':'' \<in> set q \<Longrightarrow> CHR '':'' \<in> set (ToLower q)" by (force simp: ToLower_def)
qed

section \<open>Properties\<close>

text \<open>An endpoint is accepted exactly if it is a protocol, \<open>unix\<close> or \<open>tcp\<close> in any case, then \<open>://\<close>, then
  an address that is not empty; the protocol and the address are returned as they were written.\<close>

theorem parseEndpoint_accepts:
  "parseEndpoint ep = Inr (proto, addr) \<longleftrightarrow>
     ep = proto @ ''://'' @ addr \<and> addr \<noteq> [] \<and> (ToLower proto = ''unix'' \<or> ToLower proto = ''tcp'')"
proof -
  have split: "SplitN2 (q @ ''://'' @ a) ''://'' = [q, a]" if "ToLower q = ''unix'' \<or> ToLower q = ''tcp''" for q a
    using that no_colon [of q] by (intro SplitN2_at) auto
  have pre: "HasPrefix (ToLower ep) ''unix://'' \<or> HasPrefix (ToLower ep) ''tcp://'' \<longleftrightarrow>
      (\<exists>q a. ep = q @ ''://'' @ a \<and> (ToLower q = ''unix'' \<or> ToLower q = ''tcp''))"
    using parseEndpoint_prefix [of ep "''unix''"] parseEndpoint_prefix [of ep "''tcp''"] by auto
  show ?thesis
  proof (cases "\<exists>q a. ep = q @ ''://'' @ a \<and> (ToLower q = ''unix'' \<or> ToLower q = ''tcp'')")
    case False
    then have "parseEndpoint ep \<noteq> Inr (proto, addr)" unfolding parseEndpoint_def Let_def pre if_not_P [OF False] by simp
    moreover have "\<not> (ep = proto @ ''://'' @ addr \<and> (ToLower proto = ''unix'' \<or> ToLower proto = ''tcp''))"
      using False by (rule contrapos_nn) (intro exI)
    ultimately show ?thesis by satx
  next
    case True
    then obtain q a where q: "ep = q @ ''://'' @ a" "ToLower q = ''unix'' \<or> ToLower q = ''tcp''" by (elim exE conjE)
    have parsed: "parseEndpoint ep = (if a \<noteq> [] then Inr (q, a) else Inl (errors_New (''invalid endpoint: '' @ ep)))"
      unfolding parseEndpoint_def Let_def pre if_P [OF True] unfolding q(1) split [OF q(2)] by simp
    have same: "q = proto \<and> a = addr"
      if "ep = proto @ ''://'' @ addr" "ToLower proto = ''unix'' \<or> ToLower proto = ''tcp''"
    proof -
      have "[q, a] = SplitN2 ep ''://''" by (simp only: q(1) split [OF q(2)])
      also have "\<dots> = [proto, addr]" by (simp only: that(1) split [OF that(2)])
      finally show ?thesis by simp
    qed
    show ?thesis
    proof
      assume "parseEndpoint ep = Inr (proto, addr)"
      then have "a \<noteq> []" "q = proto" "a = addr" unfolding parsed by (simp_all split: if_splits)
      with q show "ep = proto @ ''://'' @ addr \<and> addr \<noteq> [] \<and> (ToLower proto = ''unix'' \<or> ToLower proto = ''tcp'')" by simp
    next
      assume r: "ep = proto @ ''://'' @ addr \<and> addr \<noteq> [] \<and> (ToLower proto = ''unix'' \<or> ToLower proto = ''tcp'')"
      have "q = proto \<and> a = addr" by (rule same) (use r in simp_all)
      with r show "parseEndpoint ep = Inr (proto, addr)" unfolding parsed by simp
    qed
  qed
qed

end
