(* ===== verification/Gc.thy ===== *)
theory Gc
  imports ClusterReference
begin

text \<open>
  The two garbage collectors of logical volumes of \<open>internal/gc\<close>: the reconciler that reacts to a
  persistent volume that moved to another node (\<open>failover_pv_cleanup.go\<close>), the periodic scan for
  volumes without a persistent volume (\<open>lvm_orphan_cleanup.go\<close>), the helpers of \<open>utils.go\<close>, and the
  adapter to the LVM manager (\<open>volume_manager_adapter.go\<close>).

  Logging is left out, except that the evaluation of the arguments of a log call can panic.
\<close>

section \<open>The volume manager of the collectors\<close>

record 's LVMVolumeManager =
  gcm_DeleteVolume :: "string \<Rightarrow> ('s, goerr, unit) op"
  gcm_GetVolumeName :: "string \<Rightarrow> goerr + string"
  gcm_GetNodeDevicePath :: "string \<Rightarrow> goerr + string"
  gcm_UnmountVolume :: "string \<Rightarrow> ('s, goerr, unit) op"
  gcm_ListLogicalVolumes :: "ListLVOptions option \<Rightarrow> ('s, goerr, LogicalVolume list) op"
  gcm_ListVolumeGroups :: "ListVGOptions option \<Rightarrow> ('s, goerr, VolumeGroup list) op"

definition adapter_DeleteVolume :: "'s manager \<Rightarrow> string \<Rightarrow> ('s, goerr, unit) op" where
  "adapter_DeleteVolume lvmManager volumeID =
     (case parseVolumeID volumeID of
        Inl err \<Rightarrow> fail (errorf (''failed to parse volume ID '' @ volumeID @ '': '' @ err_msg err) [err])
      | Inr (vgName, lvName) \<Rightarrow>
          let lvmVolumeID = vgName @ ''/'' @ lvName in
          call (mgr_RemoveLogicalVolume lvmManager (zero_RemoveLVOptions\<lparr>RemoveLV_Name := lvmVolumeID\<rparr>))
            (\<lambda>err. if IgnoreNotFound err = None then ok ()
                   else fail (errorf (''failed to remove logical volume '' @ lvmVolumeID @ '': '' @ err_msg err) [err]))
            ok)"

definition lvmVolumeManagerAdapter :: "'s manager \<Rightarrow> 's mounter \<Rightarrow> 's LVMVolumeManager" where
  "lvmVolumeManagerAdapter lvmManager mounter =
     \<lparr>gcm_DeleteVolume = adapter_DeleteVolume lvmManager, gcm_GetVolumeName = GetVolumeName,
      gcm_GetNodeDevicePath = GetNodeDevicePath, gcm_UnmountVolume = mnt_CleanupStagingDir mounter,
      gcm_ListLogicalVolumes = mgr_ListLogicalVolumes lvmManager,
      gcm_ListVolumeGroups = mgr_ListVolumeGroups lvmManager\<rparr>"

lemma adapter_simps [simp]:
  "gcm_DeleteVolume (lvmVolumeManagerAdapter mgr m) = adapter_DeleteVolume mgr"
  "gcm_GetNodeDevicePath (lvmVolumeManagerAdapter mgr m) = GetNodeDevicePath"
  "gcm_UnmountVolume (lvmVolumeManagerAdapter mgr m) = mnt_CleanupStagingDir m"
  "gcm_ListLogicalVolumes (lvmVolumeManagerAdapter mgr m) = mgr_ListLogicalVolumes mgr"
  "gcm_ListVolumeGroups (lvmVolumeManagerAdapter mgr m) = mgr_ListVolumeGroups mgr"
  by (simp_all add: lvmVolumeManagerAdapter_def)

section \<open>Node annotations\<close>

definition hasNodeAnnotationMismatch :: "PersistentVolume \<Rightarrow> string \<Rightarrow> string \<Rightarrow> string \<Rightarrow> bool" where
  "hasNodeAnnotationMismatch pv nodeID selectedNodeAnnotation selectedInitialNodeParam =
     (case pv_Annotations pv selectedNodeAnnotation of
        Some selectedNode \<Rightarrow> \<not> EqualFold selectedNode nodeID
      | None \<Rightarrow>
          (case volume_attribute pv selectedInitialNodeParam of
             None \<Rightarrow> False
           | Some initialNode \<Rightarrow> \<not> EqualFold initialNode nodeID))"

definition our_driver :: "PersistentVolume \<Rightarrow> bool" where
  "our_driver pv = (case pv_CSI pv of None \<Rightarrow> False | Some c \<Rightarrow> csi_Driver c = DriverName)"

section \<open>The failover reconciler\<close>

record 's PVFailoverReconciler =
  fr_Client :: "'s k8s"
  fr_recorder :: event_recorder
  fr_nodeID :: string
  fr_selectedNodeAnnotation :: string
  fr_selectedInitialNodeParam :: string
  fr_lvmManager :: "'s LVMVolumeManager"

definition NewPVFailoverReconciler ::
  "'s k8s \<Rightarrow> event_recorder \<Rightarrow> string \<Rightarrow> string \<Rightarrow> string \<Rightarrow> 's manager \<Rightarrow> 's mounter \<Rightarrow> 's PVFailoverReconciler" where
  "NewPVFailoverReconciler client recorder nodeID selectedNodeAnnotation selectedInitialNodeParam lvmManager mounter =
     \<lparr>fr_Client = client, fr_recorder = recorder, fr_nodeID = nodeID,
      fr_selectedNodeAnnotation = selectedNodeAnnotation, fr_selectedInitialNodeParam = selectedInitialNodeParam,
      fr_lvmManager = lvmVolumeManagerAdapter lvmManager mounter\<rparr>"

text \<open>How a reconciliation fails: with an error, after which it is tried again, or with a panic.\<close>

datatype failure = Failed goerr | Panicked

text \<open>\<open>recorder.Eventf\<close> regarding an object.\<close>

abbreviation recorder_eventf ::
  "event_recorder \<Rightarrow> object_ref \<Rightarrow> string \<Rightarrow> string \<Rightarrow> string \<Rightarrow> ('s world, 'e, 'a) op \<Rightarrow> ('s world, 'e, 'a) op" where
  "recorder_eventf recorder obj \<equiv> eventf (WithObject recorder (Some obj))"

definition failover_cleanup ::
  "'s PVFailoverReconciler \<Rightarrow> PersistentVolume \<Rightarrow> string \<Rightarrow> string \<Rightarrow> ('s world, failure, unit) op" where
  "failover_cleanup r pv volumeID devicePath =
     (let obj = PVObject (pv_Name pv);
          delete =
            call (on_sys (gcm_DeleteVolume (fr_lvmManager r) volumeID))
              (\<lambda>err. recorder_eventf (fr_recorder r) obj Warning ''CleanupFailed''
                  (''Failed to cleanup orphaned LVM volume '' @ volumeID @ '' from node '' @ fr_nodeID r @ '': '' @ err_msg err)
                  (fail (Failed err)))
              (\<lambda>_. recorder_eventf (fr_recorder r) obj Normal ''CleanedUpOrphanedVolume''
                  (''Successfully cleaned up orphaned LVM volume '' @ volumeID @ '' from node '' @ fr_nodeID r)
                  (ok ())) in
      recorder_eventf (fr_recorder r) obj Normal ''CleaningUpOrphanedVolume''
        (''Cleaning up LVM volume '' @ volumeID @ '' from node '' @ fr_nodeID r @ '' due to node annotation mismatch'')
        (call (on_sys (gcm_UnmountVolume (fr_lvmManager r) devicePath)) (\<lambda>_. delete) (\<lambda>_. delete)))"

definition failover_Reconcile :: "'s PVFailoverReconciler \<Rightarrow> string \<Rightarrow> ('s world, failure, unit) op" where
  "failover_Reconcile r name =
     call (on_sys (k8s_GetPV (fr_Client r) name))
       (\<lambda>err. if apierrors_IsNotFound err then ok () else fail (Failed err))
       (\<lambda>pv. case pv_CSI pv of
          None \<Rightarrow> fail Panicked
        | Some csi \<Rightarrow>
            if csi_Driver csi \<noteq> DriverName then ok ()
            else if pv_Phase pv \<noteq> ''Available'' \<and> pv_Phase pv \<noteq> ''Bound'' then ok ()
            else if pv_DeletionTimestamp pv \<noteq> None then ok ()
            else if hasNodeAnnotationMismatch pv (fr_nodeID r) (fr_selectedNodeAnnotation r) (fr_selectedInitialNodeParam r)
            then
              (case gcm_GetNodeDevicePath (fr_lvmManager r) (csi_VolumeHandle csi) of
                 Inl err \<Rightarrow> ok ()
               | Inr devicePath \<Rightarrow>
                   if devicePath = [] then ok ()
                   else failover_cleanup r pv (csi_VolumeHandle csi) devicePath)
            else ok ())"

text \<open>Which events lead to a reconciliation. An update without node annotation before reads the node
  from the attributes of the old volume, and \<open>None\<close> is the panic if that has no CSI source.\<close>

datatype pv_event =
    CreateEvent PersistentVolume
  | UpdateEvent PersistentVolume PersistentVolume
  | DeleteEvent PersistentVolume
  | GenericEvent PersistentVolume

definition update_predicate :: "'s PVFailoverReconciler \<Rightarrow> PersistentVolume \<Rightarrow> PersistentVolume \<Rightarrow> bool option" where
  "update_predicate r old pv =
     (if \<not> our_driver pv then Some False
      else case pv_Annotations pv (fr_selectedNodeAnnotation r) of
        None \<Rightarrow> Some False
      | Some newSelectedNode \<Rightarrow>
          let decide = (\<lambda>oldSelectedNode. Some (oldSelectedNode \<noteq> newSelectedNode \<and> oldSelectedNode = fr_nodeID r)) in
          (case pv_Annotations old (fr_selectedNodeAnnotation r) of
             Some oldSelectedNode \<Rightarrow> decide oldSelectedNode
           | None \<Rightarrow>
               if pv_CSI old = None then None
               else decide (case volume_attribute old (fr_selectedInitialNodeParam r) of None \<Rightarrow> [] | Some n \<Rightarrow> n)))"

fun driverPredicate :: "'s PVFailoverReconciler \<Rightarrow> pv_event \<Rightarrow> bool option" where
  "driverPredicate r (CreateEvent pv) = Some False"
| "driverPredicate r (UpdateEvent old pv) = update_predicate r old pv"
| "driverPredicate r (DeleteEvent pv) = Some False"
| "driverPredicate r (GenericEvent pv) = Some (our_driver pv)"

section \<open>The orphan scanner\<close>

record 's LVMOrphanScanner =
  os_Client :: "'s k8s"
  os_recorder :: event_recorder
  os_nodeID :: string
  os_lvmManager :: "'s LVMVolumeManager"
  os_selectedNodeAnnotation :: string
  os_selectedInitialNodeParam :: string
  os_reconcileInterval :: int

text \<open>Durations are in nanoseconds; the default interval is ten minutes.\<close>

definition NewLVMOrphanScanner ::
  "'s k8s \<Rightarrow> event_recorder \<Rightarrow> string \<Rightarrow> string \<Rightarrow> string \<Rightarrow> 's manager \<Rightarrow> 's mounter \<Rightarrow> int \<Rightarrow> 's LVMOrphanScanner" where
  "NewLVMOrphanScanner client recorder nodeID selectedNodeAnnotation selectedInitialNodeParam lvmManager mounter interval =
     \<lparr>os_Client = client, os_recorder = recorder, os_nodeID = nodeID,
      os_lvmManager = lvmVolumeManagerAdapter lvmManager mounter,
      os_selectedNodeAnnotation = selectedNodeAnnotation, os_selectedInitialNodeParam = selectedInitialNodeParam,
      os_reconcileInterval = (if interval = 0 then 600000000000 else interval)\<rparr>"

text \<open>The verdict on a volume, given the persistent volumes with its handle: the first one of this
  driver decides.\<close>

fun judge :: "'s LVMOrphanScanner \<Rightarrow> PersistentVolume list \<Rightarrow> bool \<times> string" where
  "judge r [] = (True, ''no corresponding PV found'')"
| "judge r (pv # pvs) =
     (if \<not> our_driver pv then judge r pvs
      else if hasNodeAnnotationMismatch pv (os_nodeID r) (os_selectedNodeAnnotation r) (os_selectedInitialNodeParam r)
      then (True, ''node annotation mismatch'')
      else (False, []))"

definition shouldCleanupVolume :: "'s LVMOrphanScanner \<Rightarrow> string \<Rightarrow> ('s, goerr, bool \<times> string) op" where
  "shouldCleanupVolume r volumeID =
     call (k8s_ListPVsByHandle (os_Client r) volumeID)
       (\<lambda>err. fail (errorf (''failed to list PersistentVolumes: '' @ err_msg err) [err]))
       (\<lambda>items. if items = [] then ok (True, ''no PV with matching volume handle found'') else ok (judge r items))"

definition scan_id :: "string \<Rightarrow> string \<Rightarrow> string" where
  "scan_id vgName lvName = vgName @ ''#'' @ lvName"

fun scan_lvs :: "'s LVMOrphanScanner \<Rightarrow> string \<Rightarrow> LogicalVolume list \<Rightarrow> string list \<Rightarrow> ('s, failure, string list) op" where
  "scan_lvs r vgName [] orphanedVolumes = ok orphanedVolumes"
| "scan_lvs r vgName (lv # lvs) orphanedVolumes =
     call (shouldCleanupVolume r (scan_id vgName (LV_Name lv)))
       (\<lambda>_. scan_lvs r vgName lvs orphanedVolumes)
       (\<lambda>(shouldCleanup, reason). scan_lvs r vgName lvs
          (if shouldCleanup then orphanedVolumes @ [scan_id vgName (LV_Name lv)] else orphanedVolumes))"

fun scan_vgs :: "'s LVMOrphanScanner \<Rightarrow> string list \<Rightarrow> string list \<Rightarrow> ('s, failure, string list) op" where
  "scan_vgs r [] orphanedVolumes = ok orphanedVolumes"
| "scan_vgs r (vgName # vgs) orphanedVolumes =
     call (gcm_ListLogicalVolumes (os_lvmManager r) (Some (zero_ListLVOptions\<lparr>ListLV_Select := ''vg_name='' @ vgName\<rparr>)))
       (\<lambda>_. scan_vgs r vgs orphanedVolumes)
       (\<lambda>lvs. call (scan_lvs r vgName lvs orphanedVolumes) fail (scan_vgs r vgs))"

definition deleteOrphanedVolume :: "'s LVMOrphanScanner \<Rightarrow> string \<Rightarrow> ('s world, goerr, unit) op" where
  "deleteOrphanedVolume r volumeID =
     (let obj = NodeObject (os_nodeID r);
          delete =
            call (on_sys (gcm_DeleteVolume (os_lvmManager r) volumeID))
              (\<lambda>err. if IgnoreNotFound err = None then ok ()
                else
                  recorder_eventf (os_recorder r) obj Warning ''OrphanCleanupFailed''
                    (''Failed to cleanup orphaned LVM logical volume '' @ volumeID @ '' on node '' @ os_nodeID r @ '': '' @ err_msg err)
                    (fail (errorf (''failed to remove logical volume '' @ volumeID @ '': '' @ err_msg err) [err])))
              (\<lambda>_. recorder_eventf (os_recorder r) obj Normal ''CleanedUpOrphanedLV''
                (''Successfully cleaned up orphaned LVM logical volume '' @ volumeID @ '' on node '' @ os_nodeID r)
                (ok ())) in
      recorder_eventf (os_recorder r) obj Normal ''CleaningUpOrphanedLV''
        (''Cleaning up orphaned LVM logical volume '' @ volumeID @ '' on node '' @ os_nodeID r @ '' (no corresponding PV found)'')
        (case gcm_GetNodeDevicePath (os_lvmManager r) volumeID of
           Inl err \<Rightarrow> delete
         | Inr devicePath \<Rightarrow>
             if devicePath \<noteq> []
             then call (on_sys (gcm_UnmountVolume (os_lvmManager r) devicePath)) (\<lambda>_. delete) (\<lambda>_. delete)
             else delete))"

fun cleanupOrphanedVolumes ::
  "'s LVMOrphanScanner \<Rightarrow> string list \<Rightarrow> int \<Rightarrow> int \<Rightarrow> ('s world, failure, int \<times> int) op" where
  "cleanupOrphanedVolumes r [] cleaned failed = ok (cleaned, failed)"
| "cleanupOrphanedVolumes r (volumeID # volumeIDs) cleaned failed =
     call (deleteOrphanedVolume r volumeID)
       (\<lambda>_. cleanupOrphanedVolumes r volumeIDs cleaned (failed + 1))
       (\<lambda>_. cleanupOrphanedVolumes r volumeIDs (cleaned + 1) failed)"

text \<open>A scan gives the time after which the next one is due.\<close>

definition orphan_Reconcile :: "'s LVMOrphanScanner \<Rightarrow> ('s world, failure, int) op" where
  "orphan_Reconcile r =
     call (on_sys (gcm_ListVolumeGroups (os_lvmManager r) (Some tagged_groups)))
       (\<lambda>err. fail (Failed err))
       (\<lambda>vgs. call (on_sys (scan_vgs r (if vgs = [] then [DefaultVolumeGroup] else map VG_Name vgs) [])) fail
         (\<lambda>orphanedVolumes.
            if orphanedVolumes \<noteq> [] then
              call (cleanupOrphanedVolumes r orphanedVolumes 0 0) fail (\<lambda>_. ok (os_reconcileInterval r))
            else ok (os_reconcileInterval r)))"

text \<open>The scans of a run: one at the start and one at each tick, until the context ends.\<close>

fun scan_ticks :: "'s LVMOrphanScanner \<Rightarrow> nat \<Rightarrow> ('s world, failure, unit) op" where
  "scan_ticks r 0 = ok ()"
| "scan_ticks r (Suc n) = call (orphan_Reconcile r) (\<lambda>_. scan_ticks r n) (\<lambda>_. scan_ticks r n)"

definition orphan_Start :: "'s LVMOrphanScanner \<Rightarrow> nat \<Rightarrow> ('s world, failure, unit) op" where
  "orphan_Start r ticks = scan_ticks r (Suc ticks)"

text \<open>The keys of the field index of persistent volumes by handle.\<close>

definition index_volume_handle :: "PersistentVolume \<Rightarrow> string list" where
  "index_volume_handle pv =
     (case pv_CSI pv of None \<Rightarrow> [] | Some c \<Rightarrow> if csi_Driver c = DriverName then [csi_VolumeHandle c] else [])"

section \<open>The composition\<close>

locale collector =
  node_driver c meta l flt +
  api: api_frame k meta +
  mnt: mounter_frame m meta
  for c :: "'s client" and meta :: "'s \<Rightarrow> lvm_meta" and l :: "'s LVM" and flt :: filter_predicate
    and k :: "'s k8s" and m :: "'s mounter"
begin

lemma adapter_Delete:
  assumes "adapter_DeleteVolume (NewClientManager c) v s = (r, t)"
  shows "case r of Inl e \<Rightarrow> \<not> errors_Is e LvmErrNotFound \<and> meta t = meta s
      | Inr _ \<Rightarrow> (\<exists>i. newIdFromString v = Inr i \<and> m_lvs (meta t) = (m_lvs (meta s))(volume_key i := None))"
proof (cases "newIdFromString v")
  case (Inl e)
  then show ?thesis using assms by (auto simp: adapter_DeleteVolume_def parseVolumeID_eq newIdFromString_no_sentinel)
next
  case (Inr i)
  from assms Inr have "call (mgr_RemoveLogicalVolume (NewClientManager c) (zero_RemoveLVOptions\<lparr>RemoveLV_Name := slash_name i\<rparr>))
      (\<lambda>err. if IgnoreNotFound err = None then ok ()
         else fail (errorf (''failed to remove logical volume '' @ slash_name i @ '': '' @ err_msg err) [err])) ok s = (r, t)"
    unfolding adapter_DeleteVolume_def parseVolumeID_eq slash_name_def Let_def by simp
  then show ?thesis
  proof (cases rule: callE)
    case (error e u)
    then show ?thesis
      using client.remove_lv [OF error(1), of "vid_VolumeGroup i" "vid_LogicalVolume i"] Inr
      by (auto simp: slash_name_def volume_key_def fun_upd_idem split: if_splits)
  next
    case (result a u)
    then show ?thesis
      using client.remove_lv [OF result(1), of "vid_VolumeGroup i" "vid_LogicalVolume i"] Inr
      by (auto simp: slash_name_def volume_key_def)
  qed
qed

text \<open>An operation that removes the volume \<open>v\<close> if it succeeds and changes nothing otherwise.\<close>

definition removes :: "string \<Rightarrow> ('s world, 'e, 'a) op \<Rightarrow> bool" where
  "removes v d \<longleftrightarrow> (\<forall>w res w'. d w = (res, w') \<longrightarrow>
     (case res of Inl _ \<Rightarrow> meta (w_sys w') = meta (w_sys w)
      | Inr _ \<Rightarrow> (\<exists>i. newIdFromString v = Inr i \<and>
          m_lvs (meta (w_sys w')) = (m_lvs (meta (w_sys w)))(volume_key i := None))))"

lemma removesI:
  "(\<And>w e w'. d w = (Inl e, w') \<Longrightarrow> meta (w_sys w') = meta (w_sys w)) \<Longrightarrow>
   (\<And>w a w'. d w = (Inr a, w') \<Longrightarrow> \<exists>i. newIdFromString v = Inr i \<and>
      m_lvs (meta (w_sys w')) = (m_lvs (meta (w_sys w)))(volume_key i := None)) \<Longrightarrow> removes v d"
  unfolding removes_def by (auto split: sum.splits)

lemma removesD:
  "removes v d \<Longrightarrow> d w = (Inl e, w') \<Longrightarrow> meta (w_sys w') = meta (w_sys w)"
  "removes v d \<Longrightarrow> d w = (Inr a, w') \<Longrightarrow> \<exists>i. newIdFromString v = Inr i \<and>
      m_lvs (meta (w_sys w')) = (m_lvs (meta (w_sys w)))(volume_key i := None)"
  unfolding removes_def by force+

lemma removes_eventf: "removes v d \<Longrightarrow> removes v (eventf rec ty reason note d)"
  by (rule removesI) (auto dest: removesD)

lemma removes_call:
  assumes "keeps (\<lambda>w. meta (w_sys w)) p" "\<And>e. removes v (h e)" "\<And>a. removes v (g a)"
  shows "removes v (call p h g)"
proof (rule removesI)
  fix w e w'
  assume "call p h g w = (Inl e, w')"
  then show "meta (w_sys w') = meta (w_sys w)"
    by (cases rule: callE) (simp_all add: keepsD [OF assms(1)] removesD(1) [OF assms(2)] removesD(1) [OF assms(3)])
next
  fix w a w'
  assume "call p h g w = (Inr a, w')"
  then show "\<exists>i. newIdFromString v = Inr i \<and>
      m_lvs (meta (w_sys w')) = (m_lvs (meta (w_sys w)))(volume_key i := None)"
  proof (cases rule: callE)
    case (error x u)
    then show ?thesis using removesD(2) [OF assms(2) error(2)] keepsD [OF assms(1) error(1)] by simp
  next
    case (result x u)
    then show ?thesis using removesD(2) [OF assms(3) result(2)] keepsD [OF assms(1) result(1)] by simp
  qed
qed

lemma removes_delete:
  assumes h: "\<And>e w r w'. \<not> errors_Is e LvmErrNotFound \<Longrightarrow> h e w = (r, w') \<Longrightarrow> isl r \<and> w_sys w' = w_sys w"
    and g: "\<And>w r w'. g () w = (r, w') \<Longrightarrow> \<not> isl r \<and> w_sys w' = w_sys w"
  shows "removes v (call (on_sys (adapter_DeleteVolume (NewClientManager c) v)) h g)"
  unfolding removes_def
proof (intro allI impI)
  fix w res w'
  assume "call (on_sys (adapter_DeleteVolume (NewClientManager c) v)) h g w = (res, w')"
  then show "case res of Inl _ \<Rightarrow> meta (w_sys w') = meta (w_sys w)
    | Inr _ \<Rightarrow> \<exists>i. newIdFromString v = Inr i \<and>
        m_lvs (meta (w_sys w')) = (m_lvs (meta (w_sys w)))(volume_key i := None)"
  proof (cases rule: callE)
    case (error e u)
    then obtain s' where "adapter_DeleteVolume (NewClientManager c) v (w_sys w) = (Inl e, s')" "u = w\<lparr>w_sys := s'\<rparr>"
      by auto
    with adapter_Delete h [OF _ error(2)] show ?thesis by (cases res) fastforce+
  next
    case (result a u)
    then obtain s' where s': "adapter_DeleteVolume (NewClientManager c) v (w_sys w) = (Inr a, s')" "u = w\<lparr>w_sys := s'\<rparr>"
      by auto
    have "\<not> isl res \<and> w_sys w' = w_sys u" using g result(2) by simp
    with adapter_Delete [OF s'(1)] s'(2) show ?thesis by (cases res) auto
  qed
qed

lemma unmount_meta: "keeps (\<lambda>w. meta (w_sys w)) (on_sys (mnt_CleanupStagingDir m p))"
  by (intro keeps_on_sys mnt.cleanup_staging_frame)

text \<open>Collectors that work on this node.\<close>

definition scans :: "'s LVMOrphanScanner \<Rightarrow> bool" where
  "scans r \<longleftrightarrow> os_lvmManager r = lvmVolumeManagerAdapter (NewClientManager c) m \<and> os_Client r = k"

lemma deleteOrphanedVolume_removes: "scans r \<Longrightarrow> removes v (deleteOrphanedVolume r v)"
  unfolding deleteOrphanedVolume_def Let_def scans_def
  by (auto intro!: removes_eventf removes_call removes_delete unmount_meta split: sum.splits if_splits)

lemma failover_cleanup_removes:
  "fr_lvmManager r = lvmVolumeManagerAdapter (NewClientManager c) m \<Longrightarrow> removes v (failover_cleanup r pv v d)"
  unfolding failover_cleanup_def Let_def
  by (auto intro!: removes_eventf removes_call removes_delete unmount_meta split: sum.splits)

lemma cleanup_effect:
  "scans r \<Longrightarrow> cleanupOrphanedVolumes r vs a b w = (res, w') \<Longrightarrow>
    \<exists>ca fa. res = Inr (ca, fa) \<and> ca + fa = a + b + int (length vs) \<and> b \<le> fa \<and>
      m_lvs (meta (w_sys w')) \<subseteq>\<^sub>m m_lvs (meta (w_sys w)) \<and>
      (\<forall>key. (\<forall>v \<in> set vs. \<forall>i. newIdFromString v = Inr i \<longrightarrow> key \<noteq> volume_key i) \<longrightarrow>
         m_lvs (meta (w_sys w')) key = m_lvs (meta (w_sys w)) key) \<and>
      (fa = b \<longrightarrow> (\<forall>v \<in> set vs. \<exists>i. newIdFromString v = Inr i \<and> m_lvs (meta (w_sys w')) (volume_key i) = None))"
proof (induction vs arbitrary: a b w)
  case Nil
  then show ?case by auto
next
  case (Cons v vs)
  note rm = deleteOrphanedVolume_removes [OF Cons.prems(1), of v]
  from Cons.prems(2) show ?case
    unfolding cleanupOrphanedVolumes.simps
  proof (cases rule: callE)
    case (error e u)
    with removesD(1) [OF rm error(1)] Cons.IH [OF Cons.prems(1) error(2)] show ?thesis by auto
  next
    case (result x u)
    from removesD(2) [OF rm result(1)] obtain i where i: "newIdFromString v = Inr i"
      "m_lvs (meta (w_sys u)) = (m_lvs (meta (w_sys w)))(volume_key i := None)" by blast
    from Cons.IH [OF Cons.prems(1) result(2)] obtain ca fa where
      ih: "res = Inr (ca, fa)" "ca + fa = (a + 1) + b + int (length vs)" "b \<le> fa"
        "m_lvs (meta (w_sys w')) \<subseteq>\<^sub>m m_lvs (meta (w_sys u))"
        "\<And>key. \<forall>v \<in> set vs. \<forall>i. newIdFromString v = Inr i \<longrightarrow> key \<noteq> volume_key i \<Longrightarrow>
           m_lvs (meta (w_sys w')) key = m_lvs (meta (w_sys u)) key"
        "fa = b \<Longrightarrow> \<forall>v \<in> set vs. \<exists>i. newIdFromString v = Inr i \<and> m_lvs (meta (w_sys w')) (volume_key i) = None"
      by blast
    have sub: "m_lvs (meta (w_sys w')) \<subseteq>\<^sub>m m_lvs (meta (w_sys w))"
      using ih(4) unfolding i(2) by (rule map_le_trans) (rule upd_None_map_le)
    have gone: "m_lvs (meta (w_sys w')) (volume_key i) = None"
      using ih(4) i(2) unfolding map_le_def by (metis domIff fun_upd_same)
    show ?thesis
    proof (intro exI conjI)
      show "res = Inr (ca, fa)" by (rule ih(1))
      show "\<forall>key. (\<forall>v' \<in> set (v # vs). \<forall>i. newIdFromString v' = Inr i \<longrightarrow> key \<noteq> volume_key i) \<longrightarrow>
         m_lvs (meta (w_sys w')) key = m_lvs (meta (w_sys w)) key"
        using ih(5) i by simp
      show "fa = b \<longrightarrow> (\<forall>v' \<in> set (v # vs). \<exists>i. newIdFromString v' = Inr i \<and>
         m_lvs (meta (w_sys w')) (volume_key i) = None)"
        using ih(6) i(1) gone by auto
    qed (use ih sub in simp_all)
  qed
qed

text \<open>What a scan collects was judged to be an orphan on an answer of the API server.\<close>

definition answered_orphan :: "'s LVMOrphanScanner \<Rightarrow> string \<Rightarrow> bool" where
  "answered_orphan r v \<longleftrightarrow> (\<exists>s pvs t. k8s_ListPVsByHandle k v s = (Inr pvs, t) \<and> fst (judge r pvs))"

lemma shouldCleanup_frame:
  assumes "scans r"
  shows "keeps meta (shouldCleanupVolume r v)"
proof -
  have k: "os_Client r = k" using assms by (simp add: scans_def)
  show ?thesis unfolding shouldCleanupVolume_def k by (intro frame_intros api.api_frames)
qed

lemma shouldCleanup_orphan:
  assumes "scans r" "shouldCleanupVolume r v s = (Inr (True, reason), t)"
  shows "answered_orphan r v"
proof (cases "k8s_ListPVsByHandle k v s")
  case (Pair res u)
  with assms obtain pvs where "res = Inr pvs" "fst (judge r pvs)"
    by (cases res) (simp_all add: shouldCleanupVolume_def scans_def call_def split: if_splits)
  with Pair show ?thesis by (auto simp: answered_orphan_def)
qed

lemma scan_lvs_sound:
  "scans r \<Longrightarrow> scan_lvs r vg lvs acc s = (Inr out, t) \<Longrightarrow> v \<in> set out \<Longrightarrow> v \<in> set acc \<or> answered_orphan r v"
proof (induction lvs arbitrary: acc s)
  case (Cons lv lvs)
  from Cons.prems(2) show ?case
    unfolding scan_lvs.simps
  proof (cases rule: callE)
    case (error e u)
    then show ?thesis using Cons.IH [OF Cons.prems(1) error(2) Cons.prems(3)] by simp
  next
    case (result x u)
    then show ?thesis
      using Cons.IH [OF Cons.prems(1) _ Cons.prems(3)] shouldCleanup_orphan [OF Cons.prems(1)]
      by (cases x) (fastforce split: if_splits)
  qed
qed simp

lemma scan_lvs_frame: "scans r \<Longrightarrow> keeps meta (scan_lvs r vg lvs acc)"
proof (induction lvs arbitrary: acc)
  case (Cons lv lvs)
  then show ?case
    unfolding scan_lvs.simps by (intro keeps_call keeps_prod shouldCleanup_frame) auto
qed (unfold scan_lvs.simps, rule keeps_ok)

lemma scan_vgs_frame: "scans r \<Longrightarrow> keeps meta (scan_vgs r vgs acc)"
proof (induction vgs arbitrary: acc)
  case (Cons vg vgs)
  have "keeps meta (gcm_ListLogicalVolumes (os_lvmManager r) opts)" for opts
    using Cons.prems client.list_lvs by (simp add: scans_def keepsI del: NewClientManager_simps)
  with Cons show ?case
    unfolding scan_vgs.simps by (intro keeps_call keeps_fail scan_lvs_frame) auto
qed (unfold scan_vgs.simps, rule keeps_ok)

lemma scan_vgs_sound:
  "scans r \<Longrightarrow> scan_vgs r vgs acc s = (Inr out, t) \<Longrightarrow> v \<in> set out \<Longrightarrow> v \<in> set acc \<or> answered_orphan r v"
proof (induction vgs arbitrary: acc s)
  case (Cons vg vgs)
  from Cons.prems(2) show ?case
    unfolding scan_vgs.simps
  proof (cases rule: callE)
    case (error e u)
    then show ?thesis using Cons.IH [OF Cons.prems(1) error(2) Cons.prems(3)] by simp
  next
    case (result x u)
    from result(2) obtain o1 u1 where "scan_lvs r vg x acc u = (Inr o1, u1)" "scan_vgs r vgs o1 u1 = (Inr out, t)"
      by (auto elim!: callE)
    then show ?thesis
      using Cons.IH [OF Cons.prems(1) _ Cons.prems(3)] scan_lvs_sound [OF Cons.prems(1)] by blast
  qed
qed simp

lemma orphan_Reconcile_cases:
  assumes "scans r" "orphan_Reconcile r w = (res, w')"
  obtains (idle) "meta (w_sys w') = meta (w_sys w)"
  | (sweep) vs x q where "meta (w_sys x) = meta (w_sys w)" "\<And>v. v \<in> set vs \<Longrightarrow> answered_orphan r v"
      "cleanupOrphanedVolumes r vs 0 0 x = (q, w')"
proof -
  have keep: "keeps meta (gcm_ListVolumeGroups (os_lvmManager r) opts)" for opts
    using assms(1) client.list_vgs by (simp add: scans_def keepsI del: NewClientManager_simps)
  note list = keepsD [OF keeps_on_sys [OF keep]]
  note scan = keepsD [OF keeps_on_sys [OF scan_vgs_frame [OF assms(1)]]]
  from assms(2) show thesis
    unfolding orphan_Reconcile_def
  proof (cases rule: callE)
    case (error e u)
    then show thesis using list [OF error(1)] by (intro idle) simp
  next
    case (result vgs u)
    from result(2) show thesis
    proof (cases rule: callE)
      case (error e x)
      then show thesis using list [OF result(1)] scan [OF error(1)] by (intro idle) simp
    next
      case collected: (result vs x)
      have x: "meta (w_sys x) = meta (w_sys w)" using list [OF result(1)] scan [OF collected(1)] by simp
      show thesis
      proof (cases "vs = []")
        case True
        then show thesis using collected(2) x by (intro idle) simp
      next
        case False
        with collected(2) obtain q where "cleanupOrphanedVolumes r vs 0 0 x = (q, w')" by (auto elim!: callE)
        moreover have "answered_orphan r v" if "v \<in> set vs" for v
          using collected(1) scan_vgs_sound [OF assms(1)] that by fastforce
        ultimately show thesis using x by (intro sweep)
      qed
    qed
  qed
qed

lemma orphan_Reconcile_lvs:
  assumes "scans r" "orphan_Reconcile r w = (res, w')"
    and "\<And>v i. answered_orphan r v \<Longrightarrow> newIdFromString v = Inr i \<Longrightarrow> key \<noteq> volume_key i"
  shows "m_lvs (meta (w_sys w')) key = m_lvs (meta (w_sys w)) key"
  using assms(1,2)
proof (cases rule: orphan_Reconcile_cases)
  case (sweep vs x q)
  with cleanup_effect [OF assms(1) sweep(3)] assms(3) show ?thesis by metis
qed simp

lemma orphan_Reconcile_sub:
  assumes "scans r" "orphan_Reconcile r w = (res, w')"
  shows "m_lvs (meta (w_sys w')) \<subseteq>\<^sub>m m_lvs (meta (w_sys w))"
  using assms
proof (cases rule: orphan_Reconcile_cases)
  case (sweep vs x q)
  with cleanup_effect [OF assms(1) sweep(3)] show ?thesis by auto
qed simp

lemma orphan_Start_lvs:
  assumes "scans r"
    and "\<And>v i. answered_orphan r v \<Longrightarrow> newIdFromString v = Inr i \<Longrightarrow> key \<noteq> volume_key i"
  shows "m_lvs (meta (w_sys (snd (orphan_Start r n w)))) key = m_lvs (meta (w_sys w)) key"
proof -
  have "m_lvs (meta (w_sys w')) key = m_lvs (meta (w_sys w)) key" if "scan_ticks r n w = (res, w')" for n w res w'
    using that
  proof (induction n arbitrary: w)
    case (Suc n)
    from Suc.prems show ?case
      unfolding scan_ticks.simps
    proof (cases rule: callE)
      case (error e u)
      have "m_lvs (meta (w_sys u)) key = m_lvs (meta (w_sys w)) key"
        by (rule orphan_Reconcile_lvs [OF assms(1) error(1) assms(2)])
      with Suc.IH [OF error(2)] show ?thesis by simp
    next
      case (result a u)
      have "m_lvs (meta (w_sys u)) key = m_lvs (meta (w_sys w)) key"
        by (rule orphan_Reconcile_lvs [OF assms(1) result(1) assms(2)])
      with Suc.IH [OF result(2)] show ?thesis by simp
    qed
  qed simp
  then show ?thesis unfolding orphan_Start_def by (metis prod.collapse)
qed

lemma failover_Reconcile_effect:
  assumes "fr_lvmManager r = lvmVolumeManagerAdapter (NewClientManager c) m" "fr_Client r = k"
    and "failover_Reconcile r name w = (res, w')"
  shows "meta (w_sys w') = meta (w_sys w) \<or>
    (\<exists>pv csi i s. k8s_GetPV k name (w_sys w) = (Inr pv, s) \<and> pv_CSI pv = Some csi \<and> csi_Driver csi = DriverName \<and>
      pv_Phase pv \<in> {''Available'', ''Bound''} \<and> pv_DeletionTimestamp pv = None \<and>
      hasNodeAnnotationMismatch pv (fr_nodeID r) (fr_selectedNodeAnnotation r) (fr_selectedInitialNodeParam r) \<and>
      newIdFromString (csi_VolumeHandle csi) = Inr i \<and> res = Inr () \<and>
      m_lvs (meta (w_sys w')) = (m_lvs (meta (w_sys w)))(volume_key i := None))"
  using assms(3) unfolding failover_Reconcile_def assms(2)
proof (cases rule: callE)
  case (error e u)
  then show ?thesis by (auto dest: keepsD [OF api.get_pv_frame] split: if_splits)
next
  case (result pv u)
  then obtain s where s: "k8s_GetPV k name (w_sys w) = (Inr pv, s)" "u = w\<lparr>w_sys := s\<rparr>" by auto
  have m: "meta (w_sys u) = meta (w_sys w)" using keepsD [OF api.get_pv_frame s(1)] s(2) by simp
  show ?thesis
  proof (cases "\<exists>csi d. pv_CSI pv = Some csi \<and> csi_Driver csi = DriverName \<and>
      pv_Phase pv \<in> {''Available'', ''Bound''} \<and> pv_DeletionTimestamp pv = None \<and>
      hasNodeAnnotationMismatch pv (fr_nodeID r) (fr_selectedNodeAnnotation r) (fr_selectedInitialNodeParam r) \<and>
      failover_cleanup r pv (csi_VolumeHandle csi) d u = (res, w')")
    case False
    then have "w' = u"
      using result(2) by (auto simp: Let_def split: option.splits if_splits sum.splits)
    with m show ?thesis by simp
  next
    case True
    then obtain csi d where csi: "pv_CSI pv = Some csi" "csi_Driver csi = DriverName"
      "pv_Phase pv \<in> {''Available'', ''Bound''}" "pv_DeletionTimestamp pv = None"
      "hasNodeAnnotationMismatch pv (fr_nodeID r) (fr_selectedNodeAnnotation r) (fr_selectedInitialNodeParam r)"
      and run: "failover_cleanup r pv (csi_VolumeHandle csi) d u = (res, w')" by blast
    note rm = removesD [OF failover_cleanup_removes [OF assms(1)]]
    show ?thesis
    proof (cases res)
      case (Inl e)
      then show ?thesis using rm(1) [OF run [unfolded Inl]] m by simp
    next
      case (Inr a)
      from rm(2) [OF run [unfolded Inr]] m obtain i where i: "newIdFromString (csi_VolumeHandle csi) = Inr i"
        "m_lvs (meta (w_sys w')) = (m_lvs (meta (w_sys w)))(volume_key i := None)" by auto
      have "res = Inr ()" using Inr by simp
      with csi s(1) i show ?thesis by blast
    qed
  qed
qed

end

lemma judge_spares:
  "\<not> fst (judge r pvs) \<longleftrightarrow> (\<exists>pv rest. filter our_driver pvs = pv # rest \<and>
     \<not> hasNodeAnnotationMismatch pv (os_nodeID r) (os_selectedNodeAnnotation r) (os_selectedInitialNodeParam r))"
  by (induction pvs) auto

interpretation ref_gc: collector ref_client meta_of ref_driver "NewEphemeralDiskFilter [] [] []" ref_k8s
  "NewMounter ref_mount_host"
  by unfold_locales

section \<open>Properties\<close>

text \<open>C8. The orphan scanner spares the volumes in use on its node: if the API server, whenever it is
  asked for the persistent volumes with the handle of a logical volume, answers with a list in which the
  first one of this driver is placed on this node, then no number of scans
  removes or changes that logical volume.\<close>

theorem orphan_scans_spare:
  assumes "collector c meta l flt k m"
    and "os_lvmManager r = lvmVolumeManagerAdapter (NewClientManager c) m" "os_Client r = k"
    and "newIdFromString v = Inr i"
    and "\<And>s pvs t. k8s_ListPVsByHandle k v s = (Inr pvs, t) \<Longrightarrow>
      \<exists>pv rest. filter our_driver pvs = pv # rest \<and>
        \<not> hasNodeAnnotationMismatch pv (os_nodeID r) (os_selectedNodeAnnotation r) (os_selectedInitialNodeParam r)"
  shows "m_lvs (meta (w_sys (snd (orphan_Start r ticks w)))) (volume_key i) = m_lvs (meta (w_sys w)) (volume_key i)"
proof (rule collector.orphan_Start_lvs [OF assms(1)])
  show "collector.scans c k m r" using assms(2,3) by (simp add: collector.scans_def [OF assms(1)])
  fix v' j
  assume "collector.answered_orphan k r v'" "newIdFromString v' = Inr j"
  then obtain s pvs t where "k8s_ListPVsByHandle k v' s = (Inr pvs, t)" "fst (judge r pvs)"
    by (auto simp: collector.answered_orphan_def [OF assms(1)])
  with assms(5) [of s pvs t] judge_spares [of r pvs] have "v' \<noteq> v" by blast
  with \<open>newIdFromString v' = Inr j\<close> assms(4) show "volume_key i \<noteq> volume_key j"
    by (auto simp: newIdFromString_Inr_iff volume_key_def volumeId_String_def)
qed

definition ref_steady_k8s :: "cluster k8s" where
  "ref_steady_k8s = ref_k8s\<lparr>k8s_ListPVsByHandle := (\<lambda>h. ok [ref_pv ''pvc-1'' ''node-1''])\<rparr>"

definition ref_scanner :: "cluster LVMOrphanScanner" where
  "ref_scanner = NewLVMOrphanScanner ref_steady_k8s NoopRecorder ''node-1'' SelectedNodeAnnotation
     SelectedInitialNodeParam (NewClientManager ref_client) (NewMounter ref_mount_host) 0"

lemma ref_steady: "collector ref_client meta_of ref_driver (NewEphemeralDiskFilter [] [] []) ref_steady_k8s (NewMounter ref_mount_host)"
proof -
  have "api_frame ref_steady_k8s meta_of"
    using ref_api.api_frame_axioms by (simp add: api_frame_def ref_steady_k8s_def keeps_ok)
  then show ?thesis
    using ref_gc.collector_axioms by (simp add: collector_def)
qed

lemma ref_pv_here:
  "\<exists>pv rest. filter our_driver [ref_pv ''pvc-1'' ''node-1''] = pv # rest \<and>
     \<not> hasNodeAnnotationMismatch pv ''node-1'' SelectedNodeAnnotation SelectedInitialNodeParam"
  by (simp add: our_driver_def hasNodeAnnotationMismatch_def ref_pv_def EqualFold_def)

theorem orphan_scans_spare_witness:
  "m_lvs (meta_of (w_sys (snd (orphan_Start ref_scanner 1000 ref_cluster)))) (''containerstorage'', ''pvc-1'') = Some 4194304"
proof -
  have "m_lvs (meta_of (w_sys (snd (orphan_Start ref_scanner 1000 ref_cluster))))
      (volume_key \<lparr>vid_VolumeGroup = ''containerstorage'', vid_LogicalVolume = ''pvc-1''\<rparr>) =
    m_lvs (meta_of (w_sys ref_cluster)) (volume_key \<lparr>vid_VolumeGroup = ''containerstorage'', vid_LogicalVolume = ''pvc-1''\<rparr>)"
    by (rule orphan_scans_spare [OF ref_steady _ _ ref_ids(1)])
      (use ref_pv_here in \<open>auto simp: ref_scanner_def NewLVMOrphanScanner_def ref_steady_k8s_def\<close>)
  then show ?thesis by (simp add: volume_key_def)
qed

text \<open>C18. The failover reconciler removes a logical volume only if the persistent volume that it read is
  of this driver, available or bound, not being deleted, and placed on another node; then it is
  exactly the volume of its handle, and the reconciliation succeeded. In every other case, also when
  the removal fails, the LVM metadata is untouched.\<close>

theorem failover_Reconcile_safe:
  assumes "collector c meta l flt k m"
    and "fr_lvmManager r = lvmVolumeManagerAdapter (NewClientManager c) m" "fr_Client r = k"
  shows "case failover_Reconcile r name w of (res, w') \<Rightarrow>
    meta (w_sys w') = meta (w_sys w) \<or>
    (\<exists>pv csi i s. k8s_GetPV k name (w_sys w) = (Inr pv, s) \<and> pv_CSI pv = Some csi \<and> csi_Driver csi = DriverName \<and>
      pv_Phase pv \<in> {''Available'', ''Bound''} \<and> pv_DeletionTimestamp pv = None \<and>
      hasNodeAnnotationMismatch pv (fr_nodeID r) (fr_selectedNodeAnnotation r) (fr_selectedInitialNodeParam r) \<and>
      newIdFromString (csi_VolumeHandle csi) = Inr i \<and> res = Inr () \<and>
      m_lvs (meta (w_sys w')) = (m_lvs (meta (w_sys w)))(volume_key i := None))"
  using collector.failover_Reconcile_effect [OF assms] by (simp split: prod.splits)

definition ref_failover :: "cluster PVFailoverReconciler" where
  "ref_failover = NewPVFailoverReconciler ref_k8s NoopRecorder ''node-1'' SelectedNodeAnnotation
     SelectedInitialNodeParam (NewClientManager ref_client) (NewMounter ref_mount_host)"

theorem failover_Reconcile_safe_witness:
  "case failover_Reconcile ref_failover ''pvc-1'' ref_cluster of (res, w') \<Rightarrow>
    m_lvs (meta_of (w_sys w')) (''containerstorage'', ''pvc-2'') = Some 8388608"
proof -
  obtain res w' where run: "failover_Reconcile ref_failover ''pvc-1'' ref_cluster = (res, w')" by fastforce
  have "csi_VolumeHandle csi = ''containerstorage#pvc-1''"
    if "k8s_GetPV ref_k8s ''pvc-1'' (w_sys ref_cluster) = (Inr pv, s)" "pv_CSI pv = Some csi" for pv csi s
    using that by (auto simp: ref_get_pv ref_pv_def)
  then show ?thesis
    using failover_Reconcile_safe [OF ref_gc.collector_axioms, where r = ref_failover and name = "''pvc-1''" and w = ref_cluster]
      ref_ids(1) run
    by (fastforce simp: ref_failover_def NewPVFailoverReconciler_def volume_key_def dest: meta_of_lvs)
qed

text \<open>C26. The bookkeeping of a cleanup is exact: every volume of the list is counted as cleaned or as
  failed; no volume is created and no volume outside the list is touched; and if none is counted as
  failed, every listed volume is gone.\<close>

theorem cleanupOrphanedVolumes_exact:
  assumes "collector c meta l flt k m"
    and "os_lvmManager r = lvmVolumeManagerAdapter (NewClientManager c) m" "os_Client r = k"
  shows "case cleanupOrphanedVolumes r vs 0 0 w of (res, w') \<Rightarrow>
    \<exists>cleaned failed. res = Inr (cleaned, failed) \<and> cleaned + failed = int (length vs) \<and>
      m_lvs (meta (w_sys w')) \<subseteq>\<^sub>m m_lvs (meta (w_sys w)) \<and>
      (\<forall>key. (\<forall>v \<in> set vs. \<forall>i. newIdFromString v = Inr i \<longrightarrow> key \<noteq> volume_key i) \<longrightarrow>
         m_lvs (meta (w_sys w')) key = m_lvs (meta (w_sys w)) key) \<and>
      (failed = 0 \<longrightarrow> (\<forall>v \<in> set vs. \<exists>i. newIdFromString v = Inr i \<and> m_lvs (meta (w_sys w')) (volume_key i) = None))"
proof -
  obtain res w' where run: "cleanupOrphanedVolumes r vs 0 0 w = (res, w')" by fastforce
  have "collector.scans c k m r" using assms(2,3) by (simp add: collector.scans_def [OF assms(1)])
  from collector.cleanup_effect [OF assms(1) this run] show ?thesis
    unfolding run prod.case by (elim exE conjE) (intro exI conjI; simp)
qed

theorem cleanupOrphanedVolumes_exact_witness:
  "case cleanupOrphanedVolumes ref_scanner [''containerstorage#pvc-1''] 0 0 ref_cluster of (res, w') \<Rightarrow>
    m_lvs (meta_of (w_sys w')) (''containerstorage'', ''pvc-2'') = Some 8388608"
  using cleanupOrphanedVolumes_exact [OF ref_steady, where r = ref_scanner and vs = "[''containerstorage#pvc-1'']" and w = ref_cluster]
  by (auto simp: ref_scanner_def NewLVMOrphanScanner_def ref_ids volume_key_def split: prod.splits)

end
