(* ===== verification/PvCleanup.thy ===== *)
theory PvCleanup
  imports ClusterReference
begin

text \<open>
  The controller that lets released persistent volumes of lost nodes go
  (\<open>internal/manager/pvcleanup/controller.go\<close>), and the cache options through which it sees nodes
  (\<open>node.go\<close> and \<open>cache.go\<close> of \<open>internal/manager/transform\<close>).
\<close>

section \<open>Nodes\<close>

fun ready_condition :: "NodeCondition list \<Rightarrow> bool" where
  "ready_condition [] = False"
| "ready_condition (c # cs) = (if cond_Type c = NodeReady then cond_Status c = ConditionTrue else ready_condition cs)"

definition isNodeReady :: "Node \<Rightarrow> bool" where
  "isNodeReady node = ready_condition (nd_Conditions node)"

fun first_ready :: "NodeCondition list \<Rightarrow> NodeCondition list" where
  "first_ready [] = []"
| "first_ready (c # cs) = (if cond_Type c = NodeReady then [c] else first_ready cs)"

definition TrimNode :: "Node \<Rightarrow> Node" where
  "TrimNode node =
     \<lparr>nd_Kind = nd_Kind node, nd_APIVersion = nd_APIVersion node, nd_Name = nd_Name node,
      nd_Namespace = nd_Namespace node, nd_UID = nd_UID node, nd_ResourceVersion = nd_ResourceVersion node,
      nd_Labels = Map.empty, nd_Annotations = Map.empty, nd_Finalizers = [],
      nd_Conditions = first_ready (nd_Conditions node)\<rparr>"

text \<open>The options of the cache. A transform for a kind replaces the default one. The model of a node has no
  managed fields, so that stripping them is the identity.\<close>

datatype cache_transform = TransformStripManagedFields | TransformNode "Node \<Rightarrow> Node"

record cache_options =
  co_DefaultTransform :: cache_transform
  co_ByObject :: "(string \<times> cache_transform) list"

definition ManagerCacheOptions :: cache_options where
  "ManagerCacheOptions =
     \<lparr>co_DefaultTransform = TransformStripManagedFields, co_ByObject = [(''Node'', TransformNode TrimNode)]\<rparr>"

definition cached_node :: "cache_options \<Rightarrow> Node \<Rightarrow> Node" where
  "cached_node opts node =
     (case (case map_of (co_ByObject opts) ''Node'' of None \<Rightarrow> co_DefaultTransform opts | Some t \<Rightarrow> t) of
        TransformStripManagedFields \<Rightarrow> node
      | TransformNode f \<Rightarrow> f node)"

section \<open>The reconciler\<close>

definition PVProtectionFinalizer :: string where "PVProtectionFinalizer = ''kubernetes.io/pv-protection''"
definition ExternalProvisionerFinalizer :: string where
  "ExternalProvisionerFinalizer = ''external-provisioner.volume.kubernetes.io/finalizer''"

text \<open>\<open>ContainsFinalizer\<close> and \<open>RemoveFinalizer\<close> are those of \<open>controllerutil\<close>.\<close>

record 's PVCleanupReconciler =
  pr_Client :: "'s k8s"
  pr_Recorder :: event_recorder
  pr_ContainsFinalizer :: "PersistentVolume \<Rightarrow> string \<Rightarrow> bool"
  pr_RemoveFinalizer :: "PersistentVolume \<Rightarrow> string \<Rightarrow> PersistentVolume"

definition extractHostnamesFromPV :: "PersistentVolume \<Rightarrow> string list" where
  "extractHostnamesFromPV pv =
     concat (map (\<lambda>term. concat (map nsr_Values (filter (\<lambda>expr. nsr_Key expr = TopologyKey \<and> nsr_Operator expr = NodeSelectorOpIn)
       (nsl_MatchExpressions term)))) (required_terms pv))"

text \<open>Whether one of the nodes exists and is ready; a failed lookup counts as no.\<close>

fun has_available_node :: "'s k8s \<Rightarrow> string list \<Rightarrow> ('s, goerr, bool) op" where
  "has_available_node k [] = ok False"
| "has_available_node k (hostname # hostnames) =
     call (k8s_GetNode k hostname)
       (\<lambda>_. has_available_node k hostnames)
       (\<lambda>node. if isNodeReady node then ok True else has_available_node k hostnames)"

definition issue_delete :: "'s PVCleanupReconciler \<Rightarrow> PersistentVolume \<Rightarrow> ('s world, goerr, bool) op" where
  "issue_delete r pv =
     call (on_sys (k8s_DeletePV (pr_Client r) pv))
       (\<lambda>err. eventf (WithObject (pr_Recorder r) (Some (PVObject (pv_Name pv)))) Warning ''DeleteFailed''
          (''Failed to delete PV: '' @ err_msg err) (fail err))
       (\<lambda>_. eventf (WithObject (pr_Recorder r) (Some (PVObject (pv_Name pv)))) Normal ''DeleteIssued''
          ''Issued PV delete request because no hostname nodes are available'' (ok True))"

definition remove_finalizers :: "'s PVCleanupReconciler \<Rightarrow> PersistentVolume \<Rightarrow> ('s world, goerr, bool) op" where
  "remove_finalizers r pv =
     (let remove = (if pr_ContainsFinalizer r pv PVProtectionFinalizer then [PVProtectionFinalizer] else []) @
                   (if pr_ContainsFinalizer r pv ExternalProvisionerFinalizer then [ExternalProvisionerFinalizer] else []);
          pv' = foldl (pr_RemoveFinalizer r) pv remove in
      call (on_sys (k8s_PatchPV (pr_Client r) pv' pv))
        (\<lambda>err. if apierrors_IsNotFound err then ok False
          else
            eventf (WithObject (pr_Recorder r) (Some (PVObject (pv_Name pv)))) Warning ''FinalizerRemovalFailed''
              (''Failed to remove finalizers: '' @ err_msg err) (fail err))
        (\<lambda>_. eventf (WithObject (pr_Recorder r) (Some (PVObject (pv_Name pv)))) Normal ''FinalizersRemoved''
          ''Removed PV finalizers because no hostname nodes are available'' (ok False)))"

text \<open>Which persistent volumes the reconciler is responsible for.\<close>

definition released_ours :: "PersistentVolume \<Rightarrow> bool" where
  "released_ours pv \<longleftrightarrow>
     (case pv_CSI pv of None \<Rightarrow> False | Some csi \<Rightarrow> csi_Driver csi = DriverName) \<and>
     pv_Phase pv = ''Released'' \<and> pv_ReclaimPolicy pv = ''Delete''"

text \<open>A reconciliation says whether it has to be repeated.\<close>

definition pvcleanup_Reconcile :: "'s PVCleanupReconciler \<Rightarrow> string \<Rightarrow> ('s world, goerr, bool) op" where
  "pvcleanup_Reconcile r name =
     call (on_sys (k8s_GetPV (pr_Client r) name))
       (\<lambda>err. if apierrors_IsNotFound err then ok False else fail err)
       (\<lambda>pv.
          if \<not> released_ours pv then ok False
          else if \<not> pr_ContainsFinalizer r pv PVProtectionFinalizer \<and>
            \<not> pr_ContainsFinalizer r pv ExternalProvisionerFinalizer then ok False
          else if extractHostnamesFromPV pv = [] then ok False
          else
            call (on_sys (has_available_node (pr_Client r) (extractHostnamesFromPV pv))) fail
              (\<lambda>available.
                 if available then ok False
                 else if pv_DeletionTimestamp pv = None then issue_delete r pv
                 else remove_finalizers r pv))"

text \<open>The event filter: creations and updates of such a volume.\<close>

definition pvPredicate_create :: "PersistentVolume \<Rightarrow> bool" where
  "pvPredicate_create pv = released_ours pv"

definition pvPredicate_update :: "PersistentVolume \<Rightarrow> PersistentVolume \<Rightarrow> bool" where
  "pvPredicate_update old pv = released_ours pv"

section \<open>The parameters\<close>

text \<open>What is documented of \<open>controllerutil\<close>.\<close>

locale controllerutil =
  fixes r :: "'s PVCleanupReconciler"
  assumes contains: "pr_ContainsFinalizer r pv f \<longleftrightarrow> f \<in> set (pv_Finalizers pv)"
    and remove: "pr_RemoveFinalizer r pv f = pv\<lparr>pv_Finalizers := removeAll f (pv_Finalizers pv)\<rparr>"
begin

lemma remove_both:
  "foldl (pr_RemoveFinalizer r) pv
     ((if pr_ContainsFinalizer r pv PVProtectionFinalizer then [PVProtectionFinalizer] else []) @
      (if pr_ContainsFinalizer r pv ExternalProvisionerFinalizer then [ExternalProvisionerFinalizer] else [])) =
   pv\<lparr>pv_Finalizers := removeAll ExternalProvisionerFinalizer (removeAll PVProtectionFinalizer (pv_Finalizers pv))\<rparr>"
  by (auto simp: contains remove)

end

text \<open>An API server that accepts the requests and answers with what it stores: \<open>pvs\<close> are the persistent
  volumes, \<open>nodes\<close> the nodes as the client sees them. A deletion sets the timestamp, or removes an
  object without finalizers; a merge patch of an object that is being deleted removes it when no finalizer is left.\<close>

locale api_server =
  fixes k :: "'s k8s"
    and pvs :: "'s \<Rightarrow> string \<rightharpoonup> PersistentVolume"
    and nodes :: "'s \<Rightarrow> string \<rightharpoonup> Node"
  assumes get_pv: "pvs s n = Some pv \<Longrightarrow> k8s_GetPV k n s = (Inr pv, s)"
    and get_pv_missing: "pvs s n = None \<Longrightarrow> \<exists>e. k8s_GetPV k n s = (Inl e, s) \<and> apierrors_IsNotFound e"
    and get_node: "nodes s n = Some nd \<Longrightarrow> k8s_GetNode k n s = (Inr nd, s)"
    and get_node_missing: "nodes s n = None \<Longrightarrow> \<exists>e. k8s_GetNode k n s = (Inl e, s)"
    and delete_pv: "pvs s (pv_Name pv) = Some stored \<Longrightarrow>
      \<exists>t d. k8s_DeletePV k pv s = (Inr (), t) \<and> nodes t = nodes s \<and>
        pvs t = (pvs s)(pv_Name pv := (if pv_Finalizers stored = [] then None
          else Some (stored\<lparr>pv_Name := pv_Name pv, pv_DeletionTimestamp := Some d\<rparr>)))"
    and patch_pv: "pvs s (pv_Name pv) = Some stored \<Longrightarrow>
      \<exists>t. k8s_PatchPV k pv orig s = (Inr ((merge_pv orig pv stored)\<lparr>pv_Name := pv_Name pv\<rparr>), t) \<and> nodes t = nodes s \<and>
        pvs t = (pvs s)(pv_Name pv := (if pv_DeletionTimestamp stored \<noteq> None \<and> pv_Finalizers (merge_pv orig pv stored) = []
          then None else Some ((merge_pv orig pv stored)\<lparr>pv_Name := pv_Name pv\<rparr>)))"

definition pvs_of :: "cluster \<Rightarrow> string \<rightharpoonup> PersistentVolume" where
  "pvs_of s = map_of (cl_pvs s)"

definition nodes_of :: "cluster \<Rightarrow> string \<rightharpoonup> Node" where
  "nodes_of s = map_of (cl_nodes s)"

lemma pvs_of_store:
  "pvs_of (store_pv pv s) = (pvs_of s)(pv_Name pv :=
     (if pv_DeletionTimestamp pv \<noteq> None \<and> pv_Finalizers pv = [] then None else Some pv))"
  "nodes_of (store_pv pv s) = nodes_of s"
  by (simp_all add: pvs_of_def nodes_of_def store_pv_def Let_def map_of_filter_neq)

interpretation ref_server: api_server ref_k8s pvs_of nodes_of
proof unfold_locales
  show "pvs_of s n = None \<Longrightarrow> \<exists>e. k8s_GetPV ref_k8s n s = (Inl e, s) \<and> apierrors_IsNotFound e" for s n
    by (simp add: pvs_of_def ref_get_def api_error_def apierrors_IsNotFound_def ReasonForError_def)
  show "pvs_of s (pv_Name pv) = Some stored \<Longrightarrow>
      \<exists>t d. k8s_DeletePV ref_k8s pv s = (Inr (), t) \<and> nodes_of t = nodes_of s \<and>
        pvs_of t = (pvs_of s)(pv_Name pv := (if pv_Finalizers stored = [] then None
          else Some (stored\<lparr>pv_Name := pv_Name pv, pv_DeletionTimestamp := Some d\<rparr>)))" for s pv stored
    by (rule exI [of _ "store_pv (stored\<lparr>pv_Name := pv_Name pv, pv_DeletionTimestamp := Some 1\<rparr>) s"], rule exI [of _ 1])
      (simp add: ref_DeletePV_def call_def ref_get_def pvs_of_def [of s] pvs_of_store)
  show "pvs_of s (pv_Name pv) = Some stored \<Longrightarrow>
      \<exists>t. k8s_PatchPV ref_k8s pv orig s = (Inr ((merge_pv orig pv stored)\<lparr>pv_Name := pv_Name pv\<rparr>), t) \<and> nodes_of t = nodes_of s \<and>
        pvs_of t = (pvs_of s)(pv_Name pv := (if pv_DeletionTimestamp stored \<noteq> None \<and> pv_Finalizers (merge_pv orig pv stored) = []
          then None else Some ((merge_pv orig pv stored)\<lparr>pv_Name := pv_Name pv\<rparr>)))" for s pv stored orig
    by (simp add: ref_PatchPV_def call_def ref_get_def pvs_of_def [of s] pvs_of_store Let_def merge_pv_def)
qed (simp_all add: pvs_of_def nodes_of_def ref_get_def)

section \<open>What a reconciliation does\<close>

context api_server
begin

lemma has_available_node_eq:
  "has_available_node k hs s = (Inr (\<exists>h \<in> set hs. \<exists>nd. nodes s h = Some nd \<and> isNodeReady nd), s)"
proof (induction hs)
  case (Cons h hs)
  show ?case
  proof (cases "nodes s h")
    case None
    with get_node_missing obtain e where "k8s_GetNode k h s = (Inl e, s)" by blast
    with None Cons show ?thesis by (simp add: call_def)
  next
    case (Some nd)
    from get_node [OF this] Some Cons show ?thesis by (simp add: call_def)
  qed
qed simp

lemma Reconcile_found:
  assumes "pr_Client r = k" "pvs (w_sys w) name = Some pv" "released_ours pv" "extractHostnamesFromPV pv \<noteq> []"
    and "pr_ContainsFinalizer r pv PVProtectionFinalizer \<or> pr_ContainsFinalizer r pv ExternalProvisionerFinalizer"
  shows "pvcleanup_Reconcile r name w =
    (if \<exists>h \<in> set (extractHostnamesFromPV pv). \<exists>nd. nodes (w_sys w) h = Some nd \<and> isNodeReady nd then (Inr False, w)
     else if pv_DeletionTimestamp pv = None then issue_delete r pv w else remove_finalizers r pv w)"
  using assms get_pv [OF assms(2)]
  by (auto simp: pvcleanup_Reconcile_def call_def on_sys_run has_available_node_eq)

lemma Reconcile_available:
  assumes "pr_Client r = k" "pvs (w_sys w) name = Some pv" "h \<in> set (extractHostnamesFromPV pv)"
    and "nodes (w_sys w) h = Some nd" "isNodeReady nd"
  shows "pvcleanup_Reconcile r name w = (Inr False, w)"
proof (cases "released_ours pv \<and>
    (pr_ContainsFinalizer r pv PVProtectionFinalizer \<or> pr_ContainsFinalizer r pv ExternalProvisionerFinalizer)")
  case True
  with assms show ?thesis by (subst Reconcile_found) auto
next
  case False
  with assms get_pv [OF assms(2)] show ?thesis
    by (auto simp: pvcleanup_Reconcile_def call_def on_sys_run)
qed

lemma issue_delete_eq:
  assumes "pr_Client r = k" "pvs (w_sys w) (pv_Name pv) = Some stored" "pv_Finalizers stored \<noteq> []"
  shows "\<exists>w' d. issue_delete r pv w = (Inr True, w') \<and> nodes (w_sys w') = nodes (w_sys w) \<and>
    pvs (w_sys w') = (pvs (w_sys w))(pv_Name pv \<mapsto> stored\<lparr>pv_Name := pv_Name pv, pv_DeletionTimestamp := Some d\<rparr>)"
proof -
  from delete_pv [OF assms(2)] obtain t d where "k8s_DeletePV k pv (w_sys w) = (Inr (), t)" "nodes t = nodes (w_sys w)"
    "pvs t = (pvs (w_sys w))(pv_Name pv \<mapsto> stored\<lparr>pv_Name := pv_Name pv, pv_DeletionTimestamp := Some d\<rparr>)"
    using assms(3) by auto
  with assms(1) show ?thesis by (auto simp: issue_delete_def call_def on_sys_run)
qed

lemma remove_finalizers_eq:
  assumes "controllerutil r" "pr_Client r = k" "pvs (w_sys w) (pv_Name pv) = Some pv"
    and "pv_DeletionTimestamp pv \<noteq> None" "pv_Finalizers pv \<noteq> []"
    and "set (pv_Finalizers pv) \<subseteq> {PVProtectionFinalizer, ExternalProvisionerFinalizer}"
  shows "\<exists>w'. remove_finalizers r pv w = (Inr False, w') \<and> pvs (w_sys w') = (pvs (w_sys w))(pv_Name pv := None)"
proof -
  let ?pv = "pv\<lparr>pv_Finalizers := removeAll ExternalProvisionerFinalizer (removeAll PVProtectionFinalizer (pv_Finalizers pv))\<rparr>"
  have empty: "removeAll ExternalProvisionerFinalizer (removeAll PVProtectionFinalizer (pv_Finalizers pv)) = []"
    using assms(6) by (auto simp: removeAll_filter_not_eq filter_empty_conv)
  from patch_pv [of "w_sys w" ?pv pv pv] assms(3) obtain t stored where
    "k8s_PatchPV k ?pv pv (w_sys w) = (Inr stored, t)" "pvs t = (pvs (w_sys w))(pv_Name pv := None)"
    using assms(4,5) empty by (auto simp: merge_pv_def merge_list_def)
  then show ?thesis
    unfolding remove_finalizers_def Let_def controllerutil.remove_both [OF assms(1)] assms(2)
    by (auto simp: call_def on_sys_run)
qed

end

section \<open>Properties\<close>

text \<open>C28. A persistent volume one of whose nodes is there and ready is left alone: the reconciliation
  neither writes to the API server nor emits an event nor asks to be repeated.\<close>

theorem pvcleanup_keeps_available:
  assumes "api_server k pvs nodes" "pr_Client r = k" "pvs (w_sys w) name = Some pv"
    and "h \<in> set (extractHostnamesFromPV pv)" "nodes (w_sys w) h = Some nd" "isNodeReady nd"
  shows "pvcleanup_Reconcile r name w = (Inr False, w)"
  by (rule api_server.Reconcile_available [OF assms])

definition ref_cleanup :: "cluster PVCleanupReconciler" where
  "ref_cleanup =
     \<lparr>pr_Client = ref_k8s, pr_Recorder = EventRecorder, pr_ContainsFinalizer = (\<lambda>pv f. f \<in> set (pv_Finalizers pv)),
      pr_RemoveFinalizer = (\<lambda>pv f. pv\<lparr>pv_Finalizers := removeAll f (pv_Finalizers pv)\<rparr>)\<rparr>"

interpretation ref_util: controllerutil ref_cleanup
  by unfold_locales (simp_all add: ref_cleanup_def)

definition ref_released :: PersistentVolume where
  "ref_released = (ref_pv ''pvc-1'' ''node-1'')\<lparr>pv_Phase := ''Released'', pv_ReclaimPolicy := ''Delete'',
     pv_Finalizers := [PVProtectionFinalizer],
     pv_NodeAffinity := Some \<lparr>vna_Required = Some \<lparr>ns_NodeSelectorTerms =
       [\<lparr>nsl_MatchExpressions = [\<lparr>nsr_Key = TopologyKey, nsr_Operator = NodeSelectorOpIn, nsr_Values = [''node-1'']\<rparr>], nsl_MatchFields = []\<rparr>]\<rparr>\<rparr>\<rparr>"

definition ref_ready_node :: Node where
  "ref_ready_node = \<lparr>nd_Kind = ''Node'', nd_APIVersion = ''v1'', nd_Name = ''node-1'', nd_Namespace = [], nd_UID = ''1'',
     nd_ResourceVersion = ''7'', nd_Labels = Map.empty, nd_Annotations = Map.empty, nd_Finalizers = [],
     nd_Conditions = [\<lparr>cond_Type = ''DiskPressure'', cond_Status = ''False'', cond_Reason = [], cond_Message = []\<rparr>,
       \<lparr>cond_Type = NodeReady, cond_Status = ConditionTrue, cond_Reason = [], cond_Message = []\<rparr>]\<rparr>"

lemma ref_released_hosts [simp]: "extractHostnamesFromPV ref_released = [''node-1'']"
  by (simp add: extractHostnamesFromPV_def required_terms_def ref_released_def)

theorem pvcleanup_keeps_available_witness:
  "pvcleanup_Reconcile ref_cleanup ''pvc-1''
     (ref_cluster\<lparr>w_sys := (w_sys ref_cluster)\<lparr>cl_pvs := [(''pvc-1'', ref_released)], cl_nodes := [(''node-1'', ref_ready_node)]\<rparr>\<rparr>) =
   (Inr False, ref_cluster\<lparr>w_sys := (w_sys ref_cluster)\<lparr>cl_pvs := [(''pvc-1'', ref_released)], cl_nodes := [(''node-1'', ref_ready_node)]\<rparr>\<rparr>)"
  by (rule pvcleanup_keeps_available [OF ref_server.api_server_axioms, where pv = ref_released and h = "''node-1''" and nd = ref_ready_node])
    (simp_all add: ref_cleanup_def pvs_of_def nodes_of_def ref_ready_node_def isNodeReady_def)

text \<open>C27. A released volume of lost nodes goes away: on an API server that accepts its requests, a
  released persistent volume of this driver with reclaim policy \<open>Delete\<close>, none of whose nodes is there and ready,
  and which only the two known finalizers hold back, is gone after two reconciliations: the first
  requests its deletion and asks to be repeated, the second removes the finalizers. No other persistent volume
  changes.\<close>

theorem pvcleanup_releases:
  assumes "api_server k pvs nodes" "controllerutil r" "pr_Client r = k"
    and "pvs (w_sys w) name = Some pv" "pv_Name pv = name" "released_ours pv"
    and "extractHostnamesFromPV pv \<noteq> []"
    and "\<And>h nd. h \<in> set (extractHostnamesFromPV pv) \<Longrightarrow> nodes (w_sys w) h = Some nd \<Longrightarrow> \<not> isNodeReady nd"
    and "pv_DeletionTimestamp pv = None" "pv_Finalizers pv \<noteq> []"
    and "set (pv_Finalizers pv) \<subseteq> {PVProtectionFinalizer, ExternalProvisionerFinalizer}"
  shows "\<exists>w1 w2. pvcleanup_Reconcile r name w = (Inr True, w1) \<and> pvcleanup_Reconcile r name w1 = (Inr False, w2) \<and>
    pvs (w_sys w2) = (pvs (w_sys w))(name := None)"
proof -
  have fin: "pr_ContainsFinalizer r p PVProtectionFinalizer \<or> pr_ContainsFinalizer r p ExternalProvisionerFinalizer"
    if "pv_Finalizers p = pv_Finalizers pv" for p
    using that assms(10,11) by (cases "pv_Finalizers pv") (auto simp: controllerutil.contains [OF assms(2)])
  have "pvcleanup_Reconcile r name w = issue_delete r pv w"
    using assms(8,9) by (auto simp: api_server.Reconcile_found [OF assms(1,3,4,6,7) fin])
  moreover obtain w1 d where w1: "issue_delete r pv w = (Inr True, w1)" "nodes (w_sys w1) = nodes (w_sys w)"
    "pvs (w_sys w1) = (pvs (w_sys w))(name \<mapsto> pv\<lparr>pv_DeletionTimestamp := Some d\<rparr>)"
    using api_server.issue_delete_eq [OF assms(1,3), of w pv pv] assms(4,5,10) by auto
  let ?pv = "pv\<lparr>pv_DeletionTimestamp := Some d\<rparr>"
  have hosts: "extractHostnamesFromPV ?pv = extractHostnamesFromPV pv"
    by (simp add: extractHostnamesFromPV_def required_terms_def)
  have "pvcleanup_Reconcile r name w1 = remove_finalizers r ?pv w1"
    using assms(6-8) w1 hosts
    by (subst api_server.Reconcile_found [OF assms(1,3), of w1 name ?pv]) (auto simp: fin released_ours_def)
  moreover obtain w2 where "remove_finalizers r ?pv w1 = (Inr False, w2)" "pvs (w_sys w2) = (pvs (w_sys w1))(name := None)"
    using api_server.remove_finalizers_eq [OF assms(1,2,3), of w1 ?pv] assms(5,10,11) w1(3) by auto
  ultimately show ?thesis using w1 by auto
qed

theorem pvcleanup_releases_witness:
  "\<exists>w1 w2. pvcleanup_Reconcile ref_cleanup ''pvc-1''
       (ref_cluster\<lparr>w_sys := (w_sys ref_cluster)\<lparr>cl_pvs := [(''pvc-1'', ref_released)]\<rparr>\<rparr>) = (Inr True, w1) \<and>
     pvcleanup_Reconcile ref_cleanup ''pvc-1'' w1 = (Inr False, w2) \<and> pvs_of (w_sys w2) ''pvc-1'' = None"
  using pvcleanup_releases [OF ref_server.api_server_axioms ref_util.controllerutil_axioms, where name = "''pvc-1''"
      and w = "ref_cluster\<lparr>w_sys := (w_sys ref_cluster)\<lparr>cl_pvs := [(''pvc-1'', ref_released)]\<rparr>\<rparr>" and pv = ref_released]
  by (fastforce simp: ref_cleanup_def pvs_of_def nodes_of_def ref_released_def ref_pv_def released_ours_def
      zero_PersistentVolume_def extractHostnamesFromPV_def required_terms_def ref_cluster_def)

text \<open>Trimming a node loses nothing that the reconciler or the cache needs.\<close>

lemma TrimNode_equivalent:
  "isNodeReady (TrimNode node) = isNodeReady node" "TrimNode (TrimNode node) = TrimNode node"
  "nd_Name (TrimNode node) = nd_Name node" "nd_UID (TrimNode node) = nd_UID node"
  "nd_ResourceVersion (TrimNode node) = nd_ResourceVersion node" "length (nd_Conditions (TrimNode node)) \<le> 1"
proof -
  have "ready_condition (first_ready cs) = ready_condition cs \<and> first_ready (first_ready cs) = first_ready cs \<and>
      length (first_ready cs) \<le> 1" for cs
    by (induction cs) auto
  then show "isNodeReady (TrimNode node) = isNodeReady node" "TrimNode (TrimNode node) = TrimNode node"
    "length (nd_Conditions (TrimNode node)) \<le> 1"
    by (simp_all add: isNodeReady_def TrimNode_def)
qed (simp_all add: TrimNode_def)

lemma has_available_node_cached:
  assumes "\<And>n s. get n s = (case k8s_GetNode k n s of (Inl e, t) \<Rightarrow> (Inl e, t) | (Inr node, t) \<Rightarrow> (Inr (f node), t))"
    and "\<And>node. isNodeReady (f node) = isNodeReady node"
  shows "has_available_node (k\<lparr>k8s_GetNode := get\<rparr>) hs = has_available_node k hs"
proof (induction hs)
  case (Cons hd hs)
  show ?case
    by (rule ext) (auto simp: Cons.IH call_def assms(1) [of hd] assms(2) split: prod.splits sum.splits)
qed simp

text \<open>C29. The cleanup controller cannot tell the cache of the manager from the API server: with a client
  that reads nodes as the cache options of the manager transform them, and everything else as it is, each
  reconciliation has the same result, sends the same requests and emits the same events.\<close>

theorem cache_transparent:
  assumes "\<And>n s. get n s =
      (case k8s_GetNode k n s of (Inl e, t) \<Rightarrow> (Inl e, t) | (Inr node, t) \<Rightarrow> (Inr (cached_node ManagerCacheOptions node), t))"
  shows "pvcleanup_Reconcile (r\<lparr>pr_Client := k\<lparr>k8s_GetNode := get\<rparr>\<rparr>) name w = pvcleanup_Reconcile (r\<lparr>pr_Client := k\<rparr>) name w"
proof -
  have "isNodeReady (cached_node ManagerCacheOptions node) = isNodeReady node" for node
    by (simp add: cached_node_def ManagerCacheOptions_def TrimNode_equivalent)
  then have "has_available_node (k\<lparr>k8s_GetNode := get\<rparr>) = has_available_node k"
    using has_available_node_cached [OF assms] by (intro ext) metis
  then show ?thesis
    by (simp add: pvcleanup_Reconcile_def issue_delete_def remove_finalizers_def Let_def cong: if_cong)
qed

theorem cache_transparent_witness:
  "pvcleanup_Reconcile (ref_cleanup\<lparr>pr_Client := ref_k8s\<lparr>k8s_GetNode := (\<lambda>n s. case k8s_GetNode ref_k8s n s of
       (Inl e, t) \<Rightarrow> (Inl e, t) | (Inr node, t) \<Rightarrow> (Inr (cached_node ManagerCacheOptions node), t))\<rparr>\<rparr>) ''pvc-1'' ref_cluster =
   pvcleanup_Reconcile (ref_cleanup\<lparr>pr_Client := ref_k8s\<rparr>) ''pvc-1'' ref_cluster"
  by (rule cache_transparent) (rule refl)

end
