(* ===== verification/Webhooks.thy ===== *)
theory Webhooks
  imports ClusterReference "HOL-Library.Multiset"
begin

text \<open>
  The admission webhooks: \<open>internal/webhook/enforceEphemeral/handler.go\<close> (with the counter of
  \<open>metrics.go\<close>), which denies claims of local volumes that do not die with a pod, and
  \<open>internal/webhook/hyperconverged/handler.go\<close>, which moves pods to the nodes of their volumes. Also the
  classification of API errors of \<open>internal/pkg/retry/retry.go\<close>, of which both have a copy.

  The decoder, the retries of \<open>client-go\<close> and the marshalling of a pod are parameters.
\<close>

section \<open>Retriable errors\<close>

definition IsRetriableError :: "goerr \<Rightarrow> bool" where
  "IsRetriableError err =
     (case ReasonForError err of
        StatusReasonNotFound \<Rightarrow> False
      | StatusReasonUnauthorized \<Rightarrow> False
      | StatusReasonForbidden \<Rightarrow> False
      | StatusReasonAlreadyExists \<Rightarrow> False
      | StatusReasonGone \<Rightarrow> False
      | StatusReasonInvalid \<Rightarrow> False
      | StatusReasonBadRequest \<Rightarrow> False
      | StatusReasonMethodNotAllowed \<Rightarrow> False
      | StatusReasonNotAcceptable \<Rightarrow> False
      | StatusReasonRequestEntityTooLarge \<Rightarrow> False
      | StatusReasonUnsupportedMediaType \<Rightarrow> False
      | StatusReasonExpired \<Rightarrow> False
      | _ \<Rightarrow> True)"

definition Always :: "goerr \<Rightarrow> bool" where "Always err = True"

definition IsRetriableOrNotFoundError :: "goerr \<Rightarrow> bool" where
  "IsRetriableOrNotFoundError err \<longleftrightarrow> apierrors_IsNotFound err \<or> IsRetriableError err"

definition ReadBackoff_Steps :: nat where "ReadBackoff_Steps = 20"

text \<open>The number of steps of \<open>retry.DefaultRetry\<close>.\<close>

definition DefaultRetry_Steps :: nat where "DefaultRetry_Steps = 5"

section \<open>Admission\<close>

record admission_request =
  rq_Kind :: string
  rq_Name :: string
  rq_Namespace :: string
  rq_Operation :: string
  rq_Object :: string

text \<open>A handler may also panic, which the server answers with an internal error.\<close>

datatype admission_response =
    Allowed string
  | Denied string
  | Errored int goerr
  | PatchResponseFromRaw string string
  | HandlerPanic

abbreviation StatusBadRequest :: int where "StatusBadRequest \<equiv> 400"
abbreviation StatusInternalServerError :: int where "StatusInternalServerError \<equiv> 500"

section \<open>Only ephemeral volumes\<close>

record 's ephemeral_handler =
  eh_driverName :: string
  eh_client :: "'s k8s"
  eh_Decode :: "admission_request \<Rightarrow> goerr + PersistentVolumeClaim"
  eh_OnError :: "nat \<Rightarrow> (goerr \<Rightarrow> bool) \<Rightarrow> ('s, goerr, StorageClass) op \<Rightarrow> ('s, goerr, StorageClass) op"

datatype opType = OpUnknown | OpCreate

fun opType_String :: "opType \<Rightarrow> string" where
  "opType_String OpUnknown = ''unknown''"
| "opType_String OpCreate = ''create''"

definition acceptEphemeralStorageAnnotationKey :: string where
  "acceptEphemeralStorageAnnotationKey = ''localdisk.csi.acstor.io/accept-ephemeral-storage''"

text \<open>The labels under which a response is counted.\<close>

fun response_Allowed :: "admission_response \<Rightarrow> bool" where
  "response_Allowed (Allowed _) = True"
| "response_Allowed (PatchResponseFromRaw _ _) = True"
| "response_Allowed _ = False"

definition Increment_labels :: "opType \<Rightarrow> admission_response \<Rightarrow> string \<times> string" where
  "Increment_labels op resp = (opType_String op, if response_Allowed resp then ''true'' else ''false'')"

text \<open>The response, with the operation under which it is counted.\<close>

definition enforce_Handle ::
  "'s ephemeral_handler \<Rightarrow> admission_request \<Rightarrow> ('s, goerr, opType \<times> admission_response) op" where
  "enforce_Handle h req =
     (if rq_Kind req \<noteq> ''PersistentVolumeClaim'' \<or> rq_Operation req \<noteq> ''CREATE''
      then ok (OpUnknown, Allowed ''unhandled request allowed'')
      else
        case eh_Decode h req of
          Inl err \<Rightarrow> ok (OpCreate, Errored StatusBadRequest err)
        | Inr pvc \<Rightarrow>
            if map_get (pvc_Annotations pvc) acceptEphemeralStorageAnnotationKey = ''true''
            then ok (OpCreate, Allowed ''volume has replicas'')
            else if pvc_StorageClassName pvc = None \<or> pvc_StorageClassName pvc = Some []
            then ok (OpCreate, Allowed ''no storage class'')
            else
              call (eh_OnError h DefaultRetry_Steps IsRetriableError
                  (k8s_GetStorageClass (eh_client h) (the (pvc_StorageClassName pvc))))
                (\<lambda>err. if apierrors_IsNotFound err then ok (OpCreate, Allowed ''storage class not found'')
                       else ok (OpCreate, Errored StatusBadRequest err))
                (\<lambda>sc.
                   if sc_Provisioner sc \<noteq> eh_driverName h
                   then ok (OpCreate, Allowed ''not a local-csi-driver storage class'')
                   else if list_ex (\<lambda>owner. or_Kind owner = ''Pod'') (pvc_OwnerReferences pvc)
                   then ok (OpCreate, Allowed ''volume is ephemeral'')
                   else ok (OpCreate, Denied
                     ''only generic ephemeral volumes are allowed for localdisk.csi.acstor.io provisioner'')))"

section \<open>Pods\<close>

record PersistentVolumeClaimTemplate =
  pct_VolumeName :: string
  pct_StorageClassName :: "string option"

record PodVolume =
  pvl_Name :: string
  pvl_PersistentVolumeClaim :: "string option"
  pvl_Ephemeral :: "PersistentVolumeClaimTemplate option option"

record PreferredSchedulingTerm =
  pst_Weight :: int
  pst_Preference :: NodeSelectorTerm

record NodeAffinity =
  na_Required :: "NodeSelector option"
  na_Preferred :: "PreferredSchedulingTerm list"

text \<open>\<open>aff_other\<close> stands for pod affinity and anti-affinity, \<open>pod_other\<close> for the rest of a pod, which the
  handler only copies. The template of an ephemeral volume is a pointer, which may be nil.\<close>

record Affinity =
  aff_NodeAffinity :: "NodeAffinity option"
  aff_other :: string

record Pod =
  pod_Name :: string
  pod_Namespace :: string
  pod_Volumes :: "PodVolume list"
  pod_Affinity :: "Affinity option"
  pod_other :: string

section \<open>Pods next to their volumes\<close>

definition KubernetesNodeHostNameLabel :: string where "KubernetesNodeHostNameLabel = ''kubernetes.io/hostname''"
definition FailoverModeAvailability :: string where "FailoverModeAvailability = ''availability''"
definition FailoverModeDurability :: string where "FailoverModeDurability = ''durability''"
definition FailoverModeParam :: string where "FailoverModeParam = ''localdisk.csi.acstor.io/failover-mode''"

text \<open>The retries are those of \<open>retry.OnError\<close> at the three types of object that are read;
  \<open>hh_Int63n i\<close> is the random number below \<open>i\<close> that the shuffle draws.\<close>

record 's hyper_handler =
  hh_client :: "'s k8s"
  hh_Decode :: "admission_request \<Rightarrow> goerr + Pod"
  hh_Marshal :: "Pod \<Rightarrow> goerr + string"
  hh_Int63n :: "nat \<Rightarrow> nat"
  hh_OnError_PVC :: "nat \<Rightarrow> (goerr \<Rightarrow> bool) \<Rightarrow> ('s, goerr, PersistentVolumeClaim) op \<Rightarrow> ('s, goerr, PersistentVolumeClaim) op"
  hh_OnError_SC :: "nat \<Rightarrow> (goerr \<Rightarrow> bool) \<Rightarrow> ('s, goerr, StorageClass) op \<Rightarrow> ('s, goerr, StorageClass) op"
  hh_OnError_PV :: "nat \<Rightarrow> (goerr \<Rightarrow> bool) \<Rightarrow> ('s, goerr, PersistentVolume) op \<Rightarrow> ('s, goerr, PersistentVolume) op"

definition swap_at :: "nat \<Rightarrow> nat \<Rightarrow> 'a list \<Rightarrow> 'a list" where
  "swap_at i j xs = xs[i := xs ! j, j := xs ! i]"

text \<open>The Fisher-Yates shuffle of \<open>math/rand\<close>, from the last index down to one.\<close>

fun shuffle_from :: "(nat \<Rightarrow> nat) \<Rightarrow> nat \<Rightarrow> 'a list \<Rightarrow> 'a list" where
  "shuffle_from rnd 0 xs = xs"
| "shuffle_from rnd (Suc i) xs = shuffle_from rnd i (swap_at (Suc i) (rnd (Suc (Suc i)) mod Suc (Suc i)) xs)"

definition shuffleObjects :: "(nat \<Rightarrow> nat) \<Rightarrow> 'a list \<Rightarrow> 'a list" where
  "shuffleObjects rnd objectList = shuffle_from rnd (length objectList - 1) objectList"

definition hostname_term :: "string list \<Rightarrow> NodeSelectorTerm" where
  "hostname_term nodeNames =
     \<lparr>nsl_MatchExpressions = [\<lparr>nsr_Key = KubernetesNodeHostNameLabel, nsr_Operator = NodeSelectorOpIn, nsr_Values = nodeNames\<rparr>],
      nsl_MatchFields = []\<rparr>"

definition pod_NodeAffinity :: "Pod \<Rightarrow> NodeAffinity" where
  "pod_NodeAffinity pod =
     (case pod_Affinity pod of None \<Rightarrow> \<lparr>na_Required = None, na_Preferred = []\<rparr>
      | Some a \<Rightarrow> (case aff_NodeAffinity a of None \<Rightarrow> \<lparr>na_Required = None, na_Preferred = []\<rparr> | Some n \<Rightarrow> n))"

text \<open>The new pod.\<close>

definition with_node_affinity :: "(nat \<Rightarrow> nat) \<Rightarrow> Pod \<Rightarrow> string list \<Rightarrow> string \<Rightarrow> Pod" where
  "with_node_affinity rnd pod nodeNames failoverMode =
     (let na = pod_NodeAffinity pod;
          na' =
            if failoverMode = FailoverModeDurability then
              (case na_Required na of
                 None \<Rightarrow> na\<lparr>na_Required := Some \<lparr>ns_NodeSelectorTerms = [hostname_term nodeNames]\<rparr>\<rparr>
               | Some sel \<Rightarrow> na\<lparr>na_Required := Some \<lparr>ns_NodeSelectorTerms = ns_NodeSelectorTerms sel @ [hostname_term nodeNames]\<rparr>\<rparr>)
            else na\<lparr>na_Preferred := na_Preferred na @
              shuffleObjects rnd [\<lparr>pst_Weight = 100, pst_Preference = hostname_term nodeNames\<rparr>]\<rparr> in
      pod\<lparr>pod_Affinity := Some
        (case pod_Affinity pod of
           None \<Rightarrow> \<lparr>aff_NodeAffinity = Some na', aff_other = []\<rparr>
         | Some a \<Rightarrow> a\<lparr>aff_NodeAffinity := Some na'\<rparr>)\<rparr>)"

definition patchPodWithNodeAffinity ::
  "'s hyper_handler \<Rightarrow> Pod \<Rightarrow> string list \<Rightarrow> string \<Rightarrow> admission_response" where
  "patchPodWithNodeAffinity h pod nodeNames failoverMode =
     (case hh_Marshal h pod of
        Inl err \<Rightarrow> Errored StatusInternalServerError err
      | Inr marshalledPod \<Rightarrow>
          (case hh_Marshal h (with_node_affinity (hh_Int63n h) pod nodeNames failoverMode) of
             Inl err \<Rightarrow> Errored StatusInternalServerError err
           | Inr marshaledNewPod \<Rightarrow> PatchResponseFromRaw marshalledPod marshaledNewPod))"

text \<open>The node and the failover mode of a persistent volume, or the response that ends the request.\<close>

definition pv_mode :: "PersistentVolume \<Rightarrow> string" where
  "pv_mode pv =
     (case volume_attribute pv FailoverModeParam of
        None \<Rightarrow> FailoverModeAvailability
      | Some mode \<Rightarrow>
          if mode = FailoverModeAvailability \<or> mode = FailoverModeDurability then mode else FailoverModeAvailability)"

definition pv_node :: "PersistentVolume \<Rightarrow> string option" where
  "pv_node pv =
     (case pv_Annotations pv SelectedNodeAnnotation of
        Some n \<Rightarrow> Some n | None \<Rightarrow> volume_attribute pv SelectedInitialNodeParam)"

definition pv_nodes :: "PersistentVolume \<Rightarrow> admission_response + string list \<times> string" where
  "pv_nodes pv =
     (case pv_CSI pv of
        None \<Rightarrow> Inr ([], FailoverModeAvailability)
      | Some csi \<Rightarrow>
          if csi_VolumeHandle csi = [] then Inr ([], FailoverModeAvailability)
          else (case pv_node pv of
                  None \<Rightarrow> Inl (Allowed ''pv is not assigned to a node'')
                | Some nodeName \<Rightarrow> Inr ([nodeName], pv_mode pv)))"

definition getPvNodesAndFailoverMode ::
  "'s hyper_handler \<Rightarrow> string \<Rightarrow> ('s, goerr, admission_response + string list \<times> string) op" where
  "getPvNodesAndFailoverMode h pvName =
     call (hh_OnError_PV h DefaultRetry_Steps IsRetriableError (k8s_GetPV (hh_client h) pvName))
       (\<lambda>err. if apierrors_IsNotFound err then ok (Inr ([], FailoverModeAvailability))
              else ok (Inl (Errored StatusBadRequest err)))
       (\<lambda>pv. ok (pv_nodes pv))"

fun gather_nodes ::
  "'s hyper_handler \<Rightarrow> string list \<Rightarrow> string list \<Rightarrow> string \<Rightarrow> ('s, goerr, admission_response + string list \<times> string) op" where
  "gather_nodes h [] pvNodes failoverMode = ok (Inr (pvNodes, failoverMode))"
| "gather_nodes h (pvName # pvNames) pvNodes failoverMode =
     call (getPvNodesAndFailoverMode h pvName) fail
       (\<lambda>answer. case answer of
          Inl response \<Rightarrow> ok (Inl response)
        | Inr (pvNodeList, mode) \<Rightarrow> gather_nodes h pvNames (pvNodes @ pvNodeList) mode)"

definition injectNodeAffinity ::
  "'s hyper_handler \<Rightarrow> string list \<Rightarrow> Pod \<Rightarrow> ('s, goerr, admission_response) op" where
  "injectNodeAffinity h pvNames pod =
     call (gather_nodes h pvNames [] []) fail
       (\<lambda>answer. case answer of
          Inl response \<Rightarrow> ok response
        | Inr (pvNodes, failoverMode) \<Rightarrow>
            if pvNodes = [] then ok (Allowed ''no nodes found for volume'')
            else ok (patchPodWithNodeAffinity h pod pvNodes failoverMode))"

text \<open>The persistent volumes of this driver that the volumes of a pod refer to, or the response that ends the
  request. The storage class comes from the claim, or from the template of an ephemeral volume.\<close>

definition check_volume ::
  "'s hyper_handler \<Rightarrow> string \<Rightarrow> string \<Rightarrow> (PersistentVolumeClaim \<Rightarrow> string option) \<Rightarrow> string list \<Rightarrow>
   ('s, goerr, admission_response + string list) op" where
  "check_volume h namespace pvcName storageClassName pvNames =
     call (hh_OnError_PVC h DefaultRetry_Steps IsRetriableError (k8s_GetPVC (hh_client h) pvcName namespace))
       (\<lambda>err. if apierrors_IsNotFound err then ok (Inl (Allowed ''pvc not found''))
              else ok (Inl (Errored StatusBadRequest err)))
       (\<lambda>pvc. case storageClassName pvc of
          None \<Rightarrow> ok (Inr pvNames)
        | Some name \<Rightarrow>
            call (hh_OnError_SC h DefaultRetry_Steps IsRetriableError (k8s_GetStorageClass (hh_client h) name))
              (\<lambda>err. if apierrors_IsNotFound err then ok (Inr pvNames) else ok (Inl (Errored StatusBadRequest err)))
              (\<lambda>sc. if sc_Provisioner sc \<noteq> DriverName then ok (Inr pvNames)
                    else ok (Inr (pvNames @ [pvc_VolumeName pvc]))))"

fun pod_pvs ::
  "'s hyper_handler \<Rightarrow> string \<Rightarrow> string \<Rightarrow> PodVolume list \<Rightarrow> string list \<Rightarrow> ('s, goerr, admission_response + string list) op" where
  "pod_pvs h namespace podName [] pvNames = ok (Inr pvNames)"
| "pod_pvs h namespace podName (v # vs) pvNames =
     (let rest = (\<lambda>check. call check fail
            (\<lambda>answer. case answer of Inl response \<Rightarrow> ok (Inl response) | Inr names \<Rightarrow> pod_pvs h namespace podName vs names)) in
      case pvl_PersistentVolumeClaim v of
        Some claimName \<Rightarrow> rest (check_volume h namespace claimName pvc_StorageClassName pvNames)
      | None \<Rightarrow>
          (case pvl_Ephemeral v of
             None \<Rightarrow> pod_pvs h namespace podName vs pvNames
           | Some None \<Rightarrow> ok (Inl HandlerPanic)
           | Some (Some template) \<Rightarrow>
               rest (check_volume h namespace (podName @ ''-'' @ pct_VolumeName template)
                 (\<lambda>_. pct_StorageClassName template) pvNames)))"

definition hyper_Handle :: "'s hyper_handler \<Rightarrow> admission_request \<Rightarrow> ('s, goerr, admission_response) op" where
  "hyper_Handle h req =
     (if rq_Kind req \<noteq> ''Pod'' \<or> rq_Operation req \<noteq> ''CREATE'' then ok (Allowed ''unhandled request allowed'')
      else
        case hh_Decode h req of
          Inl err \<Rightarrow> ok (Errored StatusBadRequest err)
        | Inr pod \<Rightarrow>
            if pod_Volumes pod = [] then ok (Allowed ''pod has no volumes'')
            else
              call (pod_pvs h (rq_Namespace req) (pod_Name pod) (pod_Volumes pod) []) fail
                (\<lambda>answer. case answer of
                   Inl response \<Rightarrow> ok response
                 | Inr pvNames \<Rightarrow>
                     if pvNames \<noteq> [] then injectNodeAffinity h pvNames pod
                     else ok (Allowed ''pod has no hyperconverged volumes'')))"

section \<open>Lemmas\<close>

lemma mset_swap_at: "i < length xs \<Longrightarrow> j < length xs \<Longrightarrow> mset (swap_at i j xs) = mset xs"
  unfolding swap_at_def by (rule mset_swap)

lemma shuffle_from_mset: "i < length xs \<or> i = 0 \<Longrightarrow> mset (shuffle_from rnd i xs) = mset xs"
proof (induction i arbitrary: xs)
  case (Suc i)
  have "rnd (Suc (Suc i)) mod Suc (Suc i) < Suc (Suc i)" by simp
  then have j: "rnd (Suc (Suc i)) mod Suc (Suc i) < length xs" using Suc.prems by linarith
  have "length (swap_at (Suc i) (rnd (Suc (Suc i)) mod Suc (Suc i)) xs) = length xs" by (simp add: swap_at_def)
  then show ?case using Suc.IH Suc.prems j by (simp add: mset_swap_at)
qed simp

lemma shuffle_single [simp]: "shuffleObjects rnd [x] = [x]"
  by (simp add: shuffleObjects_def)







section \<open>Properties\<close>

text \<open>C35. The webhook for ephemeral volumes denies a request exactly if it creates a claim that decodes, is not
  annotated to accept ephemeral storage, names a storage class that the lookup gives and that belongs to this driver, and
  has no pod among its owners. Every other request is allowed or answered with an error.\<close>

theorem enforce_Handle_denies:
  "(\<exists>op text. fst (enforce_Handle h req s) = Inr (op, Denied text)) \<longleftrightarrow>
     rq_Kind req = ''PersistentVolumeClaim'' \<and> rq_Operation req = ''CREATE'' \<and>
     (\<exists>pvc name sc. eh_Decode h req = Inr pvc \<and>
        map_get (pvc_Annotations pvc) acceptEphemeralStorageAnnotationKey \<noteq> ''true'' \<and>
        pvc_StorageClassName pvc = Some name \<and> name \<noteq> [] \<and>
        fst (eh_OnError h DefaultRetry_Steps IsRetriableError (k8s_GetStorageClass (eh_client h) name) s) = Inr sc \<and>
        sc_Provisioner sc = eh_driverName h \<and> (\<forall>owner \<in> set (pvc_OwnerReferences pvc). or_Kind owner \<noteq> ''Pod''))"
  by (cases "eh_Decode h req")
    (auto simp: enforce_Handle_def call_def list_ex_iff split: prod.splits sum.splits option.splits if_splits)

definition ref_ephemeral :: "cluster ephemeral_handler" where
  "ref_ephemeral =
     \<lparr>eh_driverName = DriverName,
      eh_client = ref_k8s\<lparr>k8s_GetStorageClass := (\<lambda>n. ok \<lparr>sc_Name = n, sc_Provisioner = DriverName\<rparr>)\<rparr>,
      eh_Decode = (\<lambda>req. Inr \<lparr>pvc_Name = rq_Name req, pvc_Namespace = [], pvc_Annotations = Map.empty, pvc_OwnerReferences = [],
        pvc_StorageClassName = Some ''local'', pvc_VolumeName = []\<rparr>),
      eh_OnError = retry_loop\<rparr>"

theorem enforce_Handle_denies_witness:
  "\<exists>op text. fst (enforce_Handle ref_ephemeral
     \<lparr>rq_Kind = ''PersistentVolumeClaim'', rq_Name = ''data'', rq_Namespace = ''default'', rq_Operation = ''CREATE'', rq_Object = []\<rparr>
     (w_sys ref_cluster)) = Inr (op, Denied text)"
  unfolding enforce_Handle_denies
  by (simp add: ref_ephemeral_def DefaultRetry_Steps_def map_get_def eval_nat_numeral call_def)


text \<open>For a pod with several volumes whose nodes are known, the nodes of all of them are
  collected in order, and the failover mode is that of the last volume alone.\<close>

theorem gather_nodes_last_mode:
  assumes "\<And>p s. p \<in> set (ps @ [q]) \<Longrightarrow> fst (getPvNodesAndFailoverMode h p s) = Inr (Inr (nodes p, mode p))"
  shows "fst (gather_nodes h (ps @ [q]) acc m s) = Inr (Inr (acc @ concat (map nodes (ps @ [q])), mode q))"
proof -
  have run: "\<exists>t. getPvNodesAndFailoverMode h p s = (Inr (Inr (nodes p, mode p)), t)" if "p \<in> set (ps @ [q])" for p s
    using assms [OF that, of s] by (cases "getPvNodesAndFailoverMode h p s") auto
  show ?thesis
    using run
  proof (induction ps arbitrary: acc m s)
    case Nil
    from Nil [of q s] obtain t where "getPvNodesAndFailoverMode h q s = (Inr (Inr (nodes q, mode q)), t)" by auto
    then show ?case by (simp add: call_def)
  next
    case (Cons p ps)
    from Cons.prems [of p s] obtain t where "getPvNodesAndFailoverMode h p s = (Inr (Inr (nodes p, mode p)), t)" by auto
    with Cons show ?case by (simp add: call_def)
  qed
qed

definition ref_hyper :: "cluster hyper_handler" where
  "ref_hyper =
     \<lparr>hh_client = ref_k8s\<lparr>k8s_GetPV := (\<lambda>n. ok (zero_PersistentVolume\<lparr>pv_Name := n,
        pv_Annotations := [SelectedNodeAnnotation \<mapsto> ''node-1''],
        pv_CSI := Some \<lparr>csi_Driver = DriverName, csi_VolumeHandle = ''vg#'' @ n,
          csi_VolumeAttributes = Some [FailoverModeParam \<mapsto> (if n = ''a'' then ''durability'' else ''availability'')]\<rparr>\<rparr>))\<rparr>,
      hh_Decode = (\<lambda>req. Inl (errors_New ''no pod'')), hh_Marshal = (\<lambda>p. Inr []), hh_Int63n = (\<lambda>n. 0),
      hh_OnError_PVC = retry_loop, hh_OnError_SC = retry_loop, hh_OnError_PV = retry_loop\<rparr>"

lemma ref_hyper_nodes:
  "fst (getPvNodesAndFailoverMode ref_hyper p s) =
     Inr (Inr ([''node-1''], if p = ''a'' then FailoverModeDurability else FailoverModeAvailability))"
  by (simp add: getPvNodesAndFailoverMode_def ref_hyper_def DefaultRetry_Steps_def eval_nat_numeral call_def
      pv_nodes_def pv_node_def pv_mode_def volume_attribute_def FailoverModeDurability_def FailoverModeAvailability_def)

theorem gather_nodes_last_mode_witness:
  "fst (gather_nodes ref_hyper [''a'', ''b''] [] [] (w_sys ref_cluster)) =
     Inr (Inr ([''node-1'', ''node-1''], FailoverModeAvailability))"
  using gather_nodes_last_mode [where ps = "[''a'']" and q = "''b''" and h = ref_hyper and acc = "[]" and m = "[]"
      and nodes = "\<lambda>p. [''node-1'']" and mode = "\<lambda>p. if p = ''a'' then FailoverModeDurability else FailoverModeAvailability"
      and s = "w_sys ref_cluster"]
  by (simp add: ref_hyper_nodes)

end
