(* ===== verification/Startup.thy ===== *)
theory Startup
  imports Driver
begin

text \<open>
  The check of the disks at the start of the driver (\<open>internal/csi/core/lvm/startup.go\<close>), which leaves an
  event on the pod of the driver.

  The recorder formats the message once more, without arguments; the model is that of a message
  without percent signs, in which case it is unchanged.
\<close>

section \<open>Printing sizes\<close>

text \<open>Rounding a quotient to the nearest integer, ties to even.\<close>

definition round_half_even :: "int \<Rightarrow> int \<Rightarrow> int" where
  "round_half_even a b =
     (let q = a div b; r = a mod b in
      if 2 * r < b then q else if 2 * r > b then q + 1 else if even q then q else q + 1)"

text \<open>\<open>float64\<close> of a natural number: the 53 leading bits, rounded.\<close>

fun float_shift :: "nat \<Rightarrow> int \<Rightarrow> nat" where
  "float_shift 0 b = 0"
| "float_shift (Suc n) b = (if b < 2 ^ 53 then 0 else Suc (float_shift n (b div 2)))"

definition float64_of_nat :: "int \<Rightarrow> int" where
  "float64_of_nat b = (let e = float_shift 64 b in round_half_even b (2 ^ e) * 2 ^ e)"

text \<open>The verb \<open>%.1f\<close> of a quotient of a \<open>float64\<close> and a power of two, which is exact.\<close>

definition format_tenths :: "int \<Rightarrow> int \<Rightarrow> string" where
  "format_tenths b unit =
     (let t = round_half_even (10 * float64_of_nat \<bar>b\<bar>) unit in
      (if b < 0 then ''-'' else []) @ show_int (t div 10) @ ''.'' @ show_int (t mod 10))"

definition formatBytes :: "int \<Rightarrow> string" where
  "formatBytes b =
     (if b \<ge> 1024 * 1024 * 1024 then format_tenths b (1024 * 1024 * 1024) @ '' GiB''
      else format_tenths b (1024 * 1024) @ '' MiB'')"

definition formatDeviceList :: "Device list \<Rightarrow> string" where
  "formatDeviceList devices =
     Join '', '' (map (\<lambda>d. dev_Path d @ '' ('' @ formatBytes (dev_Size d) @ '')'') devices)"

section \<open>The diagnostic\<close>

record 's StartupDiagnostic =
  sd_probe :: "('s, goerr, DeviceList) op"
  sd_block :: "'s block_ops"
  sd_filter :: filter_predicate
  sd_recorder :: event_recorder
  sd_pod :: string

definition NewStartupDiagnostic ::
  "('s, goerr, DeviceList) op \<Rightarrow> 's block_ops \<Rightarrow> filter_predicate \<Rightarrow> event_recorder \<Rightarrow> string \<Rightarrow> 's StartupDiagnostic" where
  "NewStartupDiagnostic p b flt recorder pod =
     \<lparr>sd_probe = p, sd_block = b, sd_filter = flt, sd_recorder = recorder, sd_pod = pod\<rparr>"

record deviceSummary =
  ds_total :: int
  ds_nonLVM2Formatted :: int
  ds_available :: "Device list"
  ds_inUse :: "Device list"

definition zero_summary :: deviceSummary where
  "zero_summary = \<lparr>ds_total = 0, ds_nonLVM2Formatted = 0, ds_available = [], ds_inUse = []\<rparr>"

fun summarize :: "'s StartupDiagnostic \<Rightarrow> Device list \<Rightarrow> deviceSummary \<Rightarrow> ('s, goerr, deviceSummary) op" where
  "summarize sd [] summary = ok summary"
| "summarize sd (d # ds) summary =
     (if \<not> Match (sd_filter sd) d then summarize sd ds summary
      else
        let counted = summary\<lparr>ds_total := ds_total summary + 1\<rparr>;
            isAvailable = counted\<lparr>ds_available := ds_available summary @ [d]\<rparr> in
        call (blk_IsFormatted (sd_block sd) (dev_Path d))
          (\<lambda>_. summarize sd ds counted)
          (\<lambda>isFormatted.
             if \<not> isFormatted then summarize sd ds isAvailable
             else
               call (blk_IsLVM2 (sd_block sd) (dev_Path d))
                 (\<lambda>_. summarize sd ds counted)
                 (\<lambda>isLVM2.
                    if isLVM2 then summarize sd ds isAvailable
                    else summarize sd ds (counted\<lparr>ds_nonLVM2Formatted := ds_nonLVM2Formatted summary + 1,
                      ds_inUse := ds_inUse summary @ [d]\<rparr>))))"

definition scanNVMeDevices :: "'s StartupDiagnostic \<Rightarrow> ('s, goerr, deviceSummary) op" where
  "scanNVMeDevices sd =
     call (blk_GetDevices (sd_block sd)) (\<lambda>_. ok zero_summary)
       (\<lambda>allDevices. summarize sd (dl_Devices allDevices) zero_summary)"

definition buildDiskDiscoveryMessage :: "Device list \<Rightarrow> deviceSummary \<Rightarrow> string" where
  "buildDiskDiscoveryMessage available summary =
     ''Disk discovery complete: found '' @ show_int (int (length available)) @
     '' available disk(s) for volume group creation'' @ ''. Available: '' @ formatDeviceList available @
     (if ds_inUse summary \<noteq> [] then ''. In use (non-LVM formatted): '' @ formatDeviceList (ds_inUse summary) else [])"

definition buildNoDiskMessage :: "deviceSummary \<Rightarrow> string" where
  "buildNoDiskMessage summary =
     (if ds_total summary = 0 then
        ''No NVMe disks matching the expected model (Microsoft NVMe Direct Disk) '' @
        ''were found on this node. This can happen when the node pool uses a VM SKU '' @
        ''with ephemeral OS disk enabled, which consumes the NVMe disk for the OS. '' @
        ''Consider using a VM SKU with additional NVMe disks, or disable '' @
        ''ephemeral OS disk on the node pool.''
      else if ds_nonLVM2Formatted summary = ds_total summary then
        ''No available disks for volume group creation. Found '' @ show_int (ds_total summary) @ '' NVMe disk(s) '' @
        ''on this node, but all are already formatted with a non-LVM filesystem: '' @ formatDeviceList (ds_inUse summary) @ ''. '' @
        ''Consider using a VM SKU with additional NVMe disks.''
      else
        ''No available disks for volume group creation. Found '' @ show_int (ds_total summary) @ '' NVMe disk(s) '' @
        ''on this node ('' @ show_int (ds_nonLVM2Formatted summary) @ '' formatted with a non-LVM filesystem, '' @
        show_int (ds_total summary - ds_nonLVM2Formatted summary) @ '' unformatted or already '' @
        ''in a volume group), but none are newly available for volume group creation.'')"

text \<open>The diagnostic never returns an error.\<close>

definition report_disks ::
  "'s StartupDiagnostic \<Rightarrow> Device list \<Rightarrow> ('s world, goerr, unit) op" where
  "report_disks sd devices =
     call (on_sys (scanNVMeDevices sd)) fail
       (\<lambda>summary.
          let rec = WithObject (sd_recorder sd) (Some (PodObject (sd_pod sd))) in
          if devices = [] then eventf rec Warning ''NoDiskAvailable'' (buildNoDiskMessage summary) (ok ())
          else eventf rec Normal ''DiskDiscoveryComplete'' (buildDiskDiscoveryMessage devices summary) (ok ()))"

definition startup_Start :: "'s StartupDiagnostic \<Rightarrow> ('s world, goerr, unit) op" where
  "startup_Start sd =
     call (on_sys (sd_probe sd))
       (\<lambda>err. if \<not> errors_Is err ErrNoDevicesFound then ok () else report_disks sd [])
       (\<lambda>devices. report_disks sd (dl_Devices devices))"

section \<open>No change to the metadata\<close>

context node_driver
begin

lemma summarize_frame: "sd_block sd = c_block c \<Longrightarrow> keeps meta (summarize sd ds x)"
proof (induction ds arbitrary: x)
  case (Cons d ds)
  have "keeps meta (blk_IsFormatted (c_block c) p)" "keeps meta (blk_IsLVM2 (c_block c) p)" for p
    by (rule keepsI, erule formatted_meta, rule keepsI, erule lvm2_meta)
  with Cons show ?case
    unfolding summarize.simps by (intro frame_intros) simp_all
qed (unfold summarize.simps, rule keeps_ok)

lemma startup_Start_frame:
  assumes "sd_block sd = c_block c" "sd_probe sd = l_probe l"
  shows "keeps (\<lambda>w. meta (w_sys w)) (startup_Start sd)"
proof -
  have "keeps meta (blk_GetDevices (c_block c))" by (rule keepsI, erule devices_meta)
  then show ?thesis
    unfolding startup_Start_def report_disks_def scanNVMeDevices_def Let_def assms
    by (intro frame_intros summarize_frame assms drv.manager_frames)
qed

end

section \<open>What the summary says\<close>

definition summary_ok :: "'s StartupDiagnostic \<Rightarrow> deviceSummary \<Rightarrow> bool" where
  "summary_ok sd s \<longleftrightarrow>
     ds_nonLVM2Formatted s = int (length (ds_inUse s)) \<and>
     int (length (ds_available s)) + int (length (ds_inUse s)) \<le> ds_total s \<and>
     (\<forall>d \<in> set (ds_available s) \<union> set (ds_inUse s). Match (sd_filter sd) d)"

lemma summarize_ok:
  "summary_ok sd sm \<Longrightarrow> summarize sd ds sm s = (r, t) \<Longrightarrow>
    \<exists>sm'. r = Inr sm' \<and> summary_ok sd sm' \<and> ds_total sm' = ds_total sm + int (length (filter (Match (sd_filter sd)) ds))"
proof (induction ds arbitrary: sm s)
  case Nil
  then show ?case by auto
next
  case (Cons d ds)
  show ?case
  proof (cases "Match (sd_filter sd) d")
    case False
    with Cons show ?thesis by simp
  next
    case True
    let ?c = "sm\<lparr>ds_total := ds_total sm + 1\<rparr>"
    let ?a = "?c\<lparr>ds_available := ds_available sm @ [d]\<rparr>"
    let ?u = "?c\<lparr>ds_nonLVM2Formatted := ds_nonLVM2Formatted sm + 1, ds_inUse := ds_inUse sm @ [d]\<rparr>"
    have ok: "summary_ok sd ?c" "summary_ok sd ?a" "summary_ok sd ?u"
      using Cons.prems(1) True by (auto simp: summary_ok_def)
    have "\<exists>sm' \<in> {?c, ?a, ?u}. \<exists>s'. summarize sd ds sm' s' = (r, t)"
      using Cons.prems(2) True by (auto simp: Let_def elim!: callE split: if_splits) (fast | metis)+
    then obtain sm' s' where sm: "sm' \<in> {?c, ?a, ?u}" and run: "summarize sd ds sm' s' = (r, t)" by blast
    have "summary_ok sd sm'" "ds_total sm' = ds_total sm + 1" using sm ok by auto
    with Cons.IH [OF _ run] True show ?thesis by auto
  qed
qed

lemma scan_ok:
  assumes "scanNVMeDevices sd s = (r, t)"
  shows "\<exists>sm. r = Inr sm \<and> summary_ok sd sm"
proof -
  have "summary_ok sd zero_summary" by (simp add: summary_ok_def zero_summary_def)
  with assms summarize_ok [of sd zero_summary] show ?thesis
    unfolding scanNVMeDevices_def by (elim callE) (auto, blast)
qed

text \<open>C38. The start-up diagnostic succeeds whatever it finds, changes the system only by its
  queries, and leaves at most one event: none if the scan of the devices failed, a warning if it found no
  device, and otherwise one that lists exactly the devices that were found.\<close>

theorem startup_Start_reports:
  "case startup_Start sd w of (r, w') \<Rightarrow>
    r = Inr () \<and>
    (case fst (sd_probe sd (w_sys w)) of
       Inl err \<Rightarrow>
         (if errors_Is err ErrNoDevicesFound
          then \<exists>summary. summary_ok sd summary \<and> w_events w' = w_events
            (Eventf (WithObject (sd_recorder sd) (Some (PodObject (sd_pod sd)))) Warning ''NoDiskAvailable''
               (buildNoDiskMessage summary) w)
          else w_events w' = w_events w)
     | Inr devices \<Rightarrow>
         \<exists>summary. summary_ok sd summary \<and> w_events w' = w_events
            (Eventf (WithObject (sd_recorder sd) (Some (PodObject (sd_pod sd))))
               (if dl_Devices devices = [] then Warning else Normal)
               (if dl_Devices devices = [] then ''NoDiskAvailable'' else ''DiskDiscoveryComplete'')
               (if dl_Devices devices = [] then buildNoDiskMessage summary
                else buildDiskDiscoveryMessage (dl_Devices devices) summary) w))"
proof -
  have report: "\<exists>summary w'. report_disks sd ds (w\<lparr>w_sys := s\<rparr>) = (Inr (), w') \<and> summary_ok sd summary \<and>
      w_events w' = w_events
        (Eventf (WithObject (sd_recorder sd) (Some (PodObject (sd_pod sd)))) (if ds = [] then Warning else Normal)
           (if ds = [] then ''NoDiskAvailable'' else ''DiskDiscoveryComplete'')
           (if ds = [] then buildNoDiskMessage summary else buildDiskDiscoveryMessage ds summary) w)" for ds s
  proof -
    obtain r t where scan: "scanNVMeDevices sd s = (r, t)" by fastforce
    from scan_ok [OF scan] obtain sm where "r = Inr sm" "summary_ok sd sm" by blast
    with scan show ?thesis
      by (intro exI [of _ sm]) (auto simp: report_disks_def call_def on_sys_run Let_def Eventf_def split: object_recorder.splits)
  qed
  obtain p s where probe: "sd_probe sd (w_sys w) = (p, s)" by fastforce
  show ?thesis
  proof (cases p)
    case (Inl err)
    then show ?thesis using probe report [of "[]" s] by (auto simp: startup_Start_def call_def on_sys_run)
  next
    case (Inr devices)
    then show ?thesis using probe report [of "dl_Devices devices" s] by (auto simp: startup_Start_def call_def on_sys_run)
  qed
qed

end
