(* ===== verification/Telemetry.thy ===== *)
theory Telemetry
  imports Effects
begin

text \<open>
  Telemetry: package \<open>internal/pkg/telemetry\<close>, and the build information of \<open>internal/pkg/version\<close> that it
  attaches.

  The OpenTelemetry and Prometheus libraries are the record \<open>otel\<close> of the functions that the code calls.
  An exporter and a resource are only passed on, so that a number stands for them; of a provider the code
  uses the method \<open>Shutdown\<close>, and a nil provider is \<open>None\<close>. Logging the version is left out.
\<close>

section \<open>Build information\<close>

text \<open>The variables of package \<open>version\<close>, which the linker sets, and what package \<open>runtime\<close> reports.\<close>

record binary =
  b_buildId :: string
  b_version :: string
  b_gitCommit :: string
  b_buildDate :: string
  b_goVersion :: string
  b_compiler :: string
  b_GOOS :: string
  b_GOARCH :: string

record Info =
  i_BuildId :: string
  i_Version :: string
  i_GitCommit :: string
  i_BuildDate :: string
  i_GoVersion :: string
  i_Compiler :: string
  i_Platform :: string

definition GetInfo :: "binary \<Rightarrow> Info" where
  "GetInfo b =
     \<lparr>i_BuildId = b_buildId b, i_Version = b_version b, i_GitCommit = b_gitCommit b, i_BuildDate = b_buildDate b,
      i_GoVersion = b_goVersion b, i_Compiler = b_compiler b, i_Platform = b_GOOS b @ ''/'' @ b_GOARCH b\<rparr>"

definition Detect :: "Info \<Rightarrow> (string \<times> string) list" where
  "Detect i =
     [(''service.version'', i_Version i), (''service.gitCommit'', i_GitCommit i),
      (''service.buildId'', i_BuildId i), (''service.buildDate'', i_BuildDate i)]"

section \<open>Configuration\<close>

datatype Exporter = Console | OTLP | Prometheus

datatype registry = NewRegistry | ControllerRegistry

record telemetry_config =
  tc_serviceID :: string
  tc_endpoint :: string
  tc_traceSampleRate :: int
  tc_prometheus :: registry
  tc_exporters :: "Exporter \<Rightarrow> bool"

type_synonym telemetry_option = "telemetry_config \<Rightarrow> telemetry_config"

definition newConfig :: "telemetry_option list \<Rightarrow> telemetry_config" where
  "newConfig options =
     foldl (\<lambda>conf o1. o1 conf)
       \<lparr>tc_serviceID = [], tc_endpoint = [], tc_traceSampleRate = 0, tc_prometheus = NewRegistry,
        tc_exporters = (\<lambda>_. False)\<rparr> options"

definition WithServiceInstanceID :: "string \<Rightarrow> telemetry_option" where
  "WithServiceInstanceID id1 = (\<lambda>cfg. cfg\<lparr>tc_serviceID := id1\<rparr>)"

definition WithConsole :: telemetry_option where
  "WithConsole = (\<lambda>cfg. cfg\<lparr>tc_exporters := (tc_exporters cfg)(Console := True)\<rparr>)"

definition WithOTLP :: telemetry_option where
  "WithOTLP = (\<lambda>cfg. cfg\<lparr>tc_exporters := (tc_exporters cfg)(OTLP := True)\<rparr>)"

definition WithPrometheus :: "registry \<Rightarrow> telemetry_option" where
  "WithPrometheus prom =
     (\<lambda>cfg. cfg\<lparr>tc_exporters := (tc_exporters cfg)(Prometheus := True), tc_prometheus := prom\<rparr>)"

definition WithEndpoint :: "string \<Rightarrow> telemetry_option" where
  "WithEndpoint endpoint = (\<lambda>cfg. cfg\<lparr>tc_endpoint := endpoint\<rparr>)"

text \<open>The conversion of an \<open>int\<close> to an \<open>int32\<close> keeps the low 32 bits.\<close>

definition wrap32 :: "int \<Rightarrow> int" where
  "wrap32 x = (x + 2 ^ 31) mod 2 ^ 32 - 2 ^ 31"

definition WithTraceSampleRate :: "int \<Rightarrow> telemetry_option" where
  "WithTraceSampleRate rate = (\<lambda>cfg. cfg\<lparr>tc_traceSampleRate := wrap32 rate\<rparr>)"

section \<open>Providers\<close>

datatype semconv_key = ServiceNameKey | ServiceInstanceIDKey

datatype resource_option =
    WithFromEnv
  | WithProcess
  | WithOS
  | WithContainer
  | WithHost
  | WithAttributes "(semconv_key \<times> string) list"
  | WithDetectors Info

definition service :: string where "service = ''local-csi-driver''"

definition NewResourceOptions :: "binary \<Rightarrow> telemetry_config \<Rightarrow> resource_option list" where
  "NewResourceOptions b cfg =
     [WithFromEnv, WithProcess, WithOS, WithContainer, WithHost,
      WithAttributes [(ServiceNameKey, service), (ServiceInstanceIDKey, tc_serviceID cfg)],
      WithDetectors (GetInfo b)]"

text \<open>A periodic reader pushes what it reads to its exporter, together with what a bridge gathers from a
  registry; the Prometheus exporter is a reader itself.\<close>

datatype metric_reader = PeriodicReader nat registry | ExporterReader nat

datatype metric_option = WithResource nat | WithReader metric_reader

record TracingConfiguration =
  tr_Endpoint :: string
  tr_SamplingRatePerMillion :: int

record 's provider =
  p_Shutdown :: "('s, goerr, unit) op"

record 's otel =
  ot_binary :: binary
  ot_NewResource :: "resource_option list \<Rightarrow> ('s, goerr, nat) op"
  ot_NewConsole :: "('s, goerr, nat) op"
  ot_NewOTLP :: "string \<Rightarrow> ('s, goerr, nat) op"
  ot_NewPrometheus :: "registry \<Rightarrow> ('s, goerr, nat) op"
  ot_NewMeterProvider :: "metric_option list \<Rightarrow> 's \<Rightarrow> 's provider option \<times> 's"
  ot_SetMeterProvider :: "'s provider option \<Rightarrow> 's \<Rightarrow> 's"
  ot_NewTracerProvider :: "TracingConfiguration option \<Rightarrow> resource_option list \<Rightarrow> ('s, goerr, 's provider option) op"
  ot_SetTracerProvider :: "'s provider option \<Rightarrow> 's \<Rightarrow> 's"

record 's OtelProviders =
  op_tp :: "'s provider option"
  op_mp :: "'s provider option"

definition wrapped :: "string \<Rightarrow> goerr \<Rightarrow> goerr" where
  "wrapped msg err = errorf (msg @ '': '' @ err_msg err) [err]"

definition tracing_configuration :: "telemetry_config \<Rightarrow> TracingConfiguration option" where
  "tracing_configuration cfg =
     (if tc_endpoint cfg \<noteq> [] \<and> 0 < tc_traceSampleRate cfg
      then Some \<lparr>tr_Endpoint = tc_endpoint cfg, tr_SamplingRatePerMillion = tc_traceSampleRate cfg\<rparr> else None)"

definition InitTracing :: "'s otel \<Rightarrow> telemetry_config \<Rightarrow> ('s, goerr, 's provider option) op" where
  "InitTracing ot cfg =
     (let otlpCfg = tracing_configuration cfg;
          resOpts = (if otlpCfg = None then [] else NewResourceOptions (ot_binary ot) cfg) in
      call (ot_NewTracerProvider ot otlpCfg resOpts) (\<lambda>err. fail (wrapped ''failed to create tracer provider'' err))
        (\<lambda>tp s. (Inr tp, ot_SetTracerProvider ot tp s)))"

definition metric_readers :: "'s otel \<Rightarrow> telemetry_config \<Rightarrow> ('s, goerr, metric_option list) op" where
  "metric_readers ot cfg =
     (if tc_exporters cfg Console then
        call (ot_NewConsole ot) (\<lambda>err. fail (wrapped ''failed to initialize console exporter'' err))
          (\<lambda>x. ok [WithReader (PeriodicReader x (tc_prometheus cfg))])
      else if tc_exporters cfg OTLP then
        call (ot_NewOTLP ot (tc_endpoint cfg)) (\<lambda>err. fail (wrapped ''failed to initialize OTLP gRPC exporter'' err))
          (\<lambda>x. ok [WithReader (PeriodicReader x (tc_prometheus cfg))])
      else if tc_exporters cfg Prometheus then
        call (ot_NewPrometheus ot (tc_prometheus cfg)) (\<lambda>err. fail (wrapped ''failed to initialize Prometheus exporter'' err))
          (\<lambda>x. ok [WithReader (ExporterReader x)])
      else ok [])"

definition InitMetrics :: "'s otel \<Rightarrow> telemetry_config \<Rightarrow> ('s, goerr, 's provider option) op" where
  "InitMetrics ot cfg =
     call (ot_NewResource ot (NewResourceOptions (ot_binary ot) cfg)) (\<lambda>err. fail (wrapped ''failed to create resource'' err))
       (\<lambda>resource. call (metric_readers ot cfg) fail
         (\<lambda>readers s. case ot_NewMeterProvider ot (WithResource resource # readers) s of
            (mp, s') \<Rightarrow> (Inr mp, ot_SetMeterProvider ot mp s')))"

definition telemetry_New :: "'s otel \<Rightarrow> telemetry_option list \<Rightarrow> ('s, goerr, 's OtelProviders) op" where
  "telemetry_New ot opts =
     (let cfg = newConfig opts in
      call (InitMetrics ot cfg) (\<lambda>err. fail (wrapped ''failed to initialize metrics'' err))
        (\<lambda>mp. call (InitTracing ot cfg)
           (\<lambda>err. let e = wrapped ''failed to initialize tracing'' err in
              case mp of None \<Rightarrow> fail e | Some p \<Rightarrow> call (p_Shutdown p) (\<lambda>_. fail e) (\<lambda>_. fail e))
           (\<lambda>tp. ok \<lparr>op_tp = tp, op_mp = mp\<rparr>)))"

definition shutdown_provider :: "string \<Rightarrow> 's provider option \<Rightarrow> ('s, goerr, unit) op" where
  "shutdown_provider msg p =
     (case p of None \<Rightarrow> ok () | Some q \<Rightarrow> call (p_Shutdown q) (\<lambda>err. fail (wrapped msg err)) ok)"

text \<open>\<open>Start\<close> once its context is closed.\<close>

definition telemetry_Start :: "'s OtelProviders \<Rightarrow> ('s, goerr, unit) op" where
  "telemetry_Start p =
     call (shutdown_provider ''failed to shutdown meter provider'' (op_mp p)) fail
       (\<lambda>_. shutdown_provider ''failed to shutdown trace provider'' (op_tp p))"

section \<open>Lemmas\<close>

lemma wrap32_bounds: "- (2 ^ 31) \<le> wrap32 x" "wrap32 x < 2 ^ 31"
  by (simp_all add: wrap32_def)

lemma wrap32_id: "- (2 ^ 31) \<le> x \<Longrightarrow> x < 2 ^ 31 \<Longrightarrow> wrap32 x = x"
  by (simp add: wrap32_def)

text \<open>At most one exporter is used, and the console comes before the others.\<close>

lemma metric_readers_cases:
  assumes "metric_readers ot cfg s = (Inr rs, t)"
  shows "if tc_exporters cfg Console then \<exists>x. rs = [WithReader (PeriodicReader x (tc_prometheus cfg))]
    else if tc_exporters cfg OTLP then \<exists>x. rs = [WithReader (PeriodicReader x (tc_prometheus cfg))]
    else if tc_exporters cfg Prometheus
    then \<exists>x. ot_NewPrometheus ot (tc_prometheus cfg) s = (Inr x, t) \<and> rs = [WithReader (ExporterReader x)]
    else rs = []"
  using assms by (auto simp: metric_readers_def elim!: callE split: if_splits)

text \<open>Tracing that fails leaves no meter provider running, and metrics that fail leave no provider at all.\<close>

lemma telemetry_New_tracing_fails:
  assumes "InitMetrics ot (newConfig opts) s = (Inr (Some p), t)" "InitTracing ot (newConfig opts) t = (Inl err, u)"
  shows "telemetry_New ot opts s = (Inl (wrapped ''failed to initialize tracing'' err), snd (p_Shutdown p u))"
  using assms by (auto simp: telemetry_New_def Let_def call_run split: prod.splits sum.splits)

lemma telemetry_New_metrics_fail:
  assumes "InitMetrics ot (newConfig opts) s = (Inl err, t)"
  shows "telemetry_New ot opts s = (Inl (wrapped ''failed to initialize metrics'' err), t)"
  using assms by (simp add: telemetry_New_def Let_def)

text \<open>A tracer provider is shut down only if there is no meter provider or its shutdown succeeds.\<close>

lemma telemetry_Start_skips_tracer:
  assumes "op_mp p = Some m" "p_Shutdown m s = (Inl err, t)"
  shows "telemetry_Start p s = (Inl (wrapped ''failed to shutdown meter provider'' err), t)"
  using assms by (simp add: telemetry_Start_def shutdown_provider_def call_def)

lemma telemetry_Start_both:
  assumes "op_mp p = Some m" "p_Shutdown m s = (Inr (), t)" "op_tp p = Some q" "p_Shutdown q t = (Inr (), u)"
  shows "telemetry_Start p s = (Inr (), u)"
  using assms by (simp add: telemetry_Start_def shutdown_provider_def call_def)

section \<open>Reference libraries\<close>

text \<open>Libraries whose calls succeed and change nothing, without a tracer.\<close>

definition ref_provider :: "'s provider" where
  "ref_provider = \<lparr>p_Shutdown = ok ()\<rparr>"

definition ref_otel :: "'s otel" where
  "ref_otel =
     \<lparr>ot_binary = \<lparr>b_buildId = ''N/A'', b_version = ''N/A'', b_gitCommit = ''N/A'', b_buildDate = ''N/A'',
        b_goVersion = ''go1.24'', b_compiler = ''gc'', b_GOOS = ''linux'', b_GOARCH = ''amd64''\<rparr>,
      ot_NewResource = (\<lambda>opts. ok 0), ot_NewConsole = ok 1, ot_NewOTLP = (\<lambda>endpoint. ok 2),
      ot_NewPrometheus = (\<lambda>prom. ok 3), ot_NewMeterProvider = (\<lambda>opts s. (Some ref_provider, s)),
      ot_SetMeterProvider = (\<lambda>p s. s), ot_NewTracerProvider = (\<lambda>cfg opts. ok None),
      ot_SetTracerProvider = (\<lambda>p s. s)\<rparr>"

lemma ref_otel_New: "telemetry_New ref_otel opts s = (Inr \<lparr>op_tp = None, op_mp = Some ref_provider\<rparr>, s)"
  by (simp add: telemetry_New_def InitMetrics_def InitTracing_def metric_readers_def Let_def ref_otel_def call_def ok_def)

end
