(* ===== verification/Programs.thy ===== *)
theory Programs
  imports Service Gc PvCleanup Webhooks Startup Telemetry
begin

text \<open>
  The two programs: the driver that runs on every node (\<open>cmd/driver/main.go\<close>) and the manager that runs
  once per cluster (\<open>cmd/manager/main.go\<close>), with the options of the LVM client (\<open>internal/pkg/lvm/options.go\<close>).

  A program either exits with a termination message or, when its controller manager ends, with the
  parts that it added to that manager. The controller manager, the certificate rotator and the
  telemetry libraries are parameters (\<open>runtime\<close>), and so is the platform (\<open>platform\<close>). Of the flags, those are kept that this
  code reads; the others are only passed on to libraries.
\<close>

section \<open>The LVM client\<close>

type_synonym 's ClientOption = "'s client \<Rightarrow> 's client"

definition WithLVM :: "string \<Rightarrow> 's ClientOption" where
  "WithLVM path = (\<lambda>c. c\<lparr>c_lvmPath := path\<rparr>)"

definition WithBlockDeviceUtilities :: "'s block_ops \<Rightarrow> 's ClientOption" where
  "WithBlockDeviceUtilities blockUtils = (\<lambda>c. c\<lparr>c_block := blockUtils\<rparr>)"

text \<open>The first argument stands for the nil interface that the client has before the options apply.\<close>

definition NewClient :: "'s block_ops \<Rightarrow> 's host \<Rightarrow> arg_marshal \<Rightarrow> 's ClientOption list \<Rightarrow> 's client" where
  "NewClient nil h args opts =
     foldl (\<lambda>c opt. opt c) \<lparr>c_block = nil, c_lvmPath = ''/sbin/lvm'', c_host = h, c_args = args\<rparr> opts"

section \<open>The parameters\<close>

record 's platform =
  pf_host :: "'s host"
  pf_mounts :: "'s mount_host"
  pf_node :: "'s node_host"
  pf_args :: arg_marshal
  pf_nil_block :: "'s block_ops"
  pf_quantity_String :: "int \<Rightarrow> string"
  pf_ticks :: nat
  pf_ctxErr :: goerr

datatype 's runnable =
    RunTelemetry "'s OtelProviders"
  | RunVolumeClient "'s LVM"
  | RunStartup "'s StartupDiagnostic"
  | RunFailover "'s PVFailoverReconciler"
  | RunScanner "'s LVMOrphanScanner"
  | RunServer "'s csi_server"
  | Healthz
  | Readyz
  | RunPVCleanup "'s PVCleanupReconciler"

datatype webhook_type = Validating | Mutating

record CertRotator =
  cr_SecretKey :: "string \<times> string"
  cr_DNSName :: string
  cr_ExtraDNSNames :: "string list"
  cr_Webhooks :: "(string \<times> webhook_type) list"

record 's runtime =
  rt_otel :: "'s otel"
  rt_GetConfig :: "('s, goerr, unit) op"
  rt_NewManager :: "('s, goerr, unit) op"
  rt_Add :: "'s runnable \<Rightarrow> ('s, goerr, unit) op"
  rt_IndexField :: "(PersistentVolume \<Rightarrow> string list) \<Rightarrow> ('s, goerr, unit) op"
  rt_AddRotator :: "CertRotator \<Rightarrow> ('s, goerr, unit) op"
  rt_Start :: "('s, goerr, unit) op"
  rt_client :: "'s k8s"
  rt_MkdirAll :: "string \<Rightarrow> ('s, goerr, unit) op"
  rt_WriteFile :: "string \<Rightarrow> string \<Rightarrow> ('s, goerr, unit) op"

definition terminationMessagePath :: string where "terminationMessagePath = ''/tmp/termination-log''"

definition logError :: "'s runtime \<Rightarrow> goerr \<Rightarrow> string \<Rightarrow> ('s, goerr, unit) op" where
  "logError rt err msg =
     call (rt_MkdirAll rt (filepath_Dir terminationMessagePath)) (\<lambda>_. ok ())
       (\<lambda>_. call (rt_WriteFile rt terminationMessagePath (msg @ '': '' @ err_msg err)) (\<lambda>_. ok ()) ok)"

definition logAndExit :: "'s runtime \<Rightarrow> string \<Rightarrow> goerr \<Rightarrow> ('s, string, 'a) op" where
  "logAndExit rt msg err =
     call (logError rt err msg) (\<lambda>_. fail (msg @ '': '' @ err_msg err)) (\<lambda>_. fail (msg @ '': '' @ err_msg err))"

section \<open>Adding parts\<close>

definition orphan_SetupWithManager :: "'s runtime \<Rightarrow> 's LVMOrphanScanner \<Rightarrow> ('s, goerr, unit) op" where
  "orphan_SetupWithManager rt r =
     call (rt_IndexField rt index_volume_handle)
       (\<lambda>err. fail (errorf (''failed to setup field indexing: '' @ err_msg err) [err]))
       (\<lambda>_. rt_Add rt (RunScanner r))"

fun add_part :: "'s runtime \<Rightarrow> 's runnable \<Rightarrow> ('s, goerr, unit) op" where
  "add_part rt (RunScanner r) = orphan_SetupWithManager rt r"
| "add_part rt x = rt_Add rt x"

fun add_failed :: "'s runnable \<Rightarrow> string" where
  "add_failed (RunTelemetry _) = ''unable to add telemetry to internal manager''"
| "add_failed (RunVolumeClient _) = ''unable to setup volume client with manager''"
| "add_failed (RunStartup _) = ''unable to add startup diagnostic to manager''"
| "add_failed (RunFailover _) = ''unable to create LV garbage collection controller''"
| "add_failed (RunScanner _) = ''unable to setup LVM orphan cleanup controller with manager''"
| "add_failed (RunServer _) = ''unable to add csi server to internal manager''"
| "add_failed Healthz = ''unable to set up health check''"
| "add_failed Readyz = ''unable to set up ready check''"
| "add_failed (RunPVCleanup _) = ''unable to register PV cleanup controller''"

fun add_parts :: "'s runtime \<Rightarrow> 's runnable list \<Rightarrow> ('s, string, 'a) op \<Rightarrow> ('s, string, 'a) op" where
  "add_parts rt [] k = k"
| "add_parts rt (x # xs) k = call (add_part rt x) (logAndExit rt (add_failed x)) (\<lambda>_. add_parts rt xs k)"

section \<open>The driver\<close>

record driver_flags =
  fl_nodeName :: string
  fl_podName :: string
  fl_namespace :: string
  fl_csiAddr :: string
  fl_traceAddr :: string
  fl_traceSampleRate :: int
  fl_traceServiceID :: string
  fl_printVersionAndExit :: bool
  fl_eventRecorderEnabled :: bool
  fl_enableCleanup :: bool
  fl_enableLVGarbageCollection :: bool
  fl_enableLVMOrphanCleanup :: bool
  fl_lvmOrphanCleanupInterval :: int
  fl_runAlongsideWebhook :: bool
  fl_diskPathPrefixes :: string
  fl_diskModels :: string
  fl_diskTypes :: string

definition default_flags :: driver_flags where
  "default_flags =
     \<lparr>fl_nodeName = [], fl_podName = [], fl_namespace = ''default'', fl_csiAddr = ''unix:///tmp/csi.sock'',
      fl_traceAddr = [], fl_traceSampleRate = 0, fl_traceServiceID = [], fl_printVersionAndExit = False, fl_eventRecorderEnabled = True, fl_enableCleanup = True,
      fl_enableLVGarbageCollection = True, fl_enableLVMOrphanCleanup = True,
      fl_lvmOrphanCleanupInterval = 1800000000000, fl_runAlongsideWebhook = False, fl_diskPathPrefixes = [],
      fl_diskModels = [], fl_diskTypes = []\<rparr>"

definition driver_filter :: "driver_flags \<Rightarrow> filter_predicate" where
  "driver_filter fl =
     NewEphemeralDiskFilter (Split CHR '','' (fl_diskPathPrefixes fl)) (Split CHR '','' (fl_diskModels fl))
       (Split CHR '','' (fl_diskTypes fl))"

definition driver_telemetry :: "driver_flags \<Rightarrow> telemetry_option list" where
  "driver_telemetry fl =
     [WithServiceInstanceID (fl_traceServiceID fl), WithPrometheus ControllerRegistry, WithEndpoint (fl_traceAddr fl),
      WithTraceSampleRate (fl_traceSampleRate fl)]"

definition driver_client :: "'s platform \<Rightarrow> 's client" where
  "driver_client pf =
     NewClient (pf_nil_block pf) (pf_host pf) (pf_args pf) [WithBlockDeviceUtilities (block_New (pf_host pf))]"

definition driver_recorder :: "driver_flags \<Rightarrow> event_recorder" where
  "driver_recorder fl = (if fl_eventRecorderEnabled fl then EventRecorder else NoopRecorder)"

text \<open>The parts before the CSI server, in the order in which they are added.\<close>

definition driver_parts :: "'s runtime \<Rightarrow> 's platform \<Rightarrow> driver_flags \<Rightarrow> 's LVM \<Rightarrow> 's runnable list" where
  "driver_parts rt pf fl l =
     (let blockDevUtils = block_New (pf_host pf); diskFilter = driver_filter fl;
          deviceProbe = ScanAvailableDevices blockDevUtils diskFilter;
          mgr = NewClientManager (driver_client pf); m = NewMounter (pf_mounts pf); rec = driver_recorder fl in
      [RunVolumeClient l, RunStartup (NewStartupDiagnostic deviceProbe blockDevUtils diskFilter rec (fl_podName fl))] @
      (if fl_enableLVGarbageCollection fl
       then [RunFailover (NewPVFailoverReconciler (rt_client rt) rec (fl_nodeName fl) SelectedNodeAnnotation
         SelectedInitialNodeParam mgr m)] else []) @
      (if fl_enableLVMOrphanCleanup fl
       then [RunScanner (NewLVMOrphanScanner (rt_client rt) rec (fl_nodeName fl) SelectedNodeAnnotation
         SelectedInitialNodeParam mgr m (fl_lvmOrphanCleanupInterval fl))] else []))"

definition driver_services :: "'s runtime \<Rightarrow> 's platform \<Rightarrow> driver_flags \<Rightarrow> 's LVM \<Rightarrow> 's driver" where
  "driver_services rt pf fl l =
     driver_NewCombined (pf_mounts pf) (pf_node pf) (fl_nodeName fl) (Some (fl_podName fl))
       (LVM_interface (pf_quantity_String pf) (pf_ticks pf) (pf_ctxErr pf) l) (rt_client rt)
       (fl_runAlongsideWebhook fl) (driver_recorder fl)"

definition driver_run ::
  "'s runtime \<Rightarrow> 's platform \<Rightarrow> driver_flags \<Rightarrow> 's OtelProviders \<Rightarrow> 's LVM \<Rightarrow> ('s, string, 's runnable list) op" where
  "driver_run rt pf fl tel l =
     add_parts rt (driver_parts rt pf fl l)
       (call (NewCombined (h_Remove (pf_host pf)) (fl_csiAddr fl) (driver_services rt pf fl l))
          (logAndExit rt ''unable to create csi server'')
          (\<lambda>csiServer.
             add_parts rt [RunServer csiServer, Healthz, Readyz]
               (call (rt_Start rt) (logAndExit rt ''problem running manager'')
                  (\<lambda>_. ok (RunTelemetry tel # driver_parts rt pf fl l @ [RunServer csiServer, Healthz, Readyz])))))"

definition driver_volumes ::
  "'s runtime \<Rightarrow> 's platform \<Rightarrow> driver_flags \<Rightarrow> 's OtelProviders \<Rightarrow> ('s, string, 's runnable list) op" where
  "driver_volumes rt pf fl tel =
     (\<lambda>s. case Client_IsSupported (driver_client pf) s of
        (False, s') \<Rightarrow> logAndExit rt ''lvm is not supported'' (errors_New ''lvm is not supported on this node'') s'
      | (True, s') \<Rightarrow>
          (case NewLVM (fl_podName fl) (fl_nodeName fl) (fl_namespace fl) (fl_enableCleanup fl)
              (ScanAvailableDevices (block_New (pf_host pf)) (driver_filter fl))
              (NewClientManager (driver_client pf)) of
             Inl err \<Rightarrow> logAndExit rt ''unable to create lvm volume client'' err s'
           | Inr volumeClient \<Rightarrow> driver_run rt pf fl tel volumeClient s'))"

definition driver_main ::
  "'s runtime \<Rightarrow> 's platform \<Rightarrow> driver_flags \<Rightarrow> ('s, string, 's runnable list) op" where
  "driver_main rt pf fl =
     (if fl_printVersionAndExit fl then ok []
      else
        call (telemetry_New (rt_otel rt) (driver_telemetry fl)) (logAndExit rt ''failed to initialize telemetry'')
          (\<lambda>tel. call (rt_GetConfig rt) (logAndExit rt ''unable to get rest config for api server'')
            (\<lambda>_. call (rt_NewManager rt) (logAndExit rt ''unable to start manager'')
              (\<lambda>_. add_parts rt [RunTelemetry tel]
                (call (raid_Initialize (pf_host pf)) (logAndExit rt ''failed to initialize raid'')
                  (\<lambda>_. driver_volumes rt pf fl tel))))))"

section \<open>The manager\<close>

record manager_flags =
  mf_namespace :: string
  mf_webhookSvcName :: string
  mf_enforceEphemeralWebhookConfig :: string
  mf_hyperconvergedWebhookConfig :: string
  mf_certSecretName :: string
  mf_printVersionAndExit :: bool
  mf_eventRecorderEnabled :: bool
  mf_enablePVCleanup :: bool

definition default_manager_flags :: manager_flags where
  "default_manager_flags =
     \<lparr>mf_namespace = ''default'', mf_webhookSvcName = [], mf_enforceEphemeralWebhookConfig = [],
      mf_hyperconvergedWebhookConfig = [], mf_certSecretName = [], mf_printVersionAndExit = False,
      mf_eventRecorderEnabled = True, mf_enablePVCleanup = True\<rparr>"

definition flags_error :: "manager_flags \<Rightarrow> (string \<times> goerr) option" where
  "flags_error fl =
     (if mf_enforceEphemeralWebhookConfig fl = [] \<and> mf_hyperconvergedWebhookConfig fl = [] \<and> \<not> mf_enablePVCleanup fl
      then Some (''no webhooks or PV cleanup controller configured'', errors_New ''at least one feature must be enabled'')
      else if mf_enforceEphemeralWebhookConfig fl \<noteq> [] \<or> mf_hyperconvergedWebhookConfig fl \<noteq> [] then
        if mf_webhookSvcName fl = []
        then Some (''webhook service name must be set'', errors_New ''--webhook-service-name is required when webhooks are enabled'')
        else if mf_certSecretName fl = []
        then Some (''certificate secret name must be set'', errors_New ''--certificate-secret-name is required when webhooks are enabled'')
        else None
      else None)"

definition webhooks :: "manager_flags \<Rightarrow> (string \<times> webhook_type) list" where
  "webhooks fl =
     (if mf_enforceEphemeralWebhookConfig fl \<noteq> [] then [(mf_enforceEphemeralWebhookConfig fl, Validating)] else []) @
     (if mf_hyperconvergedWebhookConfig fl \<noteq> [] then [(mf_hyperconvergedWebhookConfig fl, Mutating)] else [])"

definition cert_rotator :: "manager_flags \<Rightarrow> CertRotator" where
  "cert_rotator fl =
     \<lparr>cr_SecretKey = (mf_namespace fl, mf_certSecretName fl),
      cr_DNSName = mf_webhookSvcName fl @ ''.'' @ mf_namespace fl @ ''.svc'',
      cr_ExtraDNSNames = [mf_webhookSvcName fl @ ''.'' @ mf_namespace fl @ ''.svc.cluster.local'',
        mf_webhookSvcName fl @ ''.'' @ mf_namespace fl],
      cr_Webhooks = webhooks fl\<rparr>"

text \<open>The health check of the manager: with webhooks, it fails until the certificates are there, and then
  asks the webhook server, whose answer is \<open>started\<close>.\<close>

definition manager_checker :: "manager_flags \<Rightarrow> bool \<Rightarrow> goerr option \<Rightarrow> goerr option" where
  "manager_checker fl certSetupFinished started =
     (if webhooks fl \<noteq> [] then if certSetupFinished then started else Some (errors_New ''certs are not ready yet'')
      else None)"

text \<open>What serves the paths of the webhook server once the certificates are ready.\<close>

datatype 's admission_handler = EphemeralHandler "'s ephemeral_handler" | HyperconvergedHandler "'s hyper_handler"

definition enforce_NewHandler :: "'s ephemeral_handler \<Rightarrow> string \<Rightarrow> 's k8s \<Rightarrow> 's ephemeral_handler" where
  "enforce_NewHandler libs driverName client = libs\<lparr>eh_driverName := driverName, eh_client := client\<rparr>"

definition hyper_NewHandler :: "'s hyper_handler \<Rightarrow> 's k8s \<Rightarrow> 's hyper_handler" where
  "hyper_NewHandler libs client = libs\<lparr>hh_client := client\<rparr>"

definition manager_webhooks ::
  "'s ephemeral_handler \<Rightarrow> 's hyper_handler \<Rightarrow> 's runtime \<Rightarrow> manager_flags \<Rightarrow> (string \<times> 's admission_handler) list" where
  "manager_webhooks elibs hlibs rt fl =
     (if mf_enforceEphemeralWebhookConfig fl \<noteq> []
      then [(''/validate-pvc'', EphemeralHandler (enforce_NewHandler elibs ''localdisk.csi.acstor.io'' (rt_client rt)))] else []) @
     (if mf_hyperconvergedWebhookConfig fl \<noteq> []
      then [(''/mutate-pod'', HyperconvergedHandler (hyper_NewHandler hlibs (rt_client rt)))] else [])"

definition manager_parts :: "'s PVCleanupReconciler \<Rightarrow> 's runtime \<Rightarrow> manager_flags \<Rightarrow> 's runnable list" where
  "manager_parts libs rt fl =
     [Healthz, Readyz] @
     (if mf_enablePVCleanup fl
      then [RunPVCleanup (libs\<lparr>pr_Client := rt_client rt, pr_Recorder := EventRecorder\<rparr>)] else [])"

definition manager_main ::
  "'s PVCleanupReconciler \<Rightarrow> 's runtime \<Rightarrow> manager_flags \<Rightarrow> ('s, string, 's runnable list) op" where
  "manager_main libs rt fl =
     (if mf_printVersionAndExit fl then ok []
      else
        case flags_error fl of
          Some (msg, err) \<Rightarrow> logAndExit rt msg err
        | None \<Rightarrow>
            call (rt_GetConfig rt) (\<lambda>_. fail ''unable to get kubeconfig'')
              (\<lambda>_. call (rt_NewManager rt) (logAndExit rt ''unable to start manager'')
                (\<lambda>_. call (if webhooks fl \<noteq> [] then rt_AddRotator rt (cert_rotator fl) else ok ())
                   (logAndExit rt ''unable to set up cert rotation'')
                   (\<lambda>_. add_parts rt (manager_parts libs rt fl)
                      (call (rt_Start rt) (logAndExit rt ''problem running manager'')
                         (\<lambda>_. ok (manager_parts libs rt fl)))))))"

section \<open>What a program that runs has built\<close>

lemma logAndExit_exits [simp]: "logAndExit rt msg err s \<noteq> (Inr a, t)"
  by (auto simp: logAndExit_def elim!: callE)

lemma add_parts_Inr: "add_parts rt xs k s = (Inr a, t) \<Longrightarrow> \<exists>u. k u = (Inr a, t)"
  by (induction xs arbitrary: s) (auto elim!: callE)

lemma new_server_Inr:
  assumes "new_server rm ep d s = (Inr srv, t)"
  shows "srv_driver srv = d" "parseEndpoint ep = Inr (srv_proto srv, srv_addr srv)"
  using assms by (auto simp: new_server_def elim!: callE split: sum.splits prod.splits)

lemma driver_main_Inr:
  assumes "driver_main rt pf fl s = (Inr rs, t)" "\<not> fl_printVersionAndExit fl"
  obtains l srv tel where
    "NewLVM (fl_podName fl) (fl_nodeName fl) (fl_namespace fl) (fl_enableCleanup fl)
       (ScanAvailableDevices (block_New (pf_host pf)) (driver_filter fl)) (NewClientManager (driver_client pf)) = Inr l"
    "srv_driver srv = driver_services rt pf fl l"
    "rs = RunTelemetry tel # driver_parts rt pf fl l @ [RunServer srv, Healthz, Readyz]"
proof -
  from assms obtain tel u where u: "driver_volumes rt pf fl tel u = (Inr rs, t)"
    by (auto simp: driver_main_def elim!: callE dest!: add_parts_Inr)
  then obtain l v where l: "NewLVM (fl_podName fl) (fl_nodeName fl) (fl_namespace fl) (fl_enableCleanup fl)
       (ScanAvailableDevices (block_New (pf_host pf)) (driver_filter fl)) (NewClientManager (driver_client pf)) = Inr l"
    and v: "driver_run rt pf fl tel l v = (Inr rs, t)"
    by (auto simp: driver_volumes_def split: prod.splits bool.splits sum.splits)
  from v obtain x where x: "call (NewCombined (h_Remove (pf_host pf)) (fl_csiAddr fl) (driver_services rt pf fl l))
          (logAndExit rt ''unable to create csi server'')
          (\<lambda>csiServer.
             add_parts rt [RunServer csiServer, Healthz, Readyz]
               (call (rt_Start rt) (logAndExit rt ''problem running manager'')
                  (\<lambda>_. ok (RunTelemetry tel # driver_parts rt pf fl l @ [RunServer csiServer, Healthz, Readyz])))) x = (Inr rs, t)"
    unfolding driver_run_def by (blast dest: add_parts_Inr)
  then obtain srv y where "new_server (h_Remove (pf_host pf)) (fl_csiAddr fl) (driver_services rt pf fl l) x = (Inr srv, y)"
    "rs = RunTelemetry tel # driver_parts rt pf fl l @ [RunServer srv, Healthz, Readyz]"
    unfolding NewCombined_def by (elim callE) (auto elim!: callE)
  with new_server_Inr(1) l show thesis by (intro that) auto
qed

text \<open>The telemetry of the driver serves the metrics of the controller manager and pushes none. It traces
  only with an endpoint and a rate whose low 32 bits are positive.\<close>

lemma driver_telemetry_config:
  "newConfig (driver_telemetry fl) =
     \<lparr>tc_serviceID = fl_traceServiceID fl, tc_endpoint = fl_traceAddr fl,
      tc_traceSampleRate = wrap32 (fl_traceSampleRate fl), tc_prometheus = ControllerRegistry,
      tc_exporters = (\<lambda>x. x = Prometheus)\<rparr>"
  by (simp add: newConfig_def driver_telemetry_def WithServiceInstanceID_def WithPrometheus_def WithEndpoint_def
      WithTraceSampleRate_def fun_eq_iff)

lemma driver_metrics_served:
  assumes "metric_readers ot (newConfig (driver_telemetry fl)) s = (Inr readers, t)"
  shows "\<exists>x. ot_NewPrometheus ot ControllerRegistry s = (Inr x, t) \<and> readers = [WithReader (ExporterReader x)]"
  using metric_readers_cases [OF assms] by (simp add: driver_telemetry_config)

lemma driver_traces:
  "tracing_configuration (newConfig (driver_telemetry fl)) \<noteq> None \<longleftrightarrow>
     fl_traceAddr fl \<noteq> [] \<and> 0 < wrap32 (fl_traceSampleRate fl)"
  by (simp add: tracing_configuration_def driver_telemetry_config)

lemma NewLVM_fields:
  assumes "NewLVM pod node ns cleanup probe mgr = Inr l"
  shows "l_probe l = probe" "l_lvm l = mgr" "l_nodeName l = node" "l_enableCleanup l = cleanup" "node \<noteq> []"
  using assms by (auto simp: NewLVM_def split: if_splits)

lemma driver_client_simps [simp]:
  "c_block (driver_client pf) = block_New (pf_host pf)" "c_host (driver_client pf) = pf_host pf"
  "c_lvmPath (driver_client pf) = ''/sbin/lvm''" "c_args (driver_client pf) = pf_args pf"
  by (simp_all add: driver_client_def NewClient_def WithBlockDeviceUtilities_def)

text \<open>What the driver relies on of its platform and its API server.\<close>

locale driver_platform =
  bin: lvm_binary "driver_client pf" meta +
  api: api_frame "rt_client rt" meta +
  mnt: host_frame "pf_mounts pf" meta +
  tab: mount_table "pf_mounts pf" mounts
  for rt :: "'s runtime" and pf :: "'s platform" and meta :: "'s \<Rightarrow> lvm_meta"
    and mounts :: "'s \<Rightarrow> (string \<rightharpoonup> string)" +
  assumes devices_meta: "blk_GetDevices (block_New (pf_host pf)) s = (rk, t) \<Longrightarrow> meta t = meta s"
    and stat_frame: "keeps meta (nh_Stat (pf_node pf) p)"
    and metrics_frame: "keeps meta (nh_GetMetrics (pf_node pf) p)"
begin

lemma volume_manager:
  assumes "NewLVM pod node ns cleanup (ScanAvailableDevices (block_New (pf_host pf)) flt) (NewClientManager (driver_client pf)) = Inr l"
  shows "node_driver (driver_client pf) meta l flt"
  by unfold_locales (simp_all add: NewLVM_fields [OF assms] devices_meta)

lemma controller_service:
  assumes "node_driver (driver_client pf) meta l flt" "d_cs (driver_services rt pf fl l) = Some cs"
  shows "csi_controller (driver_client pf) meta l flt (rt_client rt) (pf_mounts pf) mounts cs (pf_ticks pf) (pf_ctxErr pf)"
proof -
  have "csi_controller_axioms l (rt_client rt) (pf_mounts pf) cs (pf_ticks pf) (pf_ctxErr pf)"
    using assms(2) by unfold_locales (auto simp: driver_services_def driver_NewCombined_def LVM_interface_def)
  with assms(1) show ?thesis
    by (simp add: csi_controller_def api.api_frame_axioms mnt.host_frame_axioms tab.mount_table_axioms)
qed

lemma node_service:
  assumes "node_driver (driver_client pf) meta l flt" "d_ns (driver_services rt pf fl l) = Some ns"
  shows "csi_node (driver_client pf) meta l flt (rt_client rt) (NewMounter (pf_mounts pf)) ns (pf_quantity_String pf)"
proof -
  have "csi_node_axioms meta l (rt_client rt) (NewMounter (pf_mounts pf)) ns (pf_quantity_String pf)"
    using assms(2) stat_frame metrics_frame
    by unfold_locales (auto simp: driver_services_def driver_NewCombined_def LVM_interface_def node_New_def)
  with assms(1) show ?thesis
    by (simp add: csi_node_def api.api_frame_axioms mnt.impl.mounter_frame_axioms)
qed

lemma garbage_collection:
  assumes "node_driver (driver_client pf) meta l flt"
  shows "collector (driver_client pf) meta l flt (rt_client rt) (NewMounter (pf_mounts pf))"
  using assms by (simp add: collector_def api.api_frame_axioms mnt.impl.mounter_frame_axioms)

end

section \<open>A reference platform\<close>

definition ref_platform :: "cluster platform" where
  "ref_platform =
     \<lparr>pf_host = ref_host, pf_mounts = ref_mount_host, pf_node = ref_node_host, pf_args = ref_args,
      pf_nil_block = block_New ref_host, pf_quantity_String = (\<lambda>n. show_int n), pf_ticks = 20,
      pf_ctxErr = sentinel_err DeadlineExceeded\<rparr>"

definition ref_runtime :: "cluster k8s \<Rightarrow> cluster runtime" where
  "ref_runtime k =
     \<lparr>rt_otel = ref_otel, rt_GetConfig = ok (), rt_NewManager = ok (), rt_Add = (\<lambda>x. ok ()),
      rt_IndexField = (\<lambda>f. ok ()), rt_AddRotator = (\<lambda>c. ok ()), rt_Start = ok (), rt_client = k,
      rt_MkdirAll = (\<lambda>p. ok ()), rt_WriteFile = (\<lambda>p c. ok ())\<rparr>"

definition ref_flags :: driver_flags where
  "ref_flags = default_flags\<lparr>fl_nodeName := ''node-1'', fl_podName := ''csi-local-node-x'', fl_namespace := ''kube-system''\<rparr>"

lemma ref_platform_simps [simp]:
  "pf_host ref_platform = ref_host" "pf_mounts ref_platform = ref_mount_host" "pf_node ref_platform = ref_node_host"
  "pf_quantity_String ref_platform = (\<lambda>n. show_int n)" "pf_ticks ref_platform = 20"
  "pf_ctxErr ref_platform = sentinel_err DeadlineExceeded" "driver_client ref_platform = ref_client"
  "rt_client (ref_runtime c) = c"
  by (simp_all add: ref_platform_def ref_runtime_def driver_client_def NewClient_def WithBlockDeviceUtilities_def
      ref_client_def)

lemma ref_platform_contract:
  assumes "api_frame k meta_of"
  shows "driver_platform (ref_runtime k) ref_platform meta_of mounts_of"
  using assms ref.lvm_binary_axioms ref_host.host_frame_axioms ref_mounts.mount_table_axioms
  by (simp add: driver_platform_def driver_platform_axioms_def ref_node_host_def ref_read_keeps keeps_fail)
    (blast dest: ref_block_state)

interpretation ref_pf: driver_platform "ref_runtime ref_k8s" ref_platform meta_of mounts_of
  by (rule ref_platform_contract [OF ref_api.api_frame_axioms])

lemma ref_runtime_simps [simp]:
  "telemetry_New (rt_otel (ref_runtime c)) opts t = (Inr \<lparr>op_tp = None, op_mp = Some ref_provider\<rparr>, t)"
  "rt_GetConfig (ref_runtime c) = ok ()" "rt_NewManager (ref_runtime c) = ok ()"
  "rt_Add (ref_runtime c) x = ok ()" "rt_IndexField (ref_runtime c) f = ok ()" "rt_Start (ref_runtime c) = ok ()"
  by (simp_all add: ref_runtime_def ref_otel_New)

lemma ref_add_parts [simp]: "add_parts (ref_runtime c) xs k t = k t"
proof (induction xs)
  case (Cons x xs)
  have "add_part (ref_runtime c) x t = (Inr (), t)"
    by (cases x) (simp_all add: orphan_SetupWithManager_def call_def)
  with Cons show ?case by simp
qed simp

lemma ref_endpoint: "parseEndpoint ''unix:///tmp/csi.sock'' = Inr (''unix'', ''/tmp/csi.sock'')"
  by code_simp

lemma ref_main_runs: "\<exists>rs t. driver_main (ref_runtime c) ref_platform ref_flags s = (Inr rs, t)"
proof -
  have sup: "Client_IsSupported ref_client t = (True, t)" for t :: cluster
  proof -
    have "Contains ''lvm2'' SupportedFormat" by code_simp
    then show ?thesis by (simp add: Client_IsSupported_def)
  qed
  show ?thesis
    by (simp add: driver_main_def driver_volumes_def driver_run_def sup NewLVM_def ref_flags_def default_flags_def
        NewCombined_def new_server_def ref_endpoint prepareEndpoint_def raid_Initialize_def modules_def ref_output_def
        call_def)
qed

section \<open>Properties\<close>

text \<open>C12. The driver that starts is the one that the other properties speak of: if \<open>main\<close> reaches the end
  on a platform and with an API server that behave as documented, then the manager runs a volume manager
  and a CSI server whose two services fulfil the contracts of the controller and the node service over
  the same LVM metadata, and the garbage collectors that are enabled work on the same LVM manager, API
  server and mounts; all of them have the same node name and read the selected node from the same places.\<close>

theorem driver_main_wires:
  assumes "driver_platform rt pf meta mounts" "driver_main rt pf fl s = (Inr rs, t)" "\<not> fl_printVersionAndExit fl"
  shows "\<exists>l srv cs ns. RunVolumeClient l \<in> set rs \<and> RunServer srv \<in> set rs \<and>
    d_cs (srv_driver srv) = Some cs \<and> d_ns (srv_driver srv) = Some ns \<and>
    csi_controller (driver_client pf) meta l (driver_filter fl) (rt_client rt) (pf_mounts pf) mounts cs (pf_ticks pf) (pf_ctxErr pf) \<and>
    csi_node (driver_client pf) meta l (driver_filter fl) (rt_client rt) (NewMounter (pf_mounts pf)) ns (pf_quantity_String pf) \<and>
    collector (driver_client pf) meta l (driver_filter fl) (rt_client rt) (NewMounter (pf_mounts pf)) \<and>
    fl_nodeName fl \<noteq> [] \<and> l_nodeName l = fl_nodeName fl \<and> cs_nodeId cs = fl_nodeName fl \<and> ns_nodeID ns = fl_nodeName fl \<and>
    (\<forall>r. RunFailover r \<in> set rs \<longrightarrow> fl_enableLVGarbageCollection fl \<and> fr_Client r = rt_client rt \<and>
       fr_lvmManager r = lvmVolumeManagerAdapter (NewClientManager (driver_client pf)) (NewMounter (pf_mounts pf)) \<and>
       fr_nodeID r = fl_nodeName fl \<and> fr_selectedNodeAnnotation r = ns_selectedNodeAnnotation ns \<and>
       fr_selectedInitialNodeParam r = cs_selectedInitialNodeParam cs) \<and>
    (\<forall>r. RunScanner r \<in> set rs \<longrightarrow> fl_enableLVMOrphanCleanup fl \<and> os_Client r = rt_client rt \<and>
       os_lvmManager r = lvmVolumeManagerAdapter (NewClientManager (driver_client pf)) (NewMounter (pf_mounts pf)) \<and>
       os_nodeID r = fl_nodeName fl \<and> os_selectedNodeAnnotation r = ns_selectedNodeAnnotation ns \<and>
       os_selectedInitialNodeParam r = cs_selectedInitialNodeParam cs)"
proof -
  obtain l srv tel where l: "NewLVM (fl_podName fl) (fl_nodeName fl) (fl_namespace fl) (fl_enableCleanup fl)
       (ScanAvailableDevices (block_New (pf_host pf)) (driver_filter fl)) (NewClientManager (driver_client pf)) = Inr l"
    and srv: "srv_driver srv = driver_services rt pf fl l"
    and rs: "rs = RunTelemetry tel # driver_parts rt pf fl l @ [RunServer srv, Healthz, Readyz]"
    by (rule driver_main_Inr [OF assms(2,3)])
  note nd = driver_platform.volume_manager [OF assms(1) l]
  obtain cs ns where cs: "d_cs (driver_services rt pf fl l) = Some cs" and ns: "d_ns (driver_services rt pf fl l) = Some ns"
    by (simp add: driver_services_def driver_NewCombined_def)
  have names: "cs_nodeId cs = fl_nodeName fl" "ns_nodeID ns = fl_nodeName fl"
    "ns_selectedNodeAnnotation ns = SelectedNodeAnnotation" "cs_selectedInitialNodeParam cs = SelectedInitialNodeParam"
    using cs ns by (auto simp: driver_services_def driver_NewCombined_def node_New_def)
  show ?thesis
    using driver_platform.controller_service [OF assms(1) nd cs] driver_platform.node_service [OF assms(1) nd ns]
      driver_platform.garbage_collection [OF assms(1) nd] NewLVM_fields [OF l]
    by (intro exI [of _ l] exI [of _ srv] exI [of _ cs] exI [of _ ns])
      (auto simp: rs srv cs ns names driver_parts_def Let_def NewPVFailoverReconciler_def NewLVMOrphanScanner_def)
qed

theorem driver_main_wires_witness:
  "\<exists>rs l. fst (driver_main (ref_runtime ref_k8s) ref_platform ref_flags (w_sys ref_cluster)) = Inr rs \<and>
     RunVolumeClient l \<in> set rs \<and> l_nodeName l = ''node-1''"
proof -
  obtain rs t where run: "driver_main (ref_runtime ref_k8s) ref_platform ref_flags (w_sys ref_cluster) = (Inr rs, t)"
    using ref_main_runs by blast
  have "\<not> fl_printVersionAndExit ref_flags" "fl_nodeName ref_flags = ''node-1''"
    by (simp_all add: ref_flags_def default_flags_def)
  with driver_main_wires [OF ref_pf.driver_platform_axioms run] run show ?thesis by auto
qed

text \<open>C40. The manager starts only if it has something to do: if its \<open>main\<close> reaches the end, then a webhook or
  the cleanup of volumes was enabled; with a webhook, the service and the secret of its certificates
  were named; and the parts that it ran are the health checks, and the cleanup of volumes if that was
  enabled.\<close>

theorem manager_main_starts:
  assumes "manager_main libs rt fl s = (Inr rs, t)" "\<not> mf_printVersionAndExit fl"
  shows "(mf_enforceEphemeralWebhookConfig fl \<noteq> [] \<or> mf_hyperconvergedWebhookConfig fl \<noteq> [] \<or> mf_enablePVCleanup fl) \<and>
    (webhooks fl \<noteq> [] \<longrightarrow> mf_webhookSvcName fl \<noteq> [] \<and> mf_certSecretName fl \<noteq> []) \<and>
    (if mf_enablePVCleanup fl then \<exists>r. rs = [Healthz, Readyz, RunPVCleanup r] \<and> pr_Client r = rt_client rt
     else rs = [Healthz, Readyz])"
proof -
  have "flags_error fl = None" "rs = manager_parts libs rt fl"
    using assms by (auto simp: manager_main_def elim!: callE dest!: add_parts_Inr split: option.splits prod.splits)
  then show ?thesis
    by (auto simp: flags_error_def manager_parts_def webhooks_def split: if_splits)
qed

theorem manager_main_starts_witness:
  "\<exists>rs. fst (manager_main ref_cleanup (ref_runtime ref_k8s) default_manager_flags (w_sys ref_cluster)) = Inr rs \<and> length rs = 3"
proof -
  let ?fl = default_manager_flags
  have run: "manager_main ref_cleanup (ref_runtime ref_k8s) ?fl (w_sys ref_cluster) =
      (Inr (manager_parts ref_cleanup (ref_runtime ref_k8s) ?fl), w_sys ref_cluster)"
    by (simp add: manager_main_def default_manager_flags_def flags_error_def webhooks_def call_def)
  from manager_main_starts [OF run] have "length (manager_parts ref_cleanup (ref_runtime ref_k8s) ?fl) = 3"
    by (auto simp: default_manager_flags_def)
  with run show ?thesis by simp
qed

end
