(* ===== verification/System.thy ===== *)
theory System
  imports Programs
begin

text \<open>
  The driver of a node as a whole: requests of the kubelet and of the provisioner, events of the API
  server, ticks of the orphan scanner and the shutdown, in any order, and between them any change to
  the rest of the system that leaves the LVM metadata of the node alone.

  A request is one step: requests that overlap in time are not modelled. The abstract system knows only the
  logical volumes of the node with their sizes; the driver refines it.
\<close>

section \<open>The system\<close>

text \<open>What arrives at the driver: calls of the CSI services, a persistent volume to reconcile for the
  failover controller, a tick of the orphan scanner, the start of the diagnostic, and the end of the
  context. The calls of the identity service and those that are answered from constants change nothing
  and are left out.\<close>

datatype request =
    CreateVolumeCall CreateVolumeRequest
  | DeleteVolumeCall DeleteVolumeRequest
  | ValidateCall ValidateVolumeCapabilitiesRequest
  | ListCall ListVolumesRequest
  | CapacityCall GetCapacityRequest
  | StageCall NodeStageVolumeRequest
  | UnstageCall NodeUnstageVolumeRequest
  | PublishCall NodePublishVolumeRequest
  | UnpublishCall NodeUnpublishVolumeRequest
  | StatsCall NodeGetVolumeStatsRequest
  | ExpandCall NodeExpandVolumeRequest
  | ReconcilePV string
  | ScanTick
  | Diagnose
  | ContextDone

definition on_controller :: "'s driver \<Rightarrow> ('s controller_server \<Rightarrow> 's world \<Rightarrow> 's world) \<Rightarrow> 's world \<Rightarrow> 's world" where
  "on_controller d f w = (case d_cs d of None \<Rightarrow> w | Some cs \<Rightarrow> f cs w)"

definition on_node :: "'s driver \<Rightarrow> ('s node_server \<Rightarrow> 's world \<Rightarrow> 's world) \<Rightarrow> 's world \<Rightarrow> 's world" where
  "on_node d f w = (case d_ns d of None \<Rightarrow> w | Some ns \<Rightarrow> f ns w)"

definition after :: "('s, 'e, 'a) op \<Rightarrow> 's \<Rightarrow> 's" where
  "after m s = snd (m s)"

text \<open>The registered services of the server.\<close>

definition serve :: "'s driver \<Rightarrow> request \<Rightarrow> 's world \<Rightarrow> 's world" where
  "serve d q =
     (case q of
        CreateVolumeCall req \<Rightarrow> on_controller d (\<lambda>cs. after (CreateVolume cs req))
      | DeleteVolumeCall req \<Rightarrow> on_controller d (\<lambda>cs. after (DeleteVolume cs req))
      | ValidateCall req \<Rightarrow> on_controller d (\<lambda>cs. after (on_sys (ControllerValidateVolumeCapabilities cs req)))
      | ListCall req \<Rightarrow> on_controller d (\<lambda>cs. after (on_sys (ListVolumes cs req)))
      | CapacityCall req \<Rightarrow> on_controller d (\<lambda>cs. after (on_sys (ControllerGetCapacity cs req)))
      | StageCall req \<Rightarrow> on_node d (\<lambda>ns. after (NodeStageVolume ns req))
      | UnstageCall req \<Rightarrow> on_node d (\<lambda>ns. after (on_sys (NodeUnstageVolume ns req)))
      | PublishCall req \<Rightarrow> on_node d (\<lambda>ns. after (on_sys (NodePublishVolume ns req)))
      | UnpublishCall req \<Rightarrow> on_node d (\<lambda>ns. after (on_sys (NodeUnpublishVolume ns req)))
      | StatsCall req \<Rightarrow> on_node d (\<lambda>ns. after (on_sys (NodeGetVolumeStats ns req)))
      | ExpandCall req \<Rightarrow> on_node d (\<lambda>ns. after (CsiNode.NodeExpandVolume ns req))
      | _ \<Rightarrow> id)"

text \<open>What a part of the program does on a request, and what all parts do.\<close>

definition react :: "request \<Rightarrow> 's runnable \<Rightarrow> 's world \<Rightarrow> 's world" where
  "react q x =
     (case x of
        RunServer srv \<Rightarrow> serve (srv_driver srv) q
      | RunFailover r \<Rightarrow> (case q of ReconcilePV name \<Rightarrow> after (failover_Reconcile r name) | _ \<Rightarrow> id)
      | RunScanner r \<Rightarrow> (case q of ScanTick \<Rightarrow> after (orphan_Reconcile r) | _ \<Rightarrow> id)
      | RunStartup sd \<Rightarrow> (case q of Diagnose \<Rightarrow> after (startup_Start sd) | _ \<Rightarrow> id)
      | RunVolumeClient l \<Rightarrow> (case q of ContextDone \<Rightarrow> after (on_sys (LVM_Start l)) | _ \<Rightarrow> id)
      | _ \<Rightarrow> id)"

definition handle :: "'s runnable list \<Rightarrow> request \<Rightarrow> 's world \<Rightarrow> 's world" where
  "handle rs q = fold (react q) rs"

text \<open>The sum of the volume counts of the tagged groups is an \<open>int64\<close>.\<close>

definition counts_fit :: "'s runnable list \<Rightarrow> 's \<Rightarrow> bool" where
  "counts_fit rs s \<longleftrightarrow> (\<forall>l vgs u. RunVolumeClient l \<in> set rs \<longrightarrow>
     mgr_ListVolumeGroups (l_lvm l) (Some tagged_groups) s = (Inr vgs, u) \<longrightarrow> sum_list (map VG_LVCount vgs) < 2 ^ 63)"

inductive step :: "('s \<Rightarrow> lvm_meta) \<Rightarrow> 's runnable list \<Rightarrow> request option \<Rightarrow> 's world \<Rightarrow> 's world \<Rightarrow> bool"
  for meta rs where
  request: "(q = ContextDone \<Longrightarrow> counts_fit rs (w_sys w)) \<Longrightarrow> step meta rs (Some q) w (handle rs q w)"
| outside: "meta (w_sys w') = meta (w_sys w) \<Longrightarrow> step meta rs None w w'"

inductive run_steps :: "('s \<Rightarrow> lvm_meta) \<Rightarrow> 's runnable list \<Rightarrow> 's world \<Rightarrow> request option list \<Rightarrow> 's world \<Rightarrow> bool"
  for meta rs where
  start: "run_steps meta rs w [] w"
| more: "run_steps meta rs w qs w' \<Longrightarrow> step meta rs q w' w'' \<Longrightarrow> run_steps meta rs w (qs @ [q]) w''"

section \<open>The abstract system\<close>

text \<open>The logical volumes of the node with their sizes.\<close>

type_synonym volume_store = "string \<times> string \<rightharpoonup> int"

inductive store_step :: "request option \<Rightarrow> volume_store \<Rightarrow> volume_store \<Rightarrow> bool" where
  idle: "store_step q m m"
| create: "newIdFromString (create_id req) = Inr i \<Longrightarrow>
    store_step (Some (CreateVolumeCall req)) m (m(volume_key i := v))"
| stage: "newIdFromString (nst_VolumeId req) = Inr i \<Longrightarrow>
    store_step (Some (StageCall req)) m (m(volume_key i := v))"
| grow: "newIdFromString (ne_VolumeId req) = Inr i \<Longrightarrow> m (volume_key i) = Some sz \<Longrightarrow> sz \<le> sz' \<Longrightarrow>
    store_step (Some (ExpandCall req)) m (m(volume_key i \<mapsto> sz'))"
| delete: "newIdFromString (dv_VolumeId req) = Inr i \<Longrightarrow>
    store_step (Some (DeleteVolumeCall req)) m (m(volume_key i := None))"
| hand_over: "newIdFromString v = Inr i \<Longrightarrow> store_step (Some (ReconcilePV name)) m (m(volume_key i := None))"
| sweep: "m' \<subseteq>\<^sub>m m \<Longrightarrow> store_step (Some ScanTick) m m'"

inductive store_run :: "volume_store \<Rightarrow> request option list \<Rightarrow> volume_store \<Rightarrow> bool" where
  empty: "store_run m [] m"
| snoc: "store_run m qs m' \<Longrightarrow> store_step q m' m'' \<Longrightarrow> store_run m (qs @ [q]) m''"

section \<open>Refinement\<close>

lemma keeps_after: "keeps f m \<Longrightarrow> f (after m s) = f s"
  by (simp add: after_def keeps_def)

text \<open>A change confined to the volume that an id names.\<close>

lemma confined:
  assumes "\<And>k. (\<And>i. newIdFromString v = Inr i \<Longrightarrow> k \<noteq> volume_key i) \<Longrightarrow> m' k = m k"
  shows "m' = m \<or> (\<exists>i x. newIdFromString v = Inr i \<and> m' = m(volume_key i := x))"
proof (cases "newIdFromString v")
  case (Inl e)
  then show ?thesis using assms by (intro disjI1 ext) simp
next
  case (Inr i)
  then have "m' = m(volume_key i := m' (volume_key i))" using assms by (intro ext) simp
  with Inr show ?thesis by blast
qed

lemma handle_main:
  assumes "rs = RunTelemetry tel # driver_parts rt pf fl l @ [RunServer srv, Healthz, Readyz]"
  shows "handle rs q w =
    (case q of
       ReconcilePV name \<Rightarrow>
         if fl_enableLVGarbageCollection fl
         then after (failover_Reconcile (NewPVFailoverReconciler (rt_client rt) (driver_recorder fl) (fl_nodeName fl)
           SelectedNodeAnnotation SelectedInitialNodeParam (NewClientManager (driver_client pf)) (NewMounter (pf_mounts pf))) name) w
         else w
     | ScanTick \<Rightarrow>
         if fl_enableLVMOrphanCleanup fl
         then after (orphan_Reconcile (NewLVMOrphanScanner (rt_client rt) (driver_recorder fl) (fl_nodeName fl)
           SelectedNodeAnnotation SelectedInitialNodeParam (NewClientManager (driver_client pf)) (NewMounter (pf_mounts pf))
           (fl_lvmOrphanCleanupInterval fl))) w
         else w
     | Diagnose \<Rightarrow> after (startup_Start (NewStartupDiagnostic
         (ScanAvailableDevices (block_New (pf_host pf)) (driver_filter fl)) (block_New (pf_host pf)) (driver_filter fl)
         (driver_recorder fl) (fl_podName fl))) w
     | ContextDone \<Rightarrow> after (on_sys (LVM_Start l)) w
     | _ \<Rightarrow> serve (srv_driver srv) q w)"
  unfolding assms by (cases q) (simp_all add: handle_def react_def serve_def driver_parts_def Let_def del: NewClientManager_simps)

context csi_controller
begin

lemma serve_controller:
  assumes "d_cs d = Some cs"
  shows "meta (w_sys (serve d (ValidateCall vreq) w)) = meta (w_sys w)"
    "meta (w_sys (serve d (ListCall lreq) w)) = meta (w_sys w)"
    "meta (w_sys (serve d (CapacityCall creq) w)) = meta (w_sys w)"
    "store_step (Some (CreateVolumeCall req)) (m_lvs (meta (w_sys w))) (m_lvs (meta (w_sys (serve d (CreateVolumeCall req) w))))"
    "store_step (Some (DeleteVolumeCall dreq)) (m_lvs (meta (w_sys w))) (m_lvs (meta (w_sys (serve d (DeleteVolumeCall dreq) w))))"
proof -
  show "meta (w_sys (serve d (ValidateCall vreq) w)) = meta (w_sys w)"
    "meta (w_sys (serve d (ListCall lreq) w)) = meta (w_sys w)"
    "meta (w_sys (serve d (CapacityCall creq) w)) = meta (w_sys w)"
    by (simp_all add: serve_def on_controller_def assms keeps_after [OF keeps_on_sys [OF query_rpc_frames(1)]]
        keeps_after [OF keeps_on_sys [OF query_rpc_frames(2)]] keeps_after [OF keeps_on_sys [OF query_rpc_frames(3)]])
next
  obtain r w' where run: "CreateVolume cs req w = (r, w')" by fastforce
  have "m_lvs (meta (w_sys w')) k = m_lvs (meta (w_sys w)) k"
    if "\<And>i. newIdFromString (create_id req) = Inr i \<Longrightarrow> k \<noteq> volume_key i" for k
    using run
    by (cases rule: CreateVolume_cases)
      (use that drv.Create_only [of _ req w _ w' k] in \<open>auto simp: create_id_def volume_key_def\<close>)
  from confined [of "create_id req" "m_lvs (meta (w_sys w'))" "m_lvs (meta (w_sys w))", OF this]
  have "store_step (Some (CreateVolumeCall req)) (m_lvs (meta (w_sys w))) (m_lvs (meta (w_sys w')))"
    by (auto intro: store_step.intros)
  with run show "store_step (Some (CreateVolumeCall req)) (m_lvs (meta (w_sys w))) (m_lvs (meta (w_sys (serve d (CreateVolumeCall req) w))))"
    by (simp add: serve_def on_controller_def assms after_def)
next
  obtain r w' where run: "DeleteVolume cs dreq w = (r, w')" by fastforce
  from DeleteVolume_effect [OF run]
  have "store_step (Some (DeleteVolumeCall dreq)) (m_lvs (meta (w_sys w))) (m_lvs (meta (w_sys w')))"
    by (auto intro: store_step.intros)
  with run show "store_step (Some (DeleteVolumeCall dreq)) (m_lvs (meta (w_sys w))) (m_lvs (meta (w_sys (serve d (DeleteVolumeCall dreq) w))))"
    by (simp add: serve_def on_controller_def assms after_def)
qed

end

context csi_node
begin

lemma serve_node:
  assumes "d_ns d = Some ns"
  shows "meta (w_sys (serve d (UnstageCall nreq) w)) = meta (w_sys w)"
    "meta (w_sys (serve d (PublishCall preq) w)) = meta (w_sys w)"
    "meta (w_sys (serve d (UnpublishCall ureq) w)) = meta (w_sys w)"
    "meta (w_sys (serve d (StatsCall sreq) w)) = meta (w_sys w)"
    "store_step (Some (StageCall req)) (m_lvs (meta (w_sys w))) (m_lvs (meta (w_sys (serve d (StageCall req) w))))"
    "store_step (Some (ExpandCall ereq)) (m_lvs (meta (w_sys w))) (m_lvs (meta (w_sys (serve d (ExpandCall ereq) w))))"
proof -
  show "meta (w_sys (serve d (UnstageCall nreq) w)) = meta (w_sys w)"
    "meta (w_sys (serve d (PublishCall preq) w)) = meta (w_sys w)"
    "meta (w_sys (serve d (UnpublishCall ureq) w)) = meta (w_sys w)"
    "meta (w_sys (serve d (StatsCall sreq) w)) = meta (w_sys w)"
    by (simp_all add: serve_def on_node_def assms keeps_after [OF keeps_on_sys [OF publish_frames(1)]]
        keeps_after [OF keeps_on_sys [OF publish_frames(2)]] keeps_after [OF keeps_on_sys [OF publish_frames(3)]]
        keeps_after [OF keeps_on_sys [OF NodePublishVolume_frame]])
next
  obtain r w' where run: "NodeStageVolume ns req w = (r, w')" by fastforce
  have "m_lvs (meta (w_sys w')) k = m_lvs (meta (w_sys w)) k"
    if "\<And>i. newIdFromString (nst_VolumeId req) = Inr i \<Longrightarrow> k \<noteq> volume_key i" for k
    by (rule NodeStageVolume_lvs [OF run that])
  from confined [of "nst_VolumeId req" "m_lvs (meta (w_sys w'))" "m_lvs (meta (w_sys w))", OF this]
  have "store_step (Some (StageCall req)) (m_lvs (meta (w_sys w))) (m_lvs (meta (w_sys w')))"
    by (auto intro: store_step.intros)
  with run show "store_step (Some (StageCall req)) (m_lvs (meta (w_sys w))) (m_lvs (meta (w_sys (serve d (StageCall req) w))))"
    by (simp add: serve_def on_node_def assms after_def)
next
  obtain r w' where run: "CsiNode.NodeExpandVolume ns ereq w = (r, w')" by fastforce
  from NodeExpandVolume_lvs [OF run]
  have "store_step (Some (ExpandCall ereq)) (m_lvs (meta (w_sys w))) (m_lvs (meta (w_sys w')))"
    by (auto intro: store_step.intros)
  with run show "store_step (Some (ExpandCall ereq)) (m_lvs (meta (w_sys w))) (m_lvs (meta (w_sys (serve d (ExpandCall ereq) w))))"
    by (simp add: serve_def on_node_def assms after_def)
qed

end

context collector
begin

lemma failover_step:
  assumes "fr_lvmManager r = lvmVolumeManagerAdapter (NewClientManager c) m" "fr_Client r = k"
  shows "store_step (Some (ReconcilePV name)) (m_lvs (meta (w_sys w)))
    (m_lvs (meta (w_sys (after (failover_Reconcile r name) w))))"
proof -
  obtain res w' where run: "failover_Reconcile r name w = (res, w')" by fastforce
  from failover_Reconcile_effect [OF assms run] show ?thesis
    unfolding after_def run by (auto intro: store_step.intros)
qed

lemma scan_step:
  assumes "os_lvmManager r = lvmVolumeManagerAdapter (NewClientManager c) m" "os_Client r = k"
  shows "store_step (Some ScanTick) (m_lvs (meta (w_sys w))) (m_lvs (meta (w_sys (after (orphan_Reconcile r) w))))"
proof -
  have "scans r" using assms unfolding scans_def by blast
  then show ?thesis
    unfolding after_def by (intro store_step.sweep orphan_Reconcile_sub [OF _ prod.collapse [symmetric]])
qed

end

context node_driver
begin

lemma shutdown_step:
  assumes "RunVolumeClient l \<in> set rs" "counts_fit rs (w_sys w)"
  shows "store_step (Some ContextDone) (m_lvs (meta (w_sys w))) (m_lvs (meta (w_sys (after (on_sys (LVM_Start l)) w))))"
proof -
  from assms have "sum_list (map VG_LVCount vgs) < 2 ^ 63"
    if "mgr_ListVolumeGroups (NewClientManager c) (Some tagged_groups) (w_sys w) = (Inr vgs, u)" for vgs u
    using that unfolding counts_fit_def uses_client [symmetric] by blast
  then have "m_lvs (meta (snd (LVM_Start l (w_sys w)))) = m_lvs (meta (w_sys w))"
    using drv.Cleanup_lvs [OF prod.collapse [symmetric]] unfolding LVM_Start_def by (simp del: NewClientManager_simps)
  then show ?thesis by (auto simp: after_def on_sys_run store_step.idle split: prod.splits)
qed

end

context driver_platform
begin

lemma main_step:
  assumes new: "NewLVM (fl_podName fl) (fl_nodeName fl) (fl_namespace fl) (fl_enableCleanup fl)
       (ScanAvailableDevices (block_New (pf_host pf)) (driver_filter fl)) (NewClientManager (driver_client pf)) = Inr l"
    and srv: "srv_driver srv = driver_services rt pf fl l"
    and rs: "rs = RunTelemetry tel # driver_parts rt pf fl l @ [RunServer srv, Healthz, Readyz]"
    and fit: "q = ContextDone \<Longrightarrow> counts_fit rs (w_sys w)"
  shows "store_step (Some q) (m_lvs (meta (w_sys w))) (m_lvs (meta (w_sys (handle rs q w))))"
proof -
  note nd = volume_manager [OF new]
  note coll = garbage_collection [OF nd]
  obtain cs ns where d: "d_cs (srv_driver srv) = Some cs" "d_ns (srv_driver srv) = Some ns"
    by (simp add: srv driver_services_def driver_NewCombined_def)
  note ctl = csi_controller.serve_controller [OF controller_service [OF nd d(1) [unfolded srv]] d(1)]
  note nod = csi_node.serve_node [OF node_service [OF nd d(2) [unfolded srv]] d(2)]
  note main = handle_main [OF rs]
  show ?thesis
  proof (cases q)
    case (ReconcilePV name)
    then show ?thesis
      unfolding main by (auto simp: NewPVFailoverReconciler_def store_step.idle simp del: NewClientManager_simps
          intro!: collector.failover_step [OF coll])
  next
    case ScanTick
    then show ?thesis
      unfolding main by (auto simp: NewLVMOrphanScanner_def store_step.idle simp del: NewClientManager_simps
          intro!: collector.scan_step [OF coll])
  next
    case Diagnose
    have "keeps (\<lambda>w. meta (w_sys w)) (startup_Start (NewStartupDiagnostic
        (ScanAvailableDevices (block_New (pf_host pf)) (driver_filter fl)) (block_New (pf_host pf)) (driver_filter fl)
        (driver_recorder fl) (fl_podName fl)))"
      by (rule node_driver.startup_Start_frame [OF nd]) (simp_all add: NewStartupDiagnostic_def NewLVM_fields [OF new])
    from keeps_after [OF this, of w] Diagnose show ?thesis by (simp add: main store_step.idle)
  next
    case ContextDone
    then show ?thesis
      using node_driver.shutdown_step [OF nd _ fit] by (simp add: main) (simp add: rs driver_parts_def Let_def)
  qed (use ctl nod in \<open>simp_all add: main store_step.idle\<close>)
qed

lemma main_refines:
  assumes "driver_main rt pf fl s = (Inr rs, t)" "run_steps meta rs w qs w'"
  shows "store_run (m_lvs (meta (w_sys w))) qs (m_lvs (meta (w_sys w')))"
  using assms(2)
proof (induction rule: run_steps.induct)
  case (more w qs w' q w'')
  from \<open>step meta rs q w' w''\<close> have "store_step q (m_lvs (meta (w_sys w'))) (m_lvs (meta (w_sys w'')))"
  proof cases
    case (request p)
    show ?thesis
    proof (cases "fl_printVersionAndExit fl")
      case True
      with assms(1) have "rs = []" by (simp add: driver_main_def)
      with request show ?thesis by (simp add: handle_def store_step.idle)
    next
      case False
      with assms(1) obtain l srv tel where
        "NewLVM (fl_podName fl) (fl_nodeName fl) (fl_namespace fl) (fl_enableCleanup fl)
           (ScanAvailableDevices (block_New (pf_host pf)) (driver_filter fl)) (NewClientManager (driver_client pf)) = Inr l"
        "srv_driver srv = driver_services rt pf fl l"
        "rs = RunTelemetry tel # driver_parts rt pf fl l @ [RunServer srv, Healthz, Readyz]"
        by (rule driver_main_Inr)
      from main_step [OF this] request show ?thesis by blast
    qed
  qed (simp add: store_step.idle)
  with more.IH show ?case by (rule store_run.snoc)
qed (rule store_run.empty)

end

section \<open>What the abstract system keeps\<close>

text \<open>Every logical volume has a name that is the id of a volume.\<close>

definition addressable :: "volume_store \<Rightarrow> bool" where
  "addressable m \<longleftrightarrow> (\<forall>vg lv. m (vg, lv) \<noteq> None \<longrightarrow>
     newIdFromString (vg @ [separator] @ lv) = Inr \<lparr>vid_VolumeGroup = vg, vid_LogicalVolume = lv\<rparr>)"

lemma id_addressable:
  assumes "newIdFromString v = Inr i" "(vg, lv) = volume_key i"
  shows "newIdFromString (vg @ separator # lv) = Inr \<lparr>vid_VolumeGroup = vg, vid_LogicalVolume = lv\<rparr>"
  using assms by (cases i) (auto simp: newIdFromString_Inr_iff volumeId_String_def volume_key_def)

lemma addressable_upd:
  "addressable m \<Longrightarrow> newIdFromString v = Inr i \<Longrightarrow> addressable (m(volume_key i := x))"
  unfolding addressable_def by (auto simp: id_addressable)

lemma addressable_sub: "addressable m \<Longrightarrow> m' \<subseteq>\<^sub>m m \<Longrightarrow> addressable m'"
  unfolding addressable_def map_le_def by (metis domIff)

lemma store_step_addressable: "store_step q m m' \<Longrightarrow> addressable m \<Longrightarrow> addressable m'"
  by (induction rule: store_step.induct) (auto intro: addressable_upd addressable_sub)

lemma store_run_addressable: "store_run m qs m' \<Longrightarrow> addressable m \<Longrightarrow> addressable m'"
  by (induction rule: store_run.induct) (auto intro: store_step_addressable)

section \<open>Survival of a volume\<close>

text \<open>A volume that is there stays and does not become smaller.\<close>

definition survives :: "string \<times> string \<Rightarrow> volume_store \<Rightarrow> volume_store \<Rightarrow> bool" where
  "survives x m m' \<longleftrightarrow> (\<forall>sz. m x = Some sz \<longrightarrow> (\<exists>sz' \<ge> sz. m' x = Some sz'))"

lemma survives_same [simp]: "m' x = m x \<Longrightarrow> survives x m m'"
  by (simp add: survives_def)

lemma survives_trans: "survives x m m' \<Longrightarrow> survives x m' m'' \<Longrightarrow> survives x m m''"
  unfolding survives_def by (meson order.trans)

lemma volume_key_inject: "volume_key i = volume_key j \<longleftrightarrow> i = j"
  by (cases i; cases j) (auto simp: volume_key_def)

text \<open>The requests that can only shrink or remove the volume \<open>i\<close> by way of the handlers named.\<close>

lemma store_step_survives:
  assumes "store_step q m m'"
    and "\<And>req. q = Some (CreateVolumeCall req) \<Longrightarrow> newIdFromString (create_id req) \<noteq> Inr i"
    and "\<And>req. q = Some (StageCall req) \<Longrightarrow> newIdFromString (nst_VolumeId req) \<noteq> Inr i"
    and "\<And>req. q = Some (DeleteVolumeCall req) \<Longrightarrow> newIdFromString (dv_VolumeId req) \<noteq> Inr i"
    and "\<And>name. q \<noteq> Some (ReconcilePV name)" "q \<noteq> Some ScanTick"
  shows "survives (volume_key i) m m'"
  using assms by cases (auto simp: survives_def volume_key_inject)

text \<open>The API server places the volume \<open>i\<close> on the node \<open>n\<close> in every answer that it gives.\<close>

definition placed_on :: "'s k8s \<Rightarrow> string \<Rightarrow> volumeId \<Rightarrow> bool" where
  "placed_on k n i \<longleftrightarrow>
     (\<forall>s pvs t. k8s_ListPVsByHandle k (volumeId_String i) s = (Inr pvs, t) \<longrightarrow>
        (\<exists>pv rest. filter our_driver pvs = pv # rest \<and>
           \<not> hasNodeAnnotationMismatch pv n SelectedNodeAnnotation SelectedInitialNodeParam)) \<and>
     (\<forall>name s pv t csi. k8s_GetPV k name s = (Inr pv, t) \<longrightarrow> pv_CSI pv = Some csi \<longrightarrow>
        csi_VolumeHandle csi = volumeId_String i \<longrightarrow>
        \<not> hasNodeAnnotationMismatch pv n SelectedNodeAnnotation SelectedInitialNodeParam)"

text \<open>The device file of the volume \<open>i\<close> is there whenever the volume is.\<close>

definition device_follows :: "'s host \<Rightarrow> ('s \<Rightarrow> lvm_meta) \<Rightarrow> volumeId \<Rightarrow> bool" where
  "device_follows h meta i \<longleftrightarrow>
     (\<forall>s e t. m_lvs (meta s) (volume_key i) \<noteq> None \<longrightarrow>
        h_Stat h (ConstructLogicalVolumePath (vid_VolumeGroup i) (vid_LogicalVolume i)) s = (Inl e, t) \<longrightarrow>
        \<not> errors_Is e OsErrNotExist)"

context node_driver
begin

lemma device_not_corrupted:
  assumes "device_follows (c_host c) meta i" "m_lvs (meta s) (volume_key i) \<noteq> None" "meta s' = meta s"
  shows "mgr_IsLogicalVolumeCorrupted (NewClientManager c) (vid_VolumeGroup i) (vid_LogicalVolume i) s' \<noteq> (Inr True, t)"
  by (rule not_corrupted [OF _ assms(3)]) (metis assms(1,2) device_follows_def)

end

context csi_controller
begin

lemma create_survives:
  assumes "d_cs d = Some cs" "device_follows (c_host c) meta i"
  shows "survives (volume_key i) (m_lvs (meta (w_sys w))) (m_lvs (meta (w_sys (serve d (CreateVolumeCall req) w))))"
proof (cases "newIdFromString (create_id req) = Inr i \<and> m_lvs (meta (w_sys w)) (volume_key i) \<noteq> None")
  case True
  note key = conjunct2 [OF True, unfolded volume_key_def]
  note keep = drv.Create_intact [OF _ _ key device_not_corrupted [OF assms(2) conjunct2 [OF True]]]
  obtain r w' where run: "CreateVolume cs req w = (r, w')" by fastforce
  then have "meta (w_sys w') = meta (w_sys w)"
    by (cases rule: CreateVolume_cases) (use True keep in \<open>auto simp: create_id_def\<close>)
  with run show ?thesis by (simp add: serve_def on_controller_def assms after_def)
next
  case False
  then consider "newIdFromString (create_id req) \<noteq> Inr i" | "m_lvs (meta (w_sys w)) (volume_key i) = None" by blast
  then show ?thesis
  proof cases
    case 1
    then show ?thesis by (intro store_step_survives [OF serve_controller(4) [OF assms(1)]]) auto
  qed (simp add: survives_def)
qed

end

context csi_node
begin

lemma stage_survives:
  assumes "d_ns d = Some ns" "device_follows (c_host c) meta i"
  shows "survives (volume_key i) (m_lvs (meta (w_sys w))) (m_lvs (meta (w_sys (serve d (StageCall req) w))))"
proof (cases "newIdFromString (nst_VolumeId req) = Inr i \<and> m_lvs (meta (w_sys w)) (volume_key i) \<noteq> None")
  case True
  obtain r w' where run: "NodeStageVolume ns req w = (r, w')" by fastforce
  have "meta (w_sys w') = meta (w_sys w)"
    by (rule NodeStageVolume_intact [OF run _ _ device_not_corrupted [OF assms(2)]]) (use True in auto)
  with run show ?thesis by (simp add: serve_def on_node_def assms after_def)
next
  case False
  then consider "newIdFromString (nst_VolumeId req) \<noteq> Inr i" | "m_lvs (meta (w_sys w)) (volume_key i) = None" by blast
  then show ?thesis
  proof cases
    case 1
    then show ?thesis by (intro store_step_survives [OF serve_node(5) [OF assms(1)]]) auto
  qed (simp add: survives_def)
qed

end

context collector
begin

lemma failover_survives:
  assumes "fr_lvmManager r = lvmVolumeManagerAdapter (NewClientManager c) m" "fr_Client r = k"
    and "fr_selectedNodeAnnotation r = SelectedNodeAnnotation" "fr_selectedInitialNodeParam r = SelectedInitialNodeParam"
    and "placed_on k (fr_nodeID r) i"
  shows "survives (volume_key i) (m_lvs (meta (w_sys w))) (m_lvs (meta (w_sys (after (failover_Reconcile r name) w))))"
proof -
  obtain res w' where run: "failover_Reconcile r name w = (res, w')" by fastforce
  from failover_Reconcile_effect [OF assms(1,2) run]
  consider "meta (w_sys w') = meta (w_sys w)"
    | pv csi j s where "k8s_GetPV k name (w_sys w) = (Inr pv, s)" "pv_CSI pv = Some csi"
        "hasNodeAnnotationMismatch pv (fr_nodeID r) SelectedNodeAnnotation SelectedInitialNodeParam"
        "newIdFromString (csi_VolumeHandle csi) = Inr j"
        "m_lvs (meta (w_sys w')) = (m_lvs (meta (w_sys w)))(volume_key j := None)"
    unfolding assms(3,4) by blast
  then have "survives (volume_key i) (m_lvs (meta (w_sys w))) (m_lvs (meta (w_sys w')))"
  proof cases
    case (2 pv csi j s)
    have "csi_VolumeHandle csi = volumeId_String j" using 2(4) by (simp add: newIdFromString_Inr_iff)
    with 2(1,2,3) assms(5) have "j \<noteq> i" unfolding placed_on_def by metis
    with 2(5) show ?thesis by (intro survives_same) (simp add: volume_key_inject)
  qed simp
  then show ?thesis by (simp add: after_def run)
qed

lemma scan_survives:
  assumes "os_lvmManager r = lvmVolumeManagerAdapter (NewClientManager c) m" "os_Client r = k"
    and "os_selectedNodeAnnotation r = SelectedNodeAnnotation" "os_selectedInitialNodeParam r = SelectedInitialNodeParam"
    and "placed_on k (os_nodeID r) i"
  shows "survives (volume_key i) (m_lvs (meta (w_sys w))) (m_lvs (meta (w_sys (after (orphan_Reconcile r) w))))"
proof -
  have sc: "scans r" using assms(1,2) unfolding scans_def by blast
  obtain res w' where run: "orphan_Reconcile r w = (res, w')" by fastforce
  have "m_lvs (meta (w_sys w')) (volume_key i) = m_lvs (meta (w_sys w)) (volume_key i)"
  proof (rule orphan_Reconcile_lvs [OF sc run])
    fix v j
    assume v: "answered_orphan r v" "newIdFromString v = Inr j"
    then have "v = volumeId_String j" by (simp add: newIdFromString_Inr_iff)
    with v(1) assms(5) have "j \<noteq> i"
      unfolding answered_orphan_def placed_on_def judge_spares [of r, unfolded assms(3,4), symmetric] by blast
    then show "volume_key i \<noteq> volume_key j" by (simp add: volume_key_inject)
  qed
  then show ?thesis by (simp add: after_def run)
qed

end

context driver_platform
begin

lemma main_step_survives:
  assumes new: "NewLVM (fl_podName fl) (fl_nodeName fl) (fl_namespace fl) (fl_enableCleanup fl)
       (ScanAvailableDevices (block_New (pf_host pf)) (driver_filter fl)) (NewClientManager (driver_client pf)) = Inr l"
    and srv: "srv_driver srv = driver_services rt pf fl l"
    and rs: "rs = RunTelemetry tel # driver_parts rt pf fl l @ [RunServer srv, Healthz, Readyz]"
    and fit: "q = ContextDone \<Longrightarrow> counts_fit rs (w_sys w)"
    and del: "\<And>req. q = DeleteVolumeCall req \<Longrightarrow> newIdFromString (dv_VolumeId req) \<noteq> Inr i"
    and here: "placed_on (rt_client rt) (fl_nodeName fl) i" "device_follows (pf_host pf) meta i"
  shows "survives (volume_key i) (m_lvs (meta (w_sys w))) (m_lvs (meta (w_sys (handle rs q w))))"
proof -
  note nd = volume_manager [OF new]
  note coll = garbage_collection [OF nd]
  obtain cs ns where d: "d_cs (srv_driver srv) = Some cs" "d_ns (srv_driver srv) = Some ns"
    by (simp add: srv driver_services_def driver_NewCombined_def)
  have dev: "device_follows (c_host (driver_client pf)) meta i" using here(2) by simp
  note main = handle_main [OF rs]
  have other: "survives (volume_key i) (m_lvs (meta (w_sys w))) (m_lvs (meta (w_sys (handle rs q w))))"
    if "\<And>req. q \<noteq> CreateVolumeCall req" "\<And>req. q \<noteq> StageCall req" "\<And>name. q \<noteq> ReconcilePV name" "q \<noteq> ScanTick"
    by (rule store_step_survives [OF main_step [OF new srv rs fit]]) (use that del in auto)
  show ?thesis
  proof (cases q)
    case (CreateVolumeCall req)
    with csi_controller.create_survives [OF controller_service [OF nd d(1) [unfolded srv]] d(1) dev]
    show ?thesis by (simp add: main)
  next
    case (StageCall req)
    with csi_node.stage_survives [OF node_service [OF nd d(2) [unfolded srv]] d(2) dev]
    show ?thesis by (simp add: main)
  next
    case (ReconcilePV name)
    then show ?thesis
      using here(1) unfolding main
      by (auto simp: NewPVFailoverReconciler_def simp del: NewClientManager_simps intro!: collector.failover_survives [OF coll])
  next
    case ScanTick
    then show ?thesis
      using here(1) unfolding main
      by (auto simp: NewLVMOrphanScanner_def simp del: NewClientManager_simps intro!: collector.scan_survives [OF coll])
  qed (use other in simp_all)
qed

lemma main_survives:
  assumes "driver_main rt pf fl s = (Inr rs, t)" "run_steps meta rs w qs w'"
    and "\<And>req. Some (DeleteVolumeCall req) \<in> set qs \<Longrightarrow> newIdFromString (dv_VolumeId req) \<noteq> Inr i"
    and here: "placed_on (rt_client rt) (fl_nodeName fl) i" "device_follows (pf_host pf) meta i"
  shows "survives (volume_key i) (m_lvs (meta (w_sys w))) (m_lvs (meta (w_sys w')))"
  using assms(2,3)
proof (induction rule: run_steps.induct)
  case (more w qs w' q w'')
  from \<open>step meta rs q w' w''\<close>
  have "survives (volume_key i) (m_lvs (meta (w_sys w'))) (m_lvs (meta (w_sys w'')))"
  proof cases
    case (request p)
    show ?thesis
    proof (cases "fl_printVersionAndExit fl")
      case True
      with assms(1) have "rs = []" by (simp add: driver_main_def)
      with request show ?thesis by (simp add: handle_def)
    next
      case False
      with assms(1) obtain l srv tel where
        "NewLVM (fl_podName fl) (fl_nodeName fl) (fl_namespace fl) (fl_enableCleanup fl)
           (ScanAvailableDevices (block_New (pf_host pf)) (driver_filter fl)) (NewClientManager (driver_client pf)) = Inr l"
        "srv_driver srv = driver_services rt pf fl l"
        "rs = RunTelemetry tel # driver_parts rt pf fl l @ [RunServer srv, Healthz, Readyz]"
        by (rule driver_main_Inr)
      from main_step_survives [OF this _ _ here] request more.prems show ?thesis by auto
    qed
  qed simp
  then show ?case by (rule survives_trans [rotated]) (use more.IH more.prems in auto)
qed simp

end

section \<open>A steady API server\<close>






lemma ref_scan_runs:
  obtains rs t where "driver_main (ref_runtime k) ref_platform ref_flags (w_sys ref_staged) = (Inr rs, t)"
    "run_steps meta_of rs ref_staged [Some ScanTick] (handle rs ScanTick ref_staged)"
proof -
  obtain rs t where run: "driver_main (ref_runtime k) ref_platform ref_flags (w_sys ref_staged) = (Inr rs, t)"
    using ref_main_runs by blast
  have "step meta_of rs (Some ScanTick) ref_staged (handle rs ScanTick ref_staged)" by (rule step.request) simp
  from run_steps.more [OF run_steps.start this] run show thesis by (intro that) auto
qed

section \<open>Properties\<close>

text \<open>C1. The driver refines a store of volumes: whatever calls, reconciliations, scans and shutdowns
  the program that \<open>main\<close> builds goes through, in whatever order and with whatever other changes to the
  node and to the API server between them, the logical volumes change only as the abstract system
  allows. Creating and staging set only the volume that the request names, expanding only
  makes the volume that it names larger and never creates one, deleting removes at most the volume that it names, a
  reconciliation removes at most one volume, a scan only removes volumes, and all other requests and the
  shutdown leave all volumes as they are.\<close>

theorem driver_refines_store:
  assumes "driver_platform rt pf meta mounts" "driver_main rt pf fl s = (Inr rs, t)" "run_steps meta rs w qs w'"
  shows "store_run (m_lvs (meta (w_sys w))) qs (m_lvs (meta (w_sys w')))"
  using assms by (rule driver_platform.main_refines)

theorem driver_refines_store_witness:
  "\<exists>rs. fst (driver_main (ref_runtime ref_k8s) ref_platform ref_flags (w_sys ref_staged)) = Inr rs \<and>
    store_run (m_lvs (meta_of (w_sys ref_staged))) [Some ScanTick]
      (m_lvs (meta_of (w_sys (handle rs ScanTick ref_staged))))"
proof -
  obtain rs t where run: "driver_main (ref_runtime ref_k8s) ref_platform ref_flags (w_sys ref_staged) = (Inr rs, t)"
    and steps: "run_steps meta_of rs ref_staged [Some ScanTick] (handle rs ScanTick ref_staged)"
    by (rule ref_scan_runs)
  from driver_refines_store [OF ref_pf.driver_platform_axioms run steps] run show ?thesis by auto
qed

text \<open>C14. The names of the volumes stay well-formed: if each logical volume of the node has a name that
  is a volume id, which then names that volume, this is so after every run of the driver, so that every
  volume it ever makes can be listed, deleted and expanded by its id.\<close>

theorem volumes_addressable:
  assumes "driver_platform rt pf meta mounts" "driver_main rt pf fl s = (Inr rs, t)" "run_steps meta rs w qs w'"
    and "addressable (m_lvs (meta (w_sys w)))"
  shows "addressable (m_lvs (meta (w_sys w')))"
  by (rule store_run_addressable [OF driver_platform.main_refines [OF assms(1-3)] assms(4)])

theorem volumes_addressable_witness:
  "\<exists>rs. fst (driver_main (ref_runtime ref_k8s) ref_platform ref_flags (w_sys ref_staged)) = Inr rs \<and>
    addressable (m_lvs (meta_of (w_sys (handle rs ScanTick ref_staged))))"
proof -
  obtain rs t where run: "driver_main (ref_runtime ref_k8s) ref_platform ref_flags (w_sys ref_staged) = (Inr rs, t)"
    and steps: "run_steps meta_of rs ref_staged [Some ScanTick] (handle rs ScanTick ref_staged)"
    by (rule ref_scan_runs)
  have "addressable (m_lvs (meta_of (w_sys ref_staged)))"
    by (auto simp: addressable_def meta_of_def ref_ids separator_def split: if_splits)
  from volumes_addressable [OF ref_pf.driver_platform_axioms run steps this] run show ?thesis by auto
qed



end
