(* ===== verification/Lifecycle.thy ===== *)
theory Lifecycle
  imports CsiController
begin

text \<open>
  Requests that succeed: the creation of a volume, its repetition and its deletion, on a node whose
  LVM manager answers.

  The contract of the manager (\<open>lvm_manager\<close>) says what an answer means, and lets every operation fail. The
  locale \<open>responsive\<close> adds when an operation may not fail: lookups answer, a volume group with room
  takes a new volume, and a volume that is not in use can be removed. It is interpreted on the client of the reference
  node, through the arguments, the reports and their decoding.
\<close>

section \<open>A manager that answers\<close>

locale responsive = lvm_driver mgr meta l
  for mgr :: "'s manager" and meta :: "'s \<Rightarrow> lvm_meta" and l :: "'s LVM" +
  fixes accepts :: "string \<Rightarrow> bool"
    and room :: "'s \<Rightarrow> string \<Rightarrow> int \<Rightarrow> bool"
    and alloc :: "string \<Rightarrow> int \<Rightarrow> int"
    and busy :: "'s \<Rightarrow> string \<times> string \<Rightarrow> bool"
  assumes lookup_absent: "accepts v \<Longrightarrow> accepts x \<Longrightarrow> m_lvs (meta s) (v, x) = None \<Longrightarrow>
      \<exists>e t. mgr_GetLogicalVolume mgr v x s = (Inl e, t) \<and> errors_Is e LvmErrNotFound \<and> room t = room s"
    and lookup_present: "accepts v \<Longrightarrow> accepts x \<Longrightarrow> m_lvs (meta s) (v, x) = Some b \<Longrightarrow> int64_range b \<Longrightarrow>
      \<exists>lv t. mgr_GetLogicalVolume mgr v x s = (Inr lv, t)"
    and check_present: "accepts v \<Longrightarrow> accepts x \<Longrightarrow> m_lvs (meta s) (v, x) = Some b \<Longrightarrow> int64_range b \<Longrightarrow>
      \<exists>a t. mgr_IsLogicalVolumeCorrupted mgr v x s = (Inr a, t)"
    and lookup_group: "accepts v \<Longrightarrow> room s v n \<Longrightarrow> \<exists>vg t. mgr_GetVolumeGroup mgr v s = (Inr vg, t) \<and> room t = room s"
    and create_fits: "room s (CreateLV_VGName opts) n \<Longrightarrow> 0 < n \<Longrightarrow> CreateLV_Size opts = show_int n @ ''B'' \<Longrightarrow>
      accepts (CreateLV_VGName opts) \<Longrightarrow> accepts (CreateLV_Name opts) \<Longrightarrow>
      m_lvs (meta s) (CreateLV_VGName opts, CreateLV_Name opts) = None \<Longrightarrow>
      \<exists>t. mgr_CreateLogicalVolume mgr opts s = (Inr (alloc (CreateLV_VGName opts) n), t)"
    and alloc_range: "room s v n \<Longrightarrow> 0 < n \<Longrightarrow> int64_range (alloc v n)"
    and remove_idle: "accepts v \<Longrightarrow> accepts x \<Longrightarrow> m_lvs (meta s) (v, x) \<noteq> None \<Longrightarrow> \<not> busy s (v, x) \<Longrightarrow>
      \<exists>t. mgr_RemoveLogicalVolume mgr (zero_RemoveLVOptions\<lparr>RemoveLV_Name := v @ ''/'' @ x\<rparr>) s = (Inr (), t)"
begin

lemma create_in_group_succeeds:
  assumes "room (w_sys w) (vid_VolumeGroup i) c" "0 < c" "accepts (vid_VolumeGroup i)" "accepts (vid_LogicalVolume i)"
    and "m_lvs (meta (w_sys w)) (key i) = None" "VG_Name vg = vid_VolumeGroup i"
  shows "\<exists>w'. create_in_group l rec i c mnt vg w = (Inr (alloc (vid_VolumeGroup i) c), w')"
proof -
  obtain t where "mgr_CreateLogicalVolume mgr (create_options i c vg) (w_sys w) = (Inr (alloc (vid_VolumeGroup i) c), t)"
    using create_fits [of "w_sys w" "create_options i c vg" c] assms by auto
  then show ?thesis by (auto simp: create_in_group_def l_mgr call_def on_sys_run)
qed

lemma EnsureVolume_succeeds:
  assumes i: "newIdFromString v = Inr i" "accepts (vid_VolumeGroup i)" "accepts (vid_LogicalVolume i)"
    and c: "0 < c" "0 \<le> lim" "lim > 0 \<longrightarrow> c \<le> lim"
    and new: "m_lvs (meta (w_sys w)) (key i) = None" and room: "room (w_sys w) (vid_VolumeGroup i) c"
  shows "\<exists>w'. EnsureVolume l rec v c lim mnt w = (Inr (alloc (vid_VolumeGroup i) c), w')"
proof -
  obtain e t where look: "mgr_GetLogicalVolume mgr (vid_VolumeGroup i) (vid_LogicalVolume i) (w_sys w) = (Inl e, t)"
    and e: "errors_Is e LvmErrNotFound" "room t = room (w_sys w)"
    using lookup_absent [OF i(2,3) new] by blast
  obtain vg u where vg: "mgr_GetVolumeGroup mgr (vid_VolumeGroup i) t = (Inr vg, u)" "room u = room t"
    using lookup_group [OF i(2)] room e(2) by metis
  have "meta u = meta (w_sys w)" using get_lv [OF look] get_vg [OF vg(1)] by simp
  then obtain w' where "create_in_group l rec i c mnt vg (w\<lparr>w_sys := u\<rparr>) = (Inr (alloc (vid_VolumeGroup i) c), w')"
    using create_in_group_succeeds [of "w\<lparr>w_sys := u\<rparr>" i c vg rec mnt] i c room new e(2) vg get_vg_name [OF vg(1)] by auto
  moreover have "vid_VolumeGroup i \<noteq> []" using i(1) by (auto simp: newIdFromString_Inr_iff wf_id_def)
  ultimately show ?thesis
    using i(1) c look e(1) vg(1) by (auto simp: EnsureVolume_def create_volume_def l_mgr call_def on_sys_run)
qed

text \<open>A volume that exists is returned as it is, or refused because it is larger than the limit.\<close>

lemma EnsureVolume_again:
  assumes i: "newIdFromString v = Inr i" "accepts (vid_VolumeGroup i)" "accepts (vid_LogicalVolume i)"
    and c: "0 < c" "0 \<le> lim" "lim > 0 \<longrightarrow> c \<le> lim" "c \<le> n" "int64_range n"
    and old: "m_lvs (meta (w_sys w)) (key i) = Some n"
    and intact: "\<And>s t. meta s = meta (w_sys w) \<Longrightarrow>
      mgr_IsLogicalVolumeCorrupted mgr (vid_VolumeGroup i) (vid_LogicalVolume i) s \<noteq> (Inr True, t)"
  shows "\<exists>r w'. EnsureVolume l rec v c lim mnt w = (r, w') \<and> meta (w_sys w') = meta (w_sys w) \<and>
    (if 0 < lim \<and> lim < n then \<exists>e. r = Inl e \<and> (\<forall>x. errors_Is e x \<longleftrightarrow> x = CoreErrVolumeSizeMismatch)
     else r = Inr n)"
proof -
  obtain lv t where look: "mgr_GetLogicalVolume mgr (vid_VolumeGroup i) (vid_LogicalVolume i) (w_sys w) = (Inr lv, t)"
    using lookup_present [OF i(2,3) old c(5)] by blast
  have t: "meta t = meta (w_sys w)" "LV_Size lv = n" using get_lv_ok [OF look] old by auto
  obtain a u where "mgr_IsLogicalVolumeCorrupted mgr (vid_VolumeGroup i) (vid_LogicalVolume i) t = (Inr a, u)"
    using check_present [OF i(2,3) _ c(5), of t] old t by auto
  moreover from this have "a = False" "meta u = meta (w_sys w)" using intact t(1) corrupted by (metis (full_types))+
  moreover have "vid_VolumeGroup i \<noteq> []" using i(1) by (auto simp: newIdFromString_Inr_iff wf_id_def)
  ultimately show ?thesis
    using i(1) c look t(2)
    by (auto simp: EnsureVolume_def reuse_or_recreate_def check_existing_def l_mgr call_def on_sys_run Let_def)
qed

lemma Delete_succeeds:
  assumes "newIdFromString (dv_VolumeId req) = Inr i" "accepts (vid_VolumeGroup i)" "accepts (vid_LogicalVolume i)"
    and "m_lvs (meta (w_sys w)) (key i) \<noteq> None" "\<not> busy (w_sys w) (key i)"
  shows "\<exists>w'. Delete l rec (Suc n) ce req w = (Inr (), w')"
  using remove_idle [OF assms(2-5)] assms(1)
  by (auto simp: Delete_def l_mgr call_def on_sys_run slash_name_def)

text \<open>The same for \<open>Create\<close>.\<close>

lemma Create_succeeds:
  assumes i: "newIdFromString (create_id req) = Inr i" "accepts (vid_VolumeGroup i)" "accepts (vid_LogicalVolume i)"
    and bytes: "0 < create_bytes req" "0 \<le> GetLimitBytes (cv_CapacityRange req)"
      "0 < GetLimitBytes (cv_CapacityRange req) \<longrightarrow> create_bytes req \<le> GetLimitBytes (cv_CapacityRange req)"
    and new: "m_lvs (meta (w_sys w)) (key i) = None" and room: "room (w_sys w) (vid_VolumeGroup i) (create_bytes req)"
  shows "\<exists>vol w'. Create l rec req w = (Inr vol, w') \<and> vol_CapacityBytes vol = alloc (vid_VolumeGroup i) (create_bytes req)"
proof -
  obtain w' where "EnsureVolume l rec (create_id req) (create_bytes req) (GetLimitBytes (cv_CapacityRange req)) False w =
      (Inr (alloc (vid_VolumeGroup i) (create_bytes req)), w')"
    using EnsureVolume_succeeds [OF i bytes new room] by blast
  then show ?thesis using create_idD [OF i(1)] by (simp add: Create_def create_bytes_def Let_def)
qed

lemma Create_again:
  assumes i: "newIdFromString (create_id req) = Inr i" "accepts (vid_VolumeGroup i)" "accepts (vid_LogicalVolume i)"
    and first: "Create l rec req w = (Inr vol, w1)" "meta (w_sys w2) = meta (w_sys w1)" "int64_range (vol_CapacityBytes vol)"
    and intact: "\<And>s t. meta s = meta (w_sys w2) \<Longrightarrow>
      mgr_IsLogicalVolumeCorrupted mgr (vid_VolumeGroup i) (vid_LogicalVolume i) s \<noteq> (Inr True, t)"
  defines "lim \<equiv> GetLimitBytes (cv_CapacityRange req)"
  shows "\<exists>r w3. Create l rec' req w2 = (r, w3) \<and> meta (w_sys w3) = meta (w_sys w2) \<and>
    (if 0 < lim \<and> lim < vol_CapacityBytes vol then \<exists>e. r = Inl e \<and> (\<forall>x. errors_Is e x \<longleftrightarrow> x = CoreErrVolumeSizeMismatch)
     else r = Inr vol)"
proof -
  note id = create_idD [OF i(1)]
  obtain n where ens: "EnsureVolume l rec (create_id req) (create_bytes req) lim False w = (Inr n, w1)"
    and vol: "vol = \<lparr>vol_CapacityBytes = n, vol_VolumeId = volumeId_String i,
        vol_VolumeContext = (cv_Parameters req)(CapacityParam \<mapsto> show_int n, LimitParam \<mapsto> show_int lim),
        vol_ContentSource = cv_VolumeContentSource req, vol_AccessibleTopology = node_topology l\<rparr>"
    using first(1) id by (auto simp: Create_def create_bytes_def lim_def Let_def elim!: callE)
  obtain "m_lvs (meta (w_sys w1)) (key i) = Some n" "create_bytes req \<le> n"
    "0 < create_bytes req" "0 \<le> lim" "lim > 0 \<longrightarrow> create_bytes req \<le> lim"
    using EnsureVolume_ok [OF ens] i(1) by auto
  with first vol obtain r w3 where
    again: "EnsureVolume l rec' (create_id req) (create_bytes req) lim False w2 = (r, w3)" "meta (w_sys w3) = meta (w_sys w2)"
      "if 0 < lim \<and> lim < n then \<exists>e. r = Inl e \<and> (\<forall>x. errors_Is e x \<longleftrightarrow> x = CoreErrVolumeSizeMismatch) else r = Inr n"
    using EnsureVolume_again [OF i _ _ _ _ _ _ intact, of "create_bytes req" lim n w2 rec' False] by auto
  show ?thesis
    using again id vol by (cases r) (auto simp: Create_def create_bytes_def lim_def Let_def split: if_splits)
qed

end

section \<open>The reference node answers\<close>

text \<open>A row of strings is decoded if the fields of the row that are numbers are.\<close>

lemma string_fields_decode:
  "string_field f (json_row r) \<noteq> None" "boolstring_field f (json_row r) \<noteq> None"
proof -
  have "decode_all decode_string z (field_vals f (json_row r)) \<noteq> None" for z
    by (induction r arbitrary: z) auto
  then show "string_field f (json_row r) \<noteq> None" unfolding string_field_def .
  have "decode_all (\<lambda>_. BoolString_Unmarshal) z (field_vals f (json_row r)) \<noteq> None" for z
    by (induction r arbitrary: z) (auto simp: BoolString_Unmarshal_def)
  then show "boolstring_field f (json_row r) \<noteq> None" unfolding boolstring_field_def .
qed

definition numbers_only :: "(string \<times> field_kind) list \<Rightarrow> string list \<Rightarrow> string \<times> field_kind \<Rightarrow> bool" where
  "numbers_only nums ks = (\<lambda>(f, k). k = KString \<or> k = KBoolString \<or> (f, k) \<in> set nums \<or> list_all (\<lambda>x. \<not> EqualFold x f) ks)"

lemma absent_field_ok:
  assumes "list_all (\<lambda>x. \<not> EqualFold x f) (map fst r)"
  shows "field_ok (json_row r) (f, k)"
proof -
  have "field_vals f (json_row r) = []" using assms by (induction r) auto
  then show ?thesis
    by (cases k) (simp_all add: string_field_def boolstring_field_def intstring_field_def int64string_field_def)
qed

lemma row_ok:
  assumes "list_all (numbers_only nums (map fst r)) fs" "list_all (field_ok (json_row r)) nums"
  shows "list_all (field_ok (json_row r)) fs"
proof -
  have "field_ok (json_row r) (f, k)" if "numbers_only nums (map fst r) (f, k)" for f k
    using that assms(2) absent_field_ok string_fields_decode
    unfolding numbers_only_def list_all_iff [of _ nums] by (elim case_prodE) (metis field_ok.simps(1,2) prod.inject)
  then show ?thesis using assms(1) by (auto simp: list_all_iff)
qed

lemma LV_number_fields: "list_all (numbers_only [(''lv_size'', KInt64String)] (map fst (lv_row k b))) LV_fields"
  unfolding lv_row_def list.map fst_conv by code_simp

lemma VG_number_fields:
  "list_all (numbers_only [(''vg_free'', KInt64String), (''pv_count'', KIntString), (''lv_count'', KIntString)]
     (map fst (vg_row n g))) VG_fields"
  unfolding vg_row_def list.map fst_conv by code_simp

lemma more_row_keys [simp]:
  "\<not> EqualFold ''vg_name'' ''vg_free''" "\<not> EqualFold ''pv_count'' ''vg_free''" "\<not> EqualFold ''lv_count'' ''vg_free''"
  "\<not> EqualFold ''vg_name'' ''pv_count''" "\<not> EqualFold ''vg_free'' ''pv_count''" "\<not> EqualFold ''lv_count'' ''pv_count''"
  by code_simp+

lemma LV_row_decodes:
  assumes "int64_range b"
  shows "\<exists>lv. decode_LogicalVolume (json_row (lv_row k b)) = Some lv"
proof -
  have "list_all (field_ok (json_row (lv_row k b))) [(''lv_size'', KInt64String)]"
    using assms by (simp add: lv_row_def int64string_field_def Int64String_Unmarshal_def ParseInt_show_int)
  then show ?thesis using row_ok [OF LV_number_fields] by (simp add: decode_LogicalVolume_def)
qed

lemma VG_row_decodes:
  assumes "int64_range (snd (snd g))" "length (n_pvs n) < 2 ^ 63" "length (n_lvs n) < 2 ^ 63"
  shows "\<exists>vg. decode_VolumeGroup (json_row (vg_row n g)) = Some vg"
proof -
  have "lv_count n (fst g) \<le> length (n_lvs n)"
    unfolding lv_count_def by (rule order_trans [OF length_remdups_leq]) simp
  moreover have "length (filter (\<lambda>p. snd p = fst g) (n_pvs n)) < 2 ^ 63"
    by (rule le_less_trans [OF length_filter_le assms(2)])
  ultimately have "int64_range (int (length (filter (\<lambda>p. snd p = fst g) (n_pvs n))))" "int64_range (int (lv_count n (fst g)))"
    using assms(3) by (simp_all add: int64_range_def)
  with assms(1) have "list_all (field_ok (json_row (vg_row n g)))
      [(''vg_free'', KInt64String), (''pv_count'', KIntString), (''lv_count'', KIntString)]"
    by (simp add: vg_row_def int64string_field_def Int64String_Unmarshal_def intstring_field_def IntString_Unmarshal_def
        ParseInt_show_int)
  then show ?thesis using row_ok [OF VG_number_fields] by (simp add: decode_VolumeGroup_def)
qed

definition ref_accepts :: "string \<Rightarrow> bool" where
  "ref_accepts x \<longleftrightarrow> x \<noteq> [] \<and> CHR ''/'' \<notin> set x"

definition ref_room :: "'z node_scheme \<Rightarrow> string \<Rightarrow> int \<Rightarrow> bool" where
  "ref_room s v n \<longleftrightarrow> length (n_pvs s) < 2 ^ 63 \<and> length (n_lvs s) < 2 ^ 63 \<and>
     (case map_of (n_vgs s) v of None \<Rightarrow> False | Some (ts, free) \<Rightarrow> to_extents n \<le> free \<and> int64_range free)"

lemma ref_parse_path: "ref_accepts v \<Longrightarrow> ref_accepts x \<Longrightarrow> parse_path (v @ CHR ''/'' # x) = Some (v, x)"
  by (simp add: parse_path_iff ref_accepts_def)

lemma ref_missing:
  "errors_Is (getErrorType (ref_error (''Failed to find logical volume '' @ Quote a))) LvmErrNotFound"
proof -
  let ?t = "''Failed to find logical volume '' @ Quote a"
  have "TrimSpace ?t = ?t"
    by (simp add: TrimSpace_def Quote_def is_space_def)
  then have "err_msg (ref_error ?t) = ''exit status 5: '' @ ''Failed to find'' @ '' logical volume '' @ Quote a"
    by (simp add: ref_error_def)
  moreover have "ToLower ''Failed to find'' = ToLower ''failed to find''" by code_simp
  ultimately have "containsIgnoreCase (err_msg (ref_error ?t)) ''failed to find''"
    unfolding containsIgnoreCase_def Contains_iff
    by (intro exI [of _ "ToLower ''exit status 5: ''"] exI [of _ "ToLower ('' logical volume '' @ Quote a)"])
      (simp only: ToLower_def map_append)
  then show ?thesis by (simp add: getErrorType_def)
qed

lemma ref_GetLogicalVolume:
  fixes s :: "'z node_scheme"
  assumes "ref_accepts v" "ref_accepts x"
  shows "map_of (n_lvs s) (v, x) = None \<Longrightarrow>
      \<exists>e. Client_GetLogicalVolume ref_client v x s = (Inl e, s) \<and> errors_Is e LvmErrNotFound"
    and "map_of (n_lvs s) (v, x) = Some b \<Longrightarrow> int64_range b \<Longrightarrow>
      \<exists>lv. Client_GetLogicalVolume ref_client v x s = (Inr lv, s) \<and> LV_Size lv = b"
proof -
  let ?c = "ref_client :: 'z node_scheme client"
  let ?opts = "Some (zero_ListLVOptions\<lparr>ListLV_Names := [v @ CHR ''/'' # x]\<rparr>)"
  define err where "err = ref_error (''Failed to find logical volume '' @ Quote (v @ CHR ''/'' # x))"
  have err: "errors_Is (getErrorType err) LvmErrNotFound" unfolding err_def by (rule ref_missing)
  have run: "run ?c (lvs_args ?c ?opts) s =
      (case map_of (n_lvs s) (v, x) of None \<Rightarrow> (Inl err, s)
       | Some b \<Rightarrow> (Inr (report ''lv'' [lv_row (v, x) b]), s))"
    using ref_parse_path [OF assms]
    by (simp add: lvs_args_def ref_lvs_def zero_ListLVOptions_def select_arg_def err_def split: option.splits)
  have ne: "v \<noteq> []" "x \<noteq> []" using assms by (simp_all add: ref_accepts_def)
  {
    assume "map_of (n_lvs s) (v, x) = None"
    then have "run ?c (lvs_args ?c ?opts) s = (Inl err, s)" by (simp add: run)
    then have "Client_ListLogicalVolumes ?c ?opts s = (Inl err, s)"
      by (simp add: Client_ListLogicalVolumes_def run_report_def)
    then show "\<exists>e. Client_GetLogicalVolume ref_client v x s = (Inl e, s) \<and> errors_Is e LvmErrNotFound"
      using err ne by (simp add: Client_GetLogicalVolume_def Let_def)
  next
    assume b: "map_of (n_lvs s) (v, x) = Some b" "int64_range b"
    obtain lv where lv: "decode_LogicalVolume (json_row (lv_row (v, x) b)) = Some lv" using LV_row_decodes [OF b(2)] by blast
    then have "Client_ListLogicalVolumes ?c ?opts s = (Inr [lv], s)"
      using run b by (simp add: Client_ListLogicalVolumes_def run_report_def report_def parse_report_print)
    then show "\<exists>lv. Client_GetLogicalVolume ref_client v x s = (Inr lv, s) \<and> LV_Size lv = b"
      using decode_LV_row [OF lv] ne by (simp add: Client_GetLogicalVolume_def the_only_def Let_def)
  }
qed

lemma ref_GetVolumeGroup:
  fixes s :: "'z node_scheme"
  assumes "ref_accepts v" "ref_room s v n"
  shows "\<exists>vg. Client_GetVolumeGroup ref_client v s = (Inr vg, s)"
proof -
  let ?c = "ref_client :: 'z node_scheme client" and ?opts = "Some (zero_ListVGOptions\<lparr>ListVG_Names := [v]\<rparr>)"
  obtain g where g: "map_of (n_vgs s) v = Some g" "int64_range (snd g)" "length (n_pvs s) < 2 ^ 63" "length (n_lvs s) < 2 ^ 63"
    using assms(2) by (auto simp: ref_room_def split: option.splits)
  then obtain vg where vg: "decode_VolumeGroup (json_row (vg_row s (v, g))) = Some vg"
    using VG_row_decodes [of "(v, g)" s] by auto
  have "run ?c (vgs_args ?c ?opts) s = (Inr (report ''vg'' [vg_row s (v, g)]), s)"
    using g(1) by (simp add: vgs_args_def ref_vgs_def zero_ListVGOptions_def select_arg_def)
  then have "Client_ListVolumeGroups ?c ?opts s = (Inr [vg], s)"
    using vg by (simp add: Client_ListVolumeGroups_def run_report_def report_def parse_report_print)
  then show ?thesis using assms(1) by (simp add: Client_GetVolumeGroup_def the_only_def ref_accepts_def)
qed

lemma ref_parse_size: "0 < n \<Longrightarrow> int64_range n \<Longrightarrow> parse_size (''--size='' @ show_int n @ ''B'') = Some n"
  by (simp add: parse_size_def TrimSuffix_B [unfolded append_Cons append_Nil] ParseInt_show_int)

lemma ref_CreateLogicalVolume:
  fixes s :: "'z node_scheme"
  assumes room: "ref_room s (CreateLV_VGName opts) n" and n: "0 < n" "CreateLV_Size opts = show_int n @ ''B''"
    and names: "ref_accepts (CreateLV_VGName opts)" "ref_accepts (CreateLV_Name opts)"
    and new: "map_of (n_lvs s) (CreateLV_VGName opts, CreateLV_Name opts) = None"
  shows "\<exists>t. Client_CreateLogicalVolume ref_client opts s = (Inr (to_extents n), t)"
proof -
  let ?k = "(CreateLV_VGName opts, CreateLV_Name opts)"
  obtain ts free where vg: "map_of (n_vgs s) (CreateLV_VGName opts) = Some (ts, free)" "to_extents n \<le> free" "int64_range free"
    using room by (auto simp: ref_room_def split: option.splits)
  have range: "int64_range (to_extents n)" "int64_range n"
    using vg(2,3) n(1) to_extents_ge [of n] by (auto simp: int64_range_def)
  obtain rest where args: "am_CreateLV ref_args opts = (''--name='' @ CreateLV_Name opts) # (''--size='' @ CreateLV_Size opts) # rest"
      "rest \<noteq> []" "last rest = CreateLV_VGName opts"
    using create_args by blast
  obtain t where t: "result_of (ref_lvcreate (am_CreateLV ref_args opts) s) = (Inr ''Logical volume created.'', t)"
      "n_lvs t = (?k, to_extents n) # n_lvs s"
    using args vg names new ref_parse_size [OF n(1) range(2)] n(2)
    by (simp add: ref_lvcreate_def Let_def ref_accepts_def)
  obtain lv where "Client_GetLogicalVolume ref_client (CreateLV_VGName opts) (CreateLV_Name opts) t = (Inr lv, t)"
      "LV_Size lv = to_extents n"
    using ref_GetLogicalVolume(2) [OF names, of t "to_extents n"] t(2) range(1) by auto
  with t(1) show ?thesis by (simp add: Client_CreateLogicalVolume_def call_def)
qed

interpretation ref_ready: responsive "NewClientManager ref_client" meta_of ref_driver ref_accepts ref_room
  "\<lambda>v. to_extents" "\<lambda>s k. False"
proof (unfold_locales, unfold NewClientManager_simps meta_of_simps, goal_cases)
  case 1
  then show ?case using ref_GetLogicalVolume(1) by metis
next
  case 2
  then show ?case using ref_GetLogicalVolume(2) by metis
next
  case (3 v x s b)
  obtain lv where "Client_GetLogicalVolume ref_client v x s = (Inr lv, s)" using ref_GetLogicalVolume(2) 3 by metis
  moreover have "h_Stat ref_host (ConstructLogicalVolumePath v x) s = (Inr (Some block_mode), s)"
    using ref_stat_lv [OF map_of_SomeD [OF 3(3)]] by simp
  ultimately show ?case using 3(1,2) by (auto simp: Client_IsLogicalVolumeCorrupted_def ref_accepts_def Let_def)
next
  case 4
  then show ?case using ref_GetVolumeGroup by metis
next
  case 5
  then show ?case by (rule ref_CreateLogicalVolume)
next
  case (6 s v n)
  then show ?case using to_extents_ge [of n] by (auto simp: ref_room_def int64_range_def split: option.splits)
next
  case (7 v x s)
  then have "Split CHR ''/'' (v @ CHR ''/'' # x) = [v, x]" by (simp add: Split_two_iff ref_accepts_def)
  moreover have "parse_path (v @ CHR ''/'' # x) = Some (v, x)" by (rule ref_parse_path) (use 7 in auto)
  ultimately show ?case using 7(3) by (auto simp: Client_RemoveLogicalVolume_def run_classified_def ref_lvremove_def call_def)
qed

section \<open>Requests\<close>

lemma create_bytes_valid:
  assumes "valid_create cs req"
  shows "0 < create_bytes req" "0 \<le> GetLimitBytes (cv_CapacityRange req)"
    "0 < GetLimitBytes (cv_CapacityRange req) \<longrightarrow> create_bytes req \<le> GetLimitBytes (cv_CapacityRange req)"
  using assms by (auto simp: valid_create_def create_bytes_def requested_capacity_def Let_def)

lemma vol_CapacityBytes_without_affinity [simp]:
  "vol_CapacityBytes (without_affinity cs req vol) = vol_CapacityBytes vol"
  "vol_VolumeId (without_affinity cs req vol) = vol_VolumeId vol"
  by (simp_all add: without_affinity_def)

context csi_controller
begin

lemma CreateVolume_run:
  assumes "valid_create cs req"
  shows "\<exists>rec. CreateVolume cs req w =
      (case Create l rec req w of
         (Inl e, w') \<Rightarrow> (Inl (fromCoreError e), w')
       | (Inr vol, w') \<Rightarrow> (Inr (without_affinity cs req vol), w'))"
  using assms
  by (intro exI [of _ "WithObject (cs_recorder cs) (map_option PodObject (cs_selfPod cs))"])
    (simp add: CreateVolume_valid cs_volume LVM_controller_def call_def split: prod.splits sum.splits)

end

lemma CreateVolume_completes:
  assumes ctl: "csi_controller c meta l flt k h mounts cs ticks ctxErr"
    and rsp: "responsive (NewClientManager c) meta l accepts room alloc busy"
    and valid: "valid_create cs req"
    and i: "newIdFromString (create_id req) = Inr i" "accepts (vid_VolumeGroup i)" "accepts (vid_LogicalVolume i)"
    and new: "m_lvs (meta (w_sys w)) (volume_key i) = None"
    and room: "room (w_sys w) (vid_VolumeGroup i) (create_bytes req)"
  obtains rec vol w' where "Create l rec req w = (Inr vol, w')" "vol_CapacityBytes vol = alloc (vid_VolumeGroup i) (create_bytes req)"
    "CreateVolume cs req w = (Inr (without_affinity cs req vol), w')"
proof -
  obtain rec where run: "CreateVolume cs req w =
      (case Create l rec req w of
         (Inl e, w') \<Rightarrow> (Inl (fromCoreError e), w')
       | (Inr vol, w') \<Rightarrow> (Inr (without_affinity cs req vol), w'))"
    using csi_controller.CreateVolume_run [OF ctl valid] by blast
  obtain vol w' where "Create l rec req w = (Inr vol, w')" "vol_CapacityBytes vol = alloc (vid_VolumeGroup i) (create_bytes req)"
    using responsive.Create_succeeds [OF rsp i create_bytes_valid [OF valid] new [unfolded volume_key_def] room] by blast
  with run that show thesis by simp
qed

section \<open>A request on the reference node\<close>

definition ref_new :: "int \<Rightarrow> int \<Rightarrow> CreateVolumeRequest" where
  "ref_new required limit =
     \<lparr>cv_Name = ''pvc-9'', cv_CapacityRange = Some \<lparr>cr_RequiredBytes = required, cr_LimitBytes = limit\<rparr>,
      cv_VolumeCapabilities = [\<lparr>vc_AccessType = BlockAccess, vc_AccessMode = Some SINGLE_NODE_WRITER\<rparr>],
      cv_Parameters = Map.empty, cv_VolumeContentSource = None\<rparr>"

definition ref_new_id :: volumeId where
  "ref_new_id = \<lparr>vid_VolumeGroup = ''containerstorage'', vid_LogicalVolume = ''pvc-9''\<rparr>"

lemma ref_new_names:
  "newIdFromString (create_id (ref_new required limit)) = Inr ref_new_id"
  "ref_accepts (vid_VolumeGroup ref_new_id)" "ref_accepts (vid_LogicalVolume ref_new_id)"
proof -
  have "create_id (ref_new required limit) = ''containerstorage#pvc-9''"
    by (simp add: create_id_def ref_new_def volume_group_param_def map_get_def DefaultVolumeGroup_def separator_def Let_def)
  moreover have "newIdFromString ''containerstorage#pvc-9'' = Inr ref_new_id" by code_simp
  ultimately show "newIdFromString (create_id (ref_new required limit)) = Inr ref_new_id" by simp
qed (simp_all add: ref_accepts_def ref_new_id_def)

lemma ref_new_valid:
  "0 \<le> required \<Longrightarrow> 0 \<le> limit \<Longrightarrow> 0 < limit \<longrightarrow> required \<le> limit \<Longrightarrow> valid_create ref_controller (ref_new required limit)"
proof -
  have "ValidateController CREATE_DELETE_VOLUME (cs_caps ref_controller) = None"
    "ValidateVolume [\<lparr>vc_AccessType = BlockAccess, vc_AccessMode = Some SINGLE_NODE_WRITER\<rparr>] (cs_modes ref_controller) = None"
    unfolding ref_controller_def controller_New_simps by code_simp+
  then show "0 \<le> required \<Longrightarrow> 0 \<le> limit \<Longrightarrow> 0 < limit \<longrightarrow> required \<le> limit \<Longrightarrow> valid_create ref_controller (ref_new required limit)"
    by (simp add: valid_create_def ref_new_def GetRequiredBytes_def GetLimitBytes_def)
qed

lemma ref_new_absent: "m_lvs (meta_of (w_sys ref_cluster)) (volume_key ref_new_id) = None"
  by (simp add: volume_key_def ref_new_id_def)

lemma ref_new_room:
  "to_extents (create_bytes req) \<le> 1920378765312 \<Longrightarrow> ref_room (w_sys ref_cluster) (vid_VolumeGroup ref_new_id) (create_bytes req)"
  by (simp add: ref_room_def ref_cluster_def ref_new_id_def int64_range_def)

lemma ref_new_bytes: "0 < required \<Longrightarrow> create_bytes (ref_new required limit) = required"
  by (simp add: create_bytes_def requested_capacity_def ref_new_def GetRequiredBytes_def GetLimitBytes_def)

lemma ref_new_runs:
  assumes "0 < required" "0 \<le> limit" "0 < limit \<longrightarrow> required \<le> limit" "to_extents required \<le> 1920378765312"
  obtains rec vol w' where "Create ref_driver rec (ref_new required limit) ref_cluster = (Inr vol, w')"
    "vol_CapacityBytes vol = to_extents required"
    "CreateVolume ref_controller (ref_new required limit) ref_cluster = (Inr (without_affinity ref_controller (ref_new required limit) vol), w')"
  by (rule CreateVolume_completes [OF ref_csi.csi_controller_axioms ref_ready.responsive_axioms ref_new_valid ref_new_names
        ref_new_absent ref_new_room]) (use assms in \<open>auto simp: ref_new_bytes\<close>)


section \<open>Properties\<close>

text \<open>C3. A volume is created whenever that is possible. On a node whose LVM manager answers lookups, if the
  request passes the checks, its names are accepted by LVM, the volume does not exist yet and its
  volume group has room for the requested size, then \<open>CreateVolume\<close> succeeds: the volume it returns has the id of the request
  and the size that LVM allocates for it, at least the required one, and it is the only logical volume that was added or changed.\<close>

theorem CreateVolume_succeeds:
  assumes "csi_controller c meta l flt k h mounts cs ticks ctxErr"
    and "responsive (NewClientManager c) meta l accepts room alloc busy"
    and "valid_create cs req"
    and "newIdFromString (create_id req) = Inr i" "accepts (vid_VolumeGroup i)" "accepts (vid_LogicalVolume i)"
    and "m_lvs (meta (w_sys w)) (volume_key i) = None"
    and "room (w_sys w) (vid_VolumeGroup i) (create_bytes req)"
  shows "\<exists>vol w'. CreateVolume cs req w = (Inr vol, w') \<and> vol_VolumeId vol = create_id req \<and>
    vol_CapacityBytes vol = alloc (vid_VolumeGroup i) (create_bytes req) \<and>
    GetRequiredBytes (cv_CapacityRange req) \<le> vol_CapacityBytes vol \<and>
    m_lvs (meta (w_sys w')) = (m_lvs (meta (w_sys w)))(volume_key i \<mapsto> vol_CapacityBytes vol)"
proof -
  note drv = responsive.axioms(1) [OF assms(2)] and id = create_idD [OF assms(4)]
  obtain rec vol w' where run: "Create l rec req w = (Inr vol, w')"
    "CreateVolume cs req w = (Inr (without_affinity cs req vol), w')"
    and size: "vol_CapacityBytes vol = alloc (vid_VolumeGroup i) (create_bytes req)"
    using CreateVolume_completes [OF assms] by blast
  note ok = lvm_driver.Create_ok [OF drv run(1)]
  have "newIdFromString (vol_VolumeId vol) = Inr i" using ok id(1) by simp
  then have "vol_VolumeId vol = create_id req" using id(3) by (simp add: newIdFromString_Inr_iff)
  moreover have "m_lvs (meta (w_sys w')) = (m_lvs (meta (w_sys w)))(volume_key i \<mapsto> vol_CapacityBytes vol)"
    using ok lvm_driver.Create_frame [OF drv run(1)] id(1) by (auto simp: fun_eq_iff volume_key_def)
  ultimately show ?thesis using run(2) ok size by auto
qed

theorem CreateVolume_succeeds_witness:
  "\<exists>vol w'. CreateVolume ref_controller (ref_new 5000000 0) ref_cluster = (Inr vol, w') \<and>
     vol_VolumeId vol = create_id (ref_new 5000000 0) \<and> vol_CapacityBytes vol = 8388608"
proof -
  have "to_extents 5000000 \<le> 1920378765312" by (simp add: to_extents_def extent_def)
  then have "ref_room (w_sys ref_cluster) (vid_VolumeGroup ref_new_id) (create_bytes (ref_new 5000000 0))"
    using ref_new_room [of "ref_new 5000000 0"] by (simp add: ref_new_bytes)
  from CreateVolume_succeeds [OF ref_csi.csi_controller_axioms ref_ready.responsive_axioms ref_new_valid ref_new_names
      ref_new_absent this]
  show ?thesis by (auto simp: ref_new_bytes to_extents_def extent_def)
qed



text \<open>C11. Creation and deletion cancel out: if a volume that did not exist was created, and later, with the
  same LVM metadata and the volume not in use, the id that was returned is deleted, then the deletion succeeds at
  its first attempt and the node has exactly the logical volumes it had before.\<close>

theorem create_delete_roundtrip:
  assumes "responsive mgr meta l accepts room alloc busy"
    and "newIdFromString (create_id req) = Inr i" "accepts (vid_VolumeGroup i)" "accepts (vid_LogicalVolume i)"
    and "Create l rec req w = (Inr vol, w1)" "m_lvs (meta (w_sys w)) (volume_key i) = None"
    and "meta (w_sys w2) = meta (w_sys w1)" "\<not> busy (w_sys w2) (volume_key i)" "0 < ticks"
  shows "\<exists>w3. Delete l rec' ticks ctxErr \<lparr>dv_VolumeId = vol_VolumeId vol\<rparr> w2 = (Inr (), w3) \<and>
    m_lvs (meta (w_sys w3)) = m_lvs (meta (w_sys w))"
proof -
  note drv = responsive.axioms(1) [OF assms(1)] and id = create_idD [OF assms(2)]
  note ok = lvm_driver.Create_ok [OF drv assms(5)]
  have i: "newIdFromString (vol_VolumeId vol) = Inr i" using ok id(1) by simp
  obtain n where n: "ticks = Suc n" using assms(9) by (cases ticks) auto
  obtain w3 where run: "Delete l rec' ticks ctxErr \<lparr>dv_VolumeId = vol_VolumeId vol\<rparr> w2 = (Inr (), w3)"
    using responsive.Delete_succeeds [OF assms(1) _ assms(3,4), of "\<lparr>dv_VolumeId = vol_VolumeId vol\<rparr>" w2 rec' n ctxErr]
      i n ok id(1) assms(7,8) by (auto simp: volume_key_def)
  have "m_lvs (meta (w_sys w3)) = (m_lvs (meta (w_sys w1)))(volume_key i := None)"
    using lvm_driver.Delete_effect [OF drv run] i assms(7) by (simp add: volume_key_def)
  also have "\<dots> = m_lvs (meta (w_sys w))"
    using lvm_driver.Create_frame [OF drv assms(5)] assms(6) id(1) by (auto simp: fun_eq_iff volume_key_def)
  finally show ?thesis using run by blast
qed

theorem create_delete_roundtrip_witness:
  "\<exists>rec vol w1 w3. Create ref_driver rec (ref_new 5 0) ref_cluster = (Inr vol, w1) \<and>
     Delete ref_driver NoopObjectRecorder 20 (sentinel_err DeadlineExceeded) \<lparr>dv_VolumeId = vol_VolumeId vol\<rparr> w1 = (Inr (), w3) \<and>
     m_lvs (meta_of (w_sys w3)) = m_lvs (meta_of (w_sys ref_cluster))"
proof -
  obtain rec vol w1 where run: "Create ref_driver rec (ref_new 5 0) ref_cluster = (Inr vol, w1)"
    by (rule ref_new_runs [of 5 0]) (simp_all add: to_extents_def extent_def)
  from create_delete_roundtrip [OF ref_ready.responsive_axioms ref_new_names run ref_new_absent refl, of 20 NoopObjectRecorder
      "sentinel_err DeadlineExceeded"] run
  show ?thesis by fastforce
qed

end
