(* ===== verification/LvmAdmin.thy ===== *)
theory LvmAdmin
  imports LvmClient
begin

text \<open>
  The operations of the LVM client (\<open>internal/pkg/lvm/lvm.go\<close>) that are not part of the interface
  \<open>Manager\<close> and that the driver does not call, with their option structs (\<open>internal/pkg/lvm/types.go\<close>).
  Each runs one command with the arguments of its options. Only \<open>UpdatePhysicalVolume\<close> classifies its error.
\<close>

section \<open>Options\<close>

text \<open>A pointer to \<open>YesNo\<close> is an optional truth value, which is given as an argument in this form.\<close>

definition YesNo_MarshalArg :: "bool \<Rightarrow> string" where
  "YesNo_MarshalArg yn = (if yn then ''y'' else ''n'')"

record UpdatePVOptions =
  UpdatePV_CommonOptions :: CommonOptions
  UpdatePV_Name :: string
  UpdatePV_Force :: bool
  UpdatePV_AutoBackup :: "bool option"
  UpdatePV_All :: bool
  UpdatePV_Allocatable :: "bool option"
  UpdatePV_UUID :: bool
  UpdatePV_AddTags :: "string list"
  UpdatePV_DelTags :: "string list"
  UpdatePV_MetadataIgnore :: "bool option"
  UpdatePV_Select :: string

record CheckPVOptions =
  CheckPV_CommonOptions :: CommonOptions
  CheckPV_Name :: string
  CheckPV_Dump :: string
  CheckPV_File :: string
  CheckPV_Repair :: bool
  CheckPV_RepairType :: string
  CheckPV_LabelSector :: "int option"
  CheckPV_PVMetadataCopies :: "int option"
  CheckPV_Settings :: "string list"

record MovePEOptions =
  MovePE_CommonOptions :: CommonOptions
  MovePE_Source :: string
  MovePE_Destination :: "string list"
  MovePE_LVName :: string
  MovePE_AutoBackup :: "bool option"
  MovePE_Alloc :: string
  MovePE_Abort :: bool
  MovePE_Atomic :: bool
  MovePE_Background :: bool
  MovePE_Interval :: "int option"
  MovePE_NoUdevSync :: bool

record ResizePVOptions =
  ResizePV_CommonOptions :: CommonOptions
  ResizePV_Name :: string
  ResizePV_SetPhysicalVolumeSize :: string

record UpdateVGOptions =
  UpdateVG_CommonOptions :: CommonOptions
  UpdateVG_Name :: string
  UpdateVG_MaxLogicalVolumes :: "int option"
  UpdateVG_MaxPhysicalVolumes :: "int option"
  UpdateVG_UUID :: bool
  UpdateVG_PhysicalExtentSize :: string
  UpdateVG_Resizeable :: "bool option"
  UpdateVG_AddTags :: "string list"
  UpdateVG_DelTags :: "string list"
  UpdateVG_Alloc :: string
  UpdateVG_PVMetadataCopies :: "int option"
  UpdateVG_VGMetadataCopies :: string
  UpdateVG_DetachProfile :: bool
  UpdateVG_SetAutoActivation :: "bool option"
  UpdateVG_AutoBackup :: "bool option"
  UpdateVG_Select :: string
  UpdateVG_Force :: bool
  UpdateVG_Poll :: "bool option"
  UpdateVG_IgnoreMonitoring :: bool
  UpdateVG_NoUdevSync :: bool
  UpdateVG_Monitor :: "bool option"
  UpdateVG_Refresh :: bool
  UpdateVG_Activate :: "bool option"
  UpdateVG_IgnoreActivationSkip :: bool
  UpdateVG_Partial :: bool
  UpdateVG_ActivationMode :: string
  UpdateVG_AutoActivation :: string
  UpdateVG_LockType :: string
  UpdateVG_LockStart :: bool
  UpdateVG_LockStop :: bool
  UpdateVG_SysInit :: bool
  UpdateVG_IgnoreLockingFailure :: bool
  UpdateVG_ReadOnly :: bool
  UpdateVG_SystemID :: string

record CheckVGOptions =
  CheckVG_CommonOptions :: CommonOptions
  CheckVG_Name :: string
  CheckVG_UpdateMetadata :: bool

record ExportVGOptions =
  ExportVG_CommonOptions :: CommonOptions
  ExportVG_Name :: string
  ExportVG_Select :: string
  ExportVG_All :: bool

record ImportVGOptions =
  ImportVG_CommonOptions :: CommonOptions
  ImportVG_Name :: string
  ImportVG_Select :: string
  ImportVG_All :: bool
  ImportVG_Force :: bool

record ImportVGFromClonedOptions =
  ImportVGFromCloned_CommonOptions :: CommonOptions
  ImportVGFromCloned_Name :: string
  ImportVGFromCloned_PVNames :: "string list"
  ImportVGFromCloned_Import :: bool
  ImportVGFromCloned_ImportDevices :: bool

record MergeVGOptions =
  MergeVG_CommonOptions :: CommonOptions
  MergeVG_Destination :: string
  MergeVG_Source :: string
  MergeVG_AutoBackup :: "bool option"
  MergeVG_PoolMetadataSpare :: "bool option"

record ExtendVGOptions =
  ExtendVG_CommonOptions :: CommonOptions
  ExtendVG_Name :: string
  ExtendVG_PVNames :: "string list"
  ExtendVG_AutoBackup :: "bool option"
  ExtendVG_Force :: bool
  ExtendVG_Zero :: "bool option"
  ExtendVG_LabelSector :: "int option"
  ExtendVG_MetadataSize :: string
  ExtendVG_PVMetadataCopies :: "int option"
  ExtendVG_MetadataIgnore :: "bool option"
  ExtendVG_DataAlignment :: string
  ExtendVG_DataAlignmentOffset :: string
  ExtendVG_RestoreMissing :: bool

record ReduceVGOptions =
  ReduceVG_CommonOptions :: CommonOptions
  ReduceVG_Name :: string
  ReduceVG_PVNames :: "string list"
  ReduceVG_All :: bool
  ReduceVG_RemoveMissing :: bool
  ReduceVG_MirrorsOnly :: bool
  ReduceVG_AutoBackup :: "bool option"
  ReduceVG_Force :: bool

record RenameVGOptions =
  RenameVG_CommonOptions :: CommonOptions
  RenameVG_From :: string
  RenameVG_To :: string
  RenameVG_AutoBackup :: "bool option"
  RenameVG_Force :: bool

record MovePVOptions =
  MovePV_CommonOptions :: CommonOptions
  MovePV_Source :: string
  MovePV_Destination :: string
  MovePV_PVNames :: "string list"
  MovePV_LVName :: string
  MovePV_AutoBackup :: "bool option"
  MovePV_MaxLogicalVolumes :: "int option"
  MovePV_MaxPhysicalVolumes :: "int option"
  MovePV_Alloc :: string
  MovePV_PoolMetadataSpare :: "bool option"
  MovePV_VGMetadataCopies :: string

record UpdateLVOptions =
  UpdateLV_CommonOptions :: CommonOptions
  UpdateLV_Name :: string
  UpdateLV_Force :: bool
  UpdateLV_Select :: string
  UpdateLV_Refresh :: bool
  UpdateLV_Activate :: "bool option"
  UpdateLV_AutoBackup :: "bool option"
  UpdateLV_Contiguous :: "bool option"
  UpdateLV_Persistent :: "bool option"
  UpdateLV_Major :: "int option"
  UpdateLV_Minor :: "int option"
  UpdateLV_SetActivationSkip :: "bool option"
  UpdateLV_IgnoreActivationSkip :: bool
  UpdateLV_Permission :: string
  UpdateLV_ReadAhead :: string
  UpdateLV_Zero :: "bool option"
  UpdateLV_AddTags :: "string list"
  UpdateLV_DelTags :: "string list"
  UpdateLV_Alloc :: string
  UpdateLV_DetachProfile :: bool
  UpdateLV_Partial :: bool
  UpdateLV_ActivationMode :: string
  UpdateLV_SetAutoActivation :: "bool option"
  UpdateLV_Poll :: "bool option"
  UpdateLV_IgnoreMonitoring :: bool
  UpdateLV_NoUdevSync :: bool
  UpdateLV_Monitor :: "bool option"
  UpdateLV_Resync :: bool
  UpdateLV_MinRecoveryRate :: string
  UpdateLV_MaxRecoveryRate :: string
  UpdateLV_WriteBehind :: "int option"
  UpdateLV_WriteMostly :: "string list"
  UpdateLV_Rebuild :: string
  UpdateLV_SyncAction :: string
  UpdateLV_Discards :: string
  UpdateLV_ErrorWhenFull :: "bool option"
  UpdateLV_CacheMode :: string
  UpdateLV_CachePolicy :: string
  UpdateLV_CacheSettings :: string
  UpdateLV_Compression :: "bool option"
  UpdateLV_Deduplication :: "bool option"
  UpdateLV_VDOSettings :: string
  UpdateLV_SysInit :: bool
  UpdateLV_IgnoreLockingFailure :: bool
  UpdateLV_ReadOnly :: bool

record ConvertLVLayoutOptions =
  ConvertLVLayout_CommonOptions :: CommonOptions
  ConvertLVLayout_Name :: string
  ConvertLVLayout_NewName :: string
  ConvertLVLayout_PVNames :: "string list"
  ConvertLVLayout_Background :: bool
  ConvertLVLayout_Interval :: "int option"
  ConvertLVLayout_StartPoll :: bool
  ConvertLVLayout_Force :: bool
  ConvertLVLayout_UsePolicies :: bool
  ConvertLVLayout_Stripes :: "int option"
  ConvertLVLayout_StripeSize :: string
  ConvertLVLayout_MirrorLog :: string
  ConvertLVLayout_Mirrors :: "int option"
  ConvertLVLayout_RegionSize :: string
  ConvertLVLayout_Alloc :: string
  ConvertLVLayout_NoUdevSync :: bool
  ConvertLVLayout_Type :: string
  ConvertLVLayout_ReadAhead :: string
  ConvertLVLayout_Zero :: "bool option"
  ConvertLVLayout_RAIDIntegrity :: "bool option"
  ConvertLVLayout_RAIDIntegrityMode :: string
  ConvertLVLayout_RAIDIntegrityBlockSize :: "int option"
  ConvertLVLayout_Snapshot :: bool
  ConvertLVLayout_ChunkSize :: string
  ConvertLVLayout_VirtualSize :: string
  ConvertLVLayout_Thin :: bool
  ConvertLVLayout_ThinPool :: string
  ConvertLVLayout_Discards :: string
  ConvertLVLayout_ErrorWhenFull :: "bool option"
  ConvertLVLayout_OriginName :: string
  ConvertLVLayout_PoolMetadata :: string
  ConvertLVLayout_PoolMetadataSize :: string
  ConvertLVLayout_PoolMetadataSpare :: "bool option"
  ConvertLVLayout_SwapMetadata :: bool
  ConvertLVLayout_Cache :: bool
  ConvertLVLayout_CacheDevice :: string
  ConvertLVLayout_CacheVol :: string
  ConvertLVLayout_CacheMode :: string
  ConvertLVLayout_CachePolicy :: string
  ConvertLVLayout_CachePool :: string
  ConvertLVLayout_CacheSettings :: "string list"
  ConvertLVLayout_CacheSize :: string
  ConvertLVLayout_VDOPool :: string
  ConvertLVLayout_VDOSettings :: "string list"
  ConvertLVLayout_Compression :: "bool option"
  ConvertLVLayout_Deduplication :: "bool option"
  ConvertLVLayout_Merge :: bool
  ConvertLVLayout_MergeMirrors :: bool
  ConvertLVLayout_MergeSnapshot :: bool
  ConvertLVLayout_MergeThin :: bool
  ConvertLVLayout_SplitCache :: bool
  ConvertLVLayout_SplitMirrors :: "int option"
  ConvertLVLayout_SplitSnapshot :: bool
  ConvertLVLayout_Uncache :: bool
  ConvertLVLayout_TrackChanges :: bool
  ConvertLVLayout_Repair :: bool
  ConvertLVLayout_Replace :: string

record ReduceLVOptions =
  ReduceLV_CommonOptions :: CommonOptions
  ReduceLV_Name :: string
  ReduceLV_AutoBackup :: "bool option"
  ReduceLV_Force :: bool
  ReduceLV_NoUdevSync :: bool
  ReduceLV_Size :: string
  ReduceLV_Extents :: string
  ReduceLV_ResizeFS :: bool
  ReduceLV_NoFsck :: bool

record RenameLVOptions =
  RenameLV_CommonOptions :: CommonOptions
  RenameLV_From :: string
  RenameLV_To :: string
  RenameLV_AutoBackup :: "bool option"
  RenameLV_NoUdevSync :: bool

record admin_marshal =
  ad_UpdatePV :: "UpdatePVOptions \<Rightarrow> string list"
  ad_CheckPV :: "CheckPVOptions \<Rightarrow> string list"
  ad_MovePE :: "MovePEOptions \<Rightarrow> string list"
  ad_ResizePV :: "ResizePVOptions \<Rightarrow> string list"
  ad_UpdateVG :: "UpdateVGOptions \<Rightarrow> string list"
  ad_CheckVG :: "CheckVGOptions \<Rightarrow> string list"
  ad_ExportVG :: "ExportVGOptions \<Rightarrow> string list"
  ad_ImportVG :: "ImportVGOptions \<Rightarrow> string list"
  ad_ImportVGFromCloned :: "ImportVGFromClonedOptions \<Rightarrow> string list"
  ad_MergeVG :: "MergeVGOptions \<Rightarrow> string list"
  ad_ExtendVG :: "ExtendVGOptions \<Rightarrow> string list"
  ad_ReduceVG :: "ReduceVGOptions \<Rightarrow> string list"
  ad_RenameVG :: "RenameVGOptions \<Rightarrow> string list"
  ad_MovePV :: "MovePVOptions \<Rightarrow> string list"
  ad_UpdateLV :: "UpdateLVOptions \<Rightarrow> string list"
  ad_ConvertLVLayout :: "ConvertLVLayoutOptions \<Rightarrow> string list"
  ad_ReduceLV :: "ReduceLVOptions \<Rightarrow> string list"
  ad_RenameLV :: "RenameLVOptions \<Rightarrow> string list"

section \<open>Operations\<close>

text \<open>A command whose error is passed on as it is.\<close>

definition run_plain :: "'s client \<Rightarrow> string list \<Rightarrow> ('s, goerr, unit) op" where
  "run_plain c cmdArgs = call (run c cmdArgs) fail (\<lambda>_. ok ())"

definition Client_UpdatePhysicalVolume :: "'s client \<Rightarrow> admin_marshal \<Rightarrow> UpdatePVOptions \<Rightarrow> ('s, goerr, unit) op" where
  "Client_UpdatePhysicalVolume c ad opts = run_classified c (''pvchange'' # ''--yes'' # ad_UpdatePV ad opts)"

definition Client_CheckPhysicalVolume :: "'s client \<Rightarrow> admin_marshal \<Rightarrow> CheckPVOptions \<Rightarrow> ('s, goerr, unit) op" where
  "Client_CheckPhysicalVolume c ad opts = run_plain c (''pvck'' # ''--yes'' # ad_CheckPV ad opts)"

definition Client_MovePhysicalExtents :: "'s client \<Rightarrow> admin_marshal \<Rightarrow> MovePEOptions \<Rightarrow> ('s, goerr, unit) op" where
  "Client_MovePhysicalExtents c ad opts = run_plain c (''pvmove'' # ''--yes'' # ad_MovePE ad opts)"

definition Client_ResizePhysicalVolume :: "'s client \<Rightarrow> admin_marshal \<Rightarrow> ResizePVOptions \<Rightarrow> ('s, goerr, unit) op" where
  "Client_ResizePhysicalVolume c ad opts = run_plain c (''pvresize'' # ''--yes'' # ad_ResizePV ad opts)"

definition Client_UpdateVolumeGroup :: "'s client \<Rightarrow> admin_marshal \<Rightarrow> UpdateVGOptions \<Rightarrow> ('s, goerr, unit) op" where
  "Client_UpdateVolumeGroup c ad opts = run_plain c (''vgchange'' # ''--yes'' # ad_UpdateVG ad opts)"

definition Client_CheckVolumeGroup :: "'s client \<Rightarrow> admin_marshal \<Rightarrow> CheckVGOptions \<Rightarrow> ('s, goerr, unit) op" where
  "Client_CheckVolumeGroup c ad opts = run_plain c (''vgck'' # ''--yes'' # ad_CheckVG ad opts)"

definition Client_ExportVolumeGroup :: "'s client \<Rightarrow> admin_marshal \<Rightarrow> ExportVGOptions \<Rightarrow> ('s, goerr, unit) op" where
  "Client_ExportVolumeGroup c ad opts = run_plain c (''vgexport'' # ''--yes'' # ad_ExportVG ad opts)"

definition Client_ImportVolumeGroup :: "'s client \<Rightarrow> admin_marshal \<Rightarrow> ImportVGOptions \<Rightarrow> ('s, goerr, unit) op" where
  "Client_ImportVolumeGroup c ad opts = run_plain c (''vgimport'' # ''--yes'' # ad_ImportVG ad opts)"

definition Client_ImportVolumeGroupFromCloned :: "'s client \<Rightarrow> admin_marshal \<Rightarrow> ImportVGFromClonedOptions \<Rightarrow> ('s, goerr, unit) op" where
  "Client_ImportVolumeGroupFromCloned c ad opts = run_plain c (''vgimportclone'' # ''--yes'' # ad_ImportVGFromCloned ad opts)"

definition Client_MergeVolumeGroups :: "'s client \<Rightarrow> admin_marshal \<Rightarrow> MergeVGOptions \<Rightarrow> ('s, goerr, unit) op" where
  "Client_MergeVolumeGroups c ad opts = run_plain c (''vgmerge'' # ''--yes'' # ad_MergeVG ad opts)"

definition Client_ExtendVolumeGroup :: "'s client \<Rightarrow> admin_marshal \<Rightarrow> ExtendVGOptions \<Rightarrow> ('s, goerr, unit) op" where
  "Client_ExtendVolumeGroup c ad opts = run_plain c (''vgextend'' # ''--yes'' # ad_ExtendVG ad opts)"

definition Client_ReduceVolumeGroup :: "'s client \<Rightarrow> admin_marshal \<Rightarrow> ReduceVGOptions \<Rightarrow> ('s, goerr, unit) op" where
  "Client_ReduceVolumeGroup c ad opts = run_plain c (''vgreduce'' # ''--yes'' # ad_ReduceVG ad opts)"

definition Client_RenameVolumeGroup :: "'s client \<Rightarrow> admin_marshal \<Rightarrow> RenameVGOptions \<Rightarrow> ('s, goerr, unit) op" where
  "Client_RenameVolumeGroup c ad opts = run_plain c (''vgrename'' # ''--yes'' # ad_RenameVG ad opts)"

definition Client_MovePhysicalVolumes :: "'s client \<Rightarrow> admin_marshal \<Rightarrow> MovePVOptions \<Rightarrow> ('s, goerr, unit) op" where
  "Client_MovePhysicalVolumes c ad opts = run_plain c (''vgsplit'' # ''--yes'' # ad_MovePV ad opts)"

definition Client_UpdateLogicalVolume :: "'s client \<Rightarrow> admin_marshal \<Rightarrow> UpdateLVOptions \<Rightarrow> ('s, goerr, unit) op" where
  "Client_UpdateLogicalVolume c ad opts = run_plain c (''lvchange'' # ''--yes'' # ad_UpdateLV ad opts)"

definition Client_ConvertLogicalVolumeLayout :: "'s client \<Rightarrow> admin_marshal \<Rightarrow> ConvertLVLayoutOptions \<Rightarrow> ('s, goerr, unit) op" where
  "Client_ConvertLogicalVolumeLayout c ad opts = run_plain c (''lvconvert'' # ''--yes'' # ad_ConvertLVLayout ad opts)"

definition Client_ReduceLogicalVolume :: "'s client \<Rightarrow> admin_marshal \<Rightarrow> ReduceLVOptions \<Rightarrow> ('s, goerr, unit) op" where
  "Client_ReduceLogicalVolume c ad opts = run_plain c (''lvreduce'' # ''--yes'' # ad_ReduceLV ad opts)"

definition Client_RenameLogicalVolume :: "'s client \<Rightarrow> admin_marshal \<Rightarrow> RenameLVOptions \<Rightarrow> ('s, goerr, unit) op" where
  "Client_RenameLogicalVolume c ad opts = run_plain c (''lvrename'' # ''--yes'' # ad_RenameLV ad opts)"

section \<open>Errors\<close>

text \<open>An error of a plain command is of no kind but those of the error of the executable, so that a
  caller cannot recognise a missing or busy object by it.\<close>

lemma run_plain_error:
  assumes "run_plain c cmdArgs s = (Inl e, t)"
  shows "\<exists>stdout stderr err. h_Run (c_host c) (c_lvmPath c) cmdArgs s = ((stdout, stderr, Some err), t) \<and>
    err_is e = err_is (ex_Err err)"
  using assms
  by (auto simp: run_plain_def run_def runCmd_def errorf_def elim!: callE split: prod.splits option.splits)

lemma run_classified_error:
  assumes "run_classified c cmdArgs s = (Inl e, t)"
  shows "\<exists>raw. run c cmdArgs s = (Inl raw, t) \<and> e = getErrorType raw"
  using assms by (auto simp: run_classified_def elim!: callE)

end
