(* ===== verification/Doubles.thy ===== *)
theory Doubles
  imports CsiController
begin

text \<open>
  The stand-ins of the repository that are written by hand: the LVM manager of a node without LVM
  (\<open>internal/pkg/lvm/unsupported.go\<close>), and the fakes of the LVM manager (\<open>internal/pkg/lvm/fake.go\<close>), of the
  volume manager (\<open>internal/csi/core/fake.go\<close>), of the disk probe (\<open>internal/pkg/probe/fake.go\<close>) and of the host
  utilities (\<open>internal/pkg/hostutil/fake_hostutil.go\<close>). The order in which Go visits a map is a parameter.
\<close>

section \<open>No LVM\<close>

definition ErrUnsupported :: goerr where "ErrUnsupported = errors_New ''lvm not supported''"

definition Unsupported :: "'s manager" where
  "Unsupported =
     \<lparr>mgr_IsSupported = (\<lambda>s. (False, s)), mgr_CreatePhysicalVolume = (\<lambda>opts. fail ErrUnsupported),
      mgr_RemovePhysicalVolume = (\<lambda>opts. fail ErrUnsupported), mgr_ListPhysicalVolumes = (\<lambda>opts. fail ErrUnsupported),
      mgr_GetPhysicalVolume = (\<lambda>n. fail ErrUnsupported), mgr_CreateVolumeGroup = (\<lambda>opts. fail ErrUnsupported),
      mgr_ListVolumeGroups = (\<lambda>opts. fail ErrUnsupported), mgr_GetVolumeGroup = (\<lambda>n. fail ErrUnsupported),
      mgr_RemoveVolumeGroup = (\<lambda>opts. fail ErrUnsupported), mgr_CreateLogicalVolume = (\<lambda>opts. fail ErrUnsupported),
      mgr_RemoveLogicalVolume = (\<lambda>opts. fail ErrUnsupported), mgr_ListLogicalVolumes = (\<lambda>opts. fail ErrUnsupported),
      mgr_GetLogicalVolume = (\<lambda>vg lv. fail ErrUnsupported), mgr_ExtendLogicalVolume = (\<lambda>opts. fail ErrUnsupported),
      mgr_IsLogicalVolumeCorrupted = (\<lambda>vg lv. fail ErrUnsupported),
      mgr_RemoveStaleDeviceMapperNodes = (\<lambda>vg. fail ErrUnsupported)\<rparr>"

text \<open>It fulfils the contract of an LVM manager, whatever the metadata are.\<close>

interpretation unsupported: lvm_manager Unsupported meta
  by unfold_locales (auto simp: Unsupported_def ErrUnsupported_def errors_New_def errors_Is_def)

section \<open>The fake LVM manager\<close>

record lvm_fake =
  fk_PVs :: "string \<rightharpoonup> PhysicalVolume"
  fk_VGs :: "string \<rightharpoonup> VolumeGroup"
  fk_LVs :: "string \<rightharpoonup> LogicalVolume"
  fk_Err :: "goerr option"

record fake_order =
  fo_PVs :: "(string \<rightharpoonup> PhysicalVolume) \<Rightarrow> PhysicalVolume list"
  fo_VGs :: "(string \<rightharpoonup> VolumeGroup) \<Rightarrow> VolumeGroup list"
  fo_LVs :: "(string \<rightharpoonup> LogicalVolume) \<Rightarrow> LogicalVolume list"

definition lvm_NewFake :: lvm_fake where
  "lvm_NewFake = \<lparr>fk_PVs = Map.empty, fk_VGs = Map.empty, fk_LVs = Map.empty, fk_Err = None\<rparr>"

definition Fake_CreatePhysicalVolume :: "CreatePVOptions \<Rightarrow> (lvm_fake, goerr, unit) op" where
  "Fake_CreatePhysicalVolume opts f =
     ok () (f\<lparr>fk_PVs := (fk_PVs f)(CreatePV_Name opts \<mapsto> zero_PhysicalVolume\<lparr>PV_Name := CreatePV_Name opts\<rparr>)\<rparr>)"

definition Fake_RemovePhysicalVolume :: "RemovePVOptions \<Rightarrow> (lvm_fake, goerr, unit) op" where
  "Fake_RemovePhysicalVolume opts f = ok () (f\<lparr>fk_PVs := (fk_PVs f)(RemovePV_Name opts := None)\<rparr>)"

text \<open>Looking up a key of one of the maps.\<close>

definition fake_get :: "(lvm_fake \<Rightarrow> string \<rightharpoonup> 'a) \<Rightarrow> string \<Rightarrow> (lvm_fake, goerr, 'a) op" where
  "fake_get sel n f = (case sel f n of None \<Rightarrow> fail (sentinel_err LvmErrNotFound) f | Some x \<Rightarrow> ok x f)"

definition Fake_CreateVolumeGroup :: "CreateVGOptions \<Rightarrow> (lvm_fake, goerr, unit) op" where
  "Fake_CreateVolumeGroup opts f =
     ok () (f\<lparr>fk_VGs := (fk_VGs f)(CreateVG_Name opts \<mapsto> zero_VolumeGroup\<lparr>VG_Name := CreateVG_Name opts\<rparr>)\<rparr>)"

definition Fake_RemoveVolumeGroup :: "RemoveVGOptions \<Rightarrow> (lvm_fake, goerr, unit) op" where
  "Fake_RemoveVolumeGroup opts f = ok () (f\<lparr>fk_VGs := (fk_VGs f)(RemoveVG_Name opts := None)\<rparr>)"

text \<open>The error of \<open>strconv.ParseInt\<close>.\<close>

definition ParseInt_error :: "string \<Rightarrow> goerr" where
  "ParseInt_error s = errors_New (''strconv.ParseInt: parsing '' @ Quote s @
     (if parse_decimal s = None then '': invalid syntax'' else '': value out of range''))"

definition fake_extent :: int where "fake_extent = 4 * 1024 * 1024"

definition fake_allocate :: "int \<Rightarrow> int" where
  "fake_allocate requestedSize =
     (let extentsNeeded = go_div (wrap64 (wrap64 (requestedSize + fake_extent) - 1)) fake_extent in
      wrap64 (extentsNeeded * fake_extent))"

definition Fake_CreateLogicalVolume :: "CreateLVOptions \<Rightarrow> (lvm_fake, goerr, int) op" where
  "Fake_CreateLogicalVolume opts f =
     (let sizeStr = TrimSuffix (CreateLV_Size opts) ''B'' in
      case ParseInt sizeStr of
        None \<Rightarrow> fail (ParseInt_error sizeStr) f
      | Some requestedSize \<Rightarrow>
          let actualSize = fake_allocate requestedSize;
              lv = zero_LogicalVolume\<lparr>LV_Name := CreateLV_Name opts, LV_Size := actualSize\<rparr> in
          ok actualSize (f\<lparr>fk_LVs := (fk_LVs f)(CreateLV_Name opts \<mapsto> lv)\<rparr>))"

definition Fake_RemoveLogicalVolume :: "RemoveLVOptions \<Rightarrow> (lvm_fake, goerr, unit) op" where
  "Fake_RemoveLogicalVolume opts f = ok () (f\<lparr>fk_LVs := (fk_LVs f)(RemoveLV_Name opts := None)\<rparr>)"

definition Fake_ExtendLogicalVolume :: "ExtendLVOptions \<Rightarrow> (lvm_fake, goerr, unit) op" where
  "Fake_ExtendLogicalVolume opts f =
     (case fk_LVs f (ExtendLV_Name opts) of
        None \<Rightarrow> fail (sentinel_err LvmErrNotFound) f
      | Some lv \<Rightarrow>
          (case ParseInt (ExtendLV_Size opts) of
             None \<Rightarrow> fail (ParseInt_error (ExtendLV_Size opts)) f
           | Some newSize \<Rightarrow> ok () (f\<lparr>fk_LVs := (fk_LVs f)(ExtendLV_Name opts \<mapsto> lv\<lparr>LV_Size := newSize\<rparr>)\<rparr>)))"

definition Fake_IsLogicalVolumeCorrupted :: "string \<Rightarrow> string \<Rightarrow> (lvm_fake, goerr, bool) op" where
  "Fake_IsLogicalVolumeCorrupted vgName lvName f =
     (case fk_Err f of Some err \<Rightarrow> fail err f | None \<Rightarrow> ok False f)"

definition Fake_RemoveStaleDeviceMapperNodes :: "string \<Rightarrow> (lvm_fake, goerr, unit) op" where
  "Fake_RemoveStaleDeviceMapperNodes vgName f =
     (case fk_Err f of Some err \<Rightarrow> fail err f | None \<Rightarrow> ok () f)"

definition Fake_manager :: "fake_order \<Rightarrow> lvm_fake manager" where
  "Fake_manager fo =
     \<lparr>mgr_IsSupported = (\<lambda>f. (True, f)), mgr_CreatePhysicalVolume = Fake_CreatePhysicalVolume,
      mgr_RemovePhysicalVolume = Fake_RemovePhysicalVolume,
      mgr_ListPhysicalVolumes = (\<lambda>opts f. ok (fo_PVs fo (fk_PVs f)) f), mgr_GetPhysicalVolume = fake_get fk_PVs,
      mgr_CreateVolumeGroup = Fake_CreateVolumeGroup,
      mgr_ListVolumeGroups = (\<lambda>opts f. ok (fo_VGs fo (fk_VGs f)) f), mgr_GetVolumeGroup = fake_get fk_VGs,
      mgr_RemoveVolumeGroup = Fake_RemoveVolumeGroup, mgr_CreateLogicalVolume = Fake_CreateLogicalVolume,
      mgr_RemoveLogicalVolume = Fake_RemoveLogicalVolume,
      mgr_ListLogicalVolumes = (\<lambda>opts f. ok (fo_LVs fo (fk_LVs f)) f),
      mgr_GetLogicalVolume = (\<lambda>vgName lvName. fake_get fk_LVs lvName),
      mgr_ExtendLogicalVolume = Fake_ExtendLogicalVolume,
      mgr_IsLogicalVolumeCorrupted = Fake_IsLogicalVolumeCorrupted,
      mgr_RemoveStaleDeviceMapperNodes = Fake_RemoveStaleDeviceMapperNodes\<rparr>"

section \<open>The fake volume manager\<close>

text \<open>Its volume may be nil.\<close>

record core_fake =
  cf_Volume :: "Volume option"
  cf_DiskPoolCapacity :: int
  cf_Err :: "goerr option"
  cf_BaseDir :: string

definition core_NewFake :: core_fake where
  "core_NewFake = \<lparr>cf_Volume = None, cf_DiskPoolCapacity = 0, cf_Err = None, cf_BaseDir = []\<rparr>"

text \<open>The configured error comes first.\<close>

definition unless_err :: "(core_fake, goerr, 'a) op \<Rightarrow> (core_fake, goerr, 'a) op" where
  "unless_err m f = (case cf_Err f of Some err \<Rightarrow> fail err f | None \<Rightarrow> m f)"

definition CoreFake_Create :: "CreateVolumeRequest \<Rightarrow> (core_fake, goerr, Volume option) op" where
  "CoreFake_Create req = unless_err (\<lambda>f. ok (cf_Volume f) f)"

definition CoreFake_Delete :: "DeleteVolumeRequest \<Rightarrow> (core_fake, goerr, unit) op" where
  "CoreFake_Delete req = unless_err (\<lambda>f. ok () (f\<lparr>cf_Volume := None\<rparr>))"

definition CoreFake_List :: "ListVolumesRequest \<Rightarrow> (core_fake, goerr, Volume option list) op" where
  "CoreFake_List req = unless_err (\<lambda>f. ok [cf_Volume f] f)"

definition CoreFake_ValidateCapabilities ::
  "ValidateVolumeCapabilitiesRequest \<Rightarrow> (core_fake, goerr, ValidateConfirmed) op" where
  "CoreFake_ValidateCapabilities req =
     unless_err (ok \<lparr>vcf_VolumeContext = vr_VolumeContext req, vcf_VolumeCapabilities = vr_VolumeCapabilities req,
       vcf_Parameters = vr_Parameters req, vcf_MutableParameters = vr_MutableParameters req\<rparr>)"

definition CoreFake_GetCapacity :: "GetCapacityRequest \<Rightarrow> (core_fake, goerr, GetCapacityResponse) op" where
  "CoreFake_GetCapacity req =
     unless_err (\<lambda>f. ok \<lparr>gc_AvailableCapacity = cf_DiskPoolCapacity f, gc_MaximumVolumeSize = None\<rparr> f)"

definition CoreFake_NodeExpandVolume ::
  "NodeExpandVolumeRequest \<Rightarrow> (core_fake, goerr, NodeExpandVolumeResponse) op" where
  "CoreFake_NodeExpandVolume req = unless_err (\<lambda>f. ok \<lparr>ne_CapacityBytes = cf_DiskPoolCapacity f\<rparr> f)"

definition CoreFake_NodeEnsureVolume :: "string \<Rightarrow> int \<Rightarrow> int \<Rightarrow> (core_fake, goerr, unit) op" where
  "CoreFake_NodeEnsureVolume volumeId capacity limit = unless_err (ok ())"

definition CoreFake_GetDriverName :: string where "CoreFake_GetDriverName = ''fake-driver''"

definition CoreFake_GetVolumeName :: "string \<Rightarrow> goerr + string" where
  "CoreFake_GetVolumeName volumeId =
     (case Split separator volumeId of
        [a, b] \<Rightarrow> Inr b
      | _ \<Rightarrow> Inl (errors_New (''invalid volume ID: '' @ volumeId)))"

definition CoreFake_GetNodeDevicePath :: "core_fake \<Rightarrow> string \<Rightarrow> goerr + string" where
  "CoreFake_GetNodeDevicePath f volumeId =
     (case Split separator volumeId of
        [a, b] \<Rightarrow> Inr (cf_BaseDir f @ ''/'' @ Join ''/'' [a, b])
      | _ \<Rightarrow> Inl (errors_New (''invalid volume ID: '' @ volumeId)))"

section \<open>The fake probe\<close>

record probe_fake =
  pk_Devices :: "string list"
  pk_Err :: "goerr option"

definition zero_Device :: Device where
  "zero_Device = \<lparr>dev_Name = [], dev_Path = [], dev_MajMin = [], dev_Removable = False, dev_Type = [],
     dev_Mountpoint = [], dev_Mountpoints = [], dev_Model = [], dev_Serial = [], dev_Size = 0\<rparr>"

definition ProbeFake_ScanAvailableDevices :: "probe_fake \<Rightarrow> ('s, goerr, DeviceList) op" where
  "ProbeFake_ScanAvailableDevices f =
     (case pk_Err f of
        Some err \<Rightarrow> fail err
      | None \<Rightarrow>
          if pk_Devices f = [] then fail (sentinel_err ErrNoDevicesFound)
          else ok \<lparr>dl_Devices = map (\<lambda>path. zero_Device\<lparr>dev_Path := path\<rparr>) (pk_Devices f)\<rparr>)"

section \<open>The fake host utilities\<close>

type_synonym fake_hostutil = "string \<rightharpoonup> bool \<times> goerr option"

definition FakeHostUtil_SetPathIsDeviceResult :: "string \<Rightarrow> bool \<Rightarrow> goerr option \<Rightarrow> fake_hostutil \<Rightarrow> fake_hostutil" where
  "FakeHostUtil_SetPathIsDeviceResult path isDevice err f = f(path \<mapsto> (isDevice, err))"

text \<open>The result and the error are returned side by side; the file system is asked for a path without
  configured result.\<close>

definition FakeHostUtil_PathIsDevice ::
  "(string \<Rightarrow> ('s, goerr, unit) op) \<Rightarrow> fake_hostutil \<Rightarrow> string \<Rightarrow> 's \<Rightarrow> (bool \<times> goerr option) \<times> 's" where
  "FakeHostUtil_PathIsDevice os_Stat f path s =
     (case f path of
        Some result \<Rightarrow> (result, s)
      | None \<Rightarrow>
          (case os_Stat path s of
             (Inl err, s') \<Rightarrow>
               if errors_Is err OsErrNotExist then ((False, Some (errors_New (''path '' @ Quote path @ '' does not exist''))), s')
               else ((False, Some err), s')
           | (Inr _, s') \<Rightarrow> ((False, None), s')))"

section \<open>Properties of the fake LVM manager\<close>

lemma fake_allocate_bounds:
  assumes "0 \<le> c" "c + fake_extent < 2 ^ 63"
  shows "c \<le> fake_allocate c" "fake_allocate c < c + fake_extent" "fake_extent dvd fake_allocate c"
proof -
  let ?q = "(c + fake_extent - 1) div fake_extent"
  have split: "?q * fake_extent + (c + fake_extent - 1) mod fake_extent = c + fake_extent - 1" by simp
  have md: "0 \<le> (c + fake_extent - 1) mod fake_extent" "(c + fake_extent - 1) mod fake_extent < fake_extent"
    by (simp_all add: fake_extent_def)
  have b: "c \<le> ?q * fake_extent" "?q * fake_extent < c + fake_extent" using split md by linarith+
  have "wrap64 (c + fake_extent) = c + fake_extent"
    using assms by (intro wrap64_id) (auto simp: int64_range_def fake_extent_def)
  moreover have "wrap64 (c + fake_extent - 1) = c + fake_extent - 1"
    using assms by (intro wrap64_id) (auto simp: int64_range_def fake_extent_def)
  moreover have "wrap64 (?q * fake_extent) = ?q * fake_extent"
    using b assms by (intro wrap64_id) (auto simp: int64_range_def)
  ultimately have "fake_allocate c = ?q * fake_extent"
    using assms(1) by (simp add: fake_allocate_def Let_def go_div_nonneg fake_extent_def)
  then show "c \<le> fake_allocate c" "fake_allocate c < c + fake_extent" "fake_extent dvd fake_allocate c"
    using b by simp_all
qed

text \<open>The fake keys its logical volumes by their own name, but a removal names the volume group too: a
  deletion by the driver reports success and leaves the volume in the fake.\<close>

lemma slash_name_not_name: "slash_name i \<noteq> vid_LogicalVolume i"
  by (auto simp: slash_name_def dest: arg_cong [where f = length])

lemma fake_Delete_keeps:
  assumes "l_lvm l = Fake_manager fo" "newIdFromString (dv_VolumeId req) = Inr i"
  shows "case Delete l rec (Suc ticks) ctxErr req w of (r, w') \<Rightarrow>
    r = Inr () \<and> fk_LVs (w_sys w') (vid_LogicalVolume i) = fk_LVs (w_sys w) (vid_LogicalVolume i)"
  using assms slash_name_not_name [of i]
  by (auto simp: Delete_def call_def on_sys_run Fake_manager_def Fake_RemoveLogicalVolume_def)

end
