(* ===== verification/Convert.thy ===== *)
theory Convert
  imports Prelude
begin

text \<open>
  Sizes in units of MiB and GiB: \<open>internal/pkg/convert/size.go\<close>. The arguments and results are
  \<open>int64\<close>; the multiplications that can leave its range wrap around.
\<close>

section \<open>Definitions\<close>

definition MiB :: int where
  "MiB = 1024 * 1024"

definition GiB :: int where
  "GiB = 1024 * 1024 * 1024"

definition roundUpSize :: "int \<Rightarrow> int \<Rightarrow> int" where
  "roundUpSize volumeSizeBytes allocationUnitBytes =
     (let roundedUp = go_div volumeSizeBytes allocationUnitBytes in
      if go_mod volumeSizeBytes allocationUnitBytes > 0 then wrap64 (roundedUp + 1) else roundedUp)"

definition RoundUpMiB :: "int \<Rightarrow> int" where
  "RoundUpMiB bytes = roundUpSize bytes MiB"

definition RoundUpBytes :: "int \<Rightarrow> int" where
  "RoundUpBytes volumeSizeBytes = wrap64 (roundUpSize volumeSizeBytes GiB * GiB)"

definition RoundUpGiB :: "int \<Rightarrow> int" where
  "RoundUpGiB volumeSizeBytes = roundUpSize volumeSizeBytes GiB"

definition BytesToGiB :: "int \<Rightarrow> int" where
  "BytesToGiB volumeSizeBytes = go_div volumeSizeBytes GiB"

definition BytesToMiB :: "int \<Rightarrow> int" where
  "BytesToMiB volumeSizeBytes = go_div volumeSizeBytes MiB"

definition GiBToBytes :: "int \<Rightarrow> int" where
  "GiBToBytes volumeSizeGiB = wrap64 (volumeSizeGiB * GiB)"

definition MiBToBytes :: "int \<Rightarrow> int" where
  "MiBToBytes volumeSizeMiB = wrap64 (volumeSizeMiB * MiB)"

section \<open>Lemmas\<close>

lemma div_mod_bounds:
  fixes x u :: int
  assumes "0 \<le> x" and "0 < u"
  shows "x div u * u \<le> x" and "x < (x div u + 1) * u" and "x mod u = 0 \<Longrightarrow> x div u * u = x"
proof -
  have split: "x = x div u * u + x mod u" by simp
  moreover have "0 \<le> x mod u" "x mod u < u" using assms by simp_all
  ultimately show "x div u * u \<le> x" "x < (x div u + 1) * u"
    unfolding distrib_right mult_1 by linarith+
  show "x div u * u = x" if "x mod u = 0" using split that by simp
qed

text \<open>For sizes that are not negative the result is the least number of units that holds them.\<close>

lemma roundUpSize_nonneg:
  assumes "0 \<le> x" "x < 2 ^ 63" "1 < u"
  shows "roundUpSize x u = x div u + (if x mod u > 0 then 1 else 0)"
proof -
  have "0 \<le> x div u" using assms by (simp add: pos_imp_zdiv_nonneg_iff)
  moreover have "x div u \<le> x div 2" using assms by (simp add: zdiv_mono2)
  moreover have "x div 2 + 1 < 2 ^ 63" using assms by (simp add: algebra_simps)
  ultimately have "int64_range (x div u + 1)" unfolding int64_range_def by linarith
  then show ?thesis
    using assms by (simp add: roundUpSize_def go_div_nonneg go_mod_nonneg)
qed

lemma roundUpSize_least:
  assumes "0 \<le> x" "x < 2 ^ 63" "1 < u"
  shows "x \<le> n * u \<longleftrightarrow> roundUpSize x u \<le> n"
proof -
  note b = div_mod_bounds [of x u]
  have r: "roundUpSize x u = x div u + (if x mod u > 0 then 1 else 0)"
    using assms by (rule roundUpSize_nonneg)
  have m: "0 \<le> x mod u" using assms by simp
  show ?thesis
  proof
    assume le: "x \<le> n * u"
    show "roundUpSize x u \<le> n"
    proof (cases "x mod u > 0")
      case True
      then have "x \<noteq> x div u * u" by (metis add_cancel_right_right div_mult_mod_eq less_irrefl)
      with b(1) assms le have "x div u * u < n * u" by linarith
      then have "x div u < n" using assms by simp
      with True r show ?thesis by simp
    next
      case False
      with m have "x mod u = 0" by simp
      with b(3) assms le have "x div u * u \<le> n * u" by simp
      then have "x div u \<le> n" using assms by simp
      with False r show ?thesis by simp
    qed
  next
    assume le: "roundUpSize x u \<le> n"
    have "x \<le> roundUpSize x u * u"
      using b assms r m by (cases "x mod u > 0") (auto simp: less_imp_le)
    also have "\<dots> \<le> n * u" using le assms by simp
    finally show "x \<le> n * u" .
  qed
qed

section \<open>Properties\<close>

text \<open>For every size that is not negative, \<open>roundUpSize\<close> is the least number of allocation
  units that holds it; \<open>RoundUpBytes\<close> is then the least multiple of a GiB that is not smaller,
  as long as that multiple is an \<open>int64\<close>.\<close>

theorem round_up_least:
  assumes "0 \<le> x" "x < 2 ^ 63" "1 < u"
  shows "(x \<le> n * u \<longleftrightarrow> roundUpSize x u \<le> n) \<and>
    (x \<le> 2 ^ 63 - GiB \<longrightarrow> x \<le> RoundUpBytes x \<and> RoundUpBytes x < x + GiB \<and> GiB dvd RoundUpBytes x)"
proof (intro conjI impI)
  show "x \<le> n * u \<longleftrightarrow> roundUpSize x u \<le> n" using assms by (rule roundUpSize_least)
next
  assume small: "x \<le> 2 ^ 63 - GiB"
  have G: "1 < GiB" by (simp add: GiB_def)
  define r where "r = roundUpSize x GiB"
  have le: "x \<le> r * GiB" and lt: "\<not> x \<le> (r - 1) * GiB"
    using roundUpSize_least [OF assms(1,2) G] by (auto simp: r_def)
  from lt have up: "r * GiB < x + GiB" by (simp add: left_diff_distrib)
  with le small assms have "int64_range (r * GiB)" by (simp add: int64_range_def)
  then have eq: "RoundUpBytes x = r * GiB" by (simp add: RoundUpBytes_def r_def)
  show "x \<le> RoundUpBytes x" "RoundUpBytes x < x + GiB" "GiB dvd RoundUpBytes x"
    using le up by (simp_all add: eq)
qed

theorem round_up_least_witness:
  "(1500 * MiB \<le> 2 * GiB \<longleftrightarrow> roundUpSize (1500 * MiB) GiB \<le> 2) \<and>
   RoundUpBytes (1500 * MiB) < 1500 * MiB + GiB"
  using round_up_least [of "1500 * MiB" GiB 2] by (simp add: MiB_def GiB_def)

end
