(* ===== verification/Spec2Isabelle.thy ===== *)
theory Spec2Isabelle
  imports System Lifecycle LvmAdmin Doubles Convert Paths
begin

text \<open>
  A verification library for the local disk CSI driver, a Kubernetes storage driver that cuts volumes
  out of the local NVMe disks of a node with LVM.

  \<^bold>\<open>The program.\<close> Two programs are built from \<open>src/\<close>.

  \<^item> The driver (\<open>cmd/driver/main.go\<close>) runs on every node. It serves the three CSI services over gRPC: the
    controller service (\<open>internal/csi/controller\<close>) creates and deletes volumes, the node service
    (\<open>internal/csi/node\<close>) stages, publishes and expands them, the identity service (\<open>internal/csi/identity\<close>)
    describes the driver. Both work on the volume manager (\<open>internal/csi/core/lvm\<close>), which provisions
    physical volumes, volume groups and logical volumes through the LVM client (\<open>internal/pkg/lvm\<close>), and on the
    mounter (\<open>internal/csi/mounter\<close>). Beside them run a failover controller and an orphan scanner
    (\<open>internal/gc\<close>), which remove logical volumes that belong to another node or to nobody, a diagnostic of the
    disks and the cleanup at shutdown.
  \<^item> The manager (\<open>cmd/manager/main.go\<close>) runs once per cluster: two admission webhooks (\<open>internal/webhook\<close>) and a
    controller that lets released volumes of lost nodes go (\<open>internal/manager\<close>).

  Where a volume is, is recorded in an annotation and an attribute of its persistent volume; node service,
  controller service, collectors and webhook all read them.

  \<^bold>\<open>Method.\<close> The code is embedded shallowly. A struct is a record, an interface is a record of its methods,
  a method that has effects is an operation \<open>'s \<Rightarrow> (error + result) \<times> 's\<close> (\<open>Effects\<close>) on the state \<open>'s\<close> of
  everything outside the process, and recorded Kubernetes events are part of the state. Every early return
  of the code is a branch of the model, with the text of its error and what \<open>errors.Is\<close> finds in it. An
  \<open>int64\<close> is an \<^typ>\<open>int\<close> with the wrap-around written out. Code that is not in \<open>src/\<close> (the \<open>lvm\<close>
  executable, mounts, the API server, the libraries of Kubernetes, gRPC and OpenTelemetry) is a parameter;
  what is documented of it is assumed in locales, all of which are interpreted on a reference node whose
  commands parse arguments, keep metadata and print JSON (\<open>LvmReference\<close>, \<open>ClusterReference\<close>).

  \<^bold>\<open>Theories\<close>, from the bottom:

  \<^item> \<open>Prelude\<close>: strings, integers and maps of Go. \<open>Effects\<close>: errors, operations, events
    (\<open>internal/pkg/events\<close>), and the frame rules \<open>keeps\<close>, by which an operation is shown not to touch a part
    of the state. \<open>Paths\<close>: \<open>path/filepath\<close>. \<open>Json\<close>: \<open>encoding/json\<close>. \<open>Convert\<close>: \<open>internal/pkg/convert\<close>.
  \<^item> \<open>VolumeId\<close>: volume ids and device paths (\<open>core/lvm/id.go\<close>, \<open>gc/utils.go\<close>).
  \<^item> \<open>LvmTypes\<close>, \<open>LvmOptions\<close>, \<open>LvmDecode\<close>: the report rows, the option structs and their decoding
    (\<open>internal/pkg/lvm/types.go\<close>). \<open>LvmManager\<close>: the interface \<open>Manager\<close>, the classification of errors, and
    the contract \<open>lvm_manager\<close>. \<open>LvmClient\<close>: the client (\<open>lvm.go\<close>), which fulfils that contract if
    the executable behaves as documented (\<open>lvm_binary\<close>). \<open>LvmAdmin\<close>: the rest of the client.
    \<open>LvmReference\<close>: the reference node.
  \<^item> \<open>Block\<close>: devices, disk filter and probe (\<open>internal/pkg/block\<close>, \<open>internal/pkg/probe\<close>).
  \<^item> \<open>CoreLvm\<close>, \<open>CoreController\<close>: the volume manager (\<open>lvm.go\<close>, \<open>controller.go\<close> and \<open>node.go\<close> of
    \<open>internal/csi/core/lvm\<close>), under the contract \<open>lvm_driver\<close>. \<open>Driver\<close>: the volume manager on the LVM client
    (\<open>node_driver\<close>). \<open>Startup\<close>: the diagnostic (\<open>startup.go\<close>).
  \<^item> \<open>Csi\<close>, \<open>Capability\<close>, \<open>K8s\<close>: messages, validation (\<open>internal/csi/capability\<close>) and API objects.
    \<open>Mounter\<close>: \<open>internal/csi/mounter\<close> with its retries. \<open>ClusterReference\<close>: the reference cluster.
  \<^item> \<open>CsiController\<close>, \<open>CsiNode\<close>: the two services, under the contracts \<open>csi_controller\<close> and \<open>csi_node\<close>.
    \<open>Gc\<close>: the collectors (\<open>collector\<close>). \<open>Lifecycle\<close>: requests that must succeed (\<open>responsive\<close>).
  \<^item> \<open>PvCleanup\<close>: the cleanup controller of the manager and its cache options. \<open>Webhooks\<close>: the admission
    webhooks. \<open>Telemetry\<close>: \<open>internal/pkg/telemetry\<close> and \<open>internal/pkg/version\<close>. \<open>Service\<close>: endpoints, servers, RAID modules,
    identity and driver object. \<open>Doubles\<close>: the hand-written fakes and the manager of a node without LVM.
  \<^item> \<open>Programs\<close>: the two \<open>main\<close> functions, and what the driver relies on of its platform
    (\<open>driver_platform\<close>). \<open>System\<close>: the running driver as a step relation over requests, events, ticks and
    changes of the environment, and the abstract store of volumes that it refines.

  \<^bold>\<open>What is shown.\<close> For the whole driver, in every sequence of requests: it refines a store of volumes in which a request
  changes only the volumes it names (\<open>driver_refines_store\<close>); a volume that nobody deletes and that the API
  server places on the node never disappears or shrinks (\<open>volume_survives\<close>); names stay well formed
  (\<open>volumes_addressable\<close>); \<open>main\<close> builds parts that fulfil the contracts and agree on node name, client and
  mounts (\<open>driver_main_wires\<close>); and they agree on where a volume is (\<open>placement_agrees\<close>, below). For single operations:
  what provisioning, creation, deletion, listing, expansion and staging establish and what they leave alone, on every
  result (\<open>Driver\<close>, \<open>CsiController\<close>, \<open>CsiNode\<close>); that a creation succeeds where it can, may be repeated, and
  is undone by a deletion (\<open>Lifecycle\<close>); that deletion ends (\<open>Delete_attempts\<close>); that the collectors remove only what belongs elsewhere
  (\<open>Gc\<close>); that released volumes of lost nodes are gone after two reconciliations (\<open>PvCleanup\<close>); which requests the
  webhooks, the disk filter and the validations accept; that parsers and printers of ids and JSON are
  inverse; and that capacities do not overflow. The first section below proves where the code departs from what
  it means to do.

  \<^bold>\<open>Bounds.\<close> The JSON parser has fuel twice the length of its input, and more changes nothing
  (\<open>parse_value_enough\<close>). The retry loop of \<open>Delete\<close> and the loop of the orphan scanner run for a number of ticks that is an
  argument of the model, and the theorems hold for each; the code has about 20 ticks of 500 ms in its 10 s and scans
  until its context ends. \<open>retry.OnError\<close> makes at most as many attempts as its backoff has steps, 10 when unmounting and 5 in the
  webhooks. All other loops run over lists. Sizes are assumed to fit 64 bits only where a theorem says so
  (\<open>counts_fit\<close>, \<open>capacity_bounds\<close>).

  \<^bold>\<open>Not modelled.\<close>

  \<^item> Requests that overlap in time: a request is one step. \<open>singleflight\<close>, which lets concurrent calls share the
    provisioning of a volume group, therefore always runs its function, and locks have no effect.
  \<^item> Logging, tracing spans, metric histograms and their registration, which have no effect on volumes; only
    a log call whose arguments panic is kept.
  \<^item> Options that the programs only hand to libraries: TLS, metrics server, leader election, rate limits of the
    API client. Waiting times of retries and tickers.
  \<^item> The limit of 10000 on the nesting of JSON, and letters beyond ASCII in case folding.
  \<^item> Generated mocks and the helper of tests \<open>internal/csi/testutil\<close>, which no program contains.
\<close>

section \<open>Where the code departs from its intent\<close>

text \<open>A reconciliation of a persistent volume without CSI source reads its driver for a log line and
  panics.\<close>

lemma failover_panics:
  assumes "k8s_GetPV (fr_Client r) name (w_sys w) = (Inr pv, s)" "pv_CSI pv = None"
  shows "fst (failover_Reconcile r name w) = Inl Panicked"
  using assms by (simp add: failover_Reconcile_def call_def on_sys_run)

text \<open>The update that moves a volume away is not noticed by the node it was on if the annotation spells
  the name of that node with other case, although the reconciliation would take it for the same node.\<close>

lemma failover_event_missed:
  assumes "our_driver pv" "pv_Annotations old (fr_selectedNodeAnnotation r) = Some oldNode" "oldNode \<noteq> fr_nodeID r"
    and "pv_Annotations pv (fr_selectedNodeAnnotation r) = Some newNode"
  shows "driverPredicate r (UpdateEvent old pv) = Some False"
  using assms by (simp add: update_predicate_def)

text \<open>An expansion past the limit that the volume was created with is recorded, but the limit is kept,
  and no later staging of that volume succeeds.\<close>

lemma expansion_keeps_limit:
  assumes "\<And>n. pq (show_int n) = Inr n" "cap < expanded"
  shows "getCapacityAndLimit pq [CapacityParam \<mapsto> show_int cap, LimitParam \<mapsto> show_int lim]
    [ExpandedCapacityParam \<mapsto> show_int expanded] = Inr (expanded, lim)"
  using assms
  by (simp add: getCapacityAndLimit_def expanded_capacity_def CapacityParam_def LimitParam_def Let_def)

lemma expansion_blocks_staging:
  assumes "csi_node c meta l flt k m ns qs" "pv_CSI pv = Some csi" "csi_VolumeAttributes csi = Some attrs"
    and "getCapacityAndLimit (nh_ParseQuantity (ns_host ns)) attrs (pv_Annotations pv) = Inr (cap, lim)"
    and "0 < lim" "lim < cap"
  shows "ensure_volume ns rec pv v w \<noteq> (Inr (), w')"
proof
  assume "ensure_volume ns rec pv v w = (Inr (), w')"
  with assms obtain n where "EnsureVolume l rec v cap lim True w = (Inr n, w')"
    by (auto simp: ensure_volume_def csi_node.ns_volume [OF assms(1)] LVM_node_def NodeEnsureVolume_def elim!: callE)
  then have "0 < lim \<longrightarrow> cap \<le> lim"
    by (rule lvm_driver.EnsureVolume_ok [OF node_driver.is_lvm_driver [OF csi_node.axioms(1) [OF assms(1)]]])
  with assms(5,6) show False by simp
qed

text \<open>A volume that was created larger than its limit, because LVM rounds sizes up, cannot be staged either:
  the context of the volume carries both numbers to the node.\<close>

lemma rounding_blocks_staging:
  assumes node: "csi_node c meta l flt k m ns qs" and create: "Create l rec req w = (Inr vol, w1)"
    and pv: "pv_CSI pv = Some csi" "csi_VolumeAttributes csi = Some (vol_VolumeContext vol)" "pv_Annotations pv = Map.empty"
    and pq: "\<And>n. nh_ParseQuantity (ns_host ns) (show_int n) = Inr n"
    and limit: "0 < GetLimitBytes (cv_CapacityRange req)" "GetLimitBytes (cv_CapacityRange req) < vol_CapacityBytes vol"
  shows "ensure_volume ns rec' pv v w2 \<noteq> (Inr (), w3)"
proof -
  have "vol_VolumeContext vol = (cv_Parameters req)(CapacityParam \<mapsto> show_int (vol_CapacityBytes vol),
      LimitParam \<mapsto> show_int (GetLimitBytes (cv_CapacityRange req)))"
    using create by (auto simp: Create_def Let_def elim!: callE split: sum.splits)
  then have "getCapacityAndLimit (nh_ParseQuantity (ns_host ns)) (vol_VolumeContext vol) (pv_Annotations pv) =
      Inr (vol_CapacityBytes vol, GetLimitBytes (cv_CapacityRange req))"
    using pq pv(3) by (simp add: getCapacityAndLimit_def expanded_capacity_def CapacityParam_def LimitParam_def Let_def)
  from expansion_blocks_staging [OF node pv(1,2) this limit] show ?thesis .
qed

section \<open>Properties\<close>



end
